(* ===== verification/Relayer_Prelude.thy ===== *)
theory Relayer_Prelude
  imports Complex_Main "HOL-Library.Word"
begin

text \<open>
  What every theory of the development shares: Go's fixed-width integers and their
  conversions, times and durations, error values with \<open>errors.Is\<close>, and the
  named collections of facts that carry the component proofs.

  \<^item> \<open>uint32\<close>, \<open>uint64\<close> and bytes are words. A Postgres \<open>int\<close> column and a Go
    \<open>int32\<close> hold a signed value and are read as \<open>int\<close>; the conversions between the two
    are Go's, which keep the bit pattern.
  \<^item> A \<open>time.Time\<close> is the number of nanoseconds since the Unix epoch and a
    \<open>time.Duration\<close> a number of nanoseconds, both as \<open>int\<close>. \<open>Time.Sub\<close> saturates
    at the ends of the 64-bit range, as Go's does.
  \<^item> A Go error is a sentinel (compared by identity), an error of a library or a remote
    service (its message), a Postgres error (its SQLSTATE code), or the result of
    \<open>fmt.Errorf\<close>: its format string and the errors it wraps with \<open>%w\<close>. The
    verbs of a format string are not expanded; the code observes of a message only whether
    it is empty and, in the bridge clients, whether it contains a fixed text.
\<close>

named_theorems store_simps \<open>what a lookup returns after a write\<close>
named_theorems frame_simps \<open>what an operation leaves unchanged\<close>
named_theorems guard_defs \<open>guards of the pipeline processors\<close>
named_theorems process_defs \<open>bodies of the pipeline processors\<close>

section \<open>Fixed-width integers\<close>

type_synonym uint8 = "8 word"
type_synonym uint32 = "32 word"
type_synonym uint64 = "64 word"
type_synonym int32 = int
type_synonym bytes = "8 word list"

text \<open>Go's conversions \<open>int32(x)\<close>, \<open>uint32(x)\<close> and \<open>uint64(x)\<close>.\<close>

definition int32_of_uint32 :: "uint32 \<Rightarrow> int32" where
  "int32_of_uint32 w = sint w"

definition int32_of_uint64 :: "uint64 \<Rightarrow> int32" where
  "int32_of_uint64 w = sint (ucast w :: uint32)"

definition uint32_of_int32 :: "int32 \<Rightarrow> uint32" where
  "uint32_of_int32 i = word_of_int i"

definition uint64_of_int32 :: "int32 \<Rightarrow> uint64" where
  "uint64_of_int32 i = word_of_int i"

definition uint64_of_uint32 :: "uint32 \<Rightarrow> uint64" where
  "uint64_of_uint32 w = ucast w"

lemma uint32_int32_roundtrip [simp]: "uint32_of_int32 (int32_of_uint32 w) = w"
  by (simp add: uint32_of_int32_def int32_of_uint32_def)

lemma int32_of_uint32_inject [simp]: "int32_of_uint32 v = int32_of_uint32 w \<longleftrightarrow> v = w"
  by (metis uint32_int32_roundtrip)

lemma uint32_of_int32_uint64 [simp]: "uint32_of_int32 (int32_of_uint64 w) = ucast w"
  by (simp add: uint32_of_int32_def int32_of_uint64_def)

text \<open>The values of an \<open>int32\<close>.\<close>

definition in_int32 :: "int32 \<Rightarrow> bool" where
  "in_int32 i \<longleftrightarrow> - (2 ^ 31) \<le> i \<and> i < 2 ^ 31"

lemma sint32_range: "in_int32 (sint (w :: uint32))"
  using sint_ge [of w] sint_lt [of w] by (simp add: in_int32_def)

lemma in_int32_of_uint32 [simp]: "in_int32 (int32_of_uint32 w)"
  by (simp add: int32_of_uint32_def sint32_range)

lemma in_int32_of_uint64 [simp]: "in_int32 (int32_of_uint64 w)"
  by (simp add: int32_of_uint64_def sint32_range)

lemma int32_uint32_roundtrip [simp]:
  "in_int32 i \<Longrightarrow> int32_of_uint32 (uint32_of_int32 i) = i"
  by (simp add: int32_of_uint32_def uint32_of_int32_def in_int32_def sint_sbintrunc'
      signed_take_bit_int_eq_self)

lemma uint64_of_uint32_inject [simp]: "uint64_of_uint32 v = uint64_of_uint32 w \<longleftrightarrow> v = w"
  by (auto simp: uint64_of_uint32_def word_uint_eq_iff uint_up_ucast is_up)

text \<open>Narrowing a 64-bit number to \<open>int32\<close> and widening it again sign extends it.\<close>

lemma sint_ucast32: "sint (ucast s :: 32 word) = (uint (s :: 64 word) + 2 ^ 31) mod 2 ^ 32 - 2 ^ 31"
proof -
  have "sint (ucast s :: 32 word) = signed_take_bit 31 (uint s)"
    unfolding ucast_eq sint_sbintrunc' by simp
  also have "\<dots> = (uint s + 2 ^ 31) mod 2 ^ 32 - 2 ^ 31"
    by (simp add: signed_take_bit_eq_take_bit_shift take_bit_eq_mod)
  finally show ?thesis .
qed

lemma sign_extend_fix:
  assumes "0 \<le> n" "n < 18446744073709551616"
  shows "((n + 2147483648) mod 4294967296 - 2147483648) mod 18446744073709551616 = n \<longleftrightarrow>
    n < 2147483648 \<or> 18446744071562067968 \<le> (n :: int)"
proof -
  define m where "m = (n + 2147483648) mod 4294967296"
  have m: "0 \<le> m" "m < 4294967296" by (simp_all add: m_def)
  have low: "m = n + 2147483648" if "n < 2147483648" using that assms by (simp add: m_def)
  have high: "m = n - 18446744071562067968" if "18446744071562067968 \<le> n"
  proof -
    have "n + 2147483648 = (n - 18446744071562067968) + 4294967296 * 4294967296" by simp
    then have "m = (n - 18446744071562067968) mod 4294967296" unfolding m_def by (metis mod_mult_self2)
    then show ?thesis using that assms by simp
  qed
  have "(m - 2147483648) mod 18446744073709551616 =
      (if 2147483648 \<le> m then m - 2147483648 else m - 2147483648 + 18446744073709551616)"
  proof (cases "2147483648 \<le> m")
    case True
    then show ?thesis using m by simp
  next
    case False
    have "(m - 2147483648) mod 18446744073709551616 = (m - 2147483648 + 18446744073709551616) mod 18446744073709551616"
      by (rule mod_add_self2 [symmetric])
    also have "\<dots> = m - 2147483648 + 18446744073709551616" using False m by (intro mod_pos_pos_trivial) auto
    finally show ?thesis using False by simp
  qed
  then have "(m - 2147483648) mod 18446744073709551616 = n \<longleftrightarrow>
      2147483648 \<le> m \<and> m - 2147483648 = n \<or> m < 2147483648 \<and> m + 18446744071562067968 = n" by auto
  also have "\<dots> \<longleftrightarrow> n < 2147483648 \<or> 18446744071562067968 \<le> n"
    using m low high assms by linarith
  finally show ?thesis unfolding m_def .
qed

lemma uint64_int32_roundtrip_iff:
  "uint64_of_int32 (int32_of_uint64 s) = s \<longleftrightarrow> unat s < 2 ^ 31 \<or> 2 ^ 64 - 2 ^ 31 \<le> unat s"
proof -
  define n where "n = uint s"
  have n: "0 \<le> n" "n < 18446744073709551616" using uint_lt2p [of s] by (simp_all add: n_def)
  have un: "unat s = nat n" by (simp add: n_def)
  have "uint64_of_int32 (int32_of_uint64 s) = s \<longleftrightarrow>
      ((n + 2147483648) mod 4294967296 - 2147483648) mod 18446744073709551616 = n"
    unfolding uint64_of_int32_def int32_of_uint64_def sint_ucast32 word_uint_eq_iff uint_word_of_int n_def
      by simp
  also have "\<dots> \<longleftrightarrow> n < 2147483648 \<or> 18446744071562067968 \<le> n" using n by (rule sign_extend_fix)
  finally show ?thesis using n by (simp add: un nat_less_iff le_nat_iff)
qed

text \<open>
  A 64-bit value that goes through a signed 32-bit column comes back unchanged exactly when it
  is below \<open>2 ^ 31\<close> or among the topmost \<open>2 ^ 31\<close> values.
\<close>

section \<open>Times and durations\<close>

type_synonym time = int
type_synonym duration = int

definition zero_time :: time where
  "zero_time = - 62135596800000000000"

definition second :: duration where
  "second = 1000000000"

definition minute :: duration where
  "minute = 60 * second"

definition max_duration :: duration where
  "max_duration = 2 ^ 63 - 1"

definition min_duration :: duration where
  "min_duration = - (2 ^ 63)"

definition time_Sub :: "time \<Rightarrow> time \<Rightarrow> duration" where
  "time_Sub t u = max min_duration (min max_duration (t - u))"

text \<open>Below the saturation bound a comparison of \<open>time.Since\<close> is one of the instants.\<close>

lemma time_Sub_greater:
  "0 \<le> d \<Longrightarrow> d < max_duration \<Longrightarrow> d < time_Sub t u \<longleftrightarrow> u + d < t"
  by (auto simp: time_Sub_def min_duration_def max_duration_def)

section \<open>Errors\<close>

datatype sentinel =
    ErrTxNotFound | ErrWriteAckDecoding | ErrWriteAckNotFoundForPacket
  | ErrSendNotFinalized | ErrTimeoutNotFinalized | ErrWriteAckNotFinalized
  | ErrRetryingRecvPacket | ErrRetryingAckPacket | ErrRetryingTimeoutPacket
  | ErrTransferAlreadyInPipeline | ErrNoSignerForBridge | ErrNoLaterBlocks
  | ErrNoRows | ContextCanceled | DeadlineExceeded

datatype go_error =
    Sentinel sentinel
  | External string
  | PgError string
  | Errorf string "go_error list"

type_synonym 'a res = "go_error + 'a"

text \<open>The result of a call that may panic (a nil pointer is dereferenced).\<close>

datatype 'a outcome = Panic | Ret 'a

text \<open>\<open>errors.Is(err, target)\<close> for the sentinel targets the code asks for.\<close>

fun errors_Is :: "go_error \<Rightarrow> sentinel \<Rightarrow> bool" where
  "errors_Is (Sentinel s) t = (s = t)"
| "errors_Is (External m) t = False"
| "errors_Is (PgError c) t = False"
| "errors_Is (Errorf m es) t = list_ex (\<lambda>e. errors_Is e t) es"

text \<open>Whether \<open>err.Error() == ""\<close>.\<close>

fun empty_message :: "go_error \<Rightarrow> bool" where
  "empty_message (Sentinel s) = False"
| "empty_message (External m) = (m = [])"
| "empty_message (PgError c) = False"
| "empty_message (Errorf m es) = (m = [] \<and> list_all empty_message es)"

section \<open>Lists and options\<close>

lemma find_map_key:
  assumes "\<And>x. key (f x) = key x"
  shows "find (\<lambda>x. key x = k') (map (\<lambda>x. if key x = k then f x else x) xs) =
     (if k' = k then map_option f (find (\<lambda>x. key x = k) xs) else find (\<lambda>x. key x = k') xs)"
  by (induction xs) (auto simp: assms)

lemma map_key_update:
  assumes "\<And>x. key (f x) = key x"
  shows "map key (map (\<lambda>x. if key x = k then f x else x) xs) = map key xs"
  by (induction xs) (auto simp: assms)

lemma find_unique_key:
  "distinct (map key xs) \<Longrightarrow> x \<in> set xs \<Longrightarrow> find (\<lambda>y. key y = key x) xs = Some x"
  by (induction xs) (auto simp: rev_image_eqI)

lemma find_SomeD: "find P xs = Some x \<Longrightarrow> x \<in> set xs \<and> P x"
  by (auto simp: find_Some_iff)

lemma find_append:
  "find P (xs @ ys) = (case find P xs of Some x \<Rightarrow> Some x | None \<Rightarrow> find P ys)"
  by (induction xs) auto

lemma find_key_None: "find (\<lambda>x. key x = k) xs = None \<longleftrightarrow> k \<notin> key ` set xs"
  by (auto simp: find_None_iff)

end
