(* ===== verification/Relayer_Db.thy ===== *)
theory Relayer_Db
  imports Relayer_Prelude
begin

text \<open>
  The database of the relayer: the enums and row types of \<open>db/gen/db/models.go\<close>, the
  queries of \<open>db/gen/db/ibcv2_transfers.sql.go\<close> and the transaction wrapper of
  \<open>db/tx/tx.go\<close>.

  \<^item> A table is the list of its rows. A nullable column is an \<open>option\<close>; a
    \<open>pgtype\<close> value with \<open>Valid = false\<close> is \<open>None\<close>.
  \<^item> The connection a query runs on (the interface \<open>DBTX\<close>) is the record \<open>dbtx\<close>: the
    value of \<open>NOW()\<close> and, per statement, whether it fails. A failing statement may have
    taken effect (the connection was lost after the server applied it) or not; both are
    allowed, by the flag beside the error.
  \<^item> The laws the pipeline relies on, what a lookup by key returns after a keyed update, are
    the locale \<open>keyed_store\<close>, interpreted on the table at the end.
\<close>

section \<open>Models\<close>

datatype Ibcv2RelayStatus =
    PENDING | CHECK_RECV_PACKET_DELIVERY | GET_RECV_PACKET | DELIVER_RECV_PACKET
  | WAIT_FOR_WRITE_ACK | CHECK_ACK_PACKET_DELIVERY | GET_ACK_PACKET | DELIVER_ACK_PACKET
  | CHECK_TIMEOUT_PACKET_DELIVERY | GET_TIMEOUT_PACKET | DELIVER_TIMEOUT_PACKET
  | COMPLETE_WITH_ACK | COMPLETE_WITH_TIMEOUT | FAILED
  | AWAITING_SEND_FINALITY | AWAITING_WRITE_ACK_FINALITY | COMPLETE_WITH_WRITE_ACK_SUCCESS
  | AWAITING_TIMEOUT_FINALITY | COMPLETE_WITH_WRITE_ACK_ERROR
  | CALCULATING_RECV_TX_GAS_COST | CALCULATING_ACK_TX_GAS_COST | CALCULATING_TIMEOUT_TX_GAS_COST

datatype Ibcv2WriteAckStatus = SUCCESS | ERROR | UNKNOWN

record numeric =
  num_Int :: "int option"
  num_Exp :: int

record ibcv2_relay_submission =
  sub_id :: nat
  sub_source_chain_id :: string
  sub_source_tx_hash :: string
  sub_created_at :: time

record ibcv2_transfer_row =
  row_id :: nat
  created_at :: time
  updated_at :: time
  status :: Ibcv2RelayStatus
  status_text :: "string option"
  source_chain_id :: string
  destination_chain_id :: string
  source_tx_hash :: string
  source_tx_time :: "time option"
  packet_sequence_number :: int32
  packet_source_client_id :: string
  packet_destination_client_id :: string
  packet_timeout_timestamp :: "time option"
  recv_tx_hash :: "string option"
  recv_tx_time :: "time option"
  write_ack_tx_hash :: "string option"
  write_ack_tx_time :: "time option"
  ack_tx_hash :: "string option"
  ack_tx_time :: "time option"
  timeout_tx_hash :: "string option"
  timeout_tx_time :: "time option"
  write_ack_status :: "Ibcv2WriteAckStatus option"
  recv_tx_gas_cost_usd :: "numeric option"
  ack_tx_gas_cost_usd :: "numeric option"
  timeout_tx_gas_cost_usd :: "numeric option"
  recv_tx_relayer_address :: "string option"
  ack_tx_relayer_address :: "string option"
  timeout_tx_relayer_address :: "string option"
  source_tx_finalized_time :: "time option"
  write_ack_tx_finalized_time :: "time option"

record database =
  transfers :: "ibcv2_transfer_row list"
  relay_submissions :: "ibcv2_relay_submission list"
  next_transfer_id :: nat
  next_submission_id :: nat

text \<open>The columns every statement selects a row by: source chain, source client, sequence.\<close>

type_synonym row_key = "string \<times> string \<times> int32"

definition row_key_of :: "ibcv2_transfer_row \<Rightarrow> row_key" where
  "row_key_of r = (source_chain_id r, packet_source_client_id r, packet_sequence_number r)"

section \<open>Statements\<close>

record dbtx =
  tx_now :: time
  tx_fault :: "string \<Rightarrow> row_key \<Rightarrow> (go_error \<times> bool) option"
  tx_query_fault :: "string \<Rightarrow> go_error option"

definition update_where ::
  "row_key \<Rightarrow> (ibcv2_transfer_row \<Rightarrow> ibcv2_transfer_row) \<Rightarrow> database \<Rightarrow> database" where
  "update_where k f d =
     d\<lparr>transfers := map (\<lambda>r. if row_key_of r = k then f r else r) (transfers d)\<rparr>"

definition exec_update ::
  "dbtx \<Rightarrow> string \<Rightarrow> row_key \<Rightarrow> (ibcv2_transfer_row \<Rightarrow> ibcv2_transfer_row) \<Rightarrow> database \<Rightarrow>
   database \<times> go_error option" where
  "exec_update x q k f d =
     (case tx_fault x q k of
        None \<Rightarrow> (update_where k f d, None)
      | Some (e, applied) \<Rightarrow> (if applied then update_where k f d else d, Some e))"

definition ClearAckTx :: "dbtx \<Rightarrow> row_key \<Rightarrow> database \<Rightarrow> database \<times> go_error option" where
  "ClearAckTx x k = exec_update x ''ClearAckTx'' k
     (\<lambda>r. r\<lparr>ack_tx_hash := None, ack_tx_time := None\<rparr>)"

definition ClearRecvTx :: "dbtx \<Rightarrow> row_key \<Rightarrow> database \<Rightarrow> database \<times> go_error option" where
  "ClearRecvTx x k = exec_update x ''ClearRecvTx'' k
     (\<lambda>r. r\<lparr>recv_tx_hash := None, recv_tx_time := None\<rparr>)"

definition ClearTimeoutTx :: "dbtx \<Rightarrow> row_key \<Rightarrow> database \<Rightarrow> database \<times> go_error option" where
  "ClearTimeoutTx x k = exec_update x ''ClearTimeoutTx'' k
     (\<lambda>r. r\<lparr>timeout_tx_hash := None, timeout_tx_time := None\<rparr>)"

definition GetRelaySubmission ::
  "dbtx \<Rightarrow> string \<Rightarrow> string \<Rightarrow> database \<Rightarrow> ibcv2_relay_submission res" where
  "GetRelaySubmission x chain hash d =
     (case tx_query_fault x ''GetRelaySubmission'' of
        Some e \<Rightarrow> Inl e
      | None \<Rightarrow>
         (case find (\<lambda>s. (sub_source_chain_id s, sub_source_tx_hash s) = (chain, hash))
                 (relay_submissions d) of
            None \<Rightarrow> Inl (Sentinel ErrNoRows)
          | Some s \<Rightarrow> Inr s))"

definition GetTransfersBySourceTx ::
  "dbtx \<Rightarrow> string \<Rightarrow> string \<Rightarrow> database \<Rightarrow> ibcv2_transfer_row list res" where
  "GetTransfersBySourceTx x chain hash d =
     (case tx_query_fault x ''GetTransfersBySourceTx'' of
        Some e \<Rightarrow> Inl e
      | None \<Rightarrow> Inr (filter (\<lambda>r. source_chain_id r = chain \<and> source_tx_hash r = hash) (transfers d)))"

definition unfinished_status :: "Ibcv2RelayStatus \<Rightarrow> bool" where
  "unfinished_status s \<longleftrightarrow>
     s \<noteq> COMPLETE_WITH_ACK \<and> s \<noteq> COMPLETE_WITH_TIMEOUT \<and> s \<noteq> FAILED \<and>
     s \<noteq> COMPLETE_WITH_WRITE_ACK_SUCCESS \<and> s \<noteq> COMPLETE_WITH_WRITE_ACK_ERROR"

definition GetUnfinishedIBCV2Transfers :: "dbtx \<Rightarrow> database \<Rightarrow> ibcv2_transfer_row list res" where
  "GetUnfinishedIBCV2Transfers x d =
     (case tx_query_fault x ''GetUnfinishedIBCV2Transfers'' of
        Some e \<Rightarrow> Inl e
      | None \<Rightarrow> Inr (filter (\<lambda>r. unfinished_status (status r)) (transfers d)))"

text \<open>
  Inserting a packet: the unique index on source chain, sequence number and source client
  (SQLSTATE 23505), the \<open>NOT NULL\<close> columns (23502), and the column defaults.
\<close>

definition new_transfer_row ::
  "time \<Rightarrow> nat \<Rightarrow> string \<Rightarrow> string \<Rightarrow> string \<Rightarrow> time option \<Rightarrow> int32 \<Rightarrow> string \<Rightarrow> string \<Rightarrow>
   time option \<Rightarrow> ibcv2_transfer_row" where
  "new_transfer_row now i srcChain dstChain hash t seq srcClient dstClient timeout =
     \<lparr>row_id = i, created_at = now, updated_at = now, status = PENDING, status_text = None,
      source_chain_id = srcChain, destination_chain_id = dstChain, source_tx_hash = hash,
      source_tx_time = t, packet_sequence_number = seq, packet_source_client_id = srcClient,
      packet_destination_client_id = dstClient, packet_timeout_timestamp = timeout,
      recv_tx_hash = None, recv_tx_time = None, write_ack_tx_hash = None,
      write_ack_tx_time = None, ack_tx_hash = None, ack_tx_time = None,
      timeout_tx_hash = None, timeout_tx_time = None, write_ack_status = None,
      recv_tx_gas_cost_usd = None, ack_tx_gas_cost_usd = None, timeout_tx_gas_cost_usd = None,
      recv_tx_relayer_address = None, ack_tx_relayer_address = None,
      timeout_tx_relayer_address = None, source_tx_finalized_time = None,
      write_ack_tx_finalized_time = None\<rparr>"

definition insert_row :: "ibcv2_transfer_row \<Rightarrow> database \<Rightarrow> database res" where
  "insert_row r d =
     (if source_tx_time r = None \<or> packet_timeout_timestamp r = None then Inl (PgError ''23502'')
      else if row_key_of r \<in> row_key_of ` set (transfers d) then Inl (PgError ''23505'')
      else Inr (d\<lparr>transfers := transfers d @ [r], next_transfer_id := Suc (next_transfer_id d)\<rparr>))"

definition InsertIBCV2Transfer ::
  "dbtx \<Rightarrow> string \<Rightarrow> string \<Rightarrow> string \<Rightarrow> time option \<Rightarrow> int32 \<Rightarrow> string \<Rightarrow> string \<Rightarrow> time option \<Rightarrow>
   database \<Rightarrow> database \<times> go_error option" where
  "InsertIBCV2Transfer x srcChain dstChain hash t seq srcClient dstClient timeout d =
     (let r = new_transfer_row (tx_now x) (next_transfer_id d) srcChain dstChain hash t seq
                srcClient dstClient timeout;
          ins = insert_row r d;
          d' = (case ins of Inl e \<Rightarrow> d | Inr d1 \<Rightarrow> d1)
      in case tx_fault x ''InsertIBCV2Transfer'' (row_key_of r) of
           Some (e, applied) \<Rightarrow> (if applied then d' else d, Some e)
         | None \<Rightarrow> (d', (case ins of Inl e \<Rightarrow> Some e | Inr d1 \<Rightarrow> None)))"

definition InsertRelaySubmission ::
  "dbtx \<Rightarrow> string \<Rightarrow> string \<Rightarrow> database \<Rightarrow> database \<times> go_error option" where
  "InsertRelaySubmission x chain hash d =
     (let d' = (if (chain, hash) \<in> (\<lambda>s. (sub_source_chain_id s, sub_source_tx_hash s)) `
                     set (relay_submissions d)
                then d
                else d\<lparr>relay_submissions := relay_submissions d @
                         [\<lparr>sub_id = next_submission_id d, sub_source_chain_id = chain,
                           sub_source_tx_hash = hash, sub_created_at = tx_now x\<rparr>],
                       next_submission_id := Suc (next_submission_id d)\<rparr>)
      in case tx_fault x ''InsertRelaySubmission'' (chain, hash, 0) of
           Some (e, applied) \<Rightarrow> (if applied then d' else d, Some e)
         | None \<Rightarrow> (d', None))"

definition UpdateTransferAckTx ::
  "dbtx \<Rightarrow> string option \<Rightarrow> time option \<Rightarrow> string option \<Rightarrow>
   row_key \<Rightarrow> database \<Rightarrow> database \<times> go_error option" where
  "UpdateTransferAckTx x hash t addr k = exec_update x ''UpdateTransferAckTx'' k
     (\<lambda>r. r\<lparr>updated_at := tx_now x, ack_tx_hash := hash, ack_tx_time := t,
           ack_tx_relayer_address := addr\<rparr>)"

definition UpdateTransferAckTxGasCostUSD ::
  "dbtx \<Rightarrow> numeric option \<Rightarrow>
   row_key \<Rightarrow> database \<Rightarrow> database \<times> go_error option" where
  "UpdateTransferAckTxGasCostUSD x cost k = exec_update x ''UpdateTransferAckTxGasCostUSD'' k
     (\<lambda>r. r\<lparr>updated_at := tx_now x, ack_tx_gas_cost_usd := cost\<rparr>)"

definition UpdateTransferRecvTx ::
  "dbtx \<Rightarrow> string option \<Rightarrow> time option \<Rightarrow> string option \<Rightarrow>
   row_key \<Rightarrow> database \<Rightarrow> database \<times> go_error option" where
  "UpdateTransferRecvTx x hash t addr k = exec_update x ''UpdateTransferRecvTx'' k
     (\<lambda>r. r\<lparr>updated_at := tx_now x, recv_tx_hash := hash, recv_tx_time := t,
           recv_tx_relayer_address := addr\<rparr>)"

definition UpdateTransferRecvTxGasCostUSD ::
  "dbtx \<Rightarrow> numeric option \<Rightarrow>
   row_key \<Rightarrow> database \<Rightarrow> database \<times> go_error option" where
  "UpdateTransferRecvTxGasCostUSD x cost k = exec_update x ''UpdateTransferRecvTxGasCostUSD'' k
     (\<lambda>r. r\<lparr>updated_at := tx_now x, recv_tx_gas_cost_usd := cost\<rparr>)"

definition UpdateTransferSourceTxFinalizedTime ::
  "dbtx \<Rightarrow> time option \<Rightarrow>
   row_key \<Rightarrow> database \<Rightarrow> database \<times> go_error option" where
  "UpdateTransferSourceTxFinalizedTime x t k = exec_update x ''UpdateTransferSourceTxFinalizedTime'' k
     (\<lambda>r. r\<lparr>updated_at := tx_now x, source_tx_finalized_time := t\<rparr>)"

definition UpdateTransferState ::
  "dbtx \<Rightarrow> Ibcv2RelayStatus \<Rightarrow>
   row_key \<Rightarrow> database \<Rightarrow> database \<times> go_error option" where
  "UpdateTransferState x s k = exec_update x ''UpdateTransferState'' k
     (\<lambda>r. r\<lparr>updated_at := tx_now x, status := s\<rparr>)"

definition UpdateTransferTimeoutTx ::
  "dbtx \<Rightarrow> string option \<Rightarrow> time option \<Rightarrow> string option \<Rightarrow>
   row_key \<Rightarrow> database \<Rightarrow> database \<times> go_error option" where
  "UpdateTransferTimeoutTx x hash t addr k = exec_update x ''UpdateTransferTimeoutTx'' k
     (\<lambda>r. r\<lparr>updated_at := tx_now x, timeout_tx_hash := hash, timeout_tx_time := t,
           timeout_tx_relayer_address := addr\<rparr>)"

definition UpdateTransferTimeoutTxGasCostUSD ::
  "dbtx \<Rightarrow> numeric option \<Rightarrow>
   row_key \<Rightarrow> database \<Rightarrow> database \<times> go_error option" where
  "UpdateTransferTimeoutTxGasCostUSD x cost k = exec_update x ''UpdateTransferTimeoutTxGasCostUSD'' k
     (\<lambda>r. r\<lparr>updated_at := tx_now x, timeout_tx_gas_cost_usd := cost\<rparr>)"

definition UpdateTransferWriteAckTx ::
  "dbtx \<Rightarrow> string option \<Rightarrow> time option \<Rightarrow> Ibcv2WriteAckStatus option \<Rightarrow>
   row_key \<Rightarrow> database \<Rightarrow> database \<times> go_error option" where
  "UpdateTransferWriteAckTx x hash t st k = exec_update x ''UpdateTransferWriteAckTx'' k
     (\<lambda>r. r\<lparr>updated_at := tx_now x, write_ack_tx_hash := hash, write_ack_tx_time := t,
           write_ack_status := st\<rparr>)"

definition UpdateTransferWriteAckTxFinalizedTime ::
  "dbtx \<Rightarrow> time option \<Rightarrow>
   row_key \<Rightarrow> database \<Rightarrow> database \<times> go_error option" where
  "UpdateTransferWriteAckTxFinalizedTime x t k = exec_update x ''UpdateTransferWriteAckTxFinalizedTime'' k
     (\<lambda>r. r\<lparr>updated_at := tx_now x, write_ack_tx_finalized_time := t\<rparr>)"

text \<open>Every \<open>UPDATE\<close> of the file.\<close>

lemmas statement_defs =
  ClearAckTx_def ClearRecvTx_def ClearTimeoutTx_def
  UpdateTransferAckTx_def UpdateTransferAckTxGasCostUSD_def UpdateTransferRecvTx_def
  UpdateTransferRecvTxGasCostUSD_def UpdateTransferSourceTxFinalizedTime_def
  UpdateTransferState_def UpdateTransferTimeoutTx_def UpdateTransferTimeoutTxGasCostUSD_def
  UpdateTransferWriteAckTx_def UpdateTransferWriteAckTxFinalizedTime_def

section \<open>Transactions\<close>

record pool =
  pool_begin :: "go_error option"
  pool_tx :: dbtx
  pool_rollback :: "go_error option"
  pool_commit :: "(go_error \<times> bool) option"

definition ExecTx ::
  "pool \<Rightarrow> (dbtx \<Rightarrow> database \<Rightarrow> database \<times> go_error option) \<Rightarrow> database \<Rightarrow>
   database \<times> go_error option" where
  "ExecTx p fn d =
     (case pool_begin p of
        Some e \<Rightarrow> (d, Some e)
      | None \<Rightarrow>
         (case fn (pool_tx p) d of
            (d', Some e) \<Rightarrow>
              (d, Some (case pool_rollback p of
                          Some rb \<Rightarrow> Errorf ''tx err: %w, rb err: %w'' [e, rb]
                        | None \<Rightarrow> e))
          | (d', None) \<Rightarrow>
              (case pool_commit p of
                 None \<Rightarrow> (d', None)
               | Some (e, applied) \<Rightarrow> (if applied then d' else d, Some e))))"

section \<open>The interface the pipeline relies on\<close>

text \<open>
  A store of rows read and updated by key. \<open>keeps\<close> are the row updates a statement may
  make: they leave the key columns alone. From the two laws follow the facts about the
  sequence of keyed updates a batch makes inside one transaction.
\<close>

locale keyed_store =
  fixes find_key :: "'d \<Rightarrow> 'k \<Rightarrow> 'r option"
    and upd :: "'k \<Rightarrow> ('r \<Rightarrow> 'r) \<Rightarrow> 'd \<Rightarrow> 'd"
    and keeps :: "('r \<Rightarrow> 'r) \<Rightarrow> bool"
    and wf :: "'d \<Rightarrow> bool"
  assumes find_upd: "keeps f \<Longrightarrow>
            find_key (upd k f d) k' = (if k' = k then map_option f (find_key d k) else find_key d k')"
    and wf_upd: "keeps f \<Longrightarrow> wf d \<Longrightarrow> wf (upd k f d)"
    and upd_absent: "wf d \<Longrightarrow> find_key d k = None \<Longrightarrow> upd k f d = d"
begin

lemma find_fold_upd:
  "keeps f \<Longrightarrow> distinct ks \<Longrightarrow>
   find_key (fold (\<lambda>j. upd j f) ks d) k =
     (if k \<in> set ks then map_option f (find_key d k) else find_key d k)"
  by (induction ks arbitrary: d) (auto simp: find_upd)

lemma wf_fold_upd: "keeps f \<Longrightarrow> wf d \<Longrightarrow> wf (fold (\<lambda>j. upd j f) ks d)"
  by (induction ks arbitrary: d) (auto simp: wf_upd)

lemma find_fold_other:
  "keeps f \<Longrightarrow> k \<notin> set ks \<Longrightarrow> find_key (fold (\<lambda>j. upd j f) ks d) k = find_key d k"
  by (induction ks arbitrary: d) (auto simp: find_upd)

end

definition find_row :: "database \<Rightarrow> row_key \<Rightarrow> ibcv2_transfer_row option" where
  "find_row d k = find (\<lambda>r. row_key_of r = k) (transfers d)"

definition keeps_key :: "(ibcv2_transfer_row \<Rightarrow> ibcv2_transfer_row) \<Rightarrow> bool" where
  "keeps_key f \<longleftrightarrow> (\<forall>r. row_key_of (f r) = row_key_of r)"

text \<open>
  The invariant of the tables: the unique index, a source chain on every row (the API
  refuses an empty one) and a sequence number that fits its column, and one submission per
  source transaction.
\<close>

definition db_wf :: "database \<Rightarrow> bool" where
  "db_wf d \<longleftrightarrow>
     distinct (map row_key_of (transfers d)) \<and>
     list_all (\<lambda>r. source_chain_id r \<noteq> [] \<and> in_int32 (packet_sequence_number r)) (transfers d) \<and>
     distinct (map (\<lambda>s. (sub_source_chain_id s, sub_source_tx_hash s)) (relay_submissions d))"

lemma row_key_of_chain: "row_key_of r = row_key_of r' \<Longrightarrow> source_chain_id r = source_chain_id r'"
  by (simp add: row_key_of_def)

lemma update_where_keys:
  "keeps_key f \<Longrightarrow> map row_key_of (transfers (update_where k f d)) = map row_key_of (transfers d)"
  by (auto simp: keeps_key_def update_where_def)

lemma db_wf_keys:
  "map row_key_of (transfers (d' :: database)) = map row_key_of (transfers d) \<Longrightarrow>
   relay_submissions d' = relay_submissions d \<Longrightarrow> db_wf d' = db_wf d"
proof -
  assume keys: "map row_key_of (transfers d') = map row_key_of (transfers d)"
    and subs: "relay_submissions d' = relay_submissions d"
  have "list_all (\<lambda>r. source_chain_id r \<noteq> [] \<and> in_int32 (packet_sequence_number r))
        (transfers x) \<longleftrightarrow>
      list_all (\<lambda>k. fst k \<noteq> [] \<and> in_int32 (snd (snd k))) (map row_key_of (transfers x))" for x :: database
    by (simp add: list_all_iff row_key_of_def)
  with keys subs show ?thesis by (simp add: db_wf_def)
qed

lemma db_wf_update_where:
  assumes "keeps_key f" "db_wf d"
  shows "db_wf (update_where k f d)"
  using assms db_wf_keys [OF update_where_keys] by (simp add: update_where_def)

lemma update_where_absent: "find_row d k = None \<Longrightarrow> update_where k f d = d"
  by (auto simp: find_row_def update_where_def find_None_iff intro!: database.equality map_idI)

interpretation rows: keyed_store find_row update_where keeps_key db_wf
proof unfold_locales
  fix f k d k'
  assume "keeps_key f"
  then show "find_row (update_where k f d) k' =
      (if k' = k then map_option f (find_row d k) else find_row d k')"
    by (simp add: find_row_def update_where_def keeps_key_def find_map_key)
qed (auto simp: db_wf_update_where update_where_absent)

lemmas [store_simps] = rows.find_upd rows.wf_upd

lemma find_row_key: "find_row d k = Some r \<Longrightarrow> row_key_of r = k \<and> r \<in> set (transfers d)"
  by (auto simp: find_row_def dest!: find_SomeD)

lemma find_row_mem: "db_wf d \<Longrightarrow> r \<in> set (transfers d) \<Longrightarrow> find_row d (row_key_of r) = Some r"
  by (auto simp: find_row_def db_wf_def intro: find_unique_key)

text \<open>No row of a well-formed database has an empty source chain.\<close>

lemma find_row_empty_chain: "db_wf d \<Longrightarrow> find_row d ([], c, s) = None"
  by (auto simp: find_row_def db_wf_def find_None_iff row_key_of_def list_all_iff)

text \<open>A statement leaves the table as it is or makes its update on the row of its key.\<close>

lemma exec_update_cases:
  obtains (done_) "exec_update x q k f d = (update_where k f d, None)"
  | (failed) e where "exec_update x q k f d = (d, Some e)"
  | (applied) e where "exec_update x q k f d = (update_where k f d, Some e)"
  by (cases "tx_fault x q k"; cases "snd (the (tx_fault x q k))") (auto simp: exec_update_def)

lemma exec_update_ok [simp]:
  "exec_update x q k f d = (d', None) \<longleftrightarrow> tx_fault x q k = None \<and> d' = update_where k f d"
  by (auto simp: exec_update_def split: option.splits)

lemma exec_update_find_other:
  "keeps_key f \<Longrightarrow> exec_update x q k f d = (d', oe) \<Longrightarrow> k' \<noteq> k \<Longrightarrow> find_row d' k' = find_row d k'"
  by (cases rule: exec_update_cases [of x q k f d]) (auto simp: store_simps)

lemma exec_update_wf:
  "keeps_key f \<Longrightarrow> exec_update x q k f d = (d', oe) \<Longrightarrow> db_wf d \<Longrightarrow> db_wf d'"
  by (cases rule: exec_update_cases [of x q k f d]) (auto simp: store_simps)

end
