(* ===== verification/Relayer_Strings.thy ===== *)
theory Relayer_Strings
  imports Relayer_Prelude
begin

text \<open>
  The parts of \<open>strings\<close>, \<open>strconv\<close>, \<open>math/big\<close> and \<open>time\<close> the bridge clients read and
  print with: substrings of error texts, decimal numbers, Unix times.
\<close>

section \<open>Times and texts\<close>

text \<open>\<open>time.Unix(int64(x), 0)\<close> and \<open>Time.Unix()\<close>.\<close>

definition time_Unix :: "uint64 \<Rightarrow> time" where
  "time_Unix s = sint s * second"

definition unix_seconds :: "time \<Rightarrow> int" where
  "unix_seconds t = t div second"

definition millisecond :: duration where
  "millisecond = 1000000"

definition strings_Contains :: "string \<Rightarrow> string \<Rightarrow> bool" where
  "strings_Contains s sub = list_ex (\<lambda>i. take (length sub) (drop i s) = sub) [0..<Suc (length s)]"

text \<open>\<open>strings.Contains(err.Error(), sub)\<close> for the errors the nodes return.\<close>

fun error_Contains :: "go_error \<Rightarrow> string \<Rightarrow> bool" where
  "error_Contains (External m) sub = strings_Contains m sub"
| "error_Contains (Errorf f es) sub = (strings_Contains f sub \<or> list_ex (\<lambda>e. error_Contains e sub) es)"
| "error_Contains (Sentinel s) sub = (s = ErrTxNotFound \<and> strings_Contains ''tx not found'' sub)"
| "error_Contains (PgError c) sub = False"

definition string_bytes :: "string \<Rightarrow> bytes" where
  "string_bytes s = map of_char s"

lemma of_char_word_inject [simp]: "(of_char c :: 8 word) = of_char d \<longleftrightarrow> c = d"
proof
  assume eq: "(of_char c :: 8 word) = of_char d"
  have lt: "(of_char e :: nat) < 256" for e using range_nat_of_char by (metis atLeastLessThan_iff rangeI)
  have "(of_nat (of_char c) :: 8 word) = of_nat (of_char d)" using eq by (simp only: of_nat_of_char)
  then have "(of_char c :: nat) = of_char d"
    using lt [of c] lt [of d] by (simp add: word_of_nat_eq_iff take_bit_nat_eq_self)
  then show "c = d" by simp
qed simp

lemma string_bytes_inject [simp]: "string_bytes s = string_bytes s' \<longleftrightarrow> s = s'"
  unfolding string_bytes_def by (rule inj_map_eq_map) (simp add: inj_def)

section \<open>Decimal numbers\<close>

definition digit_value :: "char \<Rightarrow> nat option" where
  "digit_value c = (let n = (of_char c :: nat) in if 48 \<le> n \<and> n \<le> 57 then Some (n - 48) else None)"

fun parse_digits :: "nat \<Rightarrow> string \<Rightarrow> nat option" where
  "parse_digits acc [] = Some acc"
| "parse_digits acc (c # cs) =
     (case digit_value c of None \<Rightarrow> None | Some d \<Rightarrow> parse_digits (10 * acc + d) cs)"

text \<open>A sign and digits: the number as \<open>SetString\<close> in base 10 reads it.\<close>

definition big_SetString10 :: "string \<Rightarrow> int option" where
  "big_SetString10 s =
     (let neg = (s \<noteq> [] \<and> hd s = CHR ''-'');
          ds = (if s \<noteq> [] \<and> (hd s = CHR ''-'' \<or> hd s = CHR ''+'') then tl s else s)
      in if ds = [] then None
         else map_option (\<lambda>n. if neg then - int n else int n) (parse_digits 0 ds))"

text \<open>\<open>strconv.Atoi\<close> reads the same, into 64 bits; \<open>strconv.Itoa\<close> prints.\<close>

definition in_int64 :: "int \<Rightarrow> bool" where
  "in_int64 i \<longleftrightarrow> - (2 ^ 63) \<le> i \<and> i < 2 ^ 63"

definition strconv_Atoi :: "string \<Rightarrow> int res" where
  "strconv_Atoi s =
     (case big_SetString10 s of
        None \<Rightarrow> Inl (External ''invalid syntax'')
      | Some i \<Rightarrow> if in_int64 i then Inr i else Inl (External ''value out of range''))"

fun string_of_nat :: "nat \<Rightarrow> string" where
  "string_of_nat n =
     (if n < 10 then [char_of (48 + n)] else string_of_nat (n div 10) @ [char_of (48 + n mod 10)])"

declare string_of_nat.simps [simp del]

definition strconv_Itoa :: "int \<Rightarrow> string" where
  "strconv_Itoa i = (if i < 0 then CHR ''-'' # string_of_nat (nat (- i)) else string_of_nat (nat i))"

section \<open>Facts\<close>

lemma digit_value_char: "d < 10 \<Longrightarrow> digit_value (char_of (48 + d)) = Some d"
  by (simp add: digit_value_def Let_def)

lemma parse_digits_append:
  "parse_digits acc (xs @ ys) = (case parse_digits acc xs of None \<Rightarrow> None | Some a \<Rightarrow> parse_digits a ys)"
  by (induction xs arbitrary: acc) (auto split: option.splits)

lemma string_of_nat_nonempty: "string_of_nat n \<noteq> []"
  by (subst string_of_nat.simps) simp

lemma parse_string_of_nat: "parse_digits 0 (string_of_nat n) = Some n"
proof (induction n rule: string_of_nat.induct)
  case (1 n)
  show ?case
  proof (cases "n < 10")
    case True
    then show ?thesis by (subst string_of_nat.simps) (simp add: digit_value_char)
  next
    case False
    then show ?thesis using 1
      by (subst string_of_nat.simps) (simp add: parse_digits_append digit_value_char)
  qed
qed

lemma hd_string_of_nat: "digit_value (hd (string_of_nat n)) \<noteq> None"
proof (induction n rule: string_of_nat.induct)
  case (1 n)
  then show ?case
    by (subst string_of_nat.simps) (simp add: digit_value_char hd_append string_of_nat_nonempty)
qed

lemma hd_not_sign: "hd (string_of_nat n) \<noteq> CHR ''-'' \<and> hd (string_of_nat n) \<noteq> CHR ''+''"
proof -
  have "digit_value CHR ''-'' = None" "digit_value CHR ''+'' = None" by (simp_all add: digit_value_def Let_def)
  then show ?thesis using hd_string_of_nat [of n] by metis
qed

lemma SetString_Itoa: "big_SetString10 (strconv_Itoa i) = Some i"
  using hd_not_sign [of "nat i"]
  by (simp add: big_SetString10_def strconv_Itoa_def Let_def string_of_nat_nonempty parse_string_of_nat)

lemma Itoa_inject [simp]: "strconv_Itoa i = strconv_Itoa j \<longleftrightarrow> i = j"
  by (metis SetString_Itoa option.inject)

lemma Itoa_nat: "strconv_Itoa (int n) = string_of_nat n"
  by (simp add: strconv_Itoa_def)

lemma Atoi_Itoa: "strconv_Atoi (strconv_Itoa i) = (if in_int64 i then Inr i else Inl (External ''value out of range''))"
  by (simp add: strconv_Atoi_def SetString_Itoa)

end
