(* ===== verification/Relayer_Config.thy ===== *)
theory Relayer_Config
  imports Relayer_Strings
begin

text \<open>
  The configuration of \<open>shared/config/config.go\<close>: the schema as records and the
  queries of \<open>configReader\<close>.

  \<^item> The Go map \<open>Chains\<close> is the list of its entries in the order one \<open>range\<close> visits
    them. Go leaves that order open, so the facts that matter hold for every order.
  \<^item> An optional section (a nil pointer) is \<open>None\<close>. A \<open>float64\<close> is its rational value.
  \<^item> The process environment (\<open>os.LookupEnv\<close>) is an argument of the queries that read it.
\<close>

section \<open>Schema\<close>

datatype ChainType = ChainType_COSMOS | ChainType_EVM | ChainType_SVM | ChainType_Other string

datatype BridgeType = BridgeType_IBCV2 | BridgeType_Other string

record SigningConfig =
  KeysPath :: string
  SigningGRPCAddress :: string
  CosmosWalletKey :: string
  EVMWalletKey :: string
  SVMWalletKey :: string

record PostgresConfig =
  Hostname :: string
  Port :: string
  Database :: string
  IAMAuthEnabled :: bool

record IBCV2ProofAPIConfig =
  ProofGRPCAddress :: string
  ProofGRPCTLSEnabled :: bool

record IBCV2Config =
  CounterpartyChains :: "string \<rightharpoonup> string"
  FinalityOffset :: "uint64 option"
  AckBatchSize :: int
  AckBatchTimeout :: duration
  AckBatchConcurrency :: int
  RecvBatchSize :: int
  RecvBatchTimeout :: duration
  RecvBatchConcurrency :: int
  TimeoutBatchSize :: int
  TimeoutBatchTimeout :: duration
  TimeoutBatchConcurrency :: int
  ShouldRelaySuccessAcks :: bool
  ShouldRelayErrorAcks :: bool

record SignerGasAlertThresholdsConfig =
  WarningThreshold :: string
  CriticalThreshold :: string

record CosmosConfig =
  GasPrice :: rat
  IBCV2TxFeeDenom :: string
  IBCV2TxFeeAmount :: uint64
  CosmosRPC :: string
  CosmosRPCBasicAuthVar :: string
  GRPC :: string
  GRPCTLSEnabled :: bool
  AddressPrefix :: string

record EVMContractConfig =
  ICS26RouterAddress :: string
  ICS20TransferAddress :: string

record EVMConfig =
  EVMRPC :: string
  EVMRPCBasicAuthVar :: string
  Contracts :: EVMContractConfig
  GasFeeCapMultiplier :: "rat option"
  GasTipCapMultiplier :: "rat option"

record SVMConfig =
  SVMRPC :: string
  WS :: string
  PriorityFee :: uint64
  SubmitRPCs :: "string list"

record ChainConfig =
  ChainName :: string
  ChainID :: string
  Type :: ChainType
  Environment :: string
  Cosmos :: "CosmosConfig option"
  EVM :: "EVMConfig option"
  SVM :: "SVMConfig option"
  GasTokenSymbol :: string
  GasTokenCoingeckoID :: "string option"
  GasTokenDecimals :: uint8
  SignerGasAlertThresholds :: "BridgeType \<rightharpoonup> SignerGasAlertThresholdsConfig"
  IBCV2 :: "IBCV2Config option"
  SupportedBridges :: "BridgeType list"

record CoingeckoConfig =
  BaseURL :: string
  RequestsPerMinute :: int
  APIKey :: string
  CacheRefreshInterval :: duration

record Config =
  Postgres :: PostgresConfig
  Chains :: "(string \<times> ChainConfig) list"
  PrometheusAddress :: string
  RelayerAPIAddress :: string
  Coingecko :: CoingeckoConfig
  IBCV2ProofAPI :: IBCV2ProofAPIConfig
  Signing :: SigningConfig

definition ToDBBridgeType :: "BridgeType \<Rightarrow> string res" where
  "ToDBBridgeType t =
     (case t of
        BridgeType_IBCV2 \<Rightarrow> Inr ''ibcv2''
      | BridgeType_Other s \<Rightarrow> Inl (Errorf ''invalid bridge type %s'' []))"

text \<open>
  \<open>LoadConfig\<close>: \<open>readFile\<close> and \<open>unmarshal\<close> stand for \<open>os.ReadFile\<close> and
  \<open>yaml.Unmarshal\<close>.
\<close>

definition Validate :: "Config \<Rightarrow> go_error option" where
  "Validate c =
     (if RelayerAPIAddress c = [] then Some (Errorf ''relayer_api.address must be configured'' [])
      else None)"

definition LoadConfig ::
  "(string \<Rightarrow> bytes res) \<Rightarrow> (bytes \<Rightarrow> Config res) \<Rightarrow> string \<Rightarrow> Config res" where
  "LoadConfig readFile unmarshal path =
     (case readFile path of
        Inl e \<Rightarrow> Inl e
      | Inr cfgBytes \<Rightarrow>
         (case unmarshal cfgBytes of
            Inl e \<Rightarrow> Inl e
          | Inr config \<Rightarrow>
             (case Validate config of
                Some e \<Rightarrow> Inl e
              | None \<Rightarrow> Inr config)))"

section \<open>The config reader\<close>

record configReader =
  config :: Config
  chainIDIndex :: "string \<rightharpoonup> ChainConfig"

definition createIndexes :: "Config \<Rightarrow> string \<rightharpoonup> ChainConfig" where
  "createIndexes c = fold (\<lambda>(_, chain) m. m(ChainID chain \<mapsto> chain)) (Chains c) Map.empty"

definition NewConfigReader :: "Config \<Rightarrow> configReader" where
  "NewConfigReader c = \<lparr>config = c, chainIDIndex = createIndexes c\<rparr>"

definition GetChainConfig :: "configReader \<Rightarrow> string \<Rightarrow> ChainConfig res" where
  "GetChainConfig r chainID =
     (case chainIDIndex r chainID of
        None \<Rightarrow> Inl (Errorf ''chain id %s not found'' [])
      | Some chain \<Rightarrow> Inr chain)"

definition GetIBCV2Chains :: "configReader \<Rightarrow> ChainConfig list" where
  "GetIBCV2Chains r = filter (\<lambda>chain. IBCV2 chain \<noteq> None) (map snd (Chains (config r)))"

definition GetIBCV2Config :: "configReader \<Rightarrow> string \<Rightarrow> IBCV2Config option res" where
  "GetIBCV2Config r chainID =
     (case GetChainConfig r chainID of
        Inl e \<Rightarrow> Inl e
      | Inr chain \<Rightarrow> Inr (IBCV2 chain))"

definition GetClientCounterpartyChainID :: "configReader \<Rightarrow> string \<Rightarrow> string \<Rightarrow> string res" where
  "GetClientCounterpartyChainID r chainID clientID =
     (case GetChainConfig r chainID of
        Inl e \<Rightarrow> Inl e
      | Inr chain \<Rightarrow>
         (case IBCV2 chain of
            None \<Rightarrow> Inl (Errorf ''chain %s is not ibcv2 enabled'' [])
          | Some ibc \<Rightarrow>
             (case CounterpartyChains ibc clientID of
                None \<Rightarrow> Inl (Errorf ''unknown client %s on chain %s'' [])
              | Some trackedChain \<Rightarrow> Inr trackedChain)))"

definition GetPostgresConnString :: "(string \<rightharpoonup> string) \<Rightarrow> configReader \<Rightarrow> string" where
  "GetPostgresConnString lookupEnv r =
     (let dbUser = (case lookupEnv ''POSTGRES_USER'' of Some u \<Rightarrow> u | None \<Rightarrow> ''relayer'');
          dbPassword = (case lookupEnv ''POSTGRES_PASSWORD'' of Some p \<Rightarrow> p | None \<Rightarrow> ''relayer'');
          pg = Postgres (config r)
      in ''host='' @ Hostname pg @ '' port='' @ Port pg @ '' user='' @ dbUser @
         '' password='' @ dbPassword @ '' dbname='' @ Database pg)"

definition GetChainEnvironment :: "configReader \<Rightarrow> string \<Rightarrow> string res" where
  "GetChainEnvironment r chainID =
     (case chainIDIndex r chainID of
        None \<Rightarrow> Inl (Errorf ''chain id %s not found'' [])
      | Some chain \<Rightarrow> Inr (Environment chain))"

definition GetRPCEndpoint :: "configReader \<Rightarrow> string \<Rightarrow> string res" where
  "GetRPCEndpoint r chainID =
     (case chainIDIndex r chainID of
        None \<Rightarrow> Inl (Errorf ''chain id %s not found'' [])
      | Some chain \<Rightarrow>
         (case Type chain of
            ChainType_COSMOS \<Rightarrow>
              (case Cosmos chain of
                 None \<Rightarrow> Inl (Errorf ''cosmos config not set for chain %s'' [])
               | Some c \<Rightarrow> Inr (CosmosRPC c))
          | ChainType_EVM \<Rightarrow>
              (case EVM chain of
                 None \<Rightarrow> Inl (Errorf ''evm config not set for chain %s'' [])
               | Some c \<Rightarrow> Inr (EVMRPC c))
          | ChainType_SVM \<Rightarrow>
              (case SVM chain of
                 None \<Rightarrow> Inl (Errorf ''svm config not set for chain %s'' [])
               | Some c \<Rightarrow> Inr (SVMRPC c))
          | ChainType_Other t \<Rightarrow> Inl (Errorf ''unknown chain type %s for chain %s'' [])))"

definition GetGRPCEndpoint :: "configReader \<Rightarrow> string \<Rightarrow> (string \<times> bool) res" where
  "GetGRPCEndpoint r chainID =
     (case chainIDIndex r chainID of
        None \<Rightarrow> Inl (Errorf ''chain id %s not found'' [])
      | Some chain \<Rightarrow>
         (case Type chain of
            ChainType_COSMOS \<Rightarrow>
              (case Cosmos chain of
                 None \<Rightarrow> Inl (Errorf ''cosmos config not set for chain %s'' [])
               | Some c \<Rightarrow> Inr (GRPC c, GRPCTLSEnabled c))
          | ChainType_EVM \<Rightarrow> Inl (Errorf ''grpc endpoints not supported for chain type %s'' [])
          | ChainType_SVM \<Rightarrow> Inl (Errorf ''grpc endpoints not supported for chain type %s'' [])
          | ChainType_Other t \<Rightarrow> Inl (Errorf ''unknown chain type %s for chain %s'' [])))"

definition GetBasicAuth ::
  "(string \<rightharpoonup> string) \<Rightarrow> configReader \<Rightarrow> string \<Rightarrow> string option res" where
  "GetBasicAuth lookupEnv r chainID =
     (case chainIDIndex r chainID of
        None \<Rightarrow> Inl (Errorf ''chain id %s not found'' [])
      | Some chain \<Rightarrow>
         (case Type chain of
            ChainType_COSMOS \<Rightarrow>
              (case Cosmos chain of
                 None \<Rightarrow> Inl (Errorf ''cosmos config not set for chain %s'' [])
               | Some c \<Rightarrow> Inr (lookupEnv (CosmosRPCBasicAuthVar c)))
          | ChainType_EVM \<Rightarrow>
              (case EVM chain of
                 None \<Rightarrow> Inl (Errorf ''evm config not set for chain %s'' [])
               | Some c \<Rightarrow> Inr (lookupEnv (EVMRPCBasicAuthVar c)))
          | ChainType_SVM \<Rightarrow> Inr None
          | ChainType_Other t \<Rightarrow> Inl (Errorf ''unknown chain type %s for chain %s'' [])))"

definition GetAllChains :: "configReader \<Rightarrow> ChainConfig list" where
  "GetAllChains r = map snd (Chains (config r))"

definition GetAllChainConfigsOfType :: "configReader \<Rightarrow> ChainType \<Rightarrow> ChainConfig list res" where
  "GetAllChainConfigsOfType r t = Inr (filter (\<lambda>chain. Type chain = t) (map snd (Chains (config r))))"

definition GetSignerGasAlertThresholds ::
  "configReader \<Rightarrow> string \<Rightarrow> BridgeType \<Rightarrow> (int \<times> int) res" where
  "GetSignerGasAlertThresholds r chainID bridgeType =
     (case GetChainConfig r chainID of
        Inl e \<Rightarrow> Inl (Errorf ''getting chain config for chain %s: %w'' [e])
      | Inr chain \<Rightarrow>
         (case SignerGasAlertThresholds chain bridgeType of
            None \<Rightarrow> Inl (Sentinel ErrNoSignerForBridge)
          | Some gasConfig \<Rightarrow>
             (case big_SetString10 (WarningThreshold gasConfig) of
                None \<Rightarrow> Inl (Errorf ''failed to parse gas balance warning threshold amount'' [])
              | Some warning \<Rightarrow>
                 (case big_SetString10 (CriticalThreshold gasConfig) of
                    None \<Rightarrow> Inl (Errorf ''failed to parse gas balance critical threshold amount'' [])
                  | Some critical \<Rightarrow> Inr (warning, critical)))))"

text \<open>
  The loop of \<open>GetAllIBCV2ClientsToCounterparties\<close>; \<open>ibcv2.CounterpartyChains\<close> panics
  when the index has an entry of the same chain id without an \<open>ibcv2\<close> section.
\<close>

fun collectClients ::
  "configReader \<Rightarrow> ChainConfig list \<Rightarrow> (string \<rightharpoonup> (string \<rightharpoonup> string)) \<Rightarrow>
   (string \<rightharpoonup> (string \<rightharpoonup> string)) res outcome" where
  "collectClients r [] m = Ret (Inr m)"
| "collectClients r (chain # rest) m =
     (case GetIBCV2Config r (ChainID chain) of
        Inl e \<Rightarrow> Ret (Inl (Errorf ''getting ibcv2 config for chain %s: %w'' [e]))
      | Inr None \<Rightarrow> Panic
      | Inr (Some ibc) \<Rightarrow> collectClients r rest (m(ChainID chain \<mapsto> CounterpartyChains ibc)))"

definition GetAllIBCV2ClientsToCounterparties ::
  "configReader \<Rightarrow> (string \<rightharpoonup> (string \<rightharpoonup> string)) res outcome" where
  "GetAllIBCV2ClientsToCounterparties r = collectClients r (GetIBCV2Chains r) Map.empty"

section \<open>Facts\<close>

definition distinct_chain_ids :: "Config \<Rightarrow> bool" where
  "distinct_chain_ids c \<longleftrightarrow> distinct (map (\<lambda>(_, chain). ChainID chain) (Chains c))"

lemma fold_map_upd_map_of:
  "fold (\<lambda>x m. m(key x \<mapsto> val x)) xs m = m ++ map_of (rev (map (\<lambda>x. (key x, val x)) xs))"
  by (induction xs arbitrary: m) auto

lemma createIndexes_map_of:
  "createIndexes c = map_of (rev (map (\<lambda>p. (ChainID (snd p), snd p)) (Chains c)))"
  using fold_map_upd_map_of [of "\<lambda>p. ChainID (snd p)" snd "Chains c" Map.empty]
  by (simp add: createIndexes_def case_prod_unfold)

text \<open>
  The index has exactly the entries of \<open>Chains\<close>, whatever the order they are visited in, as
  long as no two entries carry the same chain id.
\<close>

lemma createIndexes_iff:
  assumes "distinct_chain_ids c"
  shows "createIndexes c i = Some chain \<longleftrightarrow> chain \<in> snd ` set (Chains c) \<and> ChainID chain = i"
proof -
  have "distinct (map fst (rev (map (\<lambda>p. (ChainID (snd p), snd p)) (Chains c))))"
    using assms by (simp add: distinct_chain_ids_def rev_map [symmetric] comp_def case_prod_unfold)
  then show ?thesis by (auto simp: createIndexes_map_of)
qed

lemma GetChainConfig_iff:
  "distinct_chain_ids c \<Longrightarrow>
   GetChainConfig (NewConfigReader c) i = Inr chain \<longleftrightarrow>
     chain \<in> snd ` set (Chains c) \<and> ChainID chain = i"
  by (auto simp: GetChainConfig_def NewConfigReader_def createIndexes_iff [symmetric]
      split: option.splits)

lemma GetClientCounterpartyChainID_iff:
  "GetClientCounterpartyChainID r i cl = Inr x \<longleftrightarrow>
     (\<exists>chain ibc. GetChainConfig r i = Inr chain \<and> IBCV2 chain = Some ibc \<and>
        CounterpartyChains ibc cl = Some x)"
  by (auto simp: GetClientCounterpartyChainID_def split: sum.splits option.splits)

lemma collectClients_total:
  assumes "distinct_chain_ids c"
  shows "set cs \<subseteq> snd ` set (Chains c) \<Longrightarrow> \<forall>ch \<in> set cs. IBCV2 ch \<noteq> None \<Longrightarrow>
     collectClients (NewConfigReader c) cs m =
       Ret (Inr (m ++ map_of (rev (map (\<lambda>ch. (ChainID ch, CounterpartyChains (the (IBCV2 ch)))) cs))))"
proof (induction cs arbitrary: m)
  case (Cons ch cs)
  then have "GetChainConfig (NewConfigReader c) (ChainID ch) = Inr ch"
    by (simp add: GetChainConfig_iff [OF assms])
  moreover obtain ibc where "IBCV2 ch = Some ibc" using Cons.prems by auto
  ultimately show ?case
    using Cons by (simp add: GetIBCV2Config_def)
qed simp

text \<open>Two chains that track each other, as the examples of the later theories use them.\<close>

definition sample_ibc :: "string \<Rightarrow> string \<Rightarrow> IBCV2Config" where
  "sample_ibc cl counterparty =
     \<lparr>CounterpartyChains = [cl \<mapsto> counterparty], FinalityOffset = None,
      AckBatchSize = 0, AckBatchTimeout = 0, AckBatchConcurrency = 0,
      RecvBatchSize = 0, RecvBatchTimeout = 0, RecvBatchConcurrency = 0,
      TimeoutBatchSize = 0, TimeoutBatchTimeout = 0, TimeoutBatchConcurrency = 0,
      ShouldRelaySuccessAcks = True, ShouldRelayErrorAcks = True\<rparr>"

definition sample_chain :: "string \<Rightarrow> ChainType \<Rightarrow> string \<Rightarrow> string \<Rightarrow> ChainConfig" where
  "sample_chain i t cl counterparty =
     \<lparr>ChainName = i, ChainID = i, Type = t, Environment = ''testnet'',
      Cosmos = None, EVM = None, SVM = None, GasTokenSymbol = [], GasTokenCoingeckoID = None,
      GasTokenDecimals = 0, SignerGasAlertThresholds = Map.empty,
      IBCV2 = Some (sample_ibc cl counterparty), SupportedBridges = [BridgeType_IBCV2]\<rparr>"

definition sample_config :: Config where
  "sample_config =
     \<lparr>Postgres = \<lparr>Hostname = [], Port = [], Database = [], IAMAuthEnabled = False\<rparr>,
      Chains = [(''a'', sample_chain ''a'' ChainType_EVM ''ca'' ''b''),
                (''b'', sample_chain ''b'' ChainType_COSMOS ''cb'' ''a'')],
      PrometheusAddress = [], RelayerAPIAddress = ''addr'',
      Coingecko = \<lparr>BaseURL = [], RequestsPerMinute = 0, APIKey = [], CacheRefreshInterval = 0\<rparr>,
      IBCV2ProofAPI = \<lparr>ProofGRPCAddress = [], ProofGRPCTLSEnabled = False\<rparr>,
      Signing = \<lparr>KeysPath = [], SigningGRPCAddress = [], CosmosWalletKey = [], EVMWalletKey = [],
                 SVMWalletKey = []\<rparr>\<rparr>"

lemma sample_config_distinct [simp]: "distinct_chain_ids sample_config"
  by (simp add: distinct_chain_ids_def sample_config_def sample_chain_def)

text \<open>
  With distinct chain ids the clients table is computed without a panic or an error and
  agrees with the single query: it lists a client's counterparty exactly when
  \<open>GetClientCounterpartyChainID\<close> returns it.
\<close>

lemma clients_table_agrees:
  assumes "distinct_chain_ids c"
  shows "\<exists>m. GetAllIBCV2ClientsToCounterparties (NewConfigReader c) = Ret (Inr m) \<and>
     (\<forall>i cl x. GetClientCounterpartyChainID (NewConfigReader c) i cl = Inr x \<longleftrightarrow>
        (\<exists>cp. m i = Some cp \<and> cp cl = Some x))"
proof -
  define cs where "cs = GetIBCV2Chains (NewConfigReader c)"
  have cs: "set cs = {ch \<in> snd ` set (Chains c). IBCV2 ch \<noteq> None}"
    by (auto simp: cs_def GetIBCV2Chains_def NewConfigReader_def)
  define m where "m = map_of (rev (map (\<lambda>ch. (ChainID ch, CounterpartyChains (the (IBCV2 ch)))) cs))"
  have dist: "distinct (map ChainID cs)"
    using assms by (auto simp: cs_def GetIBCV2Chains_def NewConfigReader_def distinct_chain_ids_def
        comp_def case_prod_unfold distinct_map_filter)
  have m: "m i = Some cp \<longleftrightarrow> (\<exists>ch \<in> set cs. ChainID ch = i \<and> cp = CounterpartyChains (the (IBCV2 ch)))"
    for i cp
    using dist by (auto simp: m_def rev_map [symmetric] comp_def)
  have "GetClientCounterpartyChainID (NewConfigReader c) i cl = Inr x \<longleftrightarrow>
      (\<exists>cp. m i = Some cp \<and> cp cl = Some x)" for i cl x
    unfolding GetClientCounterpartyChainID_iff GetChainConfig_iff [OF assms] m cs
    by (auto 4 4)
  moreover have "GetAllIBCV2ClientsToCounterparties (NewConfigReader c) = Ret (Inr m)"
    using collectClients_total [OF assms, of cs Map.empty]
    by (simp add: GetAllIBCV2ClientsToCounterparties_def cs_def [symmetric] m_def cs subset_iff)
  ultimately show ?thesis by blast
qed


end
