(* ===== verification/Relayer_Transfer.thy ===== *)
theory Relayer_Transfer
  imports Relayer_Db Relayer_Config
begin

text \<open>
  The in-memory transfer of \<open>relayer/ibcv2/ibcv2_transfer.go\<close> and the metrics it records
  (\<open>relayer/ibcv2/ibcv2_transfer_metrics.go\<close>).

  \<^item> A pointer field is an \<open>option\<close>; the getter of a field returns the value and whether it
    is set, which is the same information. The logger is left out.
  \<^item> \<open>time.Now()\<close> is an argument.
  \<^item> A call of the metrics client is a value of \<open>metric\<close>, in the order of the calls.
\<close>

section \<open>The transfer\<close>

record transfer =
  State :: Ibcv2RelayStatus
  SourceChainID :: string
  DestinationChainID :: string
  SourceTxHash :: string
  SourceTxTime :: time
  SourceTxFinalizedTime :: "time option"
  PacketSequenceNumber :: uint32
  PacketSourceClientID :: string
  PacketDestinationClientID :: string
  PacketTimeoutTimestamp :: time
  RecvTxBytes :: bytes
  RecvTxToAddress :: "string option"
  RecvTxHash :: "string option"
  RecvTxTime :: "time option"
  RecvTxRelayerAddress :: "string option"
  RecvTxGasCostUSD :: "int option"
  WriteAckTxHash :: "string option"
  WriteAckTxTime :: "time option"
  WriteAckStatus :: "Ibcv2WriteAckStatus option"
  WriteAckTxFinalizedTime :: "time option"
  AckTxBytes :: bytes
  AckTxToAddress :: "string option"
  AckTxHash :: "string option"
  AckTxTime :: "time option"
  AckTxRelayerAddress :: "string option"
  AckTxGasCostUSD :: "int option"
  TimeoutTxBytes :: bytes
  TimeoutTxHash :: "string option"
  TimeoutTxTime :: "time option"
  TimeoutTxRelayerAddress :: "string option"
  TimeoutTxGasCostUSD :: "int option"
  ProcessingError :: "go_error option"

definition NewIBCV2Transfer :: "ibcv2_transfer_row \<Rightarrow> transfer" where
  "NewIBCV2Transfer r =
     \<lparr>State = status r,
      SourceChainID = source_chain_id r,
      DestinationChainID = destination_chain_id r,
      SourceTxHash = source_tx_hash r,
      SourceTxTime = (case source_tx_time r of Some t \<Rightarrow> t | None \<Rightarrow> zero_time),
      SourceTxFinalizedTime = source_tx_finalized_time r,
      PacketSequenceNumber = uint32_of_int32 (packet_sequence_number r),
      PacketSourceClientID = packet_source_client_id r,
      PacketDestinationClientID = packet_destination_client_id r,
      PacketTimeoutTimestamp =
        (case packet_timeout_timestamp r of Some t \<Rightarrow> t | None \<Rightarrow> zero_time),
      RecvTxBytes = [],
      RecvTxToAddress = None,
      RecvTxHash = recv_tx_hash r,
      RecvTxTime = recv_tx_time r,
      RecvTxRelayerAddress = recv_tx_relayer_address r,
      RecvTxGasCostUSD = Option.bind (recv_tx_gas_cost_usd r) num_Int,
      WriteAckTxHash = write_ack_tx_hash r,
      WriteAckTxTime = write_ack_tx_time r,
      WriteAckStatus = write_ack_status r,
      WriteAckTxFinalizedTime = write_ack_tx_finalized_time r,
      AckTxBytes = [],
      AckTxToAddress = None,
      AckTxHash = ack_tx_hash r,
      AckTxTime = ack_tx_time r,
      AckTxRelayerAddress = ack_tx_relayer_address r,
      AckTxGasCostUSD = Option.bind (ack_tx_gas_cost_usd r) num_Int,
      TimeoutTxBytes = [],
      TimeoutTxHash = timeout_tx_hash r,
      TimeoutTxTime = timeout_tx_time r,
      TimeoutTxRelayerAddress = timeout_tx_relayer_address r,
      TimeoutTxGasCostUSD = Option.bind (timeout_tx_gas_cost_usd r) num_Int,
      ProcessingError = None\<rparr>"

text \<open>The key every statement about a transfer is made with.\<close>

definition transfer_row_key :: "transfer \<Rightarrow> row_key" where
  "transfer_row_key t =
     (SourceChainID t, PacketSourceClientID t, int32_of_uint32 (PacketSequenceNumber t))"

text \<open>\<open>transfer.Error() != ""\<close>.\<close>

definition has_error :: "transfer \<Rightarrow> bool" where
  "has_error t \<longleftrightarrow> (case ProcessingError t of None \<Rightarrow> False | Some e \<Rightarrow> \<not> empty_message e)"

definition IsComplete :: "bool \<Rightarrow> bool \<Rightarrow> transfer \<Rightarrow> bool" where
  "IsComplete shouldRelaySuccessAcks shouldRelayErrorAcks t =
     (if ProcessingError t \<noteq> None then False
      else if TimeoutTxHash t \<noteq> None then True
      else if RecvTxHash t = None \<or> WriteAckTxHash t = None then False
      else if AckTxHash t \<noteq> None then True
      else
        (case WriteAckStatus t of
           None \<Rightarrow> False
         | Some s \<Rightarrow>
             (let isErrorAck = (s = ERROR \<or> s = UNKNOWN);
                  isSuccessAck = (s = SUCCESS)
              in \<not> (isErrorAck \<and> shouldRelayErrorAcks \<or> isSuccessAck \<and> shouldRelaySuccessAcks))))"

definition IsTimedOut :: "time \<Rightarrow> transfer \<Rightarrow> bool" where
  "IsTimedOut now t \<longleftrightarrow> PacketTimeoutTimestamp t < now"

section \<open>Metrics\<close>

datatype RelayType = IBCV2SendToRecvRelayType | IBCV2SendToTimeoutRelayType | IBCV2RecvToAckRelayType

datatype metric =
    AddRelayCompleted string string string string RelayType
  | RelayLatency string string string string string RelayType duration
  | AddTransactionRetryAttempt string string string string string RelayType
  | AddExcessiveRelayLatencyObservation string string string RelayType
  | AddRelayRequest uint32

definition RecordLatency ::
  "configReader \<Rightarrow> string \<Rightarrow> string \<Rightarrow> time \<Rightarrow> time \<Rightarrow> RelayType \<Rightarrow> metric list" where
  "RecordLatency cfg src dst frm to rt =
     (case GetChainConfig cfg src of
        Inl e \<Rightarrow> []
      | Inr sc \<Rightarrow>
         (case GetChainConfig cfg dst of
            Inl e \<Rightarrow> []
          | Inr dc \<Rightarrow>
             [RelayLatency src dst (ChainName sc) (ChainName dc) (Environment sc) rt
                (time_Sub to frm)]))"

definition RecordRecvSendLatency :: "configReader \<Rightarrow> transfer \<Rightarrow> metric list" where
  "RecordRecvSendLatency cfg t =
     (case RecvTxTime t of
        None \<Rightarrow> []
      | Some rt \<Rightarrow> RecordLatency cfg (SourceChainID t) (DestinationChainID t) (SourceTxTime t) rt
                    IBCV2SendToRecvRelayType)"

definition RecordRecvRelayed :: "transfer \<Rightarrow> metric list" where
  "RecordRecvRelayed t =
     [AddRelayCompleted (SourceChainID t) (PacketSourceClientID t) (DestinationChainID t)
        (PacketDestinationClientID t) IBCV2SendToRecvRelayType]"

definition RecordSendTimeoutLatency :: "configReader \<Rightarrow> transfer \<Rightarrow> metric list" where
  "RecordSendTimeoutLatency cfg t =
     (case TimeoutTxTime t of
        None \<Rightarrow> []
      | Some tt \<Rightarrow> RecordLatency cfg (SourceChainID t) (DestinationChainID t) (SourceTxTime t) tt
                    IBCV2SendToTimeoutRelayType)"

definition RecordTimeoutRelayed :: "transfer \<Rightarrow> metric list" where
  "RecordTimeoutRelayed t =
     [AddRelayCompleted (SourceChainID t) (PacketSourceClientID t) (DestinationChainID t)
        (PacketDestinationClientID t) IBCV2SendToRecvRelayType]"

definition RecordAckRecvLatency :: "configReader \<Rightarrow> transfer \<Rightarrow> metric list" where
  "RecordAckRecvLatency cfg t =
     (case AckTxTime t of
        None \<Rightarrow> []
      | Some ackT \<Rightarrow>
         (case RecvTxTime t of
            None \<Rightarrow> []
          | Some rt \<Rightarrow> RecordLatency cfg (DestinationChainID t) (SourceChainID t) rt ackT
                        IBCV2RecvToAckRelayType))"

definition RecordAckRelayed :: "transfer \<Rightarrow> metric list" where
  "RecordAckRelayed t =
     [AddRelayCompleted (DestinationChainID t) (PacketDestinationClientID t) (SourceChainID t)
        (PacketSourceClientID t) IBCV2RecvToAckRelayType]"

definition RecordTransactionRetried :: "configReader \<Rightarrow> transfer \<Rightarrow> RelayType \<Rightarrow> metric list" where
  "RecordTransactionRetried cfg t rt =
     (case GetChainConfig cfg (SourceChainID t) of
        Inl e \<Rightarrow> []
      | Inr sc \<Rightarrow>
         (case GetChainConfig cfg (DestinationChainID t) of
            Inl e \<Rightarrow> []
          | Inr dc \<Rightarrow>
             [AddTransactionRetryAttempt (SourceChainID t) (DestinationChainID t) (ChainName sc)
                (ChainName dc) (Environment sc) rt]))"

definition ongoingRelayType :: "time \<Rightarrow> bool \<Rightarrow> bool \<Rightarrow> transfer \<Rightarrow> RelayType option" where
  "ongoingRelayType now shouldRelaySuccessAcks shouldRelayErrorAcks t =
     (if IsComplete shouldRelaySuccessAcks shouldRelayErrorAcks t then None
      else if WriteAckTxHash t = None then
        (if PacketTimeoutTimestamp t < now then Some IBCV2SendToTimeoutRelayType
         else Some IBCV2SendToRecvRelayType)
      else Some IBCV2RecvToAckRelayType)"

definition evmSourceExcessiveLatency :: duration where
  "evmSourceExcessiveLatency = 60 * minute"

definition evmSourceFinality :: duration where
  "evmSourceFinality = 15 * minute"

definition cosmosSourceExcessiveLatency :: duration where
  "cosmosSourceExcessiveLatency = 30 * minute"

text \<open>
  \<open>sourceConfig.IBCV2\<close> is dereferenced without a check: a source chain without an
  \<open>ibcv2\<close> section makes the call panic.
\<close>

definition AlertOnExcessiveRelayLatency ::
  "configReader \<Rightarrow> time \<Rightarrow> transfer \<Rightarrow> metric list outcome" where
  "AlertOnExcessiveRelayLatency cfg now t =
     (case GetChainConfig cfg (SourceChainID t) of
        Inl e \<Rightarrow> Ret []
      | Inr sc \<Rightarrow>
     (case GetChainConfig cfg (DestinationChainID t) of
        Inl e \<Rightarrow> Ret []
      | Inr dc \<Rightarrow>
     (case IBCV2 sc of
        None \<Rightarrow> Panic
      | Some ibc \<Rightarrow>
     (case ongoingRelayType now (ShouldRelaySuccessAcks ibc) (ShouldRelayErrorAcks ibc) t of
        None \<Rightarrow> Ret []
      | Some IBCV2SendToRecvRelayType \<Rightarrow>
          (let obs = AddExcessiveRelayLatencyObservation (ChainName sc) (ChainName dc)
                       (Environment sc) IBCV2SendToRecvRelayType;
               since = time_Sub now (SourceTxTime t)
           in Ret ((if Type sc = ChainType_EVM \<and> since > evmSourceExcessiveLatency then [obs] else []) @
                   (if Type sc = ChainType_COSMOS \<and> since > cosmosSourceExcessiveLatency
                    then [obs] else [])))
      | Some IBCV2RecvToAckRelayType \<Rightarrow>
          (let obs = AddExcessiveRelayLatencyObservation (ChainName dc) (ChainName sc)
                       (Environment sc) IBCV2RecvToAckRelayType;
               writeAckTime = (case WriteAckTxTime t of Some u \<Rightarrow> u | None \<Rightarrow> zero_time);
               since = time_Sub now writeAckTime
           in Ret ((if Type dc = ChainType_EVM \<and> since > evmSourceExcessiveLatency then [obs] else []) @
                   (if Type dc = ChainType_COSMOS \<and> since > cosmosSourceExcessiveLatency
                    then [obs] else [])))
      | Some IBCV2SendToTimeoutRelayType \<Rightarrow>
          (if time_Sub now (PacketTimeoutTimestamp t) < 5 * minute then Ret []
           else if Type sc = ChainType_EVM \<and> time_Sub now (SourceTxTime t) < evmSourceFinality
           then Ret []
           else Ret [AddExcessiveRelayLatencyObservation (ChainName sc) (ChainName dc)
                       (Environment sc) IBCV2SendToTimeoutRelayType])))))"

section \<open>The state the pipeline changes\<close>

text \<open>
  The database, the metrics sent so far, and the transactions handed to a chain so far: the
  chain, the transaction bytes and the address they are for.
\<close>

record world =
  db :: database
  metrics :: "metric list"
  submitted :: "(string \<times> bytes \<times> string) list"

text \<open>
  A transfer as two parts: the packet it is about, which never changes, and how far its
  delivery has come, which the processors change. \<open>delivery\<close> is the abstract state the
  pipeline is specified over.
\<close>

record packet =
  pkt_source_chain :: string
  pkt_dest_chain :: string
  pkt_source_tx :: string
  pkt_source_time :: time
  pkt_sequence :: uint32
  pkt_source_client :: string
  pkt_dest_client :: string
  pkt_timeout :: time

definition packet_of :: "transfer \<Rightarrow> packet" where
  "packet_of t =
     \<lparr>pkt_source_chain = SourceChainID t, pkt_dest_chain = DestinationChainID t,
      pkt_source_tx = SourceTxHash t, pkt_source_time = SourceTxTime t,
      pkt_sequence = PacketSequenceNumber t, pkt_source_client = PacketSourceClientID t,
      pkt_dest_client = PacketDestinationClientID t, pkt_timeout = PacketTimeoutTimestamp t\<rparr>"

record delivery =
  dl_recv_hash :: "string option"
  dl_recv_time :: "time option"
  dl_wack_hash :: "string option"
  dl_wack_time :: "time option"
  dl_wack_status :: "Ibcv2WriteAckStatus option"
  dl_ack_hash :: "string option"
  dl_ack_time :: "time option"
  dl_timeout_hash :: "string option"
  dl_timeout_time :: "time option"

definition delivery_of :: "transfer \<Rightarrow> delivery" where
  "delivery_of t =
     \<lparr>dl_recv_hash = RecvTxHash t, dl_recv_time = RecvTxTime t,
      dl_wack_hash = WriteAckTxHash t, dl_wack_time = WriteAckTxTime t,
      dl_wack_status = WriteAckStatus t,
      dl_ack_hash = AckTxHash t, dl_ack_time = AckTxTime t,
      dl_timeout_hash = TimeoutTxHash t, dl_timeout_time = TimeoutTxTime t\<rparr>"

text \<open>The database holds what the transfer holds: loading its row again gives the same.\<close>

definition synced :: "database \<Rightarrow> transfer \<Rightarrow> bool" where
  "synced d t \<longleftrightarrow>
     (\<exists>r. find_row d (transfer_row_key t) = Some r \<and>
          packet_of (NewIBCV2Transfer r) = packet_of t \<and>
          delivery_of (NewIBCV2Transfer r) = delivery_of t)"

section \<open>Facts\<close>

lemma transfer_row_key_packet: "packet_of t = packet_of t' \<Longrightarrow> transfer_row_key t = transfer_row_key t'"
  by (simp add: packet_of_def transfer_row_key_def)

lemma NewIBCV2Transfer_key:
  "in_int32 (packet_sequence_number r) \<Longrightarrow> transfer_row_key (NewIBCV2Transfer r) = row_key_of r"
  by (simp add: transfer_row_key_def NewIBCV2Transfer_def row_key_of_def)

lemma db_wf_in_int32: "db_wf d \<Longrightarrow> r \<in> set (transfers d) \<Longrightarrow> in_int32 (packet_sequence_number r)"
  by (simp add: db_wf_def list_all_iff)

text \<open>A freshly loaded transfer agrees with the database.\<close>

lemma synced_NewIBCV2Transfer:
  "db_wf d \<Longrightarrow> r \<in> set (transfers d) \<Longrightarrow> synced d (NewIBCV2Transfer r)"
  by (auto simp: synced_def NewIBCV2Transfer_key db_wf_in_int32 find_row_mem)

end
