(* ===== verification/Relayer_Bridge.thy ===== *)
theory Relayer_Bridge
  imports Relayer_Transfer
begin

text \<open>
  The interface \<open>BridgeClient\<close> of \<open>shared/bridges/ibcv2/bridge_client.go\<close>, the client
  manager of \<open>relayer/ibcv2/client_manager.go\<close>, and the environment a pipeline stage runs
  in.

  \<^item> A bridge client is the record of its methods. A method's answer may change from call to
    call, so every run of a stage gets its own client; the facts about stages hold for all
    clients. The theories on the EVM and the Cosmos client define such records from the code.
  \<^item> The proof service (\<open>RelayerServiceClient.RelayByTx\<close>), the price client and the
    database connection are fields of the environment in the same way.
\<close>

section \<open>Interface\<close>

record BridgeTx =
  Hash :: string
  Timestamp :: time
  RelayerAddress :: string

record PacketInfo =
  Sequence :: uint64
  SourceClient :: string
  DestinationClient :: string
  TimeoutTimestamp :: time
  PacketTimestamp :: time

record BridgeClient =
  IsPacketReceived :: "string \<Rightarrow> uint64 \<Rightarrow> bool res"
  IsPacketCommitted :: "string \<Rightarrow> uint64 \<Rightarrow> bool res"
  FindRecvTx :: "string \<Rightarrow> string \<Rightarrow> uint64 \<Rightarrow> time \<Rightarrow> BridgeTx res"
  FindAckTx :: "string \<Rightarrow> string \<Rightarrow> uint64 \<Rightarrow> BridgeTx res"
  FindTimeoutTx :: "string \<Rightarrow> string \<Rightarrow> uint64 \<Rightarrow> BridgeTx res"
  DeliverTx :: "bytes \<Rightarrow> string \<Rightarrow> BridgeTx res"
  PacketWriteAckStatus :: "string \<Rightarrow> uint64 \<Rightarrow> string \<Rightarrow> string \<Rightarrow> Ibcv2WriteAckStatus res"
  SendPacketsFromTx :: "string \<Rightarrow> string \<Rightarrow> PacketInfo list res"
  ShouldRetryTx :: "string \<Rightarrow> duration \<Rightarrow> time \<Rightarrow> bool res"
  WaitForChain :: "go_error option"
  IsTxFinalized :: "string \<Rightarrow> uint64 option \<Rightarrow> bool res"
  IsTimestampFinalized :: "time \<Rightarrow> uint64 option \<Rightarrow> bool res"
  BridgeChainType :: ChainType
  SignerGasTokenBalance :: "int res"
  TxFee :: "string \<Rightarrow> int res"
  GetTransactionSender :: "string \<Rightarrow> string res"

text \<open>The SHA-256 digest of the text \<open>UNIVERSAL_ERROR_ACKNOWLEDGEMENT\<close>.\<close>

definition ErrorAcknowledgement :: bytes where
  "ErrorAcknowledgement =
     [0x47, 0x74, 0xD4, 0xA5, 0x75, 0x99, 0x3F, 0x96,
      0x3B, 0x1C, 0x06, 0x57, 0x37, 0x36, 0x61, 0x7A,
      0x45, 0x7A, 0xBE, 0xF8, 0x58, 0x91, 0x78, 0xDB,
      0x8D, 0x10, 0xC9, 0x4B, 0x4A, 0xB5, 0x11, 0xAB]"

text \<open>
  What the waiting loops of the clients receive: the end of their context, or a tick at the given
  time, on which the node is asked.
\<close>

datatype 'a wait_event = CtxEnd go_error | TickAt time 'a

text \<open>The request of the proof service, with the fields the relayer sets.\<close>

record RelayByTxRequest =
  SrcChain :: string
  DstChain :: string
  SourceTxIds :: "bytes list"
  TimeoutTxIds :: "bytes list"
  SrcClientId :: string
  DstClientId :: string
  SrcPacketSequences :: "uint64 list"
  DstPacketSequences :: "uint64 list"

section \<open>The client manager\<close>

type_synonym client_manager = "string \<rightharpoonup> BridgeClient"

definition GetClient :: "client_manager \<Rightarrow> string \<Rightarrow> BridgeClient res" where
  "GetClient manager chainID =
     (case manager chainID of
        None \<Rightarrow> Inl (Errorf ''no configured ibcv2 bridge client for chain ID %s'' [])
      | Some client \<Rightarrow> Inr client)"

section \<open>Standard library functions the stages use\<close>

definition TrimPrefix :: "string \<Rightarrow> string \<Rightarrow> string" where
  "TrimPrefix s p = (if take (length p) s = p then drop (length p) s else s)"

text \<open>\<open>hex.DecodeString\<close>: two digits a byte, upper or lower case.\<close>

definition hex_value :: "char \<Rightarrow> nat option" where
  "hex_value c =
     (let n = (of_char c :: nat) in
      if 48 \<le> n \<and> n \<le> 57 then Some (n - 48)
      else if 97 \<le> n \<and> n \<le> 102 then Some (n - 87)
      else if 65 \<le> n \<and> n \<le> 70 then Some (n - 55)
      else None)"

fun hex_DecodeString :: "string \<Rightarrow> bytes res" where
  "hex_DecodeString [] = Inr []"
| "hex_DecodeString [c] =
     (case hex_value c of
        None \<Rightarrow> Inl (External ''encoding/hex: invalid byte'')
      | Some h \<Rightarrow> Inl (External ''encoding/hex: odd length hex string''))"
| "hex_DecodeString (c # c' # cs) =
     (case hex_value c of
        None \<Rightarrow> Inl (External ''encoding/hex: invalid byte'')
      | Some h \<Rightarrow>
     (case hex_value c' of
        None \<Rightarrow> Inl (External ''encoding/hex: invalid byte'')
      | Some l \<Rightarrow>
     (case hex_DecodeString cs of
        Inl e \<Rightarrow> Inl e
      | Inr bs \<Rightarrow> Inr (word_of_nat (16 * h + l) # bs))))"

section \<open>The environment of a stage\<close>

record env =
  env_guard_now :: time
  env_now :: time
  env_clients :: client_manager
  env_relay :: "RelayByTxRequest \<Rightarrow> (bytes \<times> string) res"
  env_price :: "string \<Rightarrow> uint8 \<Rightarrow> int \<Rightarrow> numeric res"
  env_db :: dbtx
  env_pool :: pool
  env_config :: configReader

definition with_db ::
  "(database \<Rightarrow> database \<times> go_error option) \<Rightarrow> world \<Rightarrow> world \<times> go_error option" where
  "with_db q w = (case q (db w) of (d, oe) \<Rightarrow> (w\<lparr>db := d\<rparr>, oe))"

definition record_metrics :: "metric list \<Rightarrow> world \<Rightarrow> world" where
  "record_metrics ms w = w\<lparr>metrics := metrics w @ ms\<rparr>"

definition record_submission :: "string \<Rightarrow> bytes \<Rightarrow> string \<Rightarrow> world \<Rightarrow> world" where
  "record_submission chain tx to w = w\<lparr>submitted := submitted w @ [(chain, tx, to)]\<rparr>"

lemma record_metrics_db [simp]: "db (record_metrics ms w) = db w"
  by (simp add: record_metrics_def)

lemma record_submission_db [simp]: "db (record_submission c tx a w) = db w"
  by (simp add: record_submission_def)

section \<open>A sample environment\<close>

text \<open>Two chains that answer every call, and a database that is up; the examples use them.\<close>

definition sample_dbtx :: dbtx where
  "sample_dbtx = \<lparr>tx_now = 5, tx_fault = (\<lambda>q k. None), tx_query_fault = (\<lambda>q. None)\<rparr>"

definition sample_packet :: PacketInfo where
  "sample_packet = \<lparr>Sequence = 7, SourceClient = ''ca'', DestinationClient = ''cb'',
     TimeoutTimestamp = 100, PacketTimestamp = 1\<rparr>"

definition sample_client :: "ChainType \<Rightarrow> string \<Rightarrow> BridgeClient" where
  "sample_client ct h =
     \<lparr>IsPacketReceived = (\<lambda>c s. Inr False),
      IsPacketCommitted = (\<lambda>c s. Inr True),
      FindRecvTx = (\<lambda>c d s t. Inl (Sentinel ErrTxNotFound)),
      FindAckTx = (\<lambda>c d s. Inl (Sentinel ErrTxNotFound)),
      FindTimeoutTx = (\<lambda>c d s. Inl (Sentinel ErrTxNotFound)),
      DeliverTx = (\<lambda>tx to. Inr \<lparr>Hash = h, Timestamp = 6, RelayerAddress = ''relayer''\<rparr>),
      PacketWriteAckStatus = (\<lambda>h s c d. Inr SUCCESS),
      SendPacketsFromTx = (\<lambda>c h. Inr [sample_packet]),
      ShouldRetryTx = (\<lambda>h d t. Inr False),
      WaitForChain = None,
      IsTxFinalized = (\<lambda>h off. Inr True),
      IsTimestampFinalized = (\<lambda>t off. Inr True),
      BridgeChainType = ct,
      SignerGasTokenBalance = Inr 0,
      TxFee = (\<lambda>h. Inr 1),
      GetTransactionSender = (\<lambda>h. Inr ''0xAB'')\<rparr>"

definition sample_clients :: client_manager where
  "sample_clients = [''a'' \<mapsto> sample_client ChainType_EVM ''ac'', ''b'' \<mapsto> sample_client ChainType_COSMOS ''bc'']"

definition sample_world :: world where
  "sample_world = \<lparr>db = \<lparr>transfers = [], relay_submissions = [], next_transfer_id = 0,
     next_submission_id = 0\<rparr>, metrics = [], submitted = []\<rparr>"

definition sample_env :: env where
  "sample_env =
     \<lparr>env_guard_now = 5, env_now = 5, env_clients = sample_clients,
      env_relay = (\<lambda>req. Inr ([1], ''router'')),
      env_price = (\<lambda>c d a. Inr \<lparr>num_Int = Some a, num_Exp = 0\<rparr>),
      env_db = sample_dbtx,
      env_pool = \<lparr>pool_begin = None, pool_tx = sample_dbtx, pool_rollback = None, pool_commit = None\<rparr>,
      env_config = NewConfigReader sample_config\<rparr>"

lemmas sample_defs = sample_dbtx_def sample_packet_def sample_client_def sample_clients_def
  sample_world_def sample_env_def sample_config_def sample_chain_def sample_ibc_def

end
