(* ===== verification/Relayer_Processor.thy ===== *)
theory Relayer_Processor
  imports Relayer_Bridge
begin

text \<open>
  The specification of a delivery and the middleware every pipeline processor is wrapped in
  (\<open>IBCV2ProcessorMW\<close> of \<open>relayer/ibcv2/processor_mw.go\<close>).

  \<^item> \<open>delivery_step\<close> is the abstract machine: which changes of the recorded transactions a
    stage may make. \<open>delivery_inv\<close> is its invariant.
  \<^item> \<open>processor_contract\<close> is the interface between the middleware and a processor: what
    the processor's \<open>Process\<close> does to the database is a step of the abstract machine on the
    transfer's own row. The middleware is proved once, in the locale; every processor
    interprets it.
\<close>

section \<open>The abstract machine\<close>

inductive delivery_step :: "delivery \<Rightarrow> delivery \<Rightarrow> bool" where
  stay: "delivery_step d d"
| record_recv: "dl_recv_hash d = None \<Longrightarrow>
    delivery_step d (d\<lparr>dl_recv_hash := Some h, dl_recv_time := Some t\<rparr>)"
| record_write_ack: "dl_recv_hash d = Some h \<Longrightarrow> dl_wack_hash d = None \<Longrightarrow>
    delivery_step d (d\<lparr>dl_wack_hash := Some h, dl_wack_time := Some t, dl_wack_status := Some s\<rparr>)"
| record_ack: "dl_ack_hash d = None \<Longrightarrow> dl_timeout_hash d = None \<Longrightarrow>
    delivery_step d (d\<lparr>dl_ack_hash := Some h, dl_ack_time := Some t\<rparr>)"
| record_timeout: "dl_ack_hash d = None \<Longrightarrow> dl_timeout_hash d = None \<Longrightarrow>
    delivery_step d (d\<lparr>dl_timeout_hash := Some h, dl_timeout_time := Some t\<rparr>)"
| clear_recv: "dl_wack_hash d = None \<Longrightarrow>
    delivery_step d (d\<lparr>dl_recv_hash := None, dl_recv_time := None\<rparr>)"
| clear_ack: "delivery_step d (d\<lparr>dl_ack_hash := None, dl_ack_time := None\<rparr>)"
| clear_timeout: "delivery_step d (d\<lparr>dl_timeout_hash := None, dl_timeout_time := None\<rparr>)"

text \<open>
  A hash comes with its time; the write acknowledgement is in the recorded receive
  transaction and has a status; a packet is acknowledged or timed out, never both.
\<close>

definition paired :: "'a option \<Rightarrow> 'b option \<Rightarrow> bool" where
  "paired a b \<longleftrightarrow> (a = None \<longleftrightarrow> b = None)"

lemma paired_simps [simp]:
  "paired None None" "paired (Some x) (Some y)" "\<not> paired None (Some y)" "\<not> paired (Some x) None"
  by (simp_all add: paired_def)

definition delivery_inv :: "delivery \<Rightarrow> bool" where
  "delivery_inv d \<longleftrightarrow>
     paired (dl_recv_hash d) (dl_recv_time d) \<and>
     paired (dl_wack_hash d) (dl_wack_time d) \<and>
     paired (dl_wack_hash d) (dl_wack_status d) \<and>
     paired (dl_ack_hash d) (dl_ack_time d) \<and>
     paired (dl_timeout_hash d) (dl_timeout_time d) \<and>
     (dl_wack_hash d = None \<or> dl_wack_hash d = dl_recv_hash d) \<and>
     (dl_ack_hash d = None \<or> dl_timeout_hash d = None)"

lemma delivery_step_inv: "delivery_step d d' \<Longrightarrow> delivery_inv d \<Longrightarrow> delivery_inv d'"
  by (induction rule: delivery_step.induct) (auto simp: delivery_inv_def)

abbreviation row_delivery :: "ibcv2_transfer_row \<Rightarrow> delivery" where
  "row_delivery r \<equiv> delivery_of (NewIBCV2Transfer r)"

abbreviation row_packet :: "ibcv2_transfer_row \<Rightarrow> packet" where
  "row_packet r \<equiv> packet_of (NewIBCV2Transfer r)"

lemmas delivery_simps = delivery_of_def packet_of_def NewIBCV2Transfer_def row_key_of_def

section \<open>What a processor may do\<close>

record processor =
  ShouldProcess :: "time \<Rightarrow> transfer \<Rightarrow> bool"
  ProcState :: Ibcv2RelayStatus
  Process :: "env \<Rightarrow> world \<Rightarrow> transfer \<Rightarrow> world \<times> transfer res"

text \<open>A change of a row that keeps its key, its status and its packet.\<close>

definition benign :: "(ibcv2_transfer_row \<Rightarrow> ibcv2_transfer_row) \<Rightarrow> bool" where
  "benign f \<longleftrightarrow>
     (\<forall>r. row_key_of (f r) = row_key_of r \<and> status (f r) = status r \<and> row_packet (f r) = row_packet r)"

lemma benign_keeps_key: "benign f \<Longrightarrow> keeps_key f"
  by (simp add: benign_def keeps_key_def)

lemma benign_id: "benign (\<lambda>r. r)"
  by (simp add: benign_def)

lemma update_where_id [simp]: "update_where k (\<lambda>r. r) d = d"
  by (simp add: update_where_def)

text \<open>
  The effect of running a processor on a transfer: one change of the transfer's row, and the
  returned transfer is again what the row holds.
\<close>

definition effect ::
  "bool \<Rightarrow> transfer \<Rightarrow> world \<Rightarrow> world \<Rightarrow> transfer res \<Rightarrow> bool" where
  "effect guard t w w' r \<longleftrightarrow>
     (\<exists>f. benign f \<and> db w' = update_where (transfer_row_key t) f (db w) \<and>
        (guard \<longrightarrow> (\<forall>row. row_delivery row = delivery_of t \<longrightarrow>
            delivery_step (delivery_of t) (row_delivery (f row)) \<and>
            (\<forall>t'. r = Inr t' \<longrightarrow> delivery_of t' = row_delivery (f row)))))"

lemma effect_none:
  assumes "db w' = db w" "\<And>t'. r = Inr t' \<Longrightarrow> delivery_of t' = delivery_of t"
  shows "effect g t w w' r"
  unfolding effect_def
  by (rule exI [of _ "\<lambda>r. r"]) (simp add: assms benign_id delivery_step.stay)

lemma with_db_exec_cases:
  assumes "with_db (exec_update x q k f) w = (w1, oe)"
  obtains (applied) "w1 = w\<lparr>db := update_where k f (db w)\<rparr>"
  | (failed) e where "w1 = w" "oe = Some e"
proof -
  obtain d where d: "exec_update x q k f (db w) = (d, oe)" "w1 = w\<lparr>db := d\<rparr>"
    using assms by (cases "exec_update x q k f (db w)") (simp add: with_db_def)
  show ?thesis
  proof (cases "d = update_where k f (db w)")
    case True
    with d show ?thesis by (intro applied) simp
  next
    case False
    with d(1) have "d = db w \<and> oe \<noteq> None"
      by (auto simp: exec_update_def split: option.splits if_splits)
    with d(2) show ?thesis by (cases oe) (auto intro: failed)
  qed
qed

lemma effect_exec:
  assumes "with_db (exec_update x q (transfer_row_key t) f) w = (w1, oe)" "db w' = db w1"
    and "benign f"
    and "\<And>row. g \<Longrightarrow> row_delivery row = delivery_of t \<Longrightarrow>
           delivery_step (delivery_of t) (row_delivery (f row)) \<and>
           (\<forall>t'. r = Inr t' \<longrightarrow> delivery_of t' = row_delivery (f row))"
    and "\<And>e t'. oe = Some e \<Longrightarrow> r = Inr t' \<Longrightarrow> False"
  shows "effect g t w w' r"
  using assms(1)
proof (rule with_db_exec_cases)
  assume w1: "w1 = w\<lparr>db := update_where (transfer_row_key t) f (db w)\<rparr>"
  have "db w' = update_where (transfer_row_key t) f (db w)" using w1 assms(2) by simp
  then show ?thesis
    unfolding effect_def using assms(3,4) by blast
next
  fix e
  assume "w1 = w" "oe = Some e"
  then have "db w' = db w" "\<And>t'. r \<noteq> Inr t'" using assms(2,5) by blast+
  then show ?thesis by (intro effect_none) blast+
qed

lemma effect_same:
  "(\<And>t'. r = Inr t' \<Longrightarrow> delivery_of t' = delivery_of t) \<Longrightarrow> effect g t w w r"
  by (rule effect_none) simp_all

lemma effect_from: "effect g t w0 w' r \<Longrightarrow> db w0 = db w \<Longrightarrow> effect g t w w' r"
  by (simp add: effect_def)

text \<open>A statement with an empty source chain in its key changes nothing.\<close>

lemma exec_empty_chain:
  assumes "with_db (exec_update x q ([], c, n) f) w = (w1, oe)" "db_wf (db w)"
  shows "w1 = w"
  using assms(1)
  by (rule with_db_exec_cases)
    (simp_all add: rows.upd_absent [OF assms(2)] find_row_empty_chain [OF assms(2)])

text \<open>
  A statement whose change of the row is, on the delivery, the function \<open>h\<close>. The table of
  the statements follows.
\<close>

definition changes ::
  "(ibcv2_transfer_row \<Rightarrow> ibcv2_transfer_row) \<Rightarrow> (delivery \<Rightarrow> delivery) \<Rightarrow> bool" where
  "changes f h \<longleftrightarrow> benign f \<and> (\<forall>row. row_delivery (f row) = h (row_delivery row))"

lemma effect_changes:
  assumes "with_db (exec_update x q (transfer_row_key t) f) w = (w1, oe)" "db w' = db w1"
    and "changes f h" "g \<Longrightarrow> delivery_step (delivery_of t) (h (delivery_of t))"
    and "\<And>t'. r = Inr t' \<Longrightarrow> oe = None \<and> delivery_of t' = h (delivery_of t)"
  shows "effect g t w w' r"
  using assms(1,2)
proof (rule effect_exec)
  show "benign f" using assms(3) by (simp add: changes_def)
  show "delivery_step (delivery_of t) (row_delivery (f row)) \<and>
      (\<forall>t'. r = Inr t' \<longrightarrow> delivery_of t' = row_delivery (f row))"
    if "g" "row_delivery row = delivery_of t" for row
    using that assms(3-5) by (simp add: changes_def)
  show False if "oe = Some e" "r = Inr t'" for e t'
    using that assms(5) by simp
qed

lemma delivery_of_sel [simp]:
  "dl_recv_hash (delivery_of t) = RecvTxHash t" "dl_wack_hash (delivery_of t) = WriteAckTxHash t"
  "dl_ack_hash (delivery_of t) = AckTxHash t" "dl_timeout_hash (delivery_of t) = TimeoutTxHash t"
  "dl_wack_status (delivery_of t) = WriteAckStatus t" "dl_recv_time (delivery_of t) = RecvTxTime t"
  "dl_wack_time (delivery_of t) = WriteAckTxTime t" "dl_ack_time (delivery_of t) = AckTxTime t"
  "dl_timeout_time (delivery_of t) = TimeoutTxTime t"
  by (simp_all add: delivery_of_def)

lemma effect_recv:
  assumes "with_db (UpdateTransferRecvTx x (Some h) (Some u) a (transfer_row_key t)) w = (w1, oe)" "db w' = db w1"
    and "g \<Longrightarrow> RecvTxHash t = None"
    and "\<And>t'. r = Inr t' \<Longrightarrow> oe = None \<and>
          delivery_of t' = (delivery_of t)\<lparr>dl_recv_hash := Some h, dl_recv_time := Some u\<rparr>"
  shows "effect g t w w' r"
  using assms(1,2) unfolding UpdateTransferRecvTx_def
proof (rule effect_changes [where h = "\<lambda>d. d\<lparr>dl_recv_hash := Some h, dl_recv_time := Some u\<rparr>"])
  show "g \<Longrightarrow> delivery_step (delivery_of t) ((\<lambda>d. d\<lparr>dl_recv_hash := Some h, dl_recv_time := Some u\<rparr>) (delivery_of t))"
    using assms by (simp add: delivery_step.record_recv)
qed (simp add: changes_def benign_def delivery_simps, simp add: assms)

lemma effect_ack:
  assumes "with_db (UpdateTransferAckTx x (Some h) (Some u) a (transfer_row_key t)) w = (w1, oe)" "db w' = db w1"
    and "g \<Longrightarrow> AckTxHash t = None \<and> TimeoutTxHash t = None"
    and "\<And>t'. r = Inr t' \<Longrightarrow> oe = None \<and>
          delivery_of t' = (delivery_of t)\<lparr>dl_ack_hash := Some h, dl_ack_time := Some u\<rparr>"
  shows "effect g t w w' r"
  using assms(1,2) unfolding UpdateTransferAckTx_def
proof (rule effect_changes [where h = "\<lambda>d. d\<lparr>dl_ack_hash := Some h, dl_ack_time := Some u\<rparr>"])
  show "g \<Longrightarrow> delivery_step (delivery_of t) ((\<lambda>d. d\<lparr>dl_ack_hash := Some h, dl_ack_time := Some u\<rparr>) (delivery_of t))"
    using assms by (simp add: delivery_step.record_ack)
qed (simp add: changes_def benign_def delivery_simps, simp add: assms)

lemma effect_timeout:
  assumes "with_db (UpdateTransferTimeoutTx x (Some h) (Some u) a (transfer_row_key t)) w = (w1, oe)" "db w' = db w1"
    and "g \<Longrightarrow> AckTxHash t = None \<and> TimeoutTxHash t = None"
    and "\<And>t'. r = Inr t' \<Longrightarrow> oe = None \<and>
          delivery_of t' = (delivery_of t)\<lparr>dl_timeout_hash := Some h, dl_timeout_time := Some u\<rparr>"
  shows "effect g t w w' r"
  using assms(1,2) unfolding UpdateTransferTimeoutTx_def
proof (rule effect_changes [where h = "\<lambda>d. d\<lparr>dl_timeout_hash := Some h, dl_timeout_time := Some u\<rparr>"])
  show "g \<Longrightarrow> delivery_step (delivery_of t) ((\<lambda>d. d\<lparr>dl_timeout_hash := Some h, dl_timeout_time := Some u\<rparr>) (delivery_of t))"
    using assms by (simp add: delivery_step.record_timeout)
qed (simp add: changes_def benign_def delivery_simps, simp add: assms)

lemma effect_write_ack:
  assumes "with_db (UpdateTransferWriteAckTx x (Some h) (Some u) (Some s) (transfer_row_key t)) w = (w1, oe)" "db w' = db w1"
    and "g \<Longrightarrow> RecvTxHash t = Some h \<and> WriteAckTxHash t = None"
    and "\<And>t'. r = Inr t' \<Longrightarrow> oe = None \<and>
          delivery_of t' = (delivery_of t)\<lparr>dl_wack_hash := Some h, dl_wack_time := Some u,
            dl_wack_status := Some s\<rparr>"
  shows "effect g t w w' r"
  using assms(1,2) unfolding UpdateTransferWriteAckTx_def
proof (rule effect_changes [where h = "\<lambda>d. d\<lparr>dl_wack_hash := Some h, dl_wack_time := Some u,
            dl_wack_status := Some s\<rparr>"])
  show "g \<Longrightarrow> delivery_step (delivery_of t) ((\<lambda>d. d\<lparr>dl_wack_hash := Some h, dl_wack_time := Some u,
            dl_wack_status := Some s\<rparr>) (delivery_of t))"
    using assms by (simp add: delivery_step.record_write_ack)
qed (simp add: changes_def benign_def delivery_simps, simp add: assms)

lemma effect_clear_recv:
  assumes "with_db (ClearRecvTx x (transfer_row_key t)) w = (w1, oe)" "db w' = db w1"
    and "g \<Longrightarrow> WriteAckTxHash t = None"
    and "\<And>t'. r = Inr t' \<Longrightarrow> oe = None \<and>
          delivery_of t' = (delivery_of t)\<lparr>dl_recv_hash := None, dl_recv_time := None\<rparr>"
  shows "effect g t w w' r"
  using assms(1,2) unfolding ClearRecvTx_def
proof (rule effect_changes [where h = "\<lambda>d. d\<lparr>dl_recv_hash := None, dl_recv_time := None\<rparr>"])
  show "g \<Longrightarrow> delivery_step (delivery_of t) ((\<lambda>d. d\<lparr>dl_recv_hash := None, dl_recv_time := None\<rparr>) (delivery_of t))"
    using assms by (simp add: delivery_step.clear_recv)
qed (simp add: changes_def benign_def delivery_simps, simp add: assms)

lemma effect_clear_ack:
  assumes "with_db (ClearAckTx x (transfer_row_key t)) w = (w1, oe)" "db w' = db w1"
    and "\<And>t'. r = Inr t' \<Longrightarrow> oe = None \<and>
          delivery_of t' = (delivery_of t)\<lparr>dl_ack_hash := None, dl_ack_time := None\<rparr>"
  shows "effect g t w w' r"
  using assms(1,2) unfolding ClearAckTx_def
proof (rule effect_changes [where h = "\<lambda>d. d\<lparr>dl_ack_hash := None, dl_ack_time := None\<rparr>"])
  show "g \<Longrightarrow> delivery_step (delivery_of t) ((\<lambda>d. d\<lparr>dl_ack_hash := None, dl_ack_time := None\<rparr>) (delivery_of t))"
    using assms by (simp add: delivery_step.clear_ack)
qed (simp add: changes_def benign_def delivery_simps, simp add: assms)

lemma effect_clear_timeout:
  assumes "with_db (ClearTimeoutTx x (transfer_row_key t)) w = (w1, oe)" "db w' = db w1"
    and "\<And>t'. r = Inr t' \<Longrightarrow> oe = None \<and>
          delivery_of t' = (delivery_of t)\<lparr>dl_timeout_hash := None, dl_timeout_time := None\<rparr>"
  shows "effect g t w w' r"
  using assms(1,2) unfolding ClearTimeoutTx_def
proof (rule effect_changes [where h = "\<lambda>d. d\<lparr>dl_timeout_hash := None, dl_timeout_time := None\<rparr>"])
  show "g \<Longrightarrow> delivery_step (delivery_of t) ((\<lambda>d. d\<lparr>dl_timeout_hash := None, dl_timeout_time := None\<rparr>) (delivery_of t))"
    using assms by (simp add: delivery_step.clear_timeout)
qed (simp add: changes_def benign_def delivery_simps, simp add: assms)

lemma effect_source_final:
  assumes "with_db (UpdateTransferSourceTxFinalizedTime x u (transfer_row_key t)) w = (w1, oe)" "db w' = db w1"
    and "\<And>t'. r = Inr t' \<Longrightarrow> oe = None \<and>
          delivery_of t' = delivery_of t"
  shows "effect g t w w' r"
  using assms(1,2) unfolding UpdateTransferSourceTxFinalizedTime_def
proof (rule effect_changes [where h = "\<lambda>d. d"])
  show "g \<Longrightarrow> delivery_step (delivery_of t) ((\<lambda>d. d) (delivery_of t))"
    using assms by (simp add: delivery_step.stay)
qed (simp add: changes_def benign_def delivery_simps, simp add: assms)

lemma effect_recv_gas:
  assumes "with_db (UpdateTransferRecvTxGasCostUSD x u (transfer_row_key t)) w = (w1, oe)" "db w' = db w1"
    and "\<And>t'. r = Inr t' \<Longrightarrow> oe = None \<and>
          delivery_of t' = delivery_of t"
  shows "effect g t w w' r"
  using assms(1,2) unfolding UpdateTransferRecvTxGasCostUSD_def
proof (rule effect_changes [where h = "\<lambda>d. d"])
  show "g \<Longrightarrow> delivery_step (delivery_of t) ((\<lambda>d. d) (delivery_of t))"
    using assms by (simp add: delivery_step.stay)
qed (simp add: changes_def benign_def delivery_simps, simp add: assms)

lemma effect_ack_gas:
  assumes "with_db (UpdateTransferAckTxGasCostUSD x u (transfer_row_key t)) w = (w1, oe)" "db w' = db w1"
    and "\<And>t'. r = Inr t' \<Longrightarrow> oe = None \<and>
          delivery_of t' = delivery_of t"
  shows "effect g t w w' r"
  using assms(1,2) unfolding UpdateTransferAckTxGasCostUSD_def
proof (rule effect_changes [where h = "\<lambda>d. d"])
  show "g \<Longrightarrow> delivery_step (delivery_of t) ((\<lambda>d. d) (delivery_of t))"
    using assms by (simp add: delivery_step.stay)
qed (simp add: changes_def benign_def delivery_simps, simp add: assms)

lemma effect_timeout_gas:
  assumes "with_db (UpdateTransferTimeoutTxGasCostUSD x u (transfer_row_key t)) w = (w1, oe)" "db w' = db w1"
    and "\<And>t'. r = Inr t' \<Longrightarrow> oe = None \<and>
          delivery_of t' = delivery_of t"
  shows "effect g t w w' r"
  using assms(1,2) unfolding UpdateTransferTimeoutTxGasCostUSD_def
proof (rule effect_changes [where h = "\<lambda>d. d"])
  show "g \<Longrightarrow> delivery_step (delivery_of t) ((\<lambda>d. d) (delivery_of t))"
    using assms by (simp add: delivery_step.stay)
qed (simp add: changes_def benign_def delivery_simps, simp add: assms)

section \<open>The middleware\<close>

text \<open>
  \<open>IBCV2ProcessorMW.Process\<close>. The nil check comes after the method call on the pointer, so
  a nil input panics. The result is the output transfer and the error.
\<close>

definition MW_Process ::
  "processor \<Rightarrow> env \<Rightarrow> world \<Rightarrow> transfer option \<Rightarrow>
   (world \<times> transfer option \<times> go_error option) outcome" where
  "MW_Process p en w input =
     (case input of
        None \<Rightarrow> Panic
      | Some t \<Rightarrow>
          if has_error t then Ret (w, Some t, None)
          else if State t = FAILED then Ret (w, Some t, None)
          else if \<not> ShouldProcess p (env_guard_now en) t then Ret (w, Some t, None)
          else
            (case with_db (UpdateTransferState (env_db en) (ProcState p) (transfer_row_key t)) w of
               (w1, Some e) \<Rightarrow>
                 Ret (w1, Some (t\<lparr>ProcessingError :=
                        Some (Errorf ''updating transfer state to %s from state %s: %w'' [e])\<rparr>), None)
             | (w1, None) \<Rightarrow>
                 (let t1 = t\<lparr>State := ProcState p\<rparr>
                  in case Process p en w1 t1 of
                       (w2, Inl e) \<Rightarrow>
                         if errors_Is e ContextCanceled then Ret (w2, None, Some e)
                         else Ret (w2, Some (t1\<lparr>ProcessingError := Some e\<rparr>), None)
                     | (w2, Inr t2) \<Rightarrow> Ret (w2, Some t2, None))))"

text \<open>The change a statement makes to the status keeps the delivery and the packet.\<close>

lemma keeps_key_status: "keeps_key (\<lambda>r. r\<lparr>updated_at := n, status := s\<rparr>)"
  by (simp add: keeps_key_def row_key_of_def)

lemma row_status_simps [simp]:
  "row_delivery (r\<lparr>updated_at := n, status := s\<rparr>) = row_delivery r"
  "row_packet (r\<lparr>updated_at := n, status := s\<rparr>) = row_packet r"
  by (simp_all add: delivery_simps)

lemma transfer_state_simps [simp]:
  "delivery_of (t\<lparr>State := s\<rparr>) = delivery_of t" "packet_of (t\<lparr>State := s\<rparr>) = packet_of t"
  "transfer_row_key (t\<lparr>State := s\<rparr>) = transfer_row_key t"
  "delivery_of (t\<lparr>ProcessingError := x\<rparr>) = delivery_of t"
  "packet_of (t\<lparr>ProcessingError := x\<rparr>) = packet_of t"
  "transfer_row_key (t\<lparr>ProcessingError := x\<rparr>) = transfer_row_key t"
  by (simp_all add: delivery_of_def packet_of_def transfer_row_key_def)

lemma synced_state [simp]:
  "synced d (t\<lparr>State := s\<rparr>) = synced d t" "synced d (t\<lparr>ProcessingError := x\<rparr>) = synced d t"
  by (simp_all add: synced_def)

text \<open>
  What one stage run may do to the database, seen from one transfer: rows of other transfers
  stay, the transfer's row makes a step of the abstract machine, and its status stays or
  becomes \<open>s\<close>.
\<close>

definition row_step :: "Ibcv2RelayStatus \<Rightarrow> row_key \<Rightarrow> database \<Rightarrow> database \<Rightarrow> bool" where
  "row_step s k d d' \<longleftrightarrow>
     db_wf d' \<and>
     (\<forall>k'. k' \<noteq> k \<longrightarrow> find_row d' k' = find_row d k') \<and>
     (\<forall>r. find_row d k = Some r \<longrightarrow>
        (\<exists>r'. find_row d' k = Some r' \<and> row_packet r' = row_packet r \<and>
           delivery_step (row_delivery r) (row_delivery r') \<and>
           (status r' = status r \<or> status r' = s)))"

lemma row_step_refl: "db_wf d \<Longrightarrow> row_step s k d d"
  by (auto simp: row_step_def intro: delivery_step.stay)

lemma row_step_status:
  assumes "with_db (UpdateTransferState x s k) w = (w1, oe)" "db_wf (db w)"
  shows "row_step s k (db w) (db w1)"
  using assms(1) unfolding UpdateTransferState_def
proof (rule with_db_exec_cases)
  assume "w1 = w\<lparr>db := update_where k (\<lambda>r. r\<lparr>updated_at := tx_now x, status := s\<rparr>) (db w)\<rparr>"
  then show ?thesis using assms(2)
    by (simp add: row_step_def store_simps keeps_key_status delivery_step.stay)
qed (simp add: row_step_refl assms(2))

lemma with_db_ok:
  "with_db (exec_update x q k f) w = (w1, None) \<Longrightarrow> w1 = w\<lparr>db := update_where k f (db w)\<rparr>"
  by (auto elim: with_db_exec_cases)

text \<open>After the status is written the row differs in nothing the delivery depends on.\<close>

lemma status_written:
  assumes "with_db (UpdateTransferState x s k) w = (w1, None)"
  shows "find_row (db w1) k = map_option (\<lambda>r. r\<lparr>updated_at := tx_now x, status := s\<rparr>) (find_row (db w) k)"
  using with_db_ok [OF assms [unfolded UpdateTransferState_def]]
  by (simp add: store_simps keeps_key_status)

lemma row_step_after_status:
  assumes "with_db (UpdateTransferState x s k) w = (w1, None)" "db_wf (db w)"
    and "row_step s k (db w1) d2"
  shows "row_step s k (db w) d2"
proof -
  have fst_step: "row_step s k (db w) (db w1)" using assms(1,2) by (rule row_step_status)
  show ?thesis unfolding row_step_def
  proof (intro conjI allI impI)
    show "db_wf d2" using assms(3) by (simp add: row_step_def)
    show "find_row d2 k' = find_row (db w) k'" if "k' \<noteq> k" for k'
      using that fst_step assms(3) unfolding row_step_def by metis
    fix r
    assume "find_row (db w) k = Some r"
    then show "\<exists>r'. find_row d2 k = Some r' \<and> row_packet r' = row_packet r \<and>
        delivery_step (row_delivery r) (row_delivery r') \<and> (status r' = status r \<or> status r' = s)"
      using assms(3) status_written [OF assms(1)] by (auto simp: row_step_def)
  qed
qed

lemma synced_after_status:
  "with_db (UpdateTransferState x s (transfer_row_key t)) w = (w1, None) \<Longrightarrow> synced (db w) t \<Longrightarrow>
   synced (db w1) t"
  using status_written [of x s "transfer_row_key t" w w1] by (auto simp: synced_def)

text \<open>A processing error, when there is one, has a message: the pipeline tests the message.\<close>

definition error_ok :: "transfer \<Rightarrow> bool" where
  "error_ok t \<longleftrightarrow> ProcessingError t = None \<or> has_error t"

lemma has_error_simps [simp]:
  "has_error (t\<lparr>State := s\<rparr>) = has_error t"
  "has_error (t\<lparr>ProcessingError := Some e\<rparr>) = (\<not> empty_message e)"
  by (simp_all add: has_error_def)

lemma error_ok_simps [simp]:
  "error_ok (t\<lparr>State := s\<rparr>) = error_ok t"
  "error_ok (t\<lparr>ProcessingError := Some e\<rparr>) = (\<not> empty_message e)"
  by (simp_all add: error_ok_def)

lemma has_error_None: "ProcessingError t = None \<Longrightarrow> \<not> has_error t"
  by (simp add: has_error_def)

lemma has_error_cong: "ProcessingError t = ProcessingError t' \<Longrightarrow> has_error t = has_error t'"
  by (simp add: has_error_def)

text \<open>An effect on a synced transfer is a step of its row and keeps the two in step.\<close>

lemma effect_row_step:
  assumes "effect True t w w' r" "db_wf (db w)" "synced (db w) t"
  shows "row_step s (transfer_row_key t) (db w) (db w')"
    and "\<And>t'. r = Inr t' \<Longrightarrow> packet_of t' = packet_of t \<Longrightarrow> synced (db w') t'"
proof -
  obtain f row where f: "benign f" "db w' = update_where (transfer_row_key t) f (db w)"
      and row: "find_row (db w) (transfer_row_key t) = Some row" "row_packet row = packet_of t"
        "row_delivery row = delivery_of t"
      and step: "delivery_step (delivery_of t) (row_delivery (f row))"
        "\<And>t'. r = Inr t' \<Longrightarrow> delivery_of t' = row_delivery (f row)"
    using assms(1,3) unfolding effect_def synced_def by blast
  have k: "keeps_key f" using f(1) by (rule benign_keeps_key)
  have find': "find_row (db w') (transfer_row_key t) = Some (f row)"
    using row(1) by (simp add: f(2) rows.find_upd [OF k])
  show "row_step s (transfer_row_key t) (db w) (db w')"
    using f(1) row step(1) assms(2) find'
    by (simp add: row_step_def f(2) rows.find_upd [OF k] rows.wf_upd [OF k] benign_def)
  show "synced (db w') t'" if "r = Inr t'" "packet_of t' = packet_of t" for t'
    using that step(2) find' row(2) f(1) transfer_row_key_packet [OF that(2)]
    by (simp add: synced_def benign_def)
qed

section \<open>The contract\<close>

locale processor_contract =
  fixes p :: processor
  assumes unfinished: "unfinished_status (ProcState p)"
    and effect_law: "db_wf (db w) \<Longrightarrow> Process p en w t = (w', r) \<Longrightarrow>
          effect (ShouldProcess p now t) t w w' r"
    and keeps: "Process p en w t = (w', Inr t') \<Longrightarrow>
          packet_of t' = packet_of t \<and> State t' = State t \<and> ProcessingError t' = ProcessingError t"
    and message: "Process p en w t = (w', Inl e) \<Longrightarrow> \<not> empty_message e"
    and guard_state: "ShouldProcess p now (t\<lparr>State := s\<rparr>) = ShouldProcess p now t"
begin

lemma total: "\<exists>w' ot oe. MW_Process p en w (Some t) = Ret (w', ot, oe)"
  by (auto simp: MW_Process_def Let_def split: prod.splits option.splits sum.splits)

lemma passes:
  "has_error t \<or> State t = FAILED \<or> \<not> ShouldProcess p (env_guard_now en) t \<Longrightarrow>
   MW_Process p en w (Some t) = Ret (w, Some t, None)"
  by (auto simp: MW_Process_def)

text \<open>What a run of the wrapped processor does, branch by branch.\<close>

lemma run_cases:
  assumes "MW_Process p en w (Some t) = Ret (w', ot, oe)"
  obtains (pass) "has_error t \<or> State t = FAILED \<or> \<not> ShouldProcess p (env_guard_now en) t"
      "w' = w" "ot = Some t" "oe = None"
  | (state_failed) e where "\<not> has_error t" "State t \<noteq> FAILED" "ShouldProcess p (env_guard_now en) t"
      "with_db (UpdateTransferState (env_db en) (ProcState p) (transfer_row_key t)) w = (w', Some e)"
      "ot = Some (t\<lparr>ProcessingError :=
          Some (Errorf ''updating transfer state to %s from state %s: %w'' [e])\<rparr>)" "oe = None"
  | (ran) w1 r where "\<not> has_error t" "State t \<noteq> FAILED" "ShouldProcess p (env_guard_now en) t"
      "with_db (UpdateTransferState (env_db en) (ProcState p) (transfer_row_key t)) w = (w1, None)"
      "Process p en w1 (t\<lparr>State := ProcState p\<rparr>) = (w', r)"
      "case r of
         Inl e \<Rightarrow> (if errors_Is e ContextCanceled then ot = None \<and> oe = Some e
                   else ot = Some (t\<lparr>State := ProcState p, ProcessingError := Some e\<rparr>) \<and> oe = None)
       | Inr t2 \<Rightarrow> ot = Some t2 \<and> oe = None"
  using assms unfolding MW_Process_def Let_def
  by (simp split: if_splits prod.splits option.splits sum.splits)

text \<open>
  The middleware's guarantee: a run is a step of the transfer's row, the packet stays, and
  what comes out is errored or agrees with the database.
\<close>

lemma run_row_step:
  assumes run: "MW_Process p en w (Some t) = Ret (w', ot, oe)" and wf: "db_wf (db w)"
    and ok: "has_error t \<or> synced (db w) t"
  shows "row_step (ProcState p) (transfer_row_key t) (db w) (db w')"
  using run
proof (cases rule: run_cases)
  case pass
  then show ?thesis using wf by (simp add: row_step_refl)
next
  case (state_failed e)
  then show ?thesis using row_step_status wf by blast
next
  case (ran w1 r)
  let ?t1 = "t\<lparr>State := ProcState p\<rparr>"
  have "db_wf (db w1)" using row_step_status [OF ran(4) wf] by (simp add: row_step_def)
  moreover have "synced (db w1) ?t1" using ok ran(1) synced_after_status [OF ran(4)] by simp
  moreover from calculation have "effect True ?t1 w1 w' r"
    using effect_law [OF _ ran(5), of "env_guard_now en"] ran(3) by (simp add: guard_state)
  ultimately have "row_step (ProcState p) (transfer_row_key t) (db w1) (db w')"
    using effect_row_step(1) [of ?t1] by simp
  then show ?thesis using row_step_after_status ran(4) wf by blast
qed

lemma run_output:
  assumes run: "MW_Process p en w (Some t) = Ret (w', Some t', oe)" and wf: "db_wf (db w)"
    and ok: "has_error t \<or> synced (db w) t" and eok: "error_ok t"
  shows "packet_of t' = packet_of t" "error_ok t'" "has_error t' \<or> synced (db w') t'"
proof -
  have "packet_of t' = packet_of t \<and> error_ok t' \<and> (has_error t' \<or> synced (db w') t')"
    using run
  proof (cases rule: run_cases)
    case pass
    then show ?thesis using ok eok by simp
  next
    case (state_failed e)
    then show ?thesis by simp
  next
    case (ran w1 r)
    let ?t1 = "t\<lparr>State := ProcState p\<rparr>"
    show ?thesis
    proof (cases r)
      case (Inl e)
      then have "t' = ?t1\<lparr>ProcessingError := Some e\<rparr>" using ran(6) by (simp split: if_splits)
      then show ?thesis using message [OF ran(5) [unfolded Inl]] by simp
    next
      case (Inr t2)
      then have "t2 = t'" using ran(6) by simp
      then have t2: "t2 = t'" "packet_of t' = packet_of ?t1" "error_ok t'"
        using keeps [OF ran(5) [unfolded Inr]] eok by (simp_all add: error_ok_def has_error_def)
      have "db_wf (db w1)" using row_step_status [OF ran(4) wf] by (simp add: row_step_def)
      moreover have "synced (db w1) ?t1" using ok ran(1) synced_after_status [OF ran(4)] by simp
      moreover from calculation have "effect True ?t1 w1 w' r"
        using effect_law [OF _ ran(5), of "env_guard_now en"] ran(3) by (simp add: guard_state)
      ultimately have "synced (db w') t'" using effect_row_step(2) [of ?t1] Inr t2 by simp
      then show ?thesis using t2 by simp
    qed
  qed
  then show "packet_of t' = packet_of t" "error_ok t'" "has_error t' \<or> synced (db w') t'"
    by blast+
qed

text \<open>Only a cancelled context makes the middleware drop a transfer.\<close>

lemma run_dropped:
  "MW_Process p en w (Some t) = Ret (w', ot, oe) \<Longrightarrow> oe = Some e \<or> ot = None \<Longrightarrow>
   \<exists>e'. oe = Some e' \<and> ot = None \<and> errors_Is e' ContextCanceled"
  by (erule run_cases) (auto split: sum.splits if_splits)

text \<open>A transfer that comes out processed is at the state of the processor, in both places.\<close>

lemma run_state:
  assumes "MW_Process p en w (Some t) = Ret (w', Some t', oe)" "db_wf (db w)" "synced (db w) t"
    and "\<not> has_error t'" "State t \<noteq> FAILED" "ShouldProcess p (env_guard_now en) t"
  shows "State t' = ProcState p \<and>
         map_option status (find_row (db w') (transfer_row_key t)) = Some (ProcState p)"
  using assms(1)
proof (cases rule: run_cases)
  case pass
  then show ?thesis using assms(4-6) by auto
next
  case (state_failed e)
  then show ?thesis using assms(4) by simp
next
  case (ran w1 r)
  let ?t1 = "t\<lparr>State := ProcState p\<rparr>"
  obtain t2 where r: "r = Inr t2" "t' = t2"
    using ran(6) assms(4) message [of en w1 ?t1 w'] ran(5) by (cases r) (auto split: if_splits)
  obtain row where row: "find_row (db w) (transfer_row_key t) = Some row"
    using assms(3) by (auto simp: synced_def)
  have "db_wf (db w1)" using row_step_status [OF ran(4) assms(2)] by (simp add: row_step_def)
  then have "effect True ?t1 w1 w' r"
    using effect_law [OF _ ran(5), of "env_guard_now en"] ran(3) by (simp add: guard_state)
  then obtain f where "benign f" "db w' = update_where (transfer_row_key t) f (db w1)"
    by (auto simp: effect_def)
  then have "map_option status (find_row (db w') (transfer_row_key t)) = Some (ProcState p)"
    using status_written [OF ran(4)] row by (simp add: rows.find_upd benign_keeps_key benign_def)
  then show ?thesis using keeps [OF ran(5) [unfolded r(1)]] r(2) by simp
qed

end

end
