(* ===== verification/Relayer_Checks.thy ===== *)
theory Relayer_Checks
  imports Relayer_Processor
begin

text \<open>
  The processors that look at the chains: \<open>check_recv_packet_delivery.go\<close>,
  \<open>check_packet_commitment.go\<close>, \<open>check_send_finality.go\<close>,
  \<open>check_timeout_finality.go\<close>, \<open>wait_for_write_ack.go\<close> and
  \<open>check_write_ack_finality.go\<close> of \<open>relayer/ibcv2\<close>. Their \<open>Cancel\<close> methods only log.
\<close>

section \<open>Was the packet received already?\<close>

definition CheckRecvPacketDelivery_Process ::
  "env \<Rightarrow> world \<Rightarrow> transfer \<Rightarrow> world \<times> transfer res" where
  "CheckRecvPacketDelivery_Process en w t =
     (case GetClient (env_clients en) (DestinationChainID t) of
        Inl e \<Rightarrow> (w, Inl (Errorf ''getting bridge client for transfer destination chain %s: %w'' [e]))
      | Inr client \<Rightarrow>
     (case IsPacketReceived client (PacketDestinationClientID t)
             (uint64_of_uint32 (PacketSequenceNumber t)) of
        Inl e \<Rightarrow> (w, Inl (Errorf ''checking if packet with sequence number %d is already received on destination chain %s for client %s: %w'' [e]))
      | Inr False \<Rightarrow> (w, Inr t)
      | Inr True \<Rightarrow>
     (case FindRecvTx client (PacketSourceClientID t) (PacketDestinationClientID t)
             (uint64_of_uint32 (PacketSequenceNumber t)) (PacketTimeoutTimestamp t) of
        Inl e \<Rightarrow> (w, Inl (Errorf ''finding for recv tx hash for transfer from source client %s to dest client %s with sequence %d and timeout tx %s: %w'' [e]))
      | Inr recvTx \<Rightarrow>
     (case with_db (UpdateTransferRecvTx (env_db en) (Some (Hash recvTx)) (Some (Timestamp recvTx))
             (Some (RelayerAddress recvTx)) (transfer_row_key t)) w of
        (w1, Some e) \<Rightarrow> (w1, Inl (Errorf ''updating transfer recv tx with existing tx hash %s and timestamp %s: %w'' [e]))
      | (w1, None) \<Rightarrow>
          (w1, Inr (t\<lparr>RecvTxHash := Some (Hash recvTx), RecvTxTime := Some (Timestamp recvTx),
                      RecvTxRelayerAddress := Some (RelayerAddress recvTx)\<rparr>))))))"

definition CheckRecvPacketDelivery_ShouldProcess :: "time \<Rightarrow> transfer \<Rightarrow> bool" where
  "CheckRecvPacketDelivery_ShouldProcess now t \<longleftrightarrow>
     RecvTxHash t = None \<and> AckTxHash t = None \<and> TimeoutTxHash t = None"

definition CheckRecvPacketDeliveryProcessor :: processor where
  "CheckRecvPacketDeliveryProcessor =
     \<lparr>ShouldProcess = CheckRecvPacketDelivery_ShouldProcess,
      ProcState = CHECK_RECV_PACKET_DELIVERY,
      Process = CheckRecvPacketDelivery_Process\<rparr>"

section \<open>Was the packet acknowledged or timed out already?\<close>

text \<open>
  The two searches run concurrently and the first to find a transaction cancels the other; a
  search that fails counts as one that found nothing. \<open>findAck\<close> and \<open>findTimeout\<close> are
  the outcomes of the two goroutines.
\<close>

definition CheckPacketCommitment_Process ::
  "env \<Rightarrow> world \<Rightarrow> transfer \<Rightarrow> world \<times> transfer res" where
  "CheckPacketCommitment_Process en w t =
     (case GetClient (env_clients en) (SourceChainID t) of
        Inl e \<Rightarrow> (w, Inl (Errorf ''getting bridge client for transfer source chain %s: %w'' [e]))
      | Inr client \<Rightarrow>
     (case IsPacketCommitted client (PacketSourceClientID t)
             (uint64_of_uint32 (PacketSequenceNumber t)) of
        Inl e \<Rightarrow> (w, Inl (Errorf ''checking if packet with sequence number %d is already ack'd on source chain %s for client %s: %w'' [e]))
      | Inr True \<Rightarrow> (w, Inr t)
      | Inr False \<Rightarrow>
     (let ackTx = (case FindAckTx client (PacketSourceClientID t) (PacketDestinationClientID t)
                          (uint64_of_uint32 (PacketSequenceNumber t)) of
                     Inl e \<Rightarrow> None | Inr tx \<Rightarrow> Some tx);
          timeoutTx = (case FindTimeoutTx client (PacketSourceClientID t) (PacketDestinationClientID t)
                          (uint64_of_uint32 (PacketSequenceNumber t)) of
                     Inl e \<Rightarrow> None | Inr tx \<Rightarrow> Some tx)
      in case (ackTx, timeoutTx) of
           (Some a, Some b) \<Rightarrow> (w, Inl (Errorf ''found both timeout tx %s and ack tx %s packet, should not be possible'' []))
         | (Some a, None) \<Rightarrow>
             (case with_db (UpdateTransferAckTx (env_db en) (Some (Hash a)) (Some (Timestamp a))
                     (Some (RelayerAddress a)) (transfer_row_key t)) w of
                (w1, Some e) \<Rightarrow> (w1, Inl (Errorf ''updating transfer ack tx with existing tx hash %s and timestamp %s: %w'' [e]))
              | (w1, None) \<Rightarrow>
                  (w1, Inr (t\<lparr>AckTxHash := Some (Hash a), AckTxTime := Some (Timestamp a),
                              AckTxRelayerAddress := Some (RelayerAddress a)\<rparr>)))
         | (None, Some b) \<Rightarrow>
             (case with_db (UpdateTransferTimeoutTx (env_db en) (Some (Hash b)) (Some (Timestamp b))
                     (Some (RelayerAddress b)) (transfer_row_key t)) w of
                (w1, Some e) \<Rightarrow> (w1, Inl (Errorf ''updating transfer timeout tx with existing tx hash %s and timestamp %s: %w'' [e]))
              | (w1, None) \<Rightarrow>
                  (w1, Inr (t\<lparr>TimeoutTxHash := Some (Hash b), TimeoutTxTime := Some (Timestamp b),
                              TimeoutTxRelayerAddress := Some (RelayerAddress b)\<rparr>)))
         | (None, None) \<Rightarrow> (w, Inl (Errorf ''could not find timeout tx or ack tx after packet commitment not found on chain %s'' [])))))"

definition CheckPacketCommitment_ShouldProcess :: "time \<Rightarrow> transfer \<Rightarrow> bool" where
  "CheckPacketCommitment_ShouldProcess now t \<longleftrightarrow> AckTxHash t = None \<and> TimeoutTxHash t = None"

definition CheckPacketCommitmentProcessor :: processor where
  "CheckPacketCommitmentProcessor =
     \<lparr>ShouldProcess = CheckPacketCommitment_ShouldProcess,
      ProcState = CHECK_ACK_PACKET_DELIVERY,
      Process = CheckPacketCommitment_Process\<rparr>"

section \<open>Is the send transaction final?\<close>

definition CheckSendFinality_Process ::
  "uint64 option \<Rightarrow> env \<Rightarrow> world \<Rightarrow> transfer \<Rightarrow> world \<times> transfer res" where
  "CheckSendFinality_Process sourceFinalityOffset en w t =
     (case GetClient (env_clients en) (SourceChainID t) of
        Inl e \<Rightarrow> (w, Inl (Errorf ''getting source bridge client for chain %s: %w'' [e]))
      | Inr client \<Rightarrow>
     (case IsTxFinalized client (SourceTxHash t) sourceFinalityOffset of
        Inl e \<Rightarrow> (w, Inl (Errorf ''checking if tx %s is finalized on chain %s: %w'' [e]))
      | Inr False \<Rightarrow> (w, Inl (Sentinel ErrSendNotFinalized))
      | Inr True \<Rightarrow>
          if SourceTxFinalizedTime t = None then
            (case with_db (UpdateTransferSourceTxFinalizedTime (env_db en) (Some (env_now en))
                    (transfer_row_key t)) w of
               (w1, Some e) \<Rightarrow> (w1, Inl (Errorf ''updating source tx finalized time: %w'' [e]))
             | (w1, None) \<Rightarrow> (w1, Inr (t\<lparr>SourceTxFinalizedTime := Some (env_now en)\<rparr>)))
          else (w, Inr t)))"

definition CheckSendFinality_ShouldProcess :: "time \<Rightarrow> transfer \<Rightarrow> bool" where
  "CheckSendFinality_ShouldProcess now t \<longleftrightarrow> RecvTxHash t = None"

definition CheckSendFinalityProcessor :: "uint64 option \<Rightarrow> processor" where
  "CheckSendFinalityProcessor offset =
     \<lparr>ShouldProcess = CheckSendFinality_ShouldProcess,
      ProcState = AWAITING_SEND_FINALITY,
      Process = CheckSendFinality_Process offset\<rparr>"

section \<open>Is the timeout final on the destination?\<close>

definition CheckTimeoutFinality_Process ::
  "uint64 option \<Rightarrow> env \<Rightarrow> world \<Rightarrow> transfer \<Rightarrow> world \<times> transfer res" where
  "CheckTimeoutFinality_Process destinationFinalityOffset en w t =
     (case GetClient (env_clients en) (DestinationChainID t) of
        Inl e \<Rightarrow> (w, Inl (Errorf ''getting destination bridge client for chain %s: %w'' [e]))
      | Inr client \<Rightarrow>
     (case IsTimestampFinalized client (PacketTimeoutTimestamp t) destinationFinalityOffset of
        Inl e \<Rightarrow> (w, Inl (Errorf ''checking timeout finality on chain %s: %w'' [e]))
      | Inr False \<Rightarrow> (w, Inl (Sentinel ErrTimeoutNotFinalized))
      | Inr True \<Rightarrow> (w, Inr t)))"

definition CheckTimeoutFinality_ShouldProcess :: "time \<Rightarrow> transfer \<Rightarrow> bool" where
  "CheckTimeoutFinality_ShouldProcess now t \<longleftrightarrow>
     IsTimedOut now t \<and> RecvTxHash t = None \<and> AckTxHash t = None \<and> TimeoutTxHash t = None"

definition CheckTimeoutFinalityProcessor :: "uint64 option \<Rightarrow> processor" where
  "CheckTimeoutFinalityProcessor offset =
     \<lparr>ShouldProcess = CheckTimeoutFinality_ShouldProcess,
      ProcState = AWAITING_TIMEOUT_FINALITY,
      Process = CheckTimeoutFinality_Process offset\<rparr>"

section \<open>Find the write acknowledgement in the receive transaction\<close>

text \<open>The second half of \<open>Process\<close>, once the acknowledgement has a status.\<close>

definition WaitForWriteAck_record ::
  "env \<Rightarrow> world \<Rightarrow> transfer \<Rightarrow> string \<Rightarrow> Ibcv2WriteAckStatus \<Rightarrow> world \<times> transfer res" where
  "WaitForWriteAck_record en w t recvHash s =
     (let w0 = record_metrics (RecordRecvSendLatency (env_config en) t @ RecordRecvRelayed t) w;
          recvTxTime = (case RecvTxTime t of Some u \<Rightarrow> u | None \<Rightarrow> zero_time)
      in case with_db (UpdateTransferWriteAckTx (env_db en) (Some recvHash) (Some recvTxTime)
                (Some s) (transfer_row_key t)) w0 of
           (w1, Some e) \<Rightarrow> (w1, Inl (Errorf ''updating transfer with write ack tx hash %s, time %s, and status %s: %w'' [e]))
         | (w1, None) \<Rightarrow>
             (w1, Inr (t\<lparr>WriteAckTxHash := Some recvHash, WriteAckTxTime := Some recvTxTime,
                         WriteAckStatus := Some s\<rparr>)))"

definition WaitForWriteAck_Process ::
  "env \<Rightarrow> world \<Rightarrow> transfer \<Rightarrow> world \<times> transfer res" where
  "WaitForWriteAck_Process en w t =
     (case GetClient (env_clients en) (DestinationChainID t) of
        Inl e \<Rightarrow> (w, Inl (Errorf ''getting client for transfer destination chain %s: %w'' [e]))
      | Inr client \<Rightarrow>
     (case RecvTxHash t of
        None \<Rightarrow> (w, Inl (Errorf ''transfer does not have recv tx hash, violating ShouldProcess'' []))
      | Some recvHash \<Rightarrow>
     (case PacketWriteAckStatus client recvHash (uint64_of_uint32 (PacketSequenceNumber t))
             (PacketSourceClientID t) (PacketDestinationClientID t) of
        Inr s \<Rightarrow> WaitForWriteAck_record en w t recvHash s
      | Inl e \<Rightarrow>
          if errors_Is e ErrWriteAckNotFoundForPacket then
            (case with_db (ClearRecvTx (env_db en) (transfer_row_key t)) w of
               (w1, Some e') \<Rightarrow> (w1, Inl (Errorf ''clearing transfer recv tx hash %s: %w'' [e']))
             | (w1, None) \<Rightarrow> (w1, Inl (Errorf ''write ack for transfer not found in recv tx %s'' [])))
          else if \<not> errors_Is e ErrWriteAckDecoding then
            (w, Inl (Errorf ''finding write ack for packet with sequence number %d on chain %s in recv tx with hash %s: %w'' [e]))
          else WaitForWriteAck_record en w t recvHash UNKNOWN)))"

definition WaitForWriteAck_ShouldProcess :: "time \<Rightarrow> transfer \<Rightarrow> bool" where
  "WaitForWriteAck_ShouldProcess now t \<longleftrightarrow>
     RecvTxHash t \<noteq> None \<and> WriteAckTxHash t = None \<and> TimeoutTxHash t = None"

definition WaitForWriteAckPacket :: processor where
  "WaitForWriteAckPacket =
     \<lparr>ShouldProcess = WaitForWriteAck_ShouldProcess,
      ProcState = WAIT_FOR_WRITE_ACK,
      Process = WaitForWriteAck_Process\<rparr>"

section \<open>Is the write acknowledgement final?\<close>

text \<open>
  The parameters of \<open>UpdateTransferWriteAckTxFinalizedTime\<close> are built with the time alone:
  the columns of the \<open>WHERE\<close> clause are Go's zero values.
\<close>

definition CheckWriteAckFinality_Process ::
  "uint64 option \<Rightarrow> env \<Rightarrow> world \<Rightarrow> transfer \<Rightarrow> world \<times> transfer res" where
  "CheckWriteAckFinality_Process destinationFinalityOffset en w t =
     (case GetClient (env_clients en) (DestinationChainID t) of
        Inl e \<Rightarrow> (w, Inl (Errorf ''getting source bridge client for chain %s: %w'' [e]))
      | Inr client \<Rightarrow>
     (case WriteAckTxHash t of
        None \<Rightarrow> (w, Inl (Errorf ''write ack tx hash not finalized, violates should process'' []))
      | Some writeAckTxHash \<Rightarrow>
     (case IsTxFinalized client writeAckTxHash destinationFinalityOffset of
        Inl e \<Rightarrow> (w, Inl (Errorf ''checking if tx %s is finalized on chain %s: %w'' [e]))
      | Inr False \<Rightarrow> (w, Inl (Sentinel ErrWriteAckNotFinalized))
      | Inr True \<Rightarrow>
          if WriteAckTxFinalizedTime t = None then
            (case with_db (UpdateTransferWriteAckTxFinalizedTime (env_db en) (Some (env_now en))
                    ([], [], 0)) w of
               (w1, Some e) \<Rightarrow> (w1, Inl (Errorf ''updating write ack tx finalized time: %w'' [e]))
             | (w1, None) \<Rightarrow> (w1, Inr (t\<lparr>WriteAckTxFinalizedTime := Some (env_now en)\<rparr>)))
          else (w, Inr t))))"

definition CheckWriteAckFinality_ShouldProcess :: "bool \<Rightarrow> bool \<Rightarrow> time \<Rightarrow> transfer \<Rightarrow> bool" where
  "CheckWriteAckFinality_ShouldProcess shouldRelaySuccessAcks shouldRelayErrorAcks now t \<longleftrightarrow>
     (if WriteAckTxHash t = None then False
      else
        (case WriteAckStatus t of
           None \<Rightarrow> False
         | Some s \<Rightarrow>
             (let isErrorAck = (s = ERROR \<or> s = UNKNOWN);
                  isSuccessAck = (s = SUCCESS)
              in isErrorAck \<and> shouldRelayErrorAcks \<or> isSuccessAck \<and> shouldRelaySuccessAcks)))"

definition CheckWriteAckFinalityProcessor :: "uint64 option \<Rightarrow> bool \<Rightarrow> bool \<Rightarrow> processor" where
  "CheckWriteAckFinalityProcessor offset shouldRelaySuccessAcks shouldRelayErrorAcks =
     \<lparr>ShouldProcess = CheckWriteAckFinality_ShouldProcess shouldRelaySuccessAcks shouldRelayErrorAcks,
      ProcState = AWAITING_WRITE_ACK_FINALITY,
      Process = CheckWriteAckFinality_Process offset\<rparr>"

lemmas [guard_defs] =
  CheckRecvPacketDelivery_ShouldProcess_def CheckPacketCommitment_ShouldProcess_def
  CheckSendFinality_ShouldProcess_def CheckTimeoutFinality_ShouldProcess_def
  WaitForWriteAck_ShouldProcess_def CheckWriteAckFinality_ShouldProcess_def IsTimedOut_def

lemmas [process_defs] =
  CheckRecvPacketDelivery_Process_def CheckPacketCommitment_Process_def
  CheckSendFinality_Process_def CheckTimeoutFinality_Process_def
  WaitForWriteAck_record_def WaitForWriteAck_Process_def CheckWriteAckFinality_Process_def Let_def

lemmas outcome_splits = sum.splits option.splits bool.splits prod.splits if_splits

section \<open>The processors meet the contract\<close>

interpretation check_recv: processor_contract CheckRecvPacketDeliveryProcessor
proof
  fix w en t w' r now
  assume "db_wf (db w)" and run: "Process CheckRecvPacketDeliveryProcessor en w t = (w', r)"
  show "effect (ShouldProcess CheckRecvPacketDeliveryProcessor now t) t w w' r"
    unfolding CheckRecvPacketDeliveryProcessor_def processor.simps
    by (insert run [unfolded CheckRecvPacketDeliveryProcessor_def processor.simps CheckRecvPacketDelivery_Process_def],
        (auto split: outcome_splits intro: effect_same;
        erule effect_recv; auto simp: guard_defs delivery_of_def))
qed (auto simp: CheckRecvPacketDeliveryProcessor_def process_defs guard_defs unfinished_status_def
    packet_of_def split: outcome_splits)

interpretation check_commitment: processor_contract CheckPacketCommitmentProcessor
proof
  fix w en t w' r now
  assume "db_wf (db w)" and run: "Process CheckPacketCommitmentProcessor en w t = (w', r)"
  show "effect (ShouldProcess CheckPacketCommitmentProcessor now t) t w w' r"
    unfolding CheckPacketCommitmentProcessor_def processor.simps
    by (insert run [unfolded CheckPacketCommitmentProcessor_def processor.simps CheckPacketCommitment_Process_def Let_def],
        (auto split: outcome_splits intro: effect_same;
        (erule effect_ack | erule effect_timeout); auto simp: guard_defs delivery_of_def))
qed (auto simp: CheckPacketCommitmentProcessor_def process_defs guard_defs unfinished_status_def
    packet_of_def split: outcome_splits)

interpretation check_send: processor_contract "CheckSendFinalityProcessor offset" for offset
proof
  fix w en t w' r now
  assume "db_wf (db w)" and run: "Process (CheckSendFinalityProcessor offset) en w t = (w', r)"
  show "effect (ShouldProcess (CheckSendFinalityProcessor offset) now t) t w w' r"
    unfolding CheckSendFinalityProcessor_def processor.simps
    by (insert run [unfolded CheckSendFinalityProcessor_def processor.simps CheckSendFinality_Process_def],
        (auto split: outcome_splits intro: effect_same;
        erule effect_source_final; auto simp: delivery_of_def))
qed (auto simp: CheckSendFinalityProcessor_def process_defs guard_defs unfinished_status_def
    packet_of_def split: outcome_splits)

interpretation check_timeout: processor_contract "CheckTimeoutFinalityProcessor offset" for offset
proof
  fix w en t w' r now
  assume "db_wf (db w)" and run: "Process (CheckTimeoutFinalityProcessor offset) en w t = (w', r)"
  show "effect (ShouldProcess (CheckTimeoutFinalityProcessor offset) now t) t w w' r"
    unfolding CheckTimeoutFinalityProcessor_def processor.simps
    by (insert run [unfolded CheckTimeoutFinalityProcessor_def processor.simps CheckTimeoutFinality_Process_def],
        (auto split: outcome_splits intro: effect_same))
qed (auto simp: CheckTimeoutFinalityProcessor_def process_defs guard_defs unfinished_status_def
    packet_of_def split: outcome_splits)

lemma effect_write_ack_record:
  assumes "WaitForWriteAck_record en w t h s = (w', r)" "g \<Longrightarrow> RecvTxHash t = Some h \<and> WriteAckTxHash t = None"
  shows "effect g t w w' r"
  by (insert assms(1) [unfolded WaitForWriteAck_record_def Let_def],
      (auto split: prod.splits option.splits;
       (rule effect_from, erule effect_write_ack); auto simp: assms(2) delivery_of_def))

interpretation wait_write_ack: processor_contract WaitForWriteAckPacket
proof
  fix w en t w' r now
  assume "db_wf (db w)" and run: "Process WaitForWriteAckPacket en w t = (w', r)"
  show "effect (ShouldProcess WaitForWriteAckPacket now t) t w w' r"
    unfolding WaitForWriteAckPacket_def processor.simps
    by (insert run [unfolded WaitForWriteAckPacket_def processor.simps WaitForWriteAck_Process_def],
        (auto split: outcome_splits intro: effect_same;
         (erule effect_write_ack_record | erule effect_clear_recv); auto simp: guard_defs))
qed (auto simp: WaitForWriteAckPacket_def process_defs guard_defs unfinished_status_def
    packet_of_def split: outcome_splits)

interpretation check_write_ack: processor_contract
  "CheckWriteAckFinalityProcessor offset successAcks errorAcks" for offset successAcks errorAcks
proof
  fix w en t w' r now
  assume wf: "db_wf (db w)"
    and run: "Process (CheckWriteAckFinalityProcessor offset successAcks errorAcks) en w t = (w', r)"
  have noop: "w1 = w"
    if "with_db (UpdateTransferWriteAckTxFinalizedTime (env_db en) u ([], [], 0)) w = (w1, oe)" for u w1 oe
    using that wf exec_empty_chain unfolding UpdateTransferWriteAckTxFinalizedTime_def by blast
  show "effect (ShouldProcess (CheckWriteAckFinalityProcessor offset successAcks errorAcks) now t) t w w' r"
    using run unfolding CheckWriteAckFinalityProcessor_def processor.simps
      CheckWriteAckFinality_Process_def
    by (auto split: outcome_splits dest!: noop intro!: effect_same simp: delivery_of_def)
qed (auto simp: CheckWriteAckFinalityProcessor_def process_defs guard_defs unfinished_status_def
    packet_of_def split: outcome_splits)

end
