(* ===== verification/Relayer_Retries.thy ===== *)
theory Relayer_Retries
  imports Relayer_Checks
begin

text \<open>
  The processors that follow up a submitted transaction: retrying one that did not land
  (\<open>retry_recv_packet.go\<close>, \<open>retry_ack_packet.go\<close>, \<open>retry_timeout_packet.go\<close>) and
  pricing one that did (\<open>recv_tx_gas_calculator.go\<close>, \<open>ack_tx_gas_calculator.go\<close>,
  \<open>timeout_tx_gas_calculator.go\<close>). Their \<open>Cancel\<close> methods only log.
\<close>

section \<open>Retries\<close>

definition RetryRecvExpiry :: duration where
  "RetryRecvExpiry = 2 * minute"

definition RetryRecvPacket_Process ::
  "string \<Rightarrow> env \<Rightarrow> world \<Rightarrow> transfer \<Rightarrow> world \<times> transfer res" where
  "RetryRecvPacket_Process destinationChainID en w t =
     (case GetClient (env_clients en) destinationChainID of
        Inl e \<Rightarrow> (w, Inl (Errorf ''getting client for transfer destination chain %s: %w'' [e]))
      | Inr client \<Rightarrow>
     (case RecvTxHash t of
        None \<Rightarrow> (w, Inl (Errorf ''transfer does not have recv tx hash, violates should process, this is a bug'' []))
      | Some recvTxHash \<Rightarrow>
     (case RecvTxTime t of
        None \<Rightarrow> (w, Inl (Errorf ''transfer does not have a recv tx time, violates should process, this is a bug'' []))
      | Some recvTxTime \<Rightarrow>
     (case ShouldRetryTx client recvTxHash RetryRecvExpiry recvTxTime of
        Inl e \<Rightarrow> (w, Inl (Errorf ''checking if transfer with recv tx hash %s, submitted at %s, should be retried: %w'' [e]))
      | Inr False \<Rightarrow> (w, Inr t)
      | Inr True \<Rightarrow>
     (case with_db (ClearRecvTx (env_db en) (transfer_row_key t)) w of
        (w1, Some e) \<Rightarrow> (w1, Inl (Errorf ''clearing recv tx hash %s and time %s: %w'' [e]))
      | (w1, None) \<Rightarrow>
          (record_metrics (RecordTransactionRetried (env_config en) t IBCV2SendToRecvRelayType) w1,
           Inl (Sentinel ErrRetryingRecvPacket)))))))"

definition RetryRecvPacket_ShouldProcess :: "time \<Rightarrow> transfer \<Rightarrow> bool" where
  "RetryRecvPacket_ShouldProcess now t \<longleftrightarrow>
     RecvTxHash t \<noteq> None \<and> RecvTxTime t \<noteq> None \<and> WriteAckTxHash t = None"

definition RetryRecvPacketProcessor :: "string \<Rightarrow> processor" where
  "RetryRecvPacketProcessor destinationChainID =
     \<lparr>ShouldProcess = RetryRecvPacket_ShouldProcess,
      ProcState = DELIVER_RECV_PACKET,
      Process = RetryRecvPacket_Process destinationChainID\<rparr>"

definition RetryAckExpiry :: duration where
  "RetryAckExpiry = 2 * minute"

definition RetryAckPacket_Process ::
  "string \<Rightarrow> env \<Rightarrow> world \<Rightarrow> transfer \<Rightarrow> world \<times> transfer res" where
  "RetryAckPacket_Process sourceChainID en w t =
     (case GetClient (env_clients en) sourceChainID of
        Inl e \<Rightarrow> (w, Inl (Errorf ''getting client for transfer source chain %s: %w'' [e]))
      | Inr client \<Rightarrow>
     (case AckTxHash t of
        None \<Rightarrow> (w, Inl (Errorf ''transfer does not have ack tx hash, violates should process, this is a bug'' []))
      | Some ackTxHash \<Rightarrow>
     (case AckTxTime t of
        None \<Rightarrow> (w, Inl (Errorf ''transfer does not have a ack tx time, violates should process, this is a bug'' []))
      | Some ackTxTime \<Rightarrow>
     (case ShouldRetryTx client ackTxHash RetryAckExpiry ackTxTime of
        Inl e \<Rightarrow> (w, Inl (Errorf ''checking if transfer with ack tx hash %s, submitted at %s, should be retried: %w'' [e]))
      | Inr False \<Rightarrow> (w, Inr t)
      | Inr True \<Rightarrow>
     (case with_db (ClearAckTx (env_db en) (transfer_row_key t)) w of
        (w1, Some e) \<Rightarrow> (w1, Inl (Errorf ''clearing ack tx hash %s and time %s: %w'' [e]))
      | (w1, None) \<Rightarrow>
          (record_metrics (RecordTransactionRetried (env_config en) t IBCV2RecvToAckRelayType) w1,
           Inl (Sentinel ErrRetryingAckPacket)))))))"

definition RetryAckPacket_ShouldProcess :: "time \<Rightarrow> transfer \<Rightarrow> bool" where
  "RetryAckPacket_ShouldProcess now t \<longleftrightarrow>
     AckTxHash t \<noteq> None \<and> AckTxTime t \<noteq> None"

definition RetryAckPacketProcessor :: "string \<Rightarrow> processor" where
  "RetryAckPacketProcessor sourceChainID =
     \<lparr>ShouldProcess = RetryAckPacket_ShouldProcess,
      ProcState = DELIVER_ACK_PACKET,
      Process = RetryAckPacket_Process sourceChainID\<rparr>"

definition RetryTimeoutExpiry :: duration where
  "RetryTimeoutExpiry = 2 * minute"

definition RetryTimeoutPacket_Process ::
  "string \<Rightarrow> env \<Rightarrow> world \<Rightarrow> transfer \<Rightarrow> world \<times> transfer res" where
  "RetryTimeoutPacket_Process sourceChainID en w t =
     (case GetClient (env_clients en) sourceChainID of
        Inl e \<Rightarrow> (w, Inl (Errorf ''getting client for transfer source chain %s: %w'' [e]))
      | Inr client \<Rightarrow>
     (case TimeoutTxHash t of
        None \<Rightarrow> (w, Inl (Errorf ''transfer does not have timeout tx hash, violates should process, this is a bug'' []))
      | Some timeoutTxHash \<Rightarrow>
     (case TimeoutTxTime t of
        None \<Rightarrow> (w, Inl (Errorf ''transfer does not have a timeout tx time, violates should process, this is a bug'' []))
      | Some timeoutTxTime \<Rightarrow>
     (case ShouldRetryTx client timeoutTxHash RetryTimeoutExpiry timeoutTxTime of
        Inl e \<Rightarrow> (w, Inl (Errorf ''checking if transfer with timeout tx hash %s, submitted at %s, should be retried: %w'' [e]))
      | Inr False \<Rightarrow> (w, Inr t)
      | Inr True \<Rightarrow>
     (case with_db (ClearTimeoutTx (env_db en) (transfer_row_key t)) w of
        (w1, Some e) \<Rightarrow> (w1, Inl (Errorf ''clearing timeout tx hash %s and time %s: %w'' [e]))
      | (w1, None) \<Rightarrow>
          (record_metrics (RecordTransactionRetried (env_config en) t IBCV2SendToTimeoutRelayType) w1,
           Inl (Sentinel ErrRetryingTimeoutPacket)))))))"

definition RetryTimeoutPacket_ShouldProcess :: "time \<Rightarrow> transfer \<Rightarrow> bool" where
  "RetryTimeoutPacket_ShouldProcess now t \<longleftrightarrow>
     TimeoutTxHash t \<noteq> None \<and> TimeoutTxTime t \<noteq> None"

definition RetryTimeoutPacketProcessor :: "string \<Rightarrow> processor" where
  "RetryTimeoutPacketProcessor sourceChainID =
     \<lparr>ShouldProcess = RetryTimeoutPacket_ShouldProcess,
      ProcState = DELIVER_TIMEOUT_PACKET,
      Process = RetryTimeoutPacket_Process sourceChainID\<rparr>"

section \<open>Gas costs\<close>

text \<open>
  The cost is written to the database alone: the transfer in memory keeps its old value.
\<close>

definition RecvTxGasCalculator_Process ::
  "string \<Rightarrow> uint8 \<Rightarrow> env \<Rightarrow> world \<Rightarrow> transfer \<Rightarrow> world \<times> transfer res" where
  "RecvTxGasCalculator_Process destinationChainGasTokenCoingeckoID destinationChainGasTokenDecimals en w t =
     (case GetClient (env_clients en) (DestinationChainID t) of
        Inl e \<Rightarrow> (w, Inl (Errorf ''getting ibcv2 bridge client for transfer destination chain %s: %w'' [e]))
      | Inr client \<Rightarrow>
     (case RecvTxHash t of
        None \<Rightarrow> (w, Inl (Errorf ''this is a bug! transfer does not have a recv tx, violating should process'' []))
      | Some recvTxHash \<Rightarrow>
     (case TxFee client recvTxHash of
        Inl e \<Rightarrow> (w, Inl (Errorf ''getting gas cost of recv tx %s on %s: %w'' [e]))
      | Inr gasCostInGasToken \<Rightarrow>
     (case env_price en destinationChainGasTokenCoingeckoID destinationChainGasTokenDecimals gasCostInGasToken of
        Inl e \<Rightarrow> (w, Inl (Errorf ''getting usd value of recv tx gas cost on chain %s: %w'' [e]))
      | Inr gasCostUSD \<Rightarrow>
     (case with_db (UpdateTransferRecvTxGasCostUSD (env_db en) (Some gasCostUSD) (transfer_row_key t)) w of
        (w1, Some e) \<Rightarrow> (w1, Inl (Errorf ''updating transfer recv tx gas cost usd value: %w'' [e]))
      | (w1, None) \<Rightarrow> (w1, Inr t))))))"

definition RecvTxGasCalculator_ShouldProcess :: "time \<Rightarrow> transfer \<Rightarrow> bool" where
  "RecvTxGasCalculator_ShouldProcess now t \<longleftrightarrow> RecvTxGasCostUSD t = None \<and> RecvTxHash t \<noteq> None"

definition RecvTxGasCalculatorProcessor :: "string \<Rightarrow> uint8 \<Rightarrow> processor" where
  "RecvTxGasCalculatorProcessor coingeckoID decimals =
     \<lparr>ShouldProcess = RecvTxGasCalculator_ShouldProcess,
      ProcState = CALCULATING_RECV_TX_GAS_COST,
      Process = RecvTxGasCalculator_Process coingeckoID decimals\<rparr>"

definition AckTxGasCalculator_Process ::
  "string \<Rightarrow> uint8 \<Rightarrow> env \<Rightarrow> world \<Rightarrow> transfer \<Rightarrow> world \<times> transfer res" where
  "AckTxGasCalculator_Process sourceChainGasTokenCoingeckoID sourceChainGasTokenDecimals en w t =
     (case GetClient (env_clients en) (SourceChainID t) of
        Inl e \<Rightarrow> (w, Inl (Errorf ''getting ibcv2 bridge client for transfer source chain %s: %w'' [e]))
      | Inr client \<Rightarrow>
     (case AckTxHash t of
        None \<Rightarrow> (w, Inl (Errorf ''this is a bug! transfer does not have a ack tx, violating should process'' []))
      | Some ackTxHash \<Rightarrow>
     (case TxFee client ackTxHash of
        Inl e \<Rightarrow> (w, Inl (Errorf ''getting gas cost of ack tx %s on %s: %w'' [e]))
      | Inr gasCostInGasToken \<Rightarrow>
     (case env_price en sourceChainGasTokenCoingeckoID sourceChainGasTokenDecimals gasCostInGasToken of
        Inl e \<Rightarrow> (w, Inl (Errorf ''getting usd value of ack tx gas cost on chain %s: %w'' [e]))
      | Inr gasCostUSD \<Rightarrow>
     (case with_db (UpdateTransferAckTxGasCostUSD (env_db en) (Some gasCostUSD) (transfer_row_key t)) w of
        (w1, Some e) \<Rightarrow> (w1, Inl (Errorf ''updating transfer ack tx gas cost usd value: %w'' [e]))
      | (w1, None) \<Rightarrow> (w1, Inr t))))))"

definition AckTxGasCalculator_ShouldProcess :: "time \<Rightarrow> transfer \<Rightarrow> bool" where
  "AckTxGasCalculator_ShouldProcess now t \<longleftrightarrow> AckTxGasCostUSD t = None \<and> AckTxHash t \<noteq> None"

definition AckTxGasCalculatorProcessor :: "string \<Rightarrow> uint8 \<Rightarrow> processor" where
  "AckTxGasCalculatorProcessor coingeckoID decimals =
     \<lparr>ShouldProcess = AckTxGasCalculator_ShouldProcess,
      ProcState = CALCULATING_ACK_TX_GAS_COST,
      Process = AckTxGasCalculator_Process coingeckoID decimals\<rparr>"

definition TimeoutTxGasCalculator_Process ::
  "string \<Rightarrow> uint8 \<Rightarrow> env \<Rightarrow> world \<Rightarrow> transfer \<Rightarrow> world \<times> transfer res" where
  "TimeoutTxGasCalculator_Process sourceChainGasTokenCoingeckoID sourceChainGasTokenDecimals en w t =
     (case GetClient (env_clients en) (SourceChainID t) of
        Inl e \<Rightarrow> (w, Inl (Errorf ''getting ibcv2 bridge client for transfer source chain %s: %w'' [e]))
      | Inr client \<Rightarrow>
     (case TimeoutTxHash t of
        None \<Rightarrow> (w, Inl (Errorf ''this is a bug! transfer does not have a recv tx, violating should process'' []))
      | Some timeoutTxHash \<Rightarrow>
     (case TxFee client timeoutTxHash of
        Inl e \<Rightarrow> (w, Inl (Errorf ''getting gas cost of timeout tx %s on %s: %w'' [e]))
      | Inr gasCostInGasToken \<Rightarrow>
     (case env_price en sourceChainGasTokenCoingeckoID sourceChainGasTokenDecimals gasCostInGasToken of
        Inl e \<Rightarrow> (w, Inl (Errorf ''getting usd value of timeout tx gas cost on chain %s: %w'' [e]))
      | Inr gasCostUSD \<Rightarrow>
     (case with_db (UpdateTransferTimeoutTxGasCostUSD (env_db en) (Some gasCostUSD) (transfer_row_key t)) w of
        (w1, Some e) \<Rightarrow> (w1, Inl (Errorf ''updating transfer timeout tx gas cost usd value: %w'' [e]))
      | (w1, None) \<Rightarrow> (w1, Inr t))))))"

definition TimeoutTxGasCalculator_ShouldProcess :: "time \<Rightarrow> transfer \<Rightarrow> bool" where
  "TimeoutTxGasCalculator_ShouldProcess now t \<longleftrightarrow> TimeoutTxGasCostUSD t = None \<and> TimeoutTxHash t \<noteq> None"

definition TimeoutTxGasCalculatorProcessor :: "string \<Rightarrow> uint8 \<Rightarrow> processor" where
  "TimeoutTxGasCalculatorProcessor coingeckoID decimals =
     \<lparr>ShouldProcess = TimeoutTxGasCalculator_ShouldProcess,
      ProcState = CALCULATING_TIMEOUT_TX_GAS_COST,
      Process = TimeoutTxGasCalculator_Process coingeckoID decimals\<rparr>"

lemmas [guard_defs] =
  RetryRecvPacket_ShouldProcess_def RetryAckPacket_ShouldProcess_def
  RetryTimeoutPacket_ShouldProcess_def RecvTxGasCalculator_ShouldProcess_def
  AckTxGasCalculator_ShouldProcess_def TimeoutTxGasCalculator_ShouldProcess_def

lemmas [process_defs] =
  RetryRecvPacket_Process_def RetryAckPacket_Process_def RetryTimeoutPacket_Process_def
  RecvTxGasCalculator_Process_def AckTxGasCalculator_Process_def TimeoutTxGasCalculator_Process_def

section \<open>The processors meet the contract\<close>

interpretation retry_recv: processor_contract "RetryRecvPacketProcessor chainID" for chainID
proof
  fix w en t w' r now
  assume "db_wf (db w)" and run: "Process (RetryRecvPacketProcessor chainID) en w t = (w', r)"
  show "effect (ShouldProcess (RetryRecvPacketProcessor chainID) now t) t w w' r"
    unfolding RetryRecvPacketProcessor_def processor.simps
    by (insert run [unfolded RetryRecvPacketProcessor_def processor.simps RetryRecvPacket_Process_def],
        (auto split: outcome_splits intro: effect_same;
         erule effect_clear_recv; auto simp: guard_defs))
qed (auto simp: RetryRecvPacketProcessor_def process_defs guard_defs unfinished_status_def
    packet_of_def split: outcome_splits)

interpretation recv_gas: processor_contract "RecvTxGasCalculatorProcessor coingeckoID decimals"
  for coingeckoID decimals
proof
  fix w en t w' r now
  assume "db_wf (db w)"
    and run: "Process (RecvTxGasCalculatorProcessor coingeckoID decimals) en w t = (w', r)"
  show "effect (ShouldProcess (RecvTxGasCalculatorProcessor coingeckoID decimals) now t) t w w' r"
    unfolding RecvTxGasCalculatorProcessor_def processor.simps
    by (insert run [unfolded RecvTxGasCalculatorProcessor_def processor.simps RecvTxGasCalculator_Process_def],
        (auto split: outcome_splits intro: effect_same; erule effect_recv_gas; auto))
qed (auto simp: RecvTxGasCalculatorProcessor_def process_defs guard_defs unfinished_status_def
    packet_of_def split: outcome_splits)

interpretation retry_ack: processor_contract "RetryAckPacketProcessor chainID" for chainID
proof
  fix w en t w' r now
  assume "db_wf (db w)" and run: "Process (RetryAckPacketProcessor chainID) en w t = (w', r)"
  show "effect (ShouldProcess (RetryAckPacketProcessor chainID) now t) t w w' r"
    unfolding RetryAckPacketProcessor_def processor.simps
    by (insert run [unfolded RetryAckPacketProcessor_def processor.simps RetryAckPacket_Process_def],
        (auto split: outcome_splits intro: effect_same;
         erule effect_clear_ack; auto simp: guard_defs))
qed (auto simp: RetryAckPacketProcessor_def process_defs guard_defs unfinished_status_def
    packet_of_def split: outcome_splits)

interpretation ack_gas: processor_contract "AckTxGasCalculatorProcessor coingeckoID decimals"
  for coingeckoID decimals
proof
  fix w en t w' r now
  assume "db_wf (db w)"
    and run: "Process (AckTxGasCalculatorProcessor coingeckoID decimals) en w t = (w', r)"
  show "effect (ShouldProcess (AckTxGasCalculatorProcessor coingeckoID decimals) now t) t w w' r"
    unfolding AckTxGasCalculatorProcessor_def processor.simps
    by (insert run [unfolded AckTxGasCalculatorProcessor_def processor.simps AckTxGasCalculator_Process_def],
        (auto split: outcome_splits intro: effect_same; erule effect_ack_gas; auto))
qed (auto simp: AckTxGasCalculatorProcessor_def process_defs guard_defs unfinished_status_def
    packet_of_def split: outcome_splits)

interpretation retry_timeout: processor_contract "RetryTimeoutPacketProcessor chainID" for chainID
proof
  fix w en t w' r now
  assume "db_wf (db w)" and run: "Process (RetryTimeoutPacketProcessor chainID) en w t = (w', r)"
  show "effect (ShouldProcess (RetryTimeoutPacketProcessor chainID) now t) t w w' r"
    unfolding RetryTimeoutPacketProcessor_def processor.simps
    by (insert run [unfolded RetryTimeoutPacketProcessor_def processor.simps RetryTimeoutPacket_Process_def],
        (auto split: outcome_splits intro: effect_same;
         erule effect_clear_timeout; auto simp: guard_defs))
qed (auto simp: RetryTimeoutPacketProcessor_def process_defs guard_defs unfinished_status_def
    packet_of_def split: outcome_splits)

interpretation timeout_gas: processor_contract "TimeoutTxGasCalculatorProcessor coingeckoID decimals"
  for coingeckoID decimals
proof
  fix w en t w' r now
  assume "db_wf (db w)"
    and run: "Process (TimeoutTxGasCalculatorProcessor coingeckoID decimals) en w t = (w', r)"
  show "effect (ShouldProcess (TimeoutTxGasCalculatorProcessor coingeckoID decimals) now t) t w w' r"
    unfolding TimeoutTxGasCalculatorProcessor_def processor.simps
    by (insert run [unfolded TimeoutTxGasCalculatorProcessor_def processor.simps TimeoutTxGasCalculator_Process_def],
        (auto split: outcome_splits intro: effect_same; erule effect_timeout_gas; auto))
qed (auto simp: TimeoutTxGasCalculatorProcessor_def process_defs guard_defs unfinished_status_def
    packet_of_def split: outcome_splits)

end
