(* ===== verification/Relayer_Batch.thy ===== *)
theory Relayer_Batch
  imports Relayer_Processor
begin

text \<open>
  Batches of transfers: the middleware \<open>IBCV2BatchProcessorMW\<close> of
  \<open>relayer/ibcv2/processor_mw.go\<close> and the processors that deliver a batch,
  \<open>batch_recv_packet.go\<close>, \<open>batch_ack_packet.go\<close> and \<open>timeout_packet.go\<close>.

  \<^item> A batch is a slice of pointers, and one pointer may end up in two slices of the
    middleware. So transfers live in a heap, a map from references to transfers, and a batch is
    a list of references.
  \<^item> The proof service, the bridge client and the database transaction are those of the
    environment.
\<close>

type_synonym ref = nat
type_synonym heap = "ref \<Rightarrow> transfer"

record batch_processor =
  BShouldProcess :: "time \<Rightarrow> transfer \<Rightarrow> bool"
  BState :: Ibcv2RelayStatus
  BProcess :: "env \<Rightarrow> world \<Rightarrow> heap \<Rightarrow> ref list \<Rightarrow> world \<times> heap \<times> ref list res"

section \<open>The middleware\<close>

text \<open>
  One turn of the loop over the batch, on the world, the heap and the two slices. After a
  failed state update there is no \<open>continue\<close>: the transfer is appended to both slices.
\<close>

definition BMW_select ::
  "batch_processor \<Rightarrow> env \<Rightarrow> ref \<Rightarrow> world \<times> heap \<times> ref list \<times> ref list \<Rightarrow>
   world \<times> heap \<times> ref list \<times> ref list" where
  "BMW_select p en r = (\<lambda>(w, h, toProcess, notProcessing).
     (let t = h r in
      if has_error t then (w, h, toProcess, notProcessing @ [r])
      else if State t = FAILED then (w, h, toProcess, notProcessing @ [r])
      else if \<not> BShouldProcess p (env_guard_now en) t then (w, h, toProcess, notProcessing @ [r])
      else
        (case with_db (UpdateTransferState (env_db en) (BState p) (transfer_row_key t)) w of
           (w1, Some e) \<Rightarrow>
             (w1, h(r := t\<lparr>ProcessingError :=
                        Some (Errorf ''updating transfer state to %s from state %s: %w'' [e]),
                        State := BState p\<rparr>),
              toProcess @ [r], notProcessing @ [r])
         | (w1, None) \<Rightarrow> (w1, h(r := t\<lparr>State := BState p\<rparr>), toProcess @ [r], notProcessing))))"

definition set_errors :: "go_error \<Rightarrow> ref list \<Rightarrow> heap \<Rightarrow> heap" where
  "set_errors e rs h = fold (\<lambda>r h. h(r := (h r)\<lparr>ProcessingError := Some e\<rparr>)) rs h"

definition BMW_Process ::
  "batch_processor \<Rightarrow> env \<Rightarrow> world \<Rightarrow> heap \<Rightarrow> ref list \<Rightarrow> world \<times> heap \<times> ref list res" where
  "BMW_Process p en w h batch =
     (case fold (BMW_select p en) batch (w, h, [], []) of
        (w1, h1, toProcess, notProcessing) \<Rightarrow>
     (case BProcess p en w1 h1 toProcess of
        (w2, h2, Inl e) \<Rightarrow>
          if errors_Is e ContextCanceled then (w2, h2, Inl e)
          else (w2, set_errors e toProcess h2, Inr (toProcess @ notProcessing))
      | (w2, h2, Inr output) \<Rightarrow> (w2, h2, Inr (output @ notProcessing))))"

section \<open>Delivering a batch\<close>

text \<open>
  The part the three processors have in common: ask the proof service for the transaction,
  find the client, wait for an EVM chain to catch up, and deliver.
\<close>

definition submit_batch ::
  "string \<Rightarrow> string \<Rightarrow> string \<Rightarrow> RelayByTxRequest \<Rightarrow> string \<Rightarrow> env \<Rightarrow> world \<Rightarrow> world \<times> BridgeTx res" where
  "submit_batch relayMsg clientMsg deliverMsg req chainID en w =
     (case env_relay en req of
        Inl e \<Rightarrow> (w, Inl (Errorf relayMsg [e]))
      | Inr (txBytes, to) \<Rightarrow>
     (case GetClient (env_clients en) chainID of
        Inl e \<Rightarrow> (w, Inl (Errorf clientMsg [e]))
      | Inr client \<Rightarrow>
     (case (if BridgeChainType client = ChainType_EVM then WaitForChain client else None) of
        Some e \<Rightarrow> (w, Inl (Errorf ''waiting for chain: %w'' [e]))
      | None \<Rightarrow>
     (case DeliverTx client txBytes to of
        Inl e \<Rightarrow> (record_submission chainID txBytes to w, Inl (Errorf deliverMsg [e]))
      | Inr tx \<Rightarrow> (record_submission chainID txBytes to w, Inr tx)))))"

text \<open>The loop inside \<open>ExecTx\<close>: one statement per transfer without an error.\<close>

fun update_all ::
  "string \<Rightarrow> (row_key \<Rightarrow> database \<Rightarrow> database \<times> go_error option) \<Rightarrow> row_key list \<Rightarrow> database \<Rightarrow>
   database \<times> go_error option" where
  "update_all msg st [] d = (d, None)"
| "update_all msg st (k # ks) d =
     (case st k d of
        (d', Some e) \<Rightarrow> (d', Some (Errorf msg [e]))
      | (d', None) \<Rightarrow> update_all msg st ks d')"

definition live_keys :: "heap \<Rightarrow> ref list \<Rightarrow> row_key list" where
  "live_keys h rs = map (\<lambda>r. transfer_row_key (h r)) (filter (\<lambda>r. ProcessingError (h r) = None) rs)"

definition set_live :: "(transfer \<Rightarrow> transfer) \<Rightarrow> ref list \<Rightarrow> heap \<Rightarrow> heap" where
  "set_live f rs h = fold (\<lambda>r h. if ProcessingError (h r) = None then h(r := f (h r)) else h) rs h"

text \<open>
  The loop of the receive and the timeout processor that collects the transaction ids and the
  sequence numbers. The set of seen transactions is keyed by the source chain id where it is
  filled, and by the transaction hash where it is read.
\<close>

definition collect_source ::
  "ref \<Rightarrow> heap \<times> bytes list \<times> uint64 list \<times> string list \<Rightarrow>
   heap \<times> bytes list \<times> uint64 list \<times> string list" where
  "collect_source r = (\<lambda>(h, txIDs, sequences, txSet).
     (let t = h r; s = uint64_of_uint32 (PacketSequenceNumber t) in
      if SourceTxHash t \<in> set txSet then (h, txIDs, sequences @ [s], txSet)
      else
        (case hex_DecodeString (TrimPrefix (SourceTxHash t) ''0x'') of
           Inl e \<Rightarrow>
             (h(r := t\<lparr>ProcessingError := Some (Errorf ''decoding hex source tx hash %s to bytes: %w'' [e])\<rparr>),
              txIDs, sequences, txSet)
         | Inr txID \<Rightarrow> (h, txIDs @ [txID], sequences @ [s], SourceChainID t # txSet))))"

text \<open>The loop of the acknowledgement processor, keyed by the write-ack transaction.\<close>

definition collect_write_ack ::
  "ref \<Rightarrow> heap \<times> bytes list \<times> uint64 list \<times> string list \<Rightarrow>
   heap \<times> bytes list \<times> uint64 list \<times> string list" where
  "collect_write_ack r = (\<lambda>(h, txIDs, sequences, txSet).
     (let t = h r; s = uint64_of_uint32 (PacketSequenceNumber t) in
      case WriteAckTxHash t of
        None \<Rightarrow>
          (h(r := t\<lparr>ProcessingError := Some (Errorf ''trying to deliver ack packet, no write ack tx hash found'' [])\<rparr>),
           txIDs, sequences, txSet)
      | Some writeAckTxHash \<Rightarrow>
          if writeAckTxHash \<in> set txSet then (h, txIDs, sequences @ [s], txSet)
          else
            (case hex_DecodeString (TrimPrefix writeAckTxHash ''0x'') of
               Inl e \<Rightarrow>
                 (h(r := t\<lparr>ProcessingError := Some (Errorf ''decoding hex write ack tx hash %s to bytes: %w'' [e])\<rparr>),
                  txIDs, sequences, txSet)
             | Inr txID \<Rightarrow> (h, txIDs @ [txID], sequences @ [s], writeAckTxHash # txSet))))"

text \<open>The chains and clients a processor is built for.\<close>

record route =
  sourceChainID :: string
  sourceClientID :: string
  destinationChainID :: string
  destinationClientID :: string

definition BatchRecvPacket_Process ::
  "route \<Rightarrow> env \<Rightarrow> world \<Rightarrow> heap \<Rightarrow> ref list \<Rightarrow> world \<times> heap \<times> ref list res" where
  "BatchRecvPacket_Process rt en w h refs =
     (case fold collect_source refs (h, [], [], []) of
        (h1, txIDs, sequences, _) \<Rightarrow>
     (case submit_batch
             ''getting recv tx bytes from relay service for batch of %d transfers: %w''
             ''getting client for transfer destination chain %s: %w''
             ''signing and submitting recv tx bytes for batch of %d transfers: %w''
             \<lparr>SrcChain = sourceChainID rt, DstChain = destinationChainID rt,
              SourceTxIds = txIDs, TimeoutTxIds = [],
              SrcClientId = sourceClientID rt, DstClientId = destinationClientID rt,
              SrcPacketSequences = sequences, DstPacketSequences = []\<rparr>
             (destinationChainID rt) en w of
        (w1, Inl e) \<Rightarrow> (w1, h1, Inl e)
      | (w1, Inr recvTx) \<Rightarrow>
     (case with_db (ExecTx (env_pool en) (\<lambda>x. update_all
               ''updating transfer from source chain %s packet sequence %d and source client %s with recv hash %s: %w''
               (UpdateTransferRecvTx x (Some (Hash recvTx)) (Some (Timestamp recvTx))
                  (Some (RelayerAddress recvTx)))
               (live_keys h1 refs))) w1 of
        (w2, Some e) \<Rightarrow> (w2, h1, Inl (Errorf ''updating batch transfers recv txs: %w'' [e]))
      | (w2, None) \<Rightarrow>
          (w2, set_live (\<lambda>t. t\<lparr>RecvTxHash := Some (Hash recvTx), RecvTxTime := Some (Timestamp recvTx),
                                 RecvTxRelayerAddress := Some (RelayerAddress recvTx)\<rparr>) refs h1,
           Inr refs))))"

definition BatchRecvPacket_ShouldProcess :: "time \<Rightarrow> transfer \<Rightarrow> bool" where
  "BatchRecvPacket_ShouldProcess now t \<longleftrightarrow> RecvTxHash t = None \<and> \<not> IsTimedOut now t"

definition BatchRecvPacketProcessor :: "route \<Rightarrow> batch_processor" where
  "BatchRecvPacketProcessor rt =
     \<lparr>BShouldProcess = BatchRecvPacket_ShouldProcess,
      BState = DELIVER_RECV_PACKET,
      BProcess = BatchRecvPacket_Process rt\<rparr>"

definition BatchAckPacket_Process ::
  "route \<Rightarrow> env \<Rightarrow> world \<Rightarrow> heap \<Rightarrow> ref list \<Rightarrow> world \<times> heap \<times> ref list res" where
  "BatchAckPacket_Process rt en w h refs =
     (case fold collect_write_ack refs (h, [], [], []) of
        (h1, txIDs, sequences, _) \<Rightarrow>
     (case submit_batch
             ''getting ack tx bytes from relay service for batch of %d transfers: %w''
             ''getting client for transfer source chain %s: %w''
             ''signing and submitting ack tx bytes for batch of %d transfers: %w''
             \<lparr>SrcChain = destinationChainID rt, DstChain = sourceChainID rt,
              SourceTxIds = txIDs, TimeoutTxIds = [],
              SrcClientId = destinationClientID rt, DstClientId = sourceClientID rt,
              SrcPacketSequences = [], DstPacketSequences = sequences\<rparr>
             (sourceChainID rt) en w of
        (w1, Inl e) \<Rightarrow> (w1, h1, Inl e)
      | (w1, Inr ackTx) \<Rightarrow>
     (case with_db (ExecTx (env_pool en) (\<lambda>x. update_all
               ''updating transfer from source chain %s packet sequence %d and source client %s with ack hash %s: %w''
               (UpdateTransferAckTx x (Some (Hash ackTx)) (Some (Timestamp ackTx))
                  (Some (RelayerAddress ackTx)))
               (live_keys h1 refs))) w1 of
        (w2, Some e) \<Rightarrow> (w2, h1, Inl (Errorf ''updating batch transfers ack txs: %w'' [e]))
      | (w2, None) \<Rightarrow>
          (w2, set_live (\<lambda>t. t\<lparr>AckTxHash := Some (Hash ackTx), AckTxTime := Some (Timestamp ackTx)\<rparr>)
                 refs h1,
           Inr refs))))"

definition BatchAckPacket_ShouldProcess :: "bool \<Rightarrow> bool \<Rightarrow> time \<Rightarrow> transfer \<Rightarrow> bool" where
  "BatchAckPacket_ShouldProcess shouldRelaySuccessAcks shouldRelayErrorAcks now t \<longleftrightarrow>
     (if WriteAckTxHash t = None then False
      else
        (case WriteAckStatus t of
           None \<Rightarrow> False
         | Some s \<Rightarrow>
             (let isErrorAck = (s = ERROR \<or> s = UNKNOWN);
                  isSuccessAck = (s = SUCCESS)
              in if isErrorAck \<and> \<not> shouldRelayErrorAcks \<or> isSuccessAck \<and> \<not> shouldRelaySuccessAcks
                 then False
                 else AckTxHash t = None \<and> TimeoutTxHash t = None)))"

definition BatchAckPacketProcessor :: "route \<Rightarrow> bool \<Rightarrow> bool \<Rightarrow> batch_processor" where
  "BatchAckPacketProcessor rt shouldRelaySuccessAcks shouldRelayErrorAcks =
     \<lparr>BShouldProcess = BatchAckPacket_ShouldProcess shouldRelaySuccessAcks shouldRelayErrorAcks,
      BState = DELIVER_ACK_PACKET,
      BProcess = BatchAckPacket_Process rt\<rparr>"

definition BatchTimeoutPacket_Process ::
  "route \<Rightarrow> env \<Rightarrow> world \<Rightarrow> heap \<Rightarrow> ref list \<Rightarrow> world \<times> heap \<times> ref list res" where
  "BatchTimeoutPacket_Process rt en w h refs =
     (case fold collect_source refs (h, [], [], []) of
        (h1, txIDs, sequences, _) \<Rightarrow>
     (case submit_batch
             ''getting timeout tx bytes from ibcv2 relayer for batch of %d transfers: %w''
             ''getting client for transfer source chain %s: %w''
             ''submitting batch timeout tx: %w''
             \<lparr>SrcChain = destinationChainID rt, DstChain = sourceChainID rt,
              SourceTxIds = [], TimeoutTxIds = txIDs,
              SrcClientId = destinationClientID rt, DstClientId = sourceClientID rt,
              SrcPacketSequences = [], DstPacketSequences = sequences\<rparr>
             (sourceChainID rt) en w of
        (w1, Inl e) \<Rightarrow> (w1, h1, Inl e)
      | (w1, Inr timeoutTx) \<Rightarrow>
     (case with_db (ExecTx (env_pool en) (\<lambda>x. update_all
               ''updating transfer timeout tx with timeout tx %s: %w''
               (UpdateTransferTimeoutTx x (Some (Hash timeoutTx)) (Some (Timestamp timeoutTx))
                  (Some (RelayerAddress timeoutTx)))
               (live_keys h1 refs))) w1 of
        (w2, Some e) \<Rightarrow> (w2, h1, Inl (Errorf ''updating batch transfers timeout txs: %w'' [e]))
      | (w2, None) \<Rightarrow>
          (w2, set_live (\<lambda>t. t\<lparr>TimeoutTxHash := Some (Hash timeoutTx),
                                 TimeoutTxTime := Some (Timestamp timeoutTx)\<rparr>) refs h1,
           Inr refs))))"

definition BatchTimeoutPacket_ShouldProcess :: "time \<Rightarrow> transfer \<Rightarrow> bool" where
  "BatchTimeoutPacket_ShouldProcess now t \<longleftrightarrow>
     IsTimedOut now t \<and> RecvTxHash t = None \<and> AckTxHash t = None \<and> TimeoutTxHash t = None"

definition BatchTimeoutPacketProcessor :: "route \<Rightarrow> batch_processor" where
  "BatchTimeoutPacketProcessor rt =
     \<lparr>BShouldProcess = BatchTimeoutPacket_ShouldProcess,
      BState = DELIVER_TIMEOUT_PACKET,
      BProcess = BatchTimeoutPacket_Process rt\<rparr>"

lemmas [guard_defs] =
  BatchRecvPacket_ShouldProcess_def BatchAckPacket_ShouldProcess_def
  BatchTimeoutPacket_ShouldProcess_def

section \<open>What a batch may do to the database\<close>

text \<open>
  The set versions of \<open>row_step\<close>: every row makes a step of the abstract machine, rows
  outside \<open>K\<close> stay. In \<open>status_step\<close> only the status column moves.
\<close>

definition rows_step :: "Ibcv2RelayStatus \<Rightarrow> row_key set \<Rightarrow> database \<Rightarrow> database \<Rightarrow> bool" where
  "rows_step s K d d' \<longleftrightarrow>
     db_wf d' \<and> (\<forall>k. k \<notin> K \<longrightarrow> find_row d' k = find_row d k) \<and>
     (\<forall>k r. find_row d k = Some r \<longrightarrow>
        (\<exists>r'. find_row d' k = Some r' \<and> row_packet r' = row_packet r \<and>
           delivery_step (row_delivery r) (row_delivery r') \<and>
           (status r' = status r \<or> status r' = s)))"

definition status_step :: "Ibcv2RelayStatus \<Rightarrow> row_key set \<Rightarrow> database \<Rightarrow> database \<Rightarrow> bool" where
  "status_step s K d d' \<longleftrightarrow>
     db_wf d' \<and> (\<forall>k. k \<notin> K \<longrightarrow> find_row d' k = find_row d k) \<and>
     (\<forall>k r. find_row d k = Some r \<longrightarrow>
        (\<exists>r'. find_row d' k = Some r' \<and> row_packet r' = row_packet r \<and>
           row_delivery r' = row_delivery r \<and> (status r' = status r \<or> status r' = s)))"

lemma status_step_refl: "db_wf d \<Longrightarrow> status_step s K d d"
  by (simp add: status_step_def)

lemma status_step_trans:
  assumes "status_step s K d d1" "status_step s K' d1 d2"
  shows "status_step s (K \<union> K') d d2"
  unfolding status_step_def
proof (intro conjI allI impI)
  show "db_wf d2" using assms(2) by (simp add: status_step_def)
  show "find_row d2 k = find_row d k" if "k \<notin> K \<union> K'" for k
    using assms that unfolding status_step_def by (metis UnI1 UnI2)
  fix k r
  assume "find_row d k = Some r"
  then obtain r1 where r1: "find_row d1 k = Some r1" "row_packet r1 = row_packet r"
      "row_delivery r1 = row_delivery r" "status r1 = status r \<or> status r1 = s"
    using assms(1) unfolding status_step_def by blast
  from r1(1) obtain r2 where r2: "find_row d2 k = Some r2" "row_packet r2 = row_packet r1"
      "row_delivery r2 = row_delivery r1" "status r2 = status r1 \<or> status r2 = s"
    using assms(2) unfolding status_step_def by blast
  have "status r2 = status r \<or> status r2 = s" using r1(4) r2(4) by presburger
  then show "\<exists>r'. find_row d2 k = Some r' \<and> row_packet r' = row_packet r \<and>
      row_delivery r' = row_delivery r \<and> (status r' = status r \<or> status r' = s)"
    using r1(2,3) r2(1-3) by (intro exI [of _ r2]) simp
qed

lemma status_rows_step:
  assumes "status_step s K d d1" "rows_step s K' d1 d2"
  shows "rows_step s (K \<union> K') d d2"
  unfolding rows_step_def
proof (intro conjI allI impI)
  show "db_wf d2" using assms(2) by (simp add: rows_step_def)
  show "find_row d2 k = find_row d k" if "k \<notin> K \<union> K'" for k
    using assms that unfolding status_step_def rows_step_def by (metis UnI1 UnI2)
  fix k r
  assume "find_row d k = Some r"
  then obtain r1 where r1: "find_row d1 k = Some r1" "row_packet r1 = row_packet r"
      "row_delivery r1 = row_delivery r" "status r1 = status r \<or> status r1 = s"
    using assms(1) unfolding status_step_def by blast
  from r1(1) obtain r2 where r2: "find_row d2 k = Some r2" "row_packet r2 = row_packet r1"
      "delivery_step (row_delivery r1) (row_delivery r2)" "status r2 = status r1 \<or> status r2 = s"
    using assms(2) unfolding rows_step_def by blast
  have "status r2 = status r \<or> status r2 = s" using r1(4) r2(4) by presburger
  then show "\<exists>r'. find_row d2 k = Some r' \<and> row_packet r' = row_packet r \<and>
      delivery_step (row_delivery r) (row_delivery r') \<and> (status r' = status r \<or> status r' = s)"
    using r1(2,3) r2(1-3) by (intro exI [of _ r2]) simp
qed

lemma status_step_mono: "status_step s K d d' \<Longrightarrow> K \<subseteq> K' \<Longrightarrow> status_step s K' d d'"
  by (auto simp: status_step_def)

lemma rows_step_mono: "rows_step s K d d' \<Longrightarrow> K \<subseteq> K' \<Longrightarrow> rows_step s K' d d'"
  by (auto simp: rows_step_def)

lemma status_step_synced: "status_step s K d d' \<Longrightarrow> synced d t \<Longrightarrow> synced d' t"
  unfolding status_step_def synced_def by metis

lemma status_step_update:
  assumes "with_db (UpdateTransferState x s k) w = (w1, oe)" "db_wf (db w)"
  shows "status_step s {k} (db w) (db w1)"
  using assms(1) unfolding UpdateTransferState_def
proof (rule with_db_exec_cases)
  assume "w1 = w\<lparr>db := update_where k (\<lambda>r. r\<lparr>updated_at := tx_now x, status := s\<rparr>) (db w)\<rparr>"
  then show ?thesis using assms(2)
    by (auto simp: status_step_def store_simps keeps_key_status)
qed (simp add: status_step_refl assms(2))

lemma row_step_rows: "row_step s k d d' \<Longrightarrow> rows_step s {k} d d'"
  unfolding row_step_def rows_step_def by (metis delivery_step.stay singletonI)

section \<open>The contract of a batch processor\<close>

text \<open>
  The effect of a batch processor: one change \<open>f\<close> on the rows of a set \<open>K\<close> of transfers
  of the batch that had no error; on success every transfer of the batch is errored or is in
  \<open>K\<close> and was changed alike in memory.
\<close>

inductive batch_effect ::
  "(transfer \<Rightarrow> bool) \<Rightarrow> ref list \<Rightarrow> world \<Rightarrow> heap \<Rightarrow> world \<Rightarrow> heap \<Rightarrow> ref list res \<Rightarrow> bool"
  for guard rs w h w' h' res where
  batch_effectI:
   "changes f g \<Longrightarrow>
    (\<And>t. guard t \<Longrightarrow> delivery_step (delivery_of t) (g (delivery_of t))) \<Longrightarrow>
    K \<subseteq> (\<lambda>r. transfer_row_key (h r)) ` {r \<in> set rs. ProcessingError (h r) = None} \<Longrightarrow>
    db_wf (db w') \<Longrightarrow>
    (\<And>k. find_row (db w') k =
       (if k \<in> K then map_option f (find_row (db w) k) else find_row (db w) k)) \<Longrightarrow>
    (\<And>r. r \<notin> set rs \<Longrightarrow> h' r = h r) \<Longrightarrow>
    (\<And>r. packet_of (h' r) = packet_of (h r)) \<Longrightarrow>
    (\<And>r. State (h' r) = State (h r)) \<Longrightarrow>
    (\<And>r. error_ok (h r) \<Longrightarrow> error_ok (h' r)) \<Longrightarrow>
    (\<And>r. ProcessingError (h' r) = None \<Longrightarrow> ProcessingError (h r) = None) \<Longrightarrow>
    (\<And>e. res = Inl e \<Longrightarrow> \<not> empty_message e) \<Longrightarrow>
    (\<And>out. res = Inr out \<Longrightarrow> out = rs) \<Longrightarrow>
    (\<And>r out. res = Inr out \<Longrightarrow> r \<in> set rs \<Longrightarrow> ProcessingError (h' r) = None \<Longrightarrow>
       transfer_row_key (h r) \<in> K \<and> delivery_of (h' r) = g (delivery_of (h r))) \<Longrightarrow>
    batch_effect guard rs w h w' h' res"

lemmas batch_effectE = batch_effect.cases [consumes 1]

lemma set_errors_at:
  "set_errors e rs h r = (if r \<in> set rs then (h r)\<lparr>ProcessingError := Some e\<rparr> else h r)"
  unfolding set_errors_def by (induction rs arbitrary: h) auto

lemma batch_effect_rows:
  assumes "batch_effect guard rs w h w' h' res" "db_wf (db w)"
    and "\<And>r. r \<in> set rs \<Longrightarrow> guard (h r)"
    and "\<And>r. r \<in> set rs \<Longrightarrow> ProcessingError (h r) = None \<Longrightarrow> synced (db w) (h r)"
  shows "rows_step s ((\<lambda>r. transfer_row_key (h r)) ` set rs) (db w) (db w')"
proof -
  obtain f g K where f: "changes f g" "\<And>t. guard t \<Longrightarrow> delivery_step (delivery_of t) (g (delivery_of t))"
      and K: "K \<subseteq> (\<lambda>r. transfer_row_key (h r)) ` {r \<in> set rs. ProcessingError (h r) = None}"
      and find: "db_wf (db w')"
        "\<And>k. find_row (db w') k = (if k \<in> K then map_option f (find_row (db w) k) else find_row (db w) k)"
    using assms(1) by (rule batch_effectE) (rule that)
  show ?thesis unfolding rows_step_def
  proof (intro conjI allI impI)
    show "db_wf (db w')" by (rule find(1))
    show "find_row (db w') k = find_row (db w) k"
      if "k \<notin> (\<lambda>r. transfer_row_key (h r)) ` set rs" for k
      using that K find(2) [of k] by auto
    fix k row
    assume row: "find_row (db w) k = Some row"
    show "\<exists>r'. find_row (db w') k = Some r' \<and> row_packet r' = row_packet row \<and>
        delivery_step (row_delivery row) (row_delivery r') \<and> (status r' = status row \<or> status r' = s)"
    proof (cases "k \<in> K")
      case True
      then obtain r where r: "r \<in> set rs" "ProcessingError (h r) = None" "k = transfer_row_key (h r)"
        using K by auto
      then have "row_delivery row = delivery_of (h r)" 
        using assms(4) [OF r(1,2)] row r(3) by (auto simp: synced_def)
      then have "delivery_step (row_delivery row) (row_delivery (f row))"
        using f assms(3) [OF r(1)] by (simp add: changes_def)
      then show ?thesis using True find(2) [of k] row f(1) by (simp add: changes_def benign_def)
    next
      case False
      then show ?thesis using find(2) [of k] row delivery_step.stay by simp
    qed
  qed
qed

lemma batch_effect_synced:
  assumes "batch_effect guard rs w h w' h' (Inr out)" "r \<in> set rs" "ProcessingError (h' r) = None"
    and "synced (db w) (h r)"
  shows "synced (db w') (h' r)"
  using assms(1)
proof (rule batch_effectE)
  fix f g K
  assume f: "changes f g" and pkt: "\<And>r. packet_of (h' r) = packet_of (h r)"
    and find: "\<And>k. find_row (db w') k =
      (if k \<in> K then map_option f (find_row (db w) k) else find_row (db w) k)"
    and out: "\<And>r out'. Inr out = (Inr out' :: ref list res) \<Longrightarrow> r \<in> set rs \<Longrightarrow> ProcessingError (h' r) = None \<Longrightarrow>
       transfer_row_key (h r) \<in> K \<and> delivery_of (h' r) = g (delivery_of (h r))"
  obtain row where "find_row (db w) (transfer_row_key (h r)) = Some row"
      "row_packet row = packet_of (h r)" "row_delivery row = delivery_of (h r)"
    using assms(4) by (auto simp: synced_def)
  then show ?thesis
    using out [OF refl assms(2,3)] f find [of "transfer_row_key (h r)"] pkt [of r]
      transfer_row_key_packet [OF pkt [of r]]
    by (simp add: synced_def changes_def benign_def)
qed

lemma batch_effect_other:
  assumes "batch_effect guard rs w h w' h' res" "r \<notin> set rs" "synced (db w) (h r)"
    and "transfer_row_key (h r) \<notin> (\<lambda>r. transfer_row_key (h r)) ` set rs"
  shows "synced (db w') (h' r)"
  using assms(1)
proof (rule batch_effectE)
  fix f g K
  assume K: "K \<subseteq> (\<lambda>r. transfer_row_key (h r)) ` {r \<in> set rs. ProcessingError (h r) = None}"
    and find: "\<And>k. find_row (db w') k =
      (if k \<in> K then map_option f (find_row (db w) k) else find_row (db w) k)"
    and other: "\<And>r. r \<notin> set rs \<Longrightarrow> h' r = h r"
  have "transfer_row_key (h r) \<notin> K" using K assms(4) by blast
  then show ?thesis using assms(3) find other [OF assms(2)] by (simp add: synced_def)
qed

locale batch_contract =
  fixes p :: batch_processor
  assumes b_unfinished: "unfinished_status (BState p)"
    and b_effect: "db_wf (db w) \<Longrightarrow> inj_on (\<lambda>r. transfer_row_key (h r)) (set rs) \<Longrightarrow> distinct rs \<Longrightarrow>
          BProcess p en w h rs = (w', h', res) \<Longrightarrow>
          batch_effect (BShouldProcess p now) rs w h w' h' res"
    and b_guard: "packet_of t = packet_of t' \<Longrightarrow> delivery_of t = delivery_of t' \<Longrightarrow>
          BShouldProcess p now t = BShouldProcess p now t'"
begin

text \<open>The selection loop moves statuses only, and passes on transfers whose guard holds.\<close>

lemma select_cases:
  assumes "BMW_select p en r (w, h, tp, np) = (w1, h1, tp1, np1)"
  obtains (skip) "w1 = w" "h1 = h" "tp1 = tp" "np1 = np @ [r]"
  | (taken) oe x where "BShouldProcess p (env_guard_now en) (h r)" "\<not> has_error (h r)"
      "with_db (UpdateTransferState (env_db en) (BState p) (transfer_row_key (h r))) w = (w1, oe)"
      "h1 = h(r := (h r)\<lparr>ProcessingError := x, State := BState p\<rparr>)" "tp1 = tp @ [r]"
      "oe = None \<longrightarrow> x = ProcessingError (h r) \<and> np1 = np"
      "oe \<noteq> None \<longrightarrow> np1 = np @ [r] \<and> (\<exists>e. x = Some e \<and> \<not> empty_message e)"
proof (cases "has_error (h r) \<or> State (h r) = FAILED \<or> \<not> BShouldProcess p (env_guard_now en) (h r)")
  case True
  then show ?thesis using assms skip by (auto simp: BMW_select_def Let_def split: if_splits)
next
  case False
  obtain w2 oe where st:
    "with_db (UpdateTransferState (env_db en) (BState p) (transfer_row_key (h r))) w = (w2, oe)"
    by (cases "with_db (UpdateTransferState (env_db en) (BState p) (transfer_row_key (h r))) w")
  show ?thesis
  proof (cases oe)
    case None
    then have "(w2, h(r := (h r)\<lparr>State := BState p\<rparr>), tp @ [r], np) = (w1, h1, tp1, np1)"
      using False st assms by (simp add: BMW_select_def Let_def)
    then show ?thesis using False st None by (intro taken [of None "ProcessingError (h r)"]) simp_all
  next
    case (Some e)
    let ?x = "Some (Errorf ''updating transfer state to %s from state %s: %w'' [e])"
    have "(w2, h(r := (h r)\<lparr>ProcessingError := ?x, State := BState p\<rparr>), tp @ [r], np @ [r]) =
        (w1, h1, tp1, np1)"
      using False st assms Some by (simp add: BMW_select_def Let_def)
    then show ?thesis using False st Some by (intro taken [of oe ?x]) simp_all
  qed
qed

lemma select_one:
  assumes "BMW_select p en r (w, h, tp, np) = (w1, h1, tp1, np1)" "db_wf (db w)"
  shows "status_step (BState p) {transfer_row_key (h r)} (db w) (db w1)"
    and "\<And>r'. r' \<noteq> r \<Longrightarrow> h1 r' = h r'"
    and "packet_of (h1 r) = packet_of (h r)" "delivery_of (h1 r) = delivery_of (h r)"
    and "error_ok (h r) \<Longrightarrow> error_ok (h1 r)"
    and "ProcessingError (h r) \<noteq> None \<Longrightarrow> ProcessingError (h1 r) \<noteq> None"
    and "\<exists>tps nps. tp1 = tp @ tps \<and> np1 = np @ nps \<and> (tps = [] \<or> tps = [r]) \<and> (nps = [] \<or> nps = [r]) \<and>
       (tps = [] \<longrightarrow> nps = [r]) \<and> (tps = [r] \<longrightarrow> BShouldProcess p (env_guard_now en) (h1 r))"
proof -
  have "status_step (BState p) {transfer_row_key (h r)} (db w) (db w1) \<and>
      (\<forall>r'. r' \<noteq> r \<longrightarrow> h1 r' = h r') \<and> packet_of (h1 r) = packet_of (h r) \<and>
      delivery_of (h1 r) = delivery_of (h r) \<and> (error_ok (h r) \<longrightarrow> error_ok (h1 r)) \<and>
      (ProcessingError (h r) \<noteq> None \<longrightarrow> ProcessingError (h1 r) \<noteq> None) \<and>
      (\<exists>tps nps. tp1 = tp @ tps \<and> np1 = np @ nps \<and> (tps = [] \<or> tps = [r]) \<and> (nps = [] \<or> nps = [r]) \<and>
       (tps = [] \<longrightarrow> nps = [r]) \<and> (tps = [r] \<longrightarrow> BShouldProcess p (env_guard_now en) (h1 r)))"
    using assms(1)
  proof (cases rule: select_cases)
    case skip
    then show ?thesis using status_step_refl [OF assms(2)] by simp
  next
    case (taken oe x)
    have same: "packet_of (h1 r) = packet_of (h r)" "delivery_of (h1 r) = delivery_of (h r)"
      by (simp_all add: taken(4))
    have "BShouldProcess p (env_guard_now en) (h1 r)" using b_guard [OF same] taken(1) by simp
    then show ?thesis
      using same taken(3-7) status_step_update [OF taken(3) assms(2)]
      by (cases oe) (auto simp: error_ok_def has_error_def)
  qed
  then show "status_step (BState p) {transfer_row_key (h r)} (db w) (db w1)"
    and "\<And>r'. r' \<noteq> r \<Longrightarrow> h1 r' = h r'"
    and "packet_of (h1 r) = packet_of (h r)" "delivery_of (h1 r) = delivery_of (h r)"
    and "error_ok (h r) \<Longrightarrow> error_ok (h1 r)"
    and "ProcessingError (h r) \<noteq> None \<Longrightarrow> ProcessingError (h1 r) \<noteq> None"
    and "\<exists>tps nps. tp1 = tp @ tps \<and> np1 = np @ nps \<and> (tps = [] \<or> tps = [r]) \<and> (nps = [] \<or> nps = [r]) \<and>
       (tps = [] \<longrightarrow> nps = [r]) \<and> (tps = [r] \<longrightarrow> BShouldProcess p (env_guard_now en) (h1 r))"
    by blast+
qed

lemma select_all:
  assumes "fold (BMW_select p en) batch (w, h, tp, np) = (w1, h1, tp1, np1)" "db_wf (db w)" "distinct batch"
  shows "status_step (BState p) ((\<lambda>r. transfer_row_key (h r)) ` set batch) (db w) (db w1) \<and>
     (\<forall>r. r \<notin> set batch \<longrightarrow> h1 r = h r) \<and>
     (\<forall>r. packet_of (h1 r) = packet_of (h r) \<and> delivery_of (h1 r) = delivery_of (h r) \<and>
        (error_ok (h r) \<longrightarrow> error_ok (h1 r)) \<and>
        (ProcessingError (h r) \<noteq> None \<longrightarrow> ProcessingError (h1 r) \<noteq> None)) \<and>
     (\<exists>tps nps. tp1 = tp @ tps \<and> np1 = np @ nps \<and> set tps \<union> set nps = set batch \<and> distinct tps \<and>
        (\<forall>r \<in> set tps. BShouldProcess p (env_guard_now en) (h1 r)))"
  using assms
proof (induction batch arbitrary: w h tp np)
  case Nil
  then show ?case by (auto simp: status_step_refl)
next
  case (Cons r batch)
  obtain w2 h2 tp2 np2 where one: "BMW_select p en r (w, h, tp, np) = (w2, h2, tp2, np2)"
    using prod_cases4 by blast
  note sel = select_one [OF one Cons.prems(2)]
  have rest: "fold (BMW_select p en) batch (w2, h2, tp2, np2) = (w1, h1, tp1, np1)"
    using Cons.prems(1) one by simp
  have wf2: "db_wf (db w2)" using sel(1) by (simp add: status_step_def)
  have IH: "status_step (BState p) ((\<lambda>r. transfer_row_key (h2 r)) ` set batch) (db w2) (db w1)"
      "\<And>r'. r' \<notin> set batch \<Longrightarrow> h1 r' = h2 r'"
      "\<And>r. packet_of (h1 r) = packet_of (h2 r) \<and> delivery_of (h1 r) = delivery_of (h2 r) \<and>
        (error_ok (h2 r) \<longrightarrow> error_ok (h1 r)) \<and>
        (ProcessingError (h2 r) \<noteq> None \<longrightarrow> ProcessingError (h1 r) \<noteq> None)"
      "\<exists>tps nps. tp1 = tp2 @ tps \<and> np1 = np2 @ nps \<and> set tps \<union> set nps = set batch \<and> distinct tps \<and>
        (\<forall>r \<in> set tps. BShouldProcess p (env_guard_now en) (h1 r))"
    using Cons.IH [OF rest wf2] Cons.prems(3) by simp_all
  have same: "h2 r' = h r'" if "r' \<noteq> r" for r' using sel(2) that by simp
  have h1r: "h1 r = h2 r" using IH(2) Cons.prems(3) by simp
  have keys: "(\<lambda>r. transfer_row_key (h2 r)) ` set batch = (\<lambda>r. transfer_row_key (h r)) ` set batch"
    using Cons.prems(3) by (intro image_cong refl) (metis distinct.simps(2) same)
  have steps: "status_step (BState p) ((\<lambda>r. transfer_row_key (h r)) ` set (r # batch)) (db w) (db w1)"
    using status_step_trans [OF sel(1) IH(1) [unfolded keys]] by simp
  obtain t1 n1 where one': "tp2 = tp @ t1" "np2 = np @ n1" "t1 = [] \<or> t1 = [r]" "n1 = [] \<or> n1 = [r]"
      "t1 = [] \<longrightarrow> n1 = [r]" "t1 = [r] \<longrightarrow> BShouldProcess p (env_guard_now en) (h2 r)"
    using sel(7) by blast
  obtain t2 n2 where rest': "tp1 = tp2 @ t2" "np1 = np2 @ n2" "set t2 \<union> set n2 = set batch" "distinct t2"
      "\<forall>r \<in> set t2. BShouldProcess p (env_guard_now en) (h1 r)"
    using IH(4) by blast
  have "tp1 = tp @ (t1 @ t2)" "np1 = np @ (n1 @ n2)" using one'(1,2) rest'(1,2) by simp_all
  moreover have "set (t1 @ t2) \<union> set (n1 @ n2) = set (r # batch)"
  proof -
    have "set t1 \<union> set n1 = {r}" using one'(3-5) by auto
    then show ?thesis unfolding set_append list.set rest'(3) [symmetric] by blast
  qed
  moreover have "distinct (t1 @ t2)"
  proof -
    have "r \<notin> set t2" using Cons.prems(3) rest'(3) by (metis UnCI distinct.simps(2))
    then show ?thesis using one'(3) rest'(4) by auto
  qed
  moreover have "\<forall>r \<in> set (t1 @ t2). BShouldProcess p (env_guard_now en) (h1 r)"
    using one'(3,6) rest'(5) h1r by auto
  ultimately have "\<exists>tps nps. tp1 = tp @ tps \<and> np1 = np @ nps \<and> set tps \<union> set nps = set (r # batch) \<and>
      distinct tps \<and> (\<forall>r \<in> set tps. BShouldProcess p (env_guard_now en) (h1 r))"
    by blast
  moreover have "packet_of (h1 r') = packet_of (h r') \<and> delivery_of (h1 r') = delivery_of (h r') \<and>
      (error_ok (h r') \<longrightarrow> error_ok (h1 r')) \<and>
      (ProcessingError (h r') \<noteq> None \<longrightarrow> ProcessingError (h1 r') \<noteq> None)" for r'
    using IH(3) [of r'] sel(3-6) same [of r'] by (cases "r' = r") auto
  moreover have "h1 r' = h r'" if "r' \<notin> set (r # batch)" for r'
    using that IH(2) same by simp
  ultimately show ?case using steps by blast
qed

text \<open>The two phases of a run: selection, then the processor on what was selected.\<close>

lemma batch_phases:
  assumes run: "BMW_Process p en w h batch = (w', h', res)" and wf: "db_wf (db w)"
    and dist: "distinct batch" "inj_on (\<lambda>r. transfer_row_key (h r)) (set batch)"
    and ok: "\<And>r. r \<in> set batch \<Longrightarrow> error_ok (h r) \<and> (has_error (h r) \<or> synced (db w) (h r))"
  obtains w1 h1 tp np h2 r2 where
    "batch_effect (BShouldProcess p (env_guard_now en)) tp w1 h1 w' h2 r2"
    "set batch = set tp \<union> set np"
    "status_step (BState p) ((\<lambda>r. transfer_row_key (h r)) ` set batch) (db w) (db w1)"
    "\<And>r. r \<notin> set batch \<Longrightarrow> h1 r = h r"
    "\<And>r. packet_of (h1 r) = packet_of (h r)"
    "\<And>r. r \<in> set batch \<Longrightarrow> error_ok (h1 r)"
    "\<And>r. r \<in> set batch \<Longrightarrow> ProcessingError (h1 r) = None \<Longrightarrow> synced (db w1) (h1 r)"
    "\<And>r. r \<in> set tp \<Longrightarrow> BShouldProcess p (env_guard_now en) (h1 r)"
    "h' = (case r2 of Inl e \<Rightarrow> if errors_Is e ContextCanceled then h2 else set_errors e tp h2 | Inr os \<Rightarrow> h2)"
    "res = (case r2 of Inl e \<Rightarrow> if errors_Is e ContextCanceled then Inl e else Inr (tp @ np) | Inr os \<Rightarrow> Inr (os @ np))"
proof -
  obtain w1 h1 tp np where sel: "fold (BMW_select p en) batch (w, h, [], []) = (w1, h1, tp, np)"
    using prod_cases4 by blast
  obtain w2 h2 r2 where proc: "BProcess p en w1 h1 tp = (w2, h2, r2)" using prod_cases3 by blast
  note s = select_all [OF sel wf dist(1)]
  note st = s [THEN conjunct1]
  note out1 = s [THEN conjunct2, THEN conjunct1, rule_format]
  note heap1 = s [THEN conjunct2, THEN conjunct2, THEN conjunct1, rule_format]
  have key1: "transfer_row_key (h1 r) = transfer_row_key (h r)" for r
    using transfer_row_key_packet heap1 by blast
  have sets: "set batch = set tp \<union> set np" "distinct tp"
    and guard: "\<And>r. r \<in> set tp \<Longrightarrow> BShouldProcess p (env_guard_now en) (h1 r)"
    using s [THEN conjunct2, THEN conjunct2, THEN conjunct2] by simp_all
  have sync1: "synced (db w1) (h1 r)" if "r \<in> set batch" "ProcessingError (h1 r) = None" for r
  proof -
    have "\<not> has_error (h r)" using heap1 that(2) has_error_None by blast
    then have "synced (db w1) (h r)" using ok that(1) st status_step_synced by blast
    then show ?thesis using heap1 [of r] by (simp add: synced_def key1)
  qed
  have "inj_on (\<lambda>r. transfer_row_key (h1 r)) (set tp)"
    unfolding key1 using dist(2) sets(1) by (simp add: inj_on_Un)
  then have "batch_effect (BShouldProcess p (env_guard_now en)) tp w1 h1 w2 h2 r2"
    using b_effect proc sets(2) st by (simp add: status_step_def)
  moreover have "w' = w2"
    and hh: "h' = (case r2 of Inl e \<Rightarrow> if errors_Is e ContextCanceled then h2 else set_errors e tp h2 | Inr os \<Rightarrow> h2)"
    and rr: "res = (case r2 of Inl e \<Rightarrow> if errors_Is e ContextCanceled then Inl e else Inr (tp @ np) | Inr os \<Rightarrow> Inr (os @ np))"
    using run sel proc by (auto simp: BMW_Process_def split: sum.splits if_splits)
  ultimately have eff: "batch_effect (BShouldProcess p (env_guard_now en)) tp w1 h1 w' h2 r2" by simp
  have ok1: "error_ok (h1 r)" if "r \<in> set batch" for r using ok heap1 that by blast
  have pkt1: "packet_of (h1 r) = packet_of (h r)" for r using heap1 by blast
  from eff sets(1) st out1 pkt1 ok1 sync1 guard hh rr show ?thesis by (rule that)
qed

text \<open>
  The guarantee of the batch middleware, for a batch of distinct transfers that are errored or
  agree with the database: every row makes a step of the abstract machine, \<open>\<dots>\<close>
\<close>

lemma batch_rows:
  assumes
    "BMW_Process p en w h batch = (w', h', res)" "db_wf (db w)" "distinct batch"
    "inj_on (\<lambda>r. transfer_row_key (h r)) (set batch)"
    "\<And>r. r \<in> set batch \<Longrightarrow> error_ok (h r) \<and> (has_error (h r) \<or> synced (db w) (h r))"
  shows "rows_step (BState p) ((\<lambda>r. transfer_row_key (h r)) ` set batch) (db w) (db w')"
proof (rule batch_phases [OF assms])
  fix w1 h1 tp np h2 r2
  assume eff: "batch_effect (BShouldProcess p (env_guard_now en)) tp w1 h1 w' h2 r2"
    and sets: "set batch = set tp \<union> set np"
    and st: "status_step (BState p) ((\<lambda>r. transfer_row_key (h r)) ` set batch) (db w) (db w1)"
    and pkt1: "\<And>r. packet_of (h1 r) = packet_of (h r)"
    and sync1: "\<And>r. r \<in> set batch \<Longrightarrow> ProcessingError (h1 r) = None \<Longrightarrow> synced (db w1) (h1 r)"
    and guard: "\<And>r. r \<in> set tp \<Longrightarrow> BShouldProcess p (env_guard_now en) (h1 r)"
  have "db_wf (db w1)" using st by (simp add: status_step_def)
  with eff have "rows_step (BState p) ((\<lambda>r. transfer_row_key (h1 r)) ` set tp) (db w1) (db w')"
    by (rule batch_effect_rows) (simp_all add: guard sync1 sets)
  moreover have "transfer_row_key (h1 r) = transfer_row_key (h r)" for r
    using transfer_row_key_packet pkt1 by blast
  ultimately have "rows_step (BState p) ((\<lambda>r. transfer_row_key (h r)) ` set tp) (db w1) (db w')" by simp
  from status_rows_step [OF st this] show ?thesis
    by (rule rows_step_mono) (auto simp: sets)
qed

text \<open>transfers outside the batch and all packets stay, \<open>\<dots>\<close>\<close>

lemma batch_heap:
  assumes
    "BMW_Process p en w h batch = (w', h', res)" "db_wf (db w)" "distinct batch"
    "inj_on (\<lambda>r. transfer_row_key (h r)) (set batch)"
    "\<And>r. r \<in> set batch \<Longrightarrow> error_ok (h r) \<and> (has_error (h r) \<or> synced (db w) (h r))"
  shows "r \<notin> set batch \<Longrightarrow> h' r = h r" and "packet_of (h' r) = packet_of (h r)"
proof -
  have "(r \<notin> set batch \<longrightarrow> h' r = h r) \<and> packet_of (h' r) = packet_of (h r)"
  proof (rule batch_phases [OF assms])
    fix w1 h1 tp np h2 r2
    assume eff: "batch_effect (BShouldProcess p (env_guard_now en)) tp w1 h1 w' h2 r2"
      and sets: "set batch = set tp \<union> set np"
      and h1: "\<And>r. r \<notin> set batch \<Longrightarrow> h1 r = h r" "\<And>r. packet_of (h1 r) = packet_of (h r)"
      and h': "h' = (case r2 of Inl e \<Rightarrow> if errors_Is e ContextCanceled then h2 else set_errors e tp h2 | Inr os \<Rightarrow> h2)"
    have "packet_of (h2 r) = packet_of (h1 r)" "r \<notin> set tp \<longrightarrow> h2 r = h1 r"
      by (rule batch_effectE [OF eff]; simp)+
    then show ?thesis using h1 sets by (cases r2) (simp_all add: h' set_errors_at)
  qed
  then show "r \<notin> set batch \<Longrightarrow> h' r = h r" and "packet_of (h' r) = packet_of (h r)" by blast+
qed

text \<open>no transfer is lost, unless the context was cancelled, \<open>\<dots>\<close>\<close>

lemma batch_complete:
  assumes
    "BMW_Process p en w h batch = (w', h', res)" "db_wf (db w)" "distinct batch"
    "inj_on (\<lambda>r. transfer_row_key (h r)) (set batch)"
    "\<And>r. r \<in> set batch \<Longrightarrow> error_ok (h r) \<and> (has_error (h r) \<or> synced (db w) (h r))"
  shows "case res of Inr out \<Rightarrow> set out = set batch | Inl e \<Rightarrow> errors_Is e ContextCanceled"
proof (rule batch_phases [OF assms])
  fix w1 h1 tp np h2 r2
  assume eff: "batch_effect (BShouldProcess p (env_guard_now en)) tp w1 h1 w' h2 r2"
    and sets: "set batch = set tp \<union> set np"
    and res: "res = (case r2 of Inl e \<Rightarrow> if errors_Is e ContextCanceled then Inl e else Inr (tp @ np) | Inr os \<Rightarrow> Inr (os @ np))"
  have "\<And>out. r2 = Inr out \<Longrightarrow> out = tp" by (rule batch_effectE [OF eff]; simp)
  then show ?thesis unfolding sets by (cases r2) (simp_all add: res)
qed

text \<open>and what comes out is errored or agrees with the database.\<close>

lemma batch_synced:
  assumes
    "BMW_Process p en w h batch = (w', h', res)" "db_wf (db w)" "distinct batch"
    "inj_on (\<lambda>r. transfer_row_key (h r)) (set batch)"
    "\<And>r. r \<in> set batch \<Longrightarrow> error_ok (h r) \<and> (has_error (h r) \<or> synced (db w) (h r))"
    and out: "res = Inr out" and r: "r \<in> set batch"
  shows "error_ok (h' r) \<and> (has_error (h' r) \<or> synced (db w') (h' r))"
proof (rule batch_phases [OF assms(1-5)])
  fix w1 h1 tp np h2 r2
  assume eff: "batch_effect (BShouldProcess p (env_guard_now en)) tp w1 h1 w' h2 r2"
    and sets: "set batch = set tp \<union> set np"
    and pkt1: "\<And>r. packet_of (h1 r) = packet_of (h r)"
    and ok1: "\<And>r. r \<in> set batch \<Longrightarrow> error_ok (h1 r)"
    and sync1: "\<And>r. r \<in> set batch \<Longrightarrow> ProcessingError (h1 r) = None \<Longrightarrow> synced (db w1) (h1 r)"
    and h': "h' = (case r2 of Inl e \<Rightarrow> if errors_Is e ContextCanceled then h2 else set_errors e tp h2 | Inr os \<Rightarrow> h2)"
    and res: "res = (case r2 of Inl e \<Rightarrow> if errors_Is e ContextCanceled then Inl e else Inr (tp @ np) | Inr os \<Rightarrow> Inr (os @ np))"
  have h2: "error_ok (h1 r) \<Longrightarrow> error_ok (h2 r)" "\<And>e. r2 = Inl e \<Longrightarrow> \<not> empty_message e"
      "ProcessingError (h2 r) = None \<Longrightarrow> ProcessingError (h1 r) = None"
    by (rule batch_effectE [OF eff]; simp)+
  have key1: "transfer_row_key (h1 r) = transfer_row_key (h r)" for r
    using transfer_row_key_packet pkt1 by blast
  have other: "transfer_row_key (h1 r) \<notin> (\<lambda>r. transfer_row_key (h1 r)) ` set tp" if "r \<notin> set tp"
    using assms(4) that r unfolding key1 sets by (auto simp: inj_on_def)
  have live: "has_error (h2 r) \<or> synced (db w') (h2 r)" if "r \<notin> set tp \<or> (\<exists>os. r2 = Inr os)"
  proof (cases "ProcessingError (h2 r) = None")
    case True
    note s1 = sync1 [OF r h2(3) [OF True]]
    have "synced (db w') (h2 r)"
    proof (cases "r \<in> set tp")
      case in_tp: True
      with that obtain os where "r2 = Inr os" by blast
      with eff show ?thesis using in_tp True s1 by (auto intro: batch_effect_synced)
    next
      case False
      then show ?thesis using batch_effect_other [OF eff False s1] other by simp
    qed
    then show ?thesis by simp
  next
    case False
    then show ?thesis using h2(1) [OF ok1 [OF r]] by (auto simp: error_ok_def)
  qed
  show ?thesis
    using out res live h2(1) [OF ok1 [OF r]] h2(2)
    by (cases r2; cases "r \<in> set tp") (auto simp: h' set_errors_at split: if_splits)
qed

end

section \<open>The processors meet the contract\<close>

text \<open>The collection loops only mark transfers as errored.\<close>

definition marked :: "ref list \<Rightarrow> heap \<Rightarrow> heap \<Rightarrow> bool" where
  "marked rs h h1 \<longleftrightarrow>
     (\<forall>r. h1 r = h r \<or>
        r \<in> set rs \<and> (\<exists>e. \<not> empty_message e \<and> h1 r = (h r)\<lparr>ProcessingError := Some e\<rparr>))"

lemma marked_Cons:
  assumes "marked [r] h h1" "marked rs h1 h2"
  shows "marked (r # rs) h h2"
  unfolding marked_def
proof
  fix x
  consider "h2 x = h1 x" | e where "x \<in> set rs" "\<not> empty_message e" "h2 x = (h1 x)\<lparr>ProcessingError := Some e\<rparr>"
    using assms(2) unfolding marked_def by blast
  then show "h2 x = h x \<or> x \<in> set (r # rs) \<and>
      (\<exists>e. \<not> empty_message e \<and> h2 x = (h x)\<lparr>ProcessingError := Some e\<rparr>)"
  proof cases
    case 1
    then show ?thesis using assms(1) unfolding marked_def by (metis list.set_intros(1) singletonD list.set(1) list.simps(15))
  next
    case (2 e)
    have "h1 x = h x \<or> (\<exists>e'. h1 x = (h x)\<lparr>ProcessingError := Some e'\<rparr>)"
      using assms(1) unfolding marked_def by blast
    then have "h2 x = (h x)\<lparr>ProcessingError := Some e\<rparr>" using 2(3) by auto
    then show ?thesis using 2(1,2) by auto
  qed
qed

lemma marked_fold:
  assumes "\<And>r h a b c h1 x. f r (h, a, b, c) = (h1, x) \<Longrightarrow> marked [r] h h1"
  shows "fold f rs (h, a, b, c) = (h1, x) \<Longrightarrow> marked rs h h1"
proof (induction rs arbitrary: h a b c)
  case (Cons r rs)
  obtain h2 a2 b2 c2 where f: "f r (h, a, b, c) = (h2, a2, b2, c2)" using prod_cases4 by blast
  then have "marked rs h2 h1" using Cons by simp
  then show ?case using marked_Cons assms f by blast
qed (simp add: marked_def)

lemma marked_refl: "marked rs h h"
  by (simp add: marked_def)

lemma marked_upd:
  "\<not> empty_message e \<Longrightarrow> marked [r] h (h(r := (h r)\<lparr>ProcessingError := Some e\<rparr>))"
  unfolding marked_def
proof
  fix x
  assume "\<not> empty_message e"
  then show "(h(r := (h r)\<lparr>ProcessingError := Some e\<rparr>)) x = h x \<or> x \<in> set [r] \<and>
      (\<exists>e'. \<not> empty_message e' \<and> (h(r := (h r)\<lparr>ProcessingError := Some e\<rparr>)) x =
         (h x)\<lparr>ProcessingError := Some e'\<rparr>)"
    by (cases "x = r", intro disjI2 conjI exI [of _ e]) auto
qed

lemma collect_source_marked: "fold collect_source rs (h, a, b, c) = (h1, x) \<Longrightarrow> marked rs h h1"
  by (rule marked_fold)
    (auto simp: collect_source_def Let_def marked_refl marked_upd split: if_splits sum.splits)

lemma collect_write_ack_marked: "fold collect_write_ack rs (h, a, b, c) = (h1, x) \<Longrightarrow> marked rs h h1"
  by (rule marked_fold)
    (auto simp: collect_write_ack_def Let_def marked_refl marked_upd
      split: if_splits sum.splits option.splits)

lemma submit_batch_result:
  assumes "submit_batch m1 m2 m3 req chain en w = (w1, res)"
  shows "db w1 = db w"
    and "m1 \<noteq> [] \<Longrightarrow> m2 \<noteq> [] \<Longrightarrow> m3 \<noteq> [] \<Longrightarrow> res = Inl e \<Longrightarrow> \<not> empty_message e"
  using assms by (auto simp: submit_batch_def split: sum.splits prod.splits option.splits if_splits)

text \<open>A transaction is applied as a whole or, with an error, not at all.\<close>

lemma update_all_ok:
  "update_all msg (\<lambda>k. exec_update x q k f) ks d = (d', None) \<Longrightarrow>
   d' = fold (\<lambda>k. update_where k f) ks d"
  by (induction ks arbitrary: d) (auto split: prod.splits option.splits)

lemma ExecTx_all:
  assumes "with_db (ExecTx pl (\<lambda>x. update_all msg (\<lambda>k. exec_update x q k (f x)) ks)) w = (w', oe)"
  shows "db w' = fold (\<lambda>k. update_where k (f (pool_tx pl))) ks (db w) \<or> db w' = db w \<and> oe \<noteq> None"
  using assms update_all_ok
  by (auto simp: with_db_def ExecTx_def split: prod.splits option.splits if_splits)

lemma set_live_at:
  assumes "\<And>t. ProcessingError (u t) = ProcessingError t" "\<And>t. u (u t) = u t"
  shows "set_live u rs h r = (if r \<in> set rs \<and> ProcessingError (h r) = None then u (h r) else h r)"
  unfolding set_live_def using assms by (induction rs arbitrary: h) auto

lemma marked_keeps:
  assumes "marked rs h h1"
  shows "packet_of (h1 r) = packet_of (h r)" "delivery_of (h1 r) = delivery_of (h r)"
    "State (h1 r) = State (h r)" "error_ok (h r) \<Longrightarrow> error_ok (h1 r)"
    "ProcessingError (h1 r) = None \<Longrightarrow> ProcessingError (h r) = None"
    "r \<notin> set rs \<Longrightarrow> h1 r = h r"
proof -
  have "packet_of (h1 r) = packet_of (h r) \<and> delivery_of (h1 r) = delivery_of (h r) \<and>
      State (h1 r) = State (h r) \<and> (error_ok (h r) \<longrightarrow> error_ok (h1 r)) \<and>
      (ProcessingError (h1 r) = None \<longrightarrow> ProcessingError (h r) = None) \<and> (r \<notin> set rs \<longrightarrow> h1 r = h r)"
  proof (cases "h1 r = h r")
    case False
    then obtain e where "r \<in> set rs" "\<not> empty_message e" "h1 r = (h r)\<lparr>ProcessingError := Some e\<rparr>"
      using assms unfolding marked_def by blast
    then show ?thesis by simp
  qed simp
  then show "packet_of (h1 r) = packet_of (h r)" "delivery_of (h1 r) = delivery_of (h r)"
    "State (h1 r) = State (h r)" "error_ok (h r) \<Longrightarrow> error_ok (h1 r)"
    "ProcessingError (h1 r) = None \<Longrightarrow> ProcessingError (h r) = None"
    "r \<notin> set rs \<Longrightarrow> h1 r = h r"
    by simp_all
qed

lemma live_keys_marked:
  assumes "marked rs h h1" "distinct rs" "inj_on (\<lambda>r. transfer_row_key (h r)) (set rs)"
  shows "distinct (live_keys h1 rs)"
    and "set (live_keys h1 rs) \<subseteq> (\<lambda>r. transfer_row_key (h r)) ` {r \<in> set rs. ProcessingError (h r) = None}"
    and "r \<in> set rs \<Longrightarrow> ProcessingError (h1 r) = None \<Longrightarrow> transfer_row_key (h r) \<in> set (live_keys h1 rs)"
proof -
  have key: "transfer_row_key (h1 r) = transfer_row_key (h r)" for r
    using transfer_row_key_packet marked_keeps(1) [OF assms(1)] by blast
  show "distinct (live_keys h1 rs)"
    using assms(2,3) by (auto simp: live_keys_def key distinct_map inj_on_def)
  show "set (live_keys h1 rs) \<subseteq> (\<lambda>r. transfer_row_key (h r)) ` {r \<in> set rs. ProcessingError (h r) = None}"
    using marked_keeps(5) [OF assms(1)] by (auto simp: live_keys_def key)
  show "transfer_row_key (h r) \<in> set (live_keys h1 rs)" if "r \<in> set rs" "ProcessingError (h1 r) = None"
    using that by (auto simp: live_keys_def key)
qed

text \<open>From the pieces to the effect: a failed run and a successful one.\<close>

lemma batch_effect_failed:
  assumes "marked rs h h1" "distinct rs" "inj_on (\<lambda>r. transfer_row_key (h r)) (set rs)" "db_wf (db w)"
    and "changes f g" "\<And>t. guard t \<Longrightarrow> delivery_step (delivery_of t) (g (delivery_of t))"
    and "db w' = db w \<or> db w' = fold (\<lambda>k. update_where k f) (live_keys h1 rs) (db w)"
    and "\<not> empty_message e"
  shows "batch_effect guard rs w h w' h1 (Inl e)"
proof -
  have k: "keeps_key f" using assms(5) by (simp add: changes_def benign_keeps_key)
  obtain ks where "ks = [] \<or> ks = live_keys h1 rs" "db w' = fold (\<lambda>k. update_where k f) ks (db w)"
    using assms(7) by (metis fold_simps(1))
  then show ?thesis
    using assms(5,6) live_keys_marked(1,2) [OF assms(1-3)] marked_keeps [OF assms(1)] assms(4,8)
    by (intro batch_effectI [where f = f and g = g and K = "set ks"])
      (auto simp: rows.find_fold_upd [OF k] rows.wf_fold_upd [OF k])
qed

lemma batch_effect_done:
  assumes "marked rs h h1" "distinct rs" "inj_on (\<lambda>r. transfer_row_key (h r)) (set rs)" "db_wf (db w)"
    and "changes f g" "\<And>t. guard t \<Longrightarrow> delivery_step (delivery_of t) (g (delivery_of t))"
    and "db w' = fold (\<lambda>k. update_where k f) (live_keys h1 rs) (db w)"
    and u: "\<And>t. ProcessingError (u t) = ProcessingError t" "\<And>t. u (u t) = u t"
      "\<And>t. packet_of (u t) = packet_of t" "\<And>t. State (u t) = State t"
      "\<And>t. delivery_of (u t) = g (delivery_of t)"
  shows "batch_effect guard rs w h w' (set_live u rs h1) (Inr rs)"
proof -
  have k: "keeps_key f" using assms(5) by (simp add: changes_def benign_keeps_key)
  have ok: "error_ok (u t) = error_ok t" for t by (simp add: error_ok_def has_error_def u(1))
  show ?thesis
    using live_keys_marked [OF assms(1-3)] marked_keeps [OF assms(1)]
    by (intro batch_effectI [where f = f and g = g and K = "set (live_keys h1 rs)"])
      (auto simp: assms(4-7) rows.find_fold_upd [OF k] rows.wf_fold_upd [OF k] set_live_at [OF u(1,2)]
        u ok split: if_splits)
qed

lemma batch_effect_pieces:
  assumes mk: "marked rs h h1" and dist: "distinct rs" "inj_on (\<lambda>r. transfer_row_key (h r)) (set rs)"
    and wf: "db_wf (db w)"
    and run: "(case submit_batch m1 m2 m3 req chain en w of
        (w1, Inl e) \<Rightarrow> (w1, h1, Inl e)
      | (w1, Inr tx) \<Rightarrow>
          (case with_db (ExecTx pl (\<lambda>x. update_all msg (\<lambda>k. exec_update x q k (f x tx)) (live_keys h1 rs))) w1 of
             (w2, Some e) \<Rightarrow> (w2, h1, Inl (Errorf msg2 [e]))
           | (w2, None) \<Rightarrow> (w2, set_live (u tx) rs h1, Inr rs))) = (w', h', res)"
    and msgs: "m1 \<noteq> []" "m2 \<noteq> []" "m3 \<noteq> []" "msg2 \<noteq> []"
    and ch: "\<And>x tx. changes (f x tx) (g tx)"
    and guard: "\<And>t tx. guard t \<Longrightarrow> delivery_step (delivery_of t) (g tx (delivery_of t))"
    and u: "\<And>tx t. ProcessingError (u tx t) = ProcessingError t" "\<And>tx t. u tx (u tx t) = u tx t"
      "\<And>tx t. packet_of (u tx t) = packet_of t" "\<And>tx t. State (u tx t) = State t"
      "\<And>tx t. delivery_of (u tx t) = g tx (delivery_of t)"
  shows "batch_effect guard rs w h w' h' res"
proof -
  obtain w1 tx where sub: "submit_batch m1 m2 m3 req chain en w = (w1, tx)" by (rule prod.exhaust)
  show ?thesis
  proof (cases tx)
    case (Inl e)
    then show ?thesis
      using run sub submit_batch_result [OF sub] msgs
        batch_effect_failed [OF mk dist wf ch guard, where w' = w1 and e = e]
      by simp
  next
    case (Inr tx')
    obtain w2 oe where ex: "with_db (ExecTx pl (\<lambda>x. update_all msg (\<lambda>k. exec_update x q k (f x tx')) (live_keys h1 rs))) w1 = (w2, oe)"
      using prod.exhaust by blast
    have d: "db w2 = fold (\<lambda>k. update_where k (f (pool_tx pl) tx')) (live_keys h1 rs) (db w) \<or>
        db w2 = db w \<and> oe \<noteq> None"
      using ExecTx_all [OF ex] submit_batch_result(1) [OF sub] by simp
    show ?thesis
    proof (cases oe)
      case None
      then have "w' = w2" "h' = set_live (u tx') rs h1" "res = Inr rs" using run sub Inr ex by simp_all
      then show ?thesis
        using d None batch_effect_done [OF mk dist wf ch guard, where w' = w2, OF _ _ u] by simp
    next
      case (Some e)
      then have "w' = w2" "h' = h1" "res = Inl (Errorf msg2 [e])" using run sub Inr ex by simp_all
      moreover have "batch_effect guard rs w h w2 h1 (Inl (Errorf msg2 [e]))"
        using mk dist wf ch guard
        by (rule batch_effect_failed [where f = "f (pool_tx pl) tx'" and g = "g tx'"])
          (use d msgs(4) in auto)
      ultimately show ?thesis by simp
    qed
  qed
qed

lemma statement_eta:
  "UpdateTransferRecvTx x a b c = (\<lambda>k. exec_update x ''UpdateTransferRecvTx'' k
     (\<lambda>r. r\<lparr>updated_at := tx_now x, recv_tx_hash := a, recv_tx_time := b, recv_tx_relayer_address := c\<rparr>))"
  "UpdateTransferAckTx x a b c = (\<lambda>k. exec_update x ''UpdateTransferAckTx'' k
     (\<lambda>r. r\<lparr>updated_at := tx_now x, ack_tx_hash := a, ack_tx_time := b, ack_tx_relayer_address := c\<rparr>))"
  "UpdateTransferTimeoutTx x a b c = (\<lambda>k. exec_update x ''UpdateTransferTimeoutTx'' k
     (\<lambda>r. r\<lparr>updated_at := tx_now x, timeout_tx_hash := a, timeout_tx_time := b,
           timeout_tx_relayer_address := c\<rparr>))"
  by (simp_all add: fun_eq_iff statement_defs)

lemma changes_recv:
  "changes (\<lambda>r. r\<lparr>updated_at := n, recv_tx_hash := Some (Hash tx), recv_tx_time := Some (Timestamp tx),
      recv_tx_relayer_address := a\<rparr>)
    (\<lambda>d. d\<lparr>dl_recv_hash := Some (Hash tx), dl_recv_time := Some (Timestamp tx)\<rparr>)"
  by (simp add: changes_def benign_def delivery_simps)

interpretation batch_recv: batch_contract "BatchRecvPacketProcessor rt" for rt
proof
  fix w h rs en w' h' res now
  assume wf: "db_wf (db w)" and dist: "inj_on (\<lambda>r. transfer_row_key (h r)) (set rs)" "distinct rs"
    and run: "BProcess (BatchRecvPacketProcessor rt) en w h rs = (w', h', res)"
  obtain h1 ids seqs seen where col: "fold collect_source rs (h, [], [], []) = (h1, ids, seqs, seen)"
    using prod_cases4 by blast
  have guard: "delivery_step (delivery_of t) ((delivery_of t)\<lparr>dl_recv_hash := Some (Hash tx), dl_recv_time := Some (Timestamp tx)\<rparr>)"
    if "BShouldProcess (BatchRecvPacketProcessor rt) now t" for t and tx :: BridgeTx
    using that by (intro delivery_step.record_recv) (auto simp: BatchRecvPacketProcessor_def guard_defs Let_def
        split: if_splits option.splits)
  show "batch_effect (BShouldProcess (BatchRecvPacketProcessor rt) now) rs w h w' h' res"
    using run unfolding BatchRecvPacketProcessor_def batch_processor.simps BatchRecvPacket_Process_def col prod.case
      statement_eta
    by (rule batch_effect_pieces [OF collect_source_marked [OF col] dist(2,1) wf _ _ _ _ _ changes_recv
          guard [unfolded BatchRecvPacketProcessor_def batch_processor.simps]])
      (simp_all add: delivery_of_def packet_of_def)
qed (auto simp: BatchRecvPacketProcessor_def guard_defs IsTimedOut_def unfinished_status_def delivery_of_def packet_of_def)

lemma changes_timeout:
  "changes (\<lambda>r. r\<lparr>updated_at := n, timeout_tx_hash := Some (Hash tx), timeout_tx_time := Some (Timestamp tx),
      timeout_tx_relayer_address := a\<rparr>)
    (\<lambda>d. d\<lparr>dl_timeout_hash := Some (Hash tx), dl_timeout_time := Some (Timestamp tx)\<rparr>)"
  by (simp add: changes_def benign_def delivery_simps)

interpretation batch_timeout: batch_contract "BatchTimeoutPacketProcessor rt" for rt
proof
  fix w h rs en w' h' res now
  assume wf: "db_wf (db w)" and dist: "inj_on (\<lambda>r. transfer_row_key (h r)) (set rs)" "distinct rs"
    and run: "BProcess (BatchTimeoutPacketProcessor rt) en w h rs = (w', h', res)"
  obtain h1 ids seqs seen where col: "fold collect_source rs (h, [], [], []) = (h1, ids, seqs, seen)"
    using prod_cases4 by blast
  have guard: "delivery_step (delivery_of t) ((delivery_of t)\<lparr>dl_timeout_hash := Some (Hash tx), dl_timeout_time := Some (Timestamp tx)\<rparr>)"
    if "BShouldProcess (BatchTimeoutPacketProcessor rt) now t" for t and tx :: BridgeTx
    using that by (intro delivery_step.record_timeout) (auto simp: BatchTimeoutPacketProcessor_def guard_defs Let_def
        split: if_splits option.splits)
  show "batch_effect (BShouldProcess (BatchTimeoutPacketProcessor rt) now) rs w h w' h' res"
    using run unfolding BatchTimeoutPacketProcessor_def batch_processor.simps BatchTimeoutPacket_Process_def col prod.case
      statement_eta
    by (rule batch_effect_pieces [OF collect_source_marked [OF col] dist(2,1) wf _ _ _ _ _ changes_timeout
          guard [unfolded BatchTimeoutPacketProcessor_def batch_processor.simps]])
      (simp_all add: delivery_of_def packet_of_def)
qed (auto simp: BatchTimeoutPacketProcessor_def guard_defs IsTimedOut_def unfinished_status_def delivery_of_def packet_of_def)

lemma changes_ack:
  "changes (\<lambda>r. r\<lparr>updated_at := n, ack_tx_hash := Some (Hash tx), ack_tx_time := Some (Timestamp tx),
      ack_tx_relayer_address := a\<rparr>)
    (\<lambda>d. d\<lparr>dl_ack_hash := Some (Hash tx), dl_ack_time := Some (Timestamp tx)\<rparr>)"
  by (simp add: changes_def benign_def delivery_simps)

interpretation batch_ack: batch_contract "BatchAckPacketProcessor rt successAcks errorAcks" for rt successAcks errorAcks
proof
  fix w h rs en w' h' res now
  assume wf: "db_wf (db w)" and dist: "inj_on (\<lambda>r. transfer_row_key (h r)) (set rs)" "distinct rs"
    and run: "BProcess (BatchAckPacketProcessor rt successAcks errorAcks) en w h rs = (w', h', res)"
  obtain h1 ids seqs seen where col: "fold collect_write_ack rs (h, [], [], []) = (h1, ids, seqs, seen)"
    using prod_cases4 by blast
  have guard: "delivery_step (delivery_of t) ((delivery_of t)\<lparr>dl_ack_hash := Some (Hash tx), dl_ack_time := Some (Timestamp tx)\<rparr>)"
    if "BShouldProcess (BatchAckPacketProcessor rt successAcks errorAcks) now t" for t and tx :: BridgeTx
    using that by (intro delivery_step.record_ack) (auto simp: BatchAckPacketProcessor_def guard_defs Let_def
        split: if_splits option.splits)
  show "batch_effect (BShouldProcess (BatchAckPacketProcessor rt successAcks errorAcks) now) rs w h w' h' res"
    using run unfolding BatchAckPacketProcessor_def batch_processor.simps BatchAckPacket_Process_def col prod.case
      statement_eta
    by (rule batch_effect_pieces [OF collect_write_ack_marked [OF col] dist(2,1) wf _ _ _ _ _ changes_ack
          guard [unfolded BatchAckPacketProcessor_def batch_processor.simps]])
      (simp_all add: delivery_of_def packet_of_def)
qed (auto simp: BatchAckPacketProcessor_def guard_defs Let_def unfinished_status_def delivery_of_def packet_of_def
    split: option.splits if_splits)

end
