(* ===== verification/Relayer_Finisher.thy ===== *)
theory Relayer_Finisher
  imports Relayer_Processor
begin

text \<open>
  The last stage of the pipeline, \<open>relayer/ibcv2/state_finisher.go\<close>: it moves a complete
  transfer to a final status. It is not wrapped in the middleware and returns no error.

  \<^item> \<open>final_status\<close> is its specification on the abstract delivery.
  \<^item> \<open>sound_status\<close> says what a final status promises about the recorded transactions.
\<close>

section \<open>The stage\<close>

text \<open>
  The marking of a complete transfer: the transfer with its final state and the metrics
  recorded; \<open>None\<close> for the branch that logs a missing write-ack status and gives up.
\<close>

definition finisher_mark :: "configReader \<Rightarrow> transfer \<Rightarrow> (transfer \<times> metric list) option" where
  "finisher_mark cfg t =
     (if TimeoutTxHash t \<noteq> None then
        (let t1 = t\<lparr>State := COMPLETE_WITH_TIMEOUT\<rparr>
         in Some (t1, RecordSendTimeoutLatency cfg t1 @ RecordTimeoutRelayed t1))
      else
        (case WriteAckStatus t of
           None \<Rightarrow> None
         | Some writeAckStatus \<Rightarrow>
             if AckTxHash t \<noteq> None then
               (let t1 = t\<lparr>State := COMPLETE_WITH_ACK\<rparr>
                in Some (t1, RecordAckRecvLatency cfg t1 @ RecordAckRelayed t1))
             else
               (let isErrorAck = (writeAckStatus = ERROR \<or> writeAckStatus = UNKNOWN);
                    isSuccessAck = (writeAckStatus = SUCCESS);
                    t1 = (if isErrorAck then t\<lparr>State := COMPLETE_WITH_WRITE_ACK_ERROR\<rparr> else t);
                    t2 = (if isSuccessAck then t1\<lparr>State := COMPLETE_WITH_WRITE_ACK_SUCCESS\<rparr> else t1)
                in Some (t2, []))))"

definition StateFinisher_Process ::
  "bool \<Rightarrow> bool \<Rightarrow> env \<Rightarrow> world \<Rightarrow> transfer \<Rightarrow> world \<times> transfer" where
  "StateFinisher_Process shouldRelaySuccessAcks shouldRelayErrorAcks en w t =
     (if has_error t then (w, t)
      else if \<not> IsComplete shouldRelaySuccessAcks shouldRelayErrorAcks t then (w, t)
      else
        (case finisher_mark (env_config en) t of
           None \<Rightarrow> (w, t)
         | Some (t1, ms) \<Rightarrow>
             (case with_db (UpdateTransferState (env_db en) (State t1) (transfer_row_key t1))
                     (record_metrics ms w) of
                (w1, Some e) \<Rightarrow>
                  (w1, t1\<lparr>ProcessingError := Some (Errorf ''updating transfer state to %s: %w'' [e])\<rparr>)
              | (w1, None) \<Rightarrow> (w1, t1))))"

section \<open>Specification\<close>

text \<open>
  The final status of a delivery, \<open>None\<close> when it is not over. A packet is over when it
  timed out, or when it was received with a write acknowledgement and the acknowledgement was
  relayed or is of a kind the source chain does not want.
\<close>

definition wants_ack :: "bool \<Rightarrow> bool \<Rightarrow> Ibcv2WriteAckStatus \<Rightarrow> bool" where
  "wants_ack succ err s = (if s = SUCCESS then succ else err)"

definition final_status :: "bool \<Rightarrow> bool \<Rightarrow> delivery \<Rightarrow> Ibcv2RelayStatus option" where
  "final_status succ err d =
     (if dl_timeout_hash d \<noteq> None then Some COMPLETE_WITH_TIMEOUT
      else if dl_recv_hash d = None \<or> dl_wack_hash d = None then None
      else
        (case dl_wack_status d of
           None \<Rightarrow> None
         | Some s \<Rightarrow>
             if dl_ack_hash d \<noteq> None then Some COMPLETE_WITH_ACK
             else if wants_ack succ err s then None
             else Some (if s = SUCCESS then COMPLETE_WITH_WRITE_ACK_SUCCESS
                        else COMPLETE_WITH_WRITE_ACK_ERROR)))"

text \<open>What a status promises about the transactions recorded with it.\<close>

fun sound_status :: "Ibcv2RelayStatus \<Rightarrow> delivery \<Rightarrow> bool" where
  "sound_status COMPLETE_WITH_TIMEOUT d \<longleftrightarrow> dl_timeout_hash d \<noteq> None"
| "sound_status COMPLETE_WITH_ACK d \<longleftrightarrow>
     dl_recv_hash d \<noteq> None \<and> dl_wack_hash d \<noteq> None \<and> dl_ack_hash d \<noteq> None \<and> dl_timeout_hash d = None"
| "sound_status COMPLETE_WITH_WRITE_ACK_SUCCESS d \<longleftrightarrow>
     dl_recv_hash d \<noteq> None \<and> dl_wack_hash d \<noteq> None \<and> dl_wack_status d = Some SUCCESS \<and>
     dl_ack_hash d = None \<and> dl_timeout_hash d = None"
| "sound_status COMPLETE_WITH_WRITE_ACK_ERROR d \<longleftrightarrow>
     dl_recv_hash d \<noteq> None \<and> dl_wack_hash d \<noteq> None \<and>
     (dl_wack_status d = Some ERROR \<or> dl_wack_status d = Some UNKNOWN) \<and>
     dl_ack_hash d = None \<and> dl_timeout_hash d = None"
| "sound_status _ d \<longleftrightarrow> True"

lemma sound_status_unfinished: "unfinished_status s \<Longrightarrow> sound_status s d"
  by (cases s) (simp_all add: unfinished_status_def)

lemma final_status_finished: "final_status succ err d = Some s \<Longrightarrow> \<not> unfinished_status s"
  by (auto simp: final_status_def unfinished_status_def split: if_splits option.splits)

lemma final_status_sound: "final_status succ err d = Some s \<Longrightarrow> sound_status s d"
  by (cases "the (dl_wack_status d)")
    (auto simp: final_status_def split: if_splits option.splits)

section \<open>The stage implements it\<close>

text \<open>The mark is the final status of the delivery, and nothing else of the transfer moves.\<close>

lemma finisher_mark_final:
  assumes "IsComplete succ err t"
  shows "map_option fst (finisher_mark cfg t) =
           map_option (\<lambda>s. t\<lparr>State := s\<rparr>) (final_status succ err (delivery_of t))"
  using assms
  by (cases "WriteAckStatus t"; cases "the (WriteAckStatus t)")
    (auto simp: finisher_mark_def final_status_def IsComplete_def wants_ack_def Let_def split: if_splits)

lemma final_status_complete:
  assumes "\<not> IsComplete succ err t" "ProcessingError t = None" "AckTxHash t = None \<or> WriteAckStatus t \<noteq> None"
  shows "final_status succ err (delivery_of t) = None"
  using assms
  by (cases "WriteAckStatus t"; cases "the (WriteAckStatus t)")
    (auto simp: final_status_def IsComplete_def wants_ack_def Let_def split: if_splits)

lemma finisher_cases:
  assumes "StateFinisher_Process succ err en w t = (w', t')"
  obtains (pass) "w' = w" "t' = t"
      "has_error t \<or> \<not> IsComplete succ err t \<or> final_status succ err (delivery_of t) = None"
  | (failed) s ms e where "\<not> has_error t" "final_status succ err (delivery_of t) = Some s"
      "with_db (UpdateTransferState (env_db en) s (transfer_row_key t)) (record_metrics ms w) = (w', Some e)"
      "t' = t\<lparr>State := s, ProcessingError := Some (Errorf ''updating transfer state to %s: %w'' [e])\<rparr>"
  | (finished) s ms where "\<not> has_error t" "IsComplete succ err t" "final_status succ err (delivery_of t) = Some s"
      "with_db (UpdateTransferState (env_db en) s (transfer_row_key t)) (record_metrics ms w) = (w', None)"
      "t' = t\<lparr>State := s\<rparr>"
proof (cases "has_error t \<or> \<not> IsComplete succ err t")
  case True
  then show ?thesis using assms by (intro pass) (auto simp: StateFinisher_Process_def split: if_splits)
next
  case False
  then have mk: "map_option fst (finisher_mark (env_config en) t) =
      map_option (\<lambda>s. t\<lparr>State := s\<rparr>) (final_status succ err (delivery_of t))"
    by (simp add: finisher_mark_final)
  show ?thesis
  proof (cases "finisher_mark (env_config en) t")
    case None
    then show ?thesis using mk False assms pass by (simp add: StateFinisher_Process_def)
  next
    case (Some m)
    obtain t1 ms where m: "m = (t1, ms)" by (cases m)
    obtain s where s: "final_status succ err (delivery_of t) = Some s" "t1 = t\<lparr>State := s\<rparr>"
      using mk Some m by (cases "final_status succ err (delivery_of t)") auto
    obtain w1 oe where u: "with_db (UpdateTransferState (env_db en) s (transfer_row_key t)) (record_metrics ms w) = (w1, oe)"
      by (cases "with_db (UpdateTransferState (env_db en) s (transfer_row_key t)) (record_metrics ms w)")
    have "transfer_row_key t1 = transfer_row_key t" by (simp add: s(2) transfer_row_key_def)
    then show ?thesis
      using assms False Some m s u failed finished
      by (cases oe) (simp_all add: StateFinisher_Process_def)
  qed
qed

text \<open>
  The stage's guarantee. The rows of other transfers stay. The transfer's own row keeps its
  packet and its delivery; its status stays or becomes the final status of the delivery.
\<close>

lemma finisher_row:
  assumes run: "StateFinisher_Process succ err en w t = (w', t')" and wf: "db_wf (db w)"
    and ok: "has_error t \<or> synced (db w) t"
  shows "db_wf (db w')"
    and "k \<noteq> transfer_row_key t \<Longrightarrow> find_row (db w') k = find_row (db w) k"
    and "find_row (db w) k = Some r \<Longrightarrow>
      \<exists>r'. find_row (db w') k = Some r' \<and> row_packet r' = row_packet r \<and> row_delivery r' = row_delivery r \<and>
        (status r' = status r \<or> final_status succ err (row_delivery r') = Some (status r'))"
proof -
  have main: "db w' = db w \<or> (\<exists>s x. \<not> has_error t \<and> final_status succ err (delivery_of t) = Some s \<and>
      db w' = update_where (transfer_row_key t) (\<lambda>r. r\<lparr>updated_at := x, status := s\<rparr>) (db w))"
    using run
  proof (cases rule: finisher_cases)
    case pass
    then show ?thesis by simp
  next
    case (failed s ms e)
    from failed(3) show ?thesis unfolding UpdateTransferState_def
      by (rule with_db_exec_cases) (use failed(1,2) in auto)
  next
    case (finished s ms)
    from finished(4) show ?thesis unfolding UpdateTransferState_def
      by (rule with_db_exec_cases) (use finished(1,3) in auto)
  qed
  have keep: "keeps_key (\<lambda>r. r\<lparr>updated_at := x, status := s\<rparr>)" for x s
    by (simp add: keeps_key_def row_key_of_def)
  show "db_wf (db w')" using main wf keep by (auto simp: store_simps)
  show "k \<noteq> transfer_row_key t \<Longrightarrow> find_row (db w') k = find_row (db w) k"
    using main keep by (auto simp: store_simps)
  assume r: "find_row (db w) k = Some r"
  from main show "\<exists>r'. find_row (db w') k = Some r' \<and> row_packet r' = row_packet r \<and> row_delivery r' = row_delivery r \<and>
        (status r' = status r \<or> final_status succ err (row_delivery r') = Some (status r'))"
  proof
    assume "db w' = db w"
    then show ?thesis using r by simp
  next
    assume "\<exists>s x. \<not> has_error t \<and> final_status succ err (delivery_of t) = Some s \<and>
      db w' = update_where (transfer_row_key t) (\<lambda>r. r\<lparr>updated_at := x, status := s\<rparr>) (db w)"
    then obtain s x where sx: "\<not> has_error t" "final_status succ err (delivery_of t) = Some s"
      "db w' = update_where (transfer_row_key t) (\<lambda>r. r\<lparr>updated_at := x, status := s\<rparr>) (db w)" by blast
    have "k = transfer_row_key t \<Longrightarrow> row_delivery r = delivery_of t"
      using ok sx(1) r by (auto simp: synced_def)
    then show ?thesis using r sx keep by (auto simp: store_simps delivery_simps)
  qed
qed

lemma finisher_transfer:
  assumes run: "StateFinisher_Process succ err en w t = (w', t')"
  shows "packet_of t' = packet_of t" "delivery_of t' = delivery_of t" "error_ok t \<Longrightarrow> error_ok t'"
    "has_error t \<Longrightarrow> has_error t'"
  using run by (cases rule: finisher_cases; simp add: packet_of_def delivery_of_def error_ok_def has_error_def)+

text \<open>
  When the statement succeeds, a complete transfer's row has the final status of its delivery;
  so the transfer is not loaded again.
\<close>

lemma finisher_done:
  assumes "StateFinisher_Process succ err en w t = (w', t')" "db_wf (db w)" "synced (db w) t"
    and "IsComplete succ err t" "\<not> has_error t'" "delivery_inv (delivery_of t)"
  shows "\<exists>r. find_row (db w') (transfer_row_key t) = Some r \<and>
      final_status succ err (delivery_of t) = Some (status r) \<and> State t' = status r"
  using assms(1)
proof (cases rule: finisher_cases)
  case pass
  have "final_status succ err (delivery_of t) \<noteq> None"
    using assms(4,6) by (cases "WriteAckStatus t"; cases "the (WriteAckStatus t)")
      (auto simp: final_status_def IsComplete_def wants_ack_def delivery_inv_def Let_def split: if_splits)
  then show ?thesis using pass assms(4,5) by auto
next
  case (failed s ms e)
  then show ?thesis using assms(5) by (simp add: has_error_def)
next
  case (finished s ms)
  obtain r where "find_row (db w) (transfer_row_key t) = Some r" using assms(3) by (auto simp: synced_def)
  then show ?thesis using finished(3,5) status_written [OF finished(4)] by auto
qed

end
