(* ===== verification/Relayer_Pipeline.thy ===== *)
theory Relayer_Pipeline
  imports Relayer_Checks Relayer_Retries Relayer_Batch Relayer_Finisher
begin

text \<open>
  The options of a pipeline (\<open>relayer/ibcv2/pipeline_opts.go\<close>) and its stages
  (\<open>NewPipeline\<close> of \<open>relayer/ibcv2/pipeline.go\<close>).

  A pipeline is the list of its stages, in the order \<open>NewPipeline\<close> chains their channels.
  The channel library (\<open>deliveryhero/pipeline\<close>) moves transfers from stage to stage; the
  theory on the system has a step relation for it. \<open>pipeline_contract\<close> is what that theory
  needs of a stage list.
\<close>

section \<open>Options\<close>

definition DefaultShouldRelaySuccessAcks :: bool where "DefaultShouldRelaySuccessAcks = False"
definition DefaultShouldRelayErrorAcks :: bool where "DefaultShouldRelayErrorAcks = True"
definition DefaultAckBatchSize :: int where "DefaultAckBatchSize = 50"
definition DefaultAckBatchTimeout :: duration where "DefaultAckBatchTimeout = 10 * second"
definition DefaultAckBatchConcurrency :: int where "DefaultAckBatchConcurrency = 10"
definition DefaultRecvBatchSize :: int where "DefaultRecvBatchSize = 50"
definition DefaultRecvBatchTimeout :: duration where "DefaultRecvBatchTimeout = 10 * second"
definition DefaultRecvBatchConcurrency :: int where "DefaultRecvBatchConcurrency = 10"
definition DefaultTimeoutBatchSize :: int where "DefaultTimeoutBatchSize = 50"
definition DefaultTimeoutBatchTimeout :: duration where "DefaultTimeoutBatchTimeout = 1 * minute"
definition DefaultTimeoutBatchConcurrency :: int where "DefaultTimeoutBatchConcurrency = 10"

lemmas default_defs =
  DefaultShouldRelaySuccessAcks_def DefaultShouldRelayErrorAcks_def DefaultAckBatchSize_def
  DefaultAckBatchTimeout_def DefaultAckBatchConcurrency_def DefaultRecvBatchSize_def
  DefaultRecvBatchTimeout_def DefaultRecvBatchConcurrency_def DefaultTimeoutBatchSize_def
  DefaultTimeoutBatchTimeout_def DefaultTimeoutBatchConcurrency_def

record PipelineOptions =
  OptRelaySuccessAcks :: bool
  OptRelayErrorAcks :: bool
  OptAckBatchSize :: int
  OptAckBatchTimeout :: duration
  OptAckBatchConcurrency :: int
  OptRecvBatchSize :: int
  OptRecvBatchTimeout :: duration
  OptRecvBatchConcurrency :: int
  OptTimeoutBatchSize :: int
  OptTimeoutBatchTimeout :: duration
  OptTimeoutBatchConcurrency :: int
  SourceChainGasTokenCoingeckoID :: string
  SourceChainGasTokenDecimals :: uint8
  DestinationChainGasTokenCoingeckoID :: string
  DestinationChainGasTokenDecimals :: uint8
  SourceFinalityOffset :: "uint64 option"
  DestinationFinalityOffset :: "uint64 option"

definition NewDefaultPipelineOpts :: PipelineOptions where
  "NewDefaultPipelineOpts =
     \<lparr>OptRelaySuccessAcks = False,
      OptRelayErrorAcks = True,
      OptAckBatchSize = DefaultAckBatchSize,
      OptAckBatchTimeout = DefaultAckBatchTimeout,
      OptAckBatchConcurrency = DefaultAckBatchConcurrency,
      OptRecvBatchSize = DefaultRecvBatchSize,
      OptRecvBatchTimeout = DefaultRecvBatchTimeout,
      OptRecvBatchConcurrency = DefaultRecvBatchSize,
      OptTimeoutBatchSize = DefaultTimeoutBatchSize,
      OptTimeoutBatchTimeout = DefaultTimeoutBatchTimeout,
      OptTimeoutBatchConcurrency = DefaultTimeoutBatchConcurrency,
      SourceChainGasTokenCoingeckoID = [],
      SourceChainGasTokenDecimals = 0,
      DestinationChainGasTokenCoingeckoID = [],
      DestinationChainGasTokenDecimals = 0,
      SourceFinalityOffset = None,
      DestinationFinalityOffset = None\<rparr>"

definition NewSmallPipelineOpts :: PipelineOptions where
  "NewSmallPipelineOpts =
     \<lparr>OptRelaySuccessAcks = False,
      OptRelayErrorAcks = True,
      OptAckBatchSize = 3,
      OptAckBatchTimeout = second div 4,
      OptAckBatchConcurrency = 2,
      OptRecvBatchSize = 3,
      OptRecvBatchTimeout = second div 4,
      OptRecvBatchConcurrency = 2,
      OptTimeoutBatchSize = 3,
      OptTimeoutBatchTimeout = second div 4,
      OptTimeoutBatchConcurrency = 2,
      SourceChainGasTokenCoingeckoID = [],
      SourceChainGasTokenDecimals = 0,
      DestinationChainGasTokenCoingeckoID = [],
      DestinationChainGasTokenDecimals = 0,
      SourceFinalityOffset = None,
      DestinationFinalityOffset = None\<rparr>"

text \<open>\<open>x := Default; if cfg != 0 { x = cfg }\<close>.\<close>

definition or_default :: "int \<Rightarrow> int \<Rightarrow> int" where
  "or_default v d = (if v \<noteq> 0 then v else d)"

definition NewPipelineOpts :: "configReader \<Rightarrow> transfer \<Rightarrow> PipelineOptions res" where
  "NewPipelineOpts cfg t =
     (case GetChainConfig cfg (SourceChainID t) of
        Inl e \<Rightarrow> Inl (Errorf ''getting config for chain %s: %w'' [e])
      | Inr sc \<Rightarrow>
     (case GetChainConfig cfg (DestinationChainID t) of
        Inl e \<Rightarrow> Inl (Errorf ''getting config for chain %s: %w'' [e])
      | Inr dc \<Rightarrow>
     (case IBCV2 sc of
        None \<Rightarrow> Inl (Errorf ''no ibcv2 config for source chain %s'' [])
      | Some si \<Rightarrow>
     (case IBCV2 dc of
        None \<Rightarrow> Inl (Errorf ''no ibcv2 config for destination chain %s'' [])
      | Some di \<Rightarrow>
          Inr \<lparr>OptRelaySuccessAcks = ShouldRelaySuccessAcks si,
               OptRelayErrorAcks = ShouldRelayErrorAcks si,
               OptAckBatchSize = or_default (AckBatchSize si) DefaultAckBatchSize,
               OptAckBatchTimeout = or_default (AckBatchTimeout si) DefaultAckBatchTimeout,
               OptAckBatchConcurrency = or_default (AckBatchConcurrency si) DefaultAckBatchConcurrency,
               OptRecvBatchSize = or_default (RecvBatchSize di) DefaultRecvBatchSize,
               OptRecvBatchTimeout = or_default (RecvBatchTimeout di) DefaultRecvBatchTimeout,
               OptRecvBatchConcurrency = or_default (RecvBatchConcurrency di) DefaultRecvBatchConcurrency,
               OptTimeoutBatchSize = or_default (TimeoutBatchSize si) DefaultTimeoutBatchSize,
               OptTimeoutBatchTimeout = or_default (TimeoutBatchTimeout si) DefaultTimeoutBatchTimeout,
               OptTimeoutBatchConcurrency =
                 or_default (TimeoutBatchConcurrency si) DefaultTimeoutBatchConcurrency,
               SourceChainGasTokenCoingeckoID =
                 (case GasTokenCoingeckoID sc of None \<Rightarrow> [] | Some g \<Rightarrow> g),
               SourceChainGasTokenDecimals = GasTokenDecimals sc,
               DestinationChainGasTokenCoingeckoID =
                 (case GasTokenCoingeckoID dc of None \<Rightarrow> [] | Some g \<Rightarrow> g),
               DestinationChainGasTokenDecimals = GasTokenDecimals dc,
               SourceFinalityOffset = FinalityOffset si,
               DestinationFinalityOffset = FinalityOffset di\<rparr>))))"

section \<open>Stages\<close>

text \<open>
  A stage is a processor in its middleware, a batch processor in its middleware behind
  \<open>ConditionallyBatchProcess\<close> with the size of a batch, or the finisher.
\<close>

datatype stage = Single processor | Batch batch_processor int | Finisher bool bool

text \<open>A gas calculator is there only when the chain's gas token and a price client are.\<close>

definition gas_stage :: "bool \<Rightarrow> string \<Rightarrow> uint8 \<Rightarrow> (string \<Rightarrow> uint8 \<Rightarrow> processor) \<Rightarrow> stage list" where
  "gas_stage hasPriceClient coin decimals calculator =
     (if coin \<noteq> [] \<and> decimals \<noteq> 0 \<and> hasPriceClient then [Single (calculator coin decimals)] else [])"

definition NewPipeline :: "bool \<Rightarrow> route \<Rightarrow> PipelineOptions \<Rightarrow> stage list" where
  "NewPipeline hasPriceClient rt opts =
     [Single CheckRecvPacketDeliveryProcessor,
      Single CheckPacketCommitmentProcessor,
      Single (CheckSendFinalityProcessor (SourceFinalityOffset opts)),
      Single (CheckTimeoutFinalityProcessor (DestinationFinalityOffset opts)),
      Batch (BatchTimeoutPacketProcessor rt) (OptTimeoutBatchSize opts),
      Single (RetryTimeoutPacketProcessor (sourceChainID rt))] @
     gas_stage hasPriceClient (SourceChainGasTokenCoingeckoID opts) (SourceChainGasTokenDecimals opts)
       TimeoutTxGasCalculatorProcessor @
     [Batch (BatchRecvPacketProcessor rt) (OptRecvBatchSize opts),
      Single (RetryRecvPacketProcessor (destinationChainID rt))] @
     gas_stage hasPriceClient (DestinationChainGasTokenCoingeckoID opts)
       (DestinationChainGasTokenDecimals opts) RecvTxGasCalculatorProcessor @
     [Single WaitForWriteAckPacket,
      Single (CheckWriteAckFinalityProcessor (DestinationFinalityOffset opts)
        (OptRelaySuccessAcks opts) (OptRelayErrorAcks opts)),
      Single CheckPacketCommitmentProcessor,
      Batch (BatchAckPacketProcessor rt (OptRelaySuccessAcks opts) (OptRelayErrorAcks opts))
        (OptAckBatchSize opts),
      Single (RetryAckPacketProcessor (sourceChainID rt))] @
     gas_stage hasPriceClient (SourceChainGasTokenCoingeckoID opts) (SourceChainGasTokenDecimals opts)
       AckTxGasCalculatorProcessor @
     [Finisher (OptRelaySuccessAcks opts) (OptRelayErrorAcks opts)]"

text \<open>
  The test of \<open>ConditionallyBatchProcess\<close>: an errored transfer, or one the processor does
  not want, goes to the output at once.
\<close>

definition batch_bypass :: "batch_processor \<Rightarrow> time \<Rightarrow> transfer \<Rightarrow> bool" where
  "batch_bypass p now t \<longleftrightarrow> has_error t \<or> \<not> BShouldProcess p now t"

section \<open>The contract of a stage list\<close>

locale pipeline_contract =
  fixes stages :: "stage list"
  assumes single_ok: "Single p \<in> set stages \<Longrightarrow> processor_contract p"
    and batch_ok: "Batch q n \<in> set stages \<Longrightarrow> batch_contract q"
    and finisher_last: "i < length stages \<Longrightarrow> stages ! i = Finisher a b \<Longrightarrow> Suc i = length stages"

lemma gas_stage_single:
  "s \<in> set (gas_stage hp c d f) \<Longrightarrow> s = Single (f c d)"
  by (simp add: gas_stage_def split: if_splits)

lemma gas_stage_not_finisher [simp]: "Finisher a b \<notin> set (gas_stage hp c d f)"
  and gas_stage_not_batch [simp]: "Batch q n \<notin> set (gas_stage hp c d f)"
  by (simp_all add: gas_stage_def)

lemmas processor_instances =
  check_recv.processor_contract_axioms check_commitment.processor_contract_axioms
  check_send.processor_contract_axioms check_timeout.processor_contract_axioms
  wait_write_ack.processor_contract_axioms check_write_ack.processor_contract_axioms
  retry_recv.processor_contract_axioms retry_ack.processor_contract_axioms
  retry_timeout.processor_contract_axioms recv_gas.processor_contract_axioms
  ack_gas.processor_contract_axioms timeout_gas.processor_contract_axioms

lemmas batch_instances =
  batch_recv.batch_contract_axioms batch_ack.batch_contract_axioms batch_timeout.batch_contract_axioms

lemma last_only:
  "P \<notin> set xs \<Longrightarrow> i < length (xs @ [y]) \<Longrightarrow> (xs @ [y]) ! i = P \<Longrightarrow> Suc i = length (xs @ [y])"
  by (cases "i < length xs") (auto simp: nth_append)

interpretation newp: pipeline_contract "NewPipeline hp rt opts" for hp rt opts
proof (rule pipeline_contract.intro)
  show "processor_contract p" if "Single p \<in> set (NewPipeline hp rt opts)" for p
    using that by (auto simp: NewPipeline_def dest!: gas_stage_single intro: processor_instances)
  show "batch_contract q" if "Batch q n \<in> set (NewPipeline hp rt opts)" for q n
    using that by (auto simp: NewPipeline_def intro: batch_instances)
  show "Suc i = length (NewPipeline hp rt opts)"
    if "i < length (NewPipeline hp rt opts)" "NewPipeline hp rt opts ! i = Finisher a b" for i a b
    using that unfolding NewPipeline_def append_assoc [symmetric] by (rule last_only [rotated]) simp
qed

end
