(* ===== verification/Relayer_Dispatcher.thy ===== *)
theory Relayer_Dispatcher
  imports Relayer_Pipeline "HOL-Library.Multiset"
begin

text \<open>
  The pipeline manager and the deduper of \<open>relayer/ibcv2/pipeline.go\<close> and the dispatcher of
  \<open>relayer/ibcv2/relay_dispatcher.go\<close>, over the state of the whole relayer.

  \<^item> A pipeline key has the fields of a \<open>route\<close>.
  \<^item> A transfer in a pipeline is a token: its pipeline, its place and its reference. The place
    \<open>At i\<close> is the channel into stage \<open>i\<close> (the output, past the last one); \<open>Waiting i\<close> is
    the batch buffer of stage \<open>i\<close>. A pointer that was sent twice is two equal tokens, so the
    tokens are a multiset.
  \<^item> \<open>sys_loaded\<close> holds the rows the dispatcher has loaded and not yet submitted: the pipelines
    run on while it works them off.
  \<^item> The deduper's goroutine, its \<open>sync.Once\<close> and its \<open>done\<close> channel start and stop the
    polling; \<open>Deduper_output\<close> is one turn of its loop. The locks make \<open>Push\<close> and that turn
    atomic.
\<close>

section \<open>The deduper\<close>

type_synonym pipelineKey = route

definition newPipelineKey :: "transfer \<Rightarrow> pipelineKey" where
  "newPipelineKey t =
     \<lparr>sourceChainID = SourceChainID t, sourceClientID = PacketSourceClientID t,
      destinationChainID = DestinationChainID t, destinationClientID = PacketDestinationClientID t\<rparr>"

record transferKey =
  KeySourceChainID :: string
  KeyPacketSequenceNumber :: uint32
  KeyPacketSourceClientID :: string

definition newTransferKey :: "transfer \<Rightarrow> transferKey" where
  "newTransferKey t =
     \<lparr>KeySourceChainID = SourceChainID t, KeyPacketSequenceNumber = PacketSequenceNumber t,
      KeyPacketSourceClientID = PacketSourceClientID t\<rparr>"

record deduper =
  dd_stages :: "stage list"
  inPipeline :: "transferKey set"

definition NewPipelineDeduper :: "stage list \<Rightarrow> deduper" where
  "NewPipelineDeduper p = \<lparr>dd_stages = p, inPipeline = {}\<rparr>"

text \<open>\<open>Push\<close> of the wrapped pipeline always succeeds.\<close>

definition Deduper_Push :: "deduper \<Rightarrow> transfer \<Rightarrow> deduper \<times> bool" where
  "Deduper_Push dd t =
     (if newTransferKey t \<in> inPipeline dd then (dd, False)
      else (dd\<lparr>inPipeline := insert (newTransferKey t) (inPipeline dd)\<rparr>, True))"

definition Deduper_output :: "deduper \<Rightarrow> transfer \<Rightarrow> deduper" where
  "Deduper_output dd t = dd\<lparr>inPipeline := inPipeline dd - {newTransferKey t}\<rparr>"

section \<open>The manager\<close>

definition newPipelineForTransfer :: "configReader \<Rightarrow> bool \<Rightarrow> transfer \<Rightarrow> deduper res" where
  "newPipelineForTransfer cfg hasPriceClient t =
     (case NewPipelineOpts cfg t of
        Inl e \<Rightarrow> Inl (Errorf ''creating pipeline options: %w'' [e])
      | Inr opts \<Rightarrow> Inr (NewPipelineDeduper (NewPipeline hasPriceClient (newPipelineKey t) opts)))"

definition Manager_Pipeline ::
  "configReader \<Rightarrow> bool \<Rightarrow> (pipelineKey \<rightharpoonup> deduper) \<Rightarrow> transfer \<Rightarrow> (pipelineKey \<rightharpoonup> deduper) \<times> deduper res" where
  "Manager_Pipeline cfg hasPriceClient pipelines t =
     (case pipelines (newPipelineKey t) of
        Some pipeline \<Rightarrow> (pipelines, Inr pipeline)
      | None \<Rightarrow>
         (case newPipelineForTransfer cfg hasPriceClient t of
            Inl e \<Rightarrow> (pipelines, Inl (Errorf ''creating new pipeline for transfer from %s to %s: %w'' [e]))
          | Inr pipeline \<Rightarrow> (pipelines(newPipelineKey t \<mapsto> pipeline), Inr pipeline)))"

section \<open>The state of the relayer\<close>

datatype place = At nat | Waiting nat

type_synonym token = "pipelineKey \<times> place \<times> ref"

record system =
  sys_world :: world
  sys_heap :: heap
  sys_next :: ref
  sys_tokens :: "token multiset"
  sys_pipes :: "pipelineKey \<rightharpoonup> deduper"
  sys_loaded :: "ibcv2_transfer_row list"

section \<open>The dispatcher\<close>

definition SubmitTransfer :: "configReader \<Rightarrow> bool \<Rightarrow> transfer \<Rightarrow> system \<Rightarrow> system \<times> go_error option" where
  "SubmitTransfer cfg hasPriceClient t s =
     (case Manager_Pipeline cfg hasPriceClient (sys_pipes s) t of
        (m, Inl e) \<Rightarrow>
          (s\<lparr>sys_pipes := m\<rparr>, Some (Errorf ''getting pipeline to push transfer onto from manager: %w'' [e]))
      | (m, Inr dd) \<Rightarrow>
         (case Deduper_Push dd t of
            (dd', True) \<Rightarrow>
              (s\<lparr>sys_pipes := m(newPipelineKey t \<mapsto> dd'),
                 sys_heap := (sys_heap s)(sys_next s := t),
                 sys_next := Suc (sys_next s),
                 sys_tokens := add_mset (newPipelineKey t, At 0, sys_next s) (sys_tokens s)\<rparr>, None)
          | (dd', False) \<Rightarrow>
              (s\<lparr>sys_pipes := m(newPipelineKey t \<mapsto> dd')\<rparr>, Some (Sentinel ErrTransferAlreadyInPipeline))))"

text \<open>One turn of the dispatcher's loop over the unfinished transfers.\<close>

definition submit_row ::
  "configReader \<Rightarrow> bool \<Rightarrow> dbtx \<Rightarrow> time \<Rightarrow> ibcv2_transfer_row \<Rightarrow> system \<Rightarrow> system outcome" where
  "submit_row cfg hasPriceClient x now row s =
     (let t = NewIBCV2Transfer row in
      case AlertOnExcessiveRelayLatency cfg now t of
        Panic \<Rightarrow> Panic
      | Ret ms \<Rightarrow>
         (case SubmitTransfer cfg hasPriceClient t (s\<lparr>sys_world := record_metrics ms (sys_world s)\<rparr>) of
            (s1, None) \<Rightarrow> Ret s1
          | (s1, Some e) \<Rightarrow>
              if errors_Is e ErrTransferAlreadyInPipeline then Ret s1
              else Ret (s1\<lparr>sys_world :=
                     fst (with_db (UpdateTransferState x FAILED (transfer_row_key t)) (sys_world s1))\<rparr>)))"

fun submit_rows ::
  "configReader \<Rightarrow> bool \<Rightarrow> dbtx \<Rightarrow> time \<Rightarrow> ibcv2_transfer_row list \<Rightarrow> system \<Rightarrow> system outcome" where
  "submit_rows cfg hasPriceClient x now [] s = Ret s"
| "submit_rows cfg hasPriceClient x now (row # rows) s =
     (case submit_row cfg hasPriceClient x now row s of
        Panic \<Rightarrow> Panic
      | Ret s1 \<Rightarrow> submit_rows cfg hasPriceClient x now rows s1)"

definition SubmitWaitingUnfinishedTransfers ::
  "configReader \<Rightarrow> bool \<Rightarrow> dbtx \<Rightarrow> time \<Rightarrow> system \<Rightarrow> (system \<times> go_error option) outcome" where
  "SubmitWaitingUnfinishedTransfers cfg hasPriceClient x now s =
     (case GetUnfinishedIBCV2Transfers x (db (sys_world s)) of
        Inl e \<Rightarrow> Ret (s, Some (Errorf ''getting unfinished ibcv2 transfers from storage: %w'' [e]))
      | Inr rows \<Rightarrow>
         (case submit_rows cfg hasPriceClient x now rows s of
            Panic \<Rightarrow> Panic
          | Ret s1 \<Rightarrow> Ret (s1, None)))"

text \<open>
  \<open>Run\<close> on the events its \<open>select\<close> receives. The ticker of a disabled dispatcher is
  stopped, so no tick reaches the loop. The error of a tick is logged. A cancelled context closes
  the inputs of the pipelines and ends the loop; the second component says whether it ended.
\<close>

datatype run_event = CtxDone | Tick dbtx time

fun Dispatcher_Run ::
  "configReader \<Rightarrow> bool \<Rightarrow> bool \<Rightarrow> run_event list \<Rightarrow> system \<Rightarrow> (system \<times> bool) outcome" where
  "Dispatcher_Run cfg hasPriceClient defaultEnabled [] s = Ret (s, False)"
| "Dispatcher_Run cfg hasPriceClient defaultEnabled (CtxDone # evs) s = Ret (s, True)"
| "Dispatcher_Run cfg hasPriceClient defaultEnabled (Tick x now # evs) s =
     (if \<not> defaultEnabled then Dispatcher_Run cfg hasPriceClient defaultEnabled evs s
      else
        (case SubmitWaitingUnfinishedTransfers cfg hasPriceClient x now s of
           Panic \<Rightarrow> Panic
         | Ret (s1, oe) \<Rightarrow> Dispatcher_Run cfg hasPriceClient defaultEnabled evs s1))"

section \<open>Facts\<close>

lemma newTransferKey_eq_iff:
  "newTransferKey t = newTransferKey t' \<longleftrightarrow> transfer_row_key t = transfer_row_key t'"
  by (auto simp: newTransferKey_def transfer_row_key_def)

lemma newPipelineKey_packet: "packet_of t = packet_of t' \<Longrightarrow> newPipelineKey t = newPipelineKey t'"
  by (simp add: packet_of_def newPipelineKey_def)

lemma newTransferKey_packet: "packet_of t = packet_of t' \<Longrightarrow> newTransferKey t = newTransferKey t'"
  by (simp add: packet_of_def newTransferKey_def)

lemma NewPipelineOpts_error: "NewPipelineOpts cfg t = Inl e \<Longrightarrow> \<not> errors_Is e x"
  by (auto simp: NewPipelineOpts_def GetChainConfig_def split: sum.splits option.splits)

text \<open>What submitting a transfer does, case by case.\<close>

lemma submit_cases:
  assumes "SubmitTransfer cfg hp t s = (s', oe)"
  obtains (no_pipeline) e e' where "sys_pipes s (newPipelineKey t) = None" "s' = s" "oe = Some e"
      "\<not> errors_Is e ErrTransferAlreadyInPipeline" "NewPipelineOpts cfg t = Inl e'"
  | (known) dd where "sys_pipes s (newPipelineKey t) = Some dd" "newTransferKey t \<in> inPipeline dd"
      "s' = s" "oe = Some (Sentinel ErrTransferAlreadyInPipeline)"
  | (pushed) dd where "oe = None"
      "sys_pipes s (newPipelineKey t) = Some dd \<or>
       sys_pipes s (newPipelineKey t) = None \<and> (\<exists>opts. dd = NewPipelineDeduper (NewPipeline hp (newPipelineKey t) opts))"
      "newTransferKey t \<notin> inPipeline dd"
      "s' = s\<lparr>sys_pipes := (sys_pipes s)(newPipelineKey t \<mapsto>
                 dd\<lparr>inPipeline := insert (newTransferKey t) (inPipeline dd)\<rparr>),
              sys_heap := (sys_heap s)(sys_next s := t), sys_next := Suc (sys_next s),
              sys_tokens := add_mset (newPipelineKey t, At 0, sys_next s) (sys_tokens s)\<rparr>"
proof (cases "sys_pipes s (newPipelineKey t)")
  case (Some dd)
  then have m: "Manager_Pipeline cfg hp (sys_pipes s) t = (sys_pipes s, Inr dd)"
    by (simp add: Manager_Pipeline_def)
  show ?thesis
  proof (cases "newTransferKey t \<in> inPipeline dd")
    case True
    then have "s' = s" "oe = Some (Sentinel ErrTransferAlreadyInPipeline)"
      using assms m Some by (simp_all add: SubmitTransfer_def Deduper_Push_def fun_upd_idem)
    then show ?thesis using Some True by (intro known)
  next
    case False
    then show ?thesis using assms m Some by (intro pushed [of dd]) (simp_all add: SubmitTransfer_def Deduper_Push_def)
  qed
next
  case None
  show ?thesis
  proof (cases "NewPipelineOpts cfg t")
    case (Inl e)
    then show ?thesis using assms None NewPipelineOpts_error [OF Inl]
      by (intro no_pipeline [of _ e])
        (auto simp: SubmitTransfer_def Manager_Pipeline_def newPipelineForTransfer_def)
  next
    case (Inr opts)
    let ?dd = "NewPipelineDeduper (NewPipeline hp (newPipelineKey t) opts)"
    show ?thesis using assms None Inr
      by (intro pushed [of ?dd]) (auto simp: SubmitTransfer_def Manager_Pipeline_def newPipelineForTransfer_def
          Deduper_Push_def NewPipelineDeduper_def)
  qed
qed

text \<open>
  One turn of the loop: nothing, a new token at the head of its pipeline, or the row marked as
  failed. The metrics may grow.
\<close>

lemma submit_row_cases:
  assumes "submit_row cfg hp x now row s = Ret s'"
  defines "t \<equiv> NewIBCV2Transfer row"
  obtains (known) ms dd where "sys_pipes s (newPipelineKey t) = Some dd" "newTransferKey t \<in> inPipeline dd"
      "s' = s\<lparr>sys_world := record_metrics ms (sys_world s)\<rparr>"
  | (pushed) ms dd where
      "sys_pipes s (newPipelineKey t) = Some dd \<or>
       sys_pipes s (newPipelineKey t) = None \<and> (\<exists>opts. dd = NewPipelineDeduper (NewPipeline hp (newPipelineKey t) opts))"
      "newTransferKey t \<notin> inPipeline dd"
      "s' = s\<lparr>sys_world := record_metrics ms (sys_world s),
              sys_pipes := (sys_pipes s)(newPipelineKey t \<mapsto>
                 dd\<lparr>inPipeline := insert (newTransferKey t) (inPipeline dd)\<rparr>),
              sys_heap := (sys_heap s)(sys_next s := t), sys_next := Suc (sys_next s),
              sys_tokens := add_mset (newPipelineKey t, At 0, sys_next s) (sys_tokens s)\<rparr>"
  | (failed) ms w oe e where "sys_pipes s (newPipelineKey t) = None" "NewPipelineOpts cfg t = Inl e"
      "with_db (UpdateTransferState x FAILED (transfer_row_key t)) (record_metrics ms (sys_world s)) = (w, oe)"
      "s' = s\<lparr>sys_world := w\<rparr>"
proof -
  obtain ms where ms: "AlertOnExcessiveRelayLatency cfg now t = Ret ms"
    using assms by (auto simp: submit_row_def Let_def split: outcome.splits)
  let ?s0 = "s\<lparr>sys_world := record_metrics ms (sys_world s)\<rparr>"
  obtain s1 oe where sub: "SubmitTransfer cfg hp t ?s0 = (s1, oe)" by (cases "SubmitTransfer cfg hp t ?s0")
  from sub show ?thesis
  proof (cases rule: submit_cases)
    case (no_pipeline e e')
    obtain w oe' where w: "with_db (UpdateTransferState x FAILED (transfer_row_key t)) (record_metrics ms (sys_world s)) = (w, oe')"
      by (cases "with_db (UpdateTransferState x FAILED (transfer_row_key t)) (record_metrics ms (sys_world s))")
    then have "s' = s\<lparr>sys_world := w\<rparr>"
      using assms(1) ms sub no_pipeline by (simp add: submit_row_def t_def [symmetric] Let_def)
    then show ?thesis using no_pipeline w by (intro failed) simp_all
  next
    case (known dd)
    then show ?thesis using assms(1) ms sub
      by (intro that(1) [of dd ms]) (simp_all add: submit_row_def t_def [symmetric] Let_def)
  next
    case (pushed dd)
    then have "s' = s1" using assms(1) ms sub by (simp add: submit_row_def t_def [symmetric] Let_def)
    then show ?thesis using pushed by (intro that(2) [of dd ms]) simp_all
  qed
qed

end
