(* ===== verification/Relayer_Api.thy ===== *)
theory Relayer_Api
  imports Relayer_Processor
begin

text \<open>
  The gRPC service of the relayer, \<open>relayerapi/services/relayerapi/service.go\<close>, and the
  sanctions list of \<open>shared/utils/validate_address_list.go\<close>.

  \<^item> A gRPC status error is its code; the plain error \<open>Relay\<close> returns when the sender of a
    transaction cannot be found is the other constructor.
  \<^item> The facts: a request keeps the database's invariant and every existing row, adds rows at
    the start of their life only, and adds nothing the second time.
\<close>

section \<open>The sanctions list\<close>

definition OFACAddressMap :: "string list" where
  "OFACAddressMap =
     [''0x04dba1194ee10112fe6c3207c0687def0e78bacf'',
      ''0x08723392ed15743cc38513c4925f5e6be5c17243'',
      ''0x08b2efdcd8822efe5ad0eae55517cf5dc544251'',
      ''0x0931ca4d13bb4ba75d9b7132ab690265d749a5e7'',
      ''0x098b716b8aaf21512996dc57eb0615e2383e2f96'',
      ''0x0ee5067b06776a89ccc7dc8ee369984ad7db5e06'',
      ''0x12de548f79a50d2bd05481c8515c1ef5183666a9'',
      ''0x1967d8af5bd86a497fb3dd7899a020e47560daaf'',
      ''0x1999ef52700c34de7ec2b68a28aafb37db0c5ade'',
      ''0x19f8f2b0915daa12a3f5c9cf01df9e24d53794f7'',
      ''0x19aa5fe80d33a56d56c78e82ea5e50e5d80b4dff'',
      ''0x1da5821544e25c636c1417ba96ade4cf6d2f9b5a'',
      ''0x21b8d56bda776bbe68655a16895afd96f5534fed'',
      ''0x2f389ce8bd8ff92de3402ffce4691d17fc4f6535'',
      ''0x308ed4b7b49797e1a98d3818bff6fe5385410370'',
      ''0x35fb6f6db4fb05e6a4ce86f2c93691425626d4b1'',
      ''0x39d908dac893cbcb53cc86e0ecc369aa4def1a29'',
      ''0x3ad9db589d201a710ed237c829c7860ba86510fc'',
      ''0x3cffd56b47b7b41c56258d9c7731abadc360e073'',
      ''0x3cbded43efdaf0fc77b9c55f6fc9988fcc9b757d'',
      ''0x3e37627deaa754090fbfbb8bd226c1ce66d255e9'',
      ''0x43fa21d92141ba9db43052492e0deee5aa5f0a93'',
      ''0x48549a34ae37b12f6a30566245176994e17c6b4a'',
      ''0x4f47bc496083c727c5fbe3ce9cdf2b0f6496270c'',
      ''0x502371699497d08d5339c870851898d6d72521dd'',
      ''0x530a64c0ce595026a4a556b703644228179e2d57'',
      ''0x532b77b33a040587e9fd1800088225f99b8b0e8a'',
      ''0x53b6936513e738f44fb50d2b9476730c0ab3bfc1'',
      ''0x5512d943ed1f7c8a43f3435c85f7ab68b30121b0'',
      ''0x57ec89a0c056163a0314e413320f9b3abe761259'',
      ''0x5a14e72060c11313e38738009254a90968f58f51'',
      ''0x5a7a51bfb49f190e5a6060a5bc6052ac14a3b59f'',
      ''0x5d5b5dafecbf31bdb08bfd3edad4f2694372d0ef'',
      ''0x5f48c2a71b2cc96e3f0ccae4e39318ff0dc375b2'',
      ''0x67d40ee1a85bf4a4bb7ffae16de985e8427b6b45'',
      ''0x6be0ae71e6c41f2f9d0d1a3b8d0f75e6f6a0b46e'',
      ''0x6f1ca141a28907f78ebaa64fb83a9088b02a8352'',
      ''0x72a5843cc08275c8171e582972aa4fda8c397b2a'',
      ''0x797d7ae72ebddcdea2a346c1834e04d1f8df102b'',
      ''0x7ced75026204ac29c34bea98905d4c949f27361e'',
      ''0x7db418b5d567a4e0e8c59ad71be1fce48f3e6107'',
      ''0x7f19720a857f834887fc9a7bc0a0fbe7fc7f8102'',
      ''0x7f367cc41522ce07553e823bf3be79a889debe1b'',
      ''0x7ff9cfad3877f21d41da833e2f775db0569ee3d9'',
      ''0x83e5bc4ffa856bb84bb88581f5dd62a433a25e0d'',
      ''0x8576acc5c05d6ce88f4e49bf65bdf0c62f91353c'',
      ''0x8dce2aac0de82bdcaf6b4373b79f94331b8e4995'',
      ''0x901bb9583b24d97e995513c6778dc6888ab6870e'',
      ''0x931546d9e66836abf687d2bc64b30407bac8c568'',
      ''0x961c5be54a2ffc17cf4cb021d863c42dacd47fc1'',
      ''0x97b1043abd9e6fc31681635166d430a458d14f9c'',
      ''0x983a81ca6fb1e441266d2fbcb7d8e530ac2e05a2'',
      ''0x9c2bc757b66f24d60f016b6237f8cdd414a879fa'',
      ''0x9f4cda013e354b8fc285bf4b9a60460cee7f7ea9'',
      ''0xd8500c631dc32fa18645b7436344a99e4825e10e'',
      ''0xe950dc316b836e4eefb8308bf32bf7c72a1358ff'',
      ''0xefe301d259f525ca1ba74a7977b80d5b060b3cca'',
      ''0xf7b31119c2682c88d88d455dbb9d5932c65cf1be'',
      ''0xa0e1c89ef1a489c9c7de96311ed5ce5d32c20e4b'',
      ''0xa7e5d5a720f06526557c513402f2e6b5fa20b008'',
      ''0xb338962b92cd818d6aef0a32a9ecd01212a71f33'',
      ''0xb6f5ec1a0a9cd1526536d3f0426c429529471f40'',
      ''0xc103b7dc095c904b92081eef0c1640081ec01c10'',
      ''0xc2a3829f459b3edd87791c74cd45402ba0a20be3'',
      ''0xc455f7fd3e0e12afd51fba5c106909934d8a0e4a'',
      ''0xd0975b32cea532eadddfc9c60481976e39db3472'',
      ''0xd5ed34b52ac4ab84d8fa8a231a3218bbf01ed510'',
      ''0xd882cfc20f52f2599d84b8e8d58c7fb62cfe344b'',
      ''0xdb2720ebad55399117ddb4c4a4afd9a4ccada8fe'',
      ''0xdcbefbfeccce100cce9e4b153c4e15cb885643193'',
      ''0xe1d865c3d669dcc8c57c8d023140cb204e672ee4'',
      ''0xe1e4c5e5ed8f03ae61b581e2def126025f2b9401'',
      ''0xe3d35f68383732649669aa990832e017340dbca5'',
      ''0xe7aa314c77f4233c18c6cc84384a9247c0cf367b'',
      ''0xed6e0a7e4ac94d976eebfb82ccf777a3c6bad921'',
      ''0xf3701f445b6bdafedbca97d1e477357839e4120d'',
      ''0xf4377eda661e04b6dda78969796ed31658d602d4'']"

text \<open>\<open>strings.ToLower\<close> on ASCII.\<close>

definition to_lower :: "char \<Rightarrow> char" where
  "to_lower c = (let n = (of_char c :: nat) in if 65 \<le> n \<and> n \<le> 90 then char_of (n + 32) else c)"

definition ToLower :: "string \<Rightarrow> string" where
  "ToLower s = map to_lower s"

section \<open>Requests and responses\<close>

datatype grpc_code = OK | InvalidArgument | NotFound | Internal

fun code_number :: "grpc_code \<Rightarrow> uint32" where
  "code_number OK = 0"
| "code_number InvalidArgument = 3"
| "code_number NotFound = 5"
| "code_number Internal = 13"

datatype api_error = StatusError grpc_code | PlainError go_error

definition ValidateNoOFACAddress :: "string list \<Rightarrow> api_error option" where
  "ValidateNoOFACAddress addressList =
     (case find (\<lambda>a. a \<in> set OFACAddressMap) addressList of
        None \<Rightarrow> None
      | Some a \<Rightarrow> Some (StatusError InvalidArgument))"

record api_request =
  TxHash :: string
  ChainId :: string

datatype TransferState = TRANSFER_STATE_PENDING | TRANSFER_STATE_COMPLETE | TRANSFER_STATE_FAILED

record TransactionInfo =
  InfoTxHash :: string
  InfoChainId :: string

record PacketStatus =
  PacketState :: TransferState
  SequenceNumber :: uint64
  SourceClientId :: string
  SendTx :: TransactionInfo
  RecvTx :: "TransactionInfo option"
  AckTx :: "TransactionInfo option"
  TimeoutTx :: "TransactionInfo option"

definition mapDBStatusToProto :: "Ibcv2RelayStatus \<Rightarrow> TransferState" where
  "mapDBStatusToProto s =
     (if s = COMPLETE_WITH_ACK \<or> s = COMPLETE_WITH_TIMEOUT \<or> s = COMPLETE_WITH_WRITE_ACK_SUCCESS \<or>
         s = COMPLETE_WITH_WRITE_ACK_ERROR
      then TRANSFER_STATE_COMPLETE
      else if s = FAILED then TRANSFER_STATE_FAILED
      else TRANSFER_STATE_PENDING)"

definition toTxInfo :: "string option \<Rightarrow> string \<Rightarrow> TransactionInfo option" where
  "toTxInfo hash chainID =
     (case hash of None \<Rightarrow> None | Some h \<Rightarrow> Some \<lparr>InfoTxHash = h, InfoChainId = chainID\<rparr>)"

definition packet_status :: "ibcv2_transfer_row \<Rightarrow> PacketStatus" where
  "packet_status t =
     \<lparr>PacketState = mapDBStatusToProto (status t),
      SequenceNumber = uint64_of_int32 (packet_sequence_number t),
      SourceClientId = packet_source_client_id t,
      SendTx = \<lparr>InfoTxHash = source_tx_hash t, InfoChainId = source_chain_id t\<rparr>,
      RecvTx = toTxInfo (recv_tx_hash t) (destination_chain_id t),
      AckTx = toTxInfo (ack_tx_hash t) (source_chain_id t),
      TimeoutTx = toTxInfo (timeout_tx_hash t) (source_chain_id t)\<rparr>"

definition Status :: "dbtx \<Rightarrow> api_request \<Rightarrow> database \<Rightarrow> api_error + PacketStatus list" where
  "Status x request d =
     (if TxHash request = [] \<or> ChainId request = [] then Inl (StatusError InvalidArgument)
      else
        (case GetRelaySubmission x (ChainId request) (TxHash request) d of
           Inl e \<Rightarrow> Inl (StatusError (if errors_Is e ErrNoRows then NotFound else Internal))
         | Inr _ \<Rightarrow>
        (case GetTransfersBySourceTx x (ChainId request) (TxHash request) d of
           Inl e \<Rightarrow> Inl (StatusError Internal)
         | Inr rows \<Rightarrow> Inr (map packet_status rows))))"

section \<open>Relay\<close>

text \<open>\<open>errors.As(err, &pgErr) && pgErr.Code == ErrCode_DuplicateKey\<close>.\<close>

definition ErrCode_DuplicateKey :: string where
  "ErrCode_DuplicateKey = ''23505''"

fun as_pg_error :: "go_error \<Rightarrow> string option" where
  "as_pg_error (Sentinel s) = None"
| "as_pg_error (External m) = None"
| "as_pg_error (PgError c) = Some c"
| "as_pg_error (Errorf m es) =
     (case find (\<lambda>o'. o' \<noteq> None) (map as_pg_error es) of None \<Rightarrow> None | Some r \<Rightarrow> r)"

definition is_duplicate_key :: "go_error \<Rightarrow> bool" where
  "is_duplicate_key e \<longleftrightarrow> as_pg_error e = Some ErrCode_DuplicateKey"

text \<open>The loop over the packets of the transaction.\<close>

fun relay_packets ::
  "configReader \<Rightarrow> dbtx \<Rightarrow> api_request \<Rightarrow> PacketInfo list \<Rightarrow> world \<Rightarrow> world \<times> (api_error + unit)" where
  "relay_packets cfg x request [] w = (record_metrics [AddRelayRequest (code_number OK)] w, Inr ())"
| "relay_packets cfg x request (packet # packets) w =
     (case GetClientCounterpartyChainID cfg (ChainId request) (SourceClient packet) of
        Inl e \<Rightarrow> relay_packets cfg x request packets w
      | Inr destChainID \<Rightarrow>
     (case with_db (InsertIBCV2Transfer x (ChainId request) destChainID (TxHash request)
             (Some (PacketTimestamp packet)) (int32_of_uint64 (Sequence packet)) (SourceClient packet)
             (DestinationClient packet) (Some (TimeoutTimestamp packet))) w of
        (w1, Some e) \<Rightarrow>
          if is_duplicate_key e then relay_packets cfg x request packets w1
          else (record_metrics [AddRelayRequest (code_number Internal)] w1, Inl (StatusError Internal))
      | (w1, None) \<Rightarrow> relay_packets cfg x request packets w1))"

text \<open>The request once its submission is recorded: the client, the sender, the packets.\<close>

definition relay_rest ::
  "configReader \<Rightarrow> client_manager \<Rightarrow> dbtx \<Rightarrow> api_request \<Rightarrow> world \<Rightarrow> world \<times> (api_error + unit)" where
  "relay_rest cfg clients x request w =
     (case GetClient clients (ChainId request) of
        Inl e \<Rightarrow> (record_metrics [AddRelayRequest (code_number InvalidArgument)] w,
                   Inl (StatusError InvalidArgument))
      | Inr client \<Rightarrow>
        (case (if BridgeChainType client = ChainType_EVM then
                 (case GetTransactionSender client (TxHash request) of
                    Inl e \<Rightarrow> Some (PlainError (Errorf
                       ''checking OFAC Blacklist - error getting transaction sender: %w'' [e]))
                  | Inr sender \<Rightarrow>
                      if ToLower sender \<in> set OFACAddressMap then Some (StatusError InvalidArgument)
                      else None)
               else None) of
           Some e \<Rightarrow> (w, Inl e)
         | None \<Rightarrow>
        (case SendPacketsFromTx client (ChainId request) (TxHash request) of
           Inl e \<Rightarrow> (w, Inl (StatusError Internal))
         | Inr packets \<Rightarrow> relay_packets cfg x request packets w)))"

definition Relay ::
  "configReader \<Rightarrow> client_manager \<Rightarrow> dbtx \<Rightarrow> api_request \<Rightarrow> world \<Rightarrow> world \<times> (api_error + unit)" where
  "Relay cfg clients x request w =
     (if TxHash request = [] \<or> ChainId request = [] then (w, Inl (StatusError InvalidArgument))
      else
        (case with_db (InsertRelaySubmission x (ChainId request) (TxHash request)) w of
           (w1, Some e) \<Rightarrow>
             if is_duplicate_key e then (record_metrics [AddRelayRequest (code_number OK)] w1, Inr ())
             else (record_metrics [AddRelayRequest (code_number Internal)] w1, Inl (StatusError Internal))
         | (w1, None) \<Rightarrow> relay_rest cfg clients x request w1))"

section \<open>What a request does to the database\<close>

definition no_delivery :: delivery where
  "no_delivery = \<lparr>dl_recv_hash = None, dl_recv_time = None, dl_wack_hash = None, dl_wack_time = None,
     dl_wack_status = None, dl_ack_hash = None, dl_ack_time = None, dl_timeout_hash = None,
     dl_timeout_time = None\<rparr>"

text \<open>The tables keep their invariant and their rows, and new rows are pending and empty.\<close>

definition grows :: "database \<Rightarrow> database \<Rightarrow> bool" where
  "grows d d' \<longleftrightarrow> db_wf d' \<and>
     (\<forall>k r. find_row d k = Some r \<longrightarrow> find_row d' k = Some r) \<and>
     (\<forall>k r. find_row d k = None \<longrightarrow> find_row d' k = Some r \<longrightarrow>
        status r = PENDING \<and> row_delivery r = no_delivery)"

lemma grows_refl: "db_wf d \<Longrightarrow> grows d d"
  by (simp add: grows_def)

lemma grows_trans: "grows d d1 \<Longrightarrow> grows d1 d2 \<Longrightarrow> grows d d2"
  unfolding grows_def by (metis option.exhaust)

lemma insert_row_grows:
  assumes "insert_row (new_transfer_row now i src dst h t n c c' to) d = Inr d'" "db_wf d"
    and "src \<noteq> []" "in_int32 n"
  shows "grows d d'"
proof -
  let ?r = "new_transfer_row now i src dst h t n c c' to"
  have d': "d' = d\<lparr>transfers := transfers d @ [?r], next_transfer_id := Suc (next_transfer_id d)\<rparr>"
      "row_key_of ?r \<notin> row_key_of ` set (transfers d)"
    using assms(1) by (auto simp: insert_row_def split: if_splits)
  have "find_row d' k = (case find_row d k of Some r \<Rightarrow> Some r | None \<Rightarrow> if row_key_of ?r = k then Some ?r else None)" for k
    by (simp add: d'(1) find_row_def find_append split: option.splits)
  moreover have "db_wf d'" using assms(2-4) d'(2)
    by (simp add: d'(1) db_wf_def) (simp add: new_transfer_row_def)
  moreover have "status ?r = PENDING" "row_delivery ?r = no_delivery"
    by (simp_all add: new_transfer_row_def delivery_simps no_delivery_def)
  ultimately show ?thesis by (auto simp: grows_def split: if_splits)
qed

lemma InsertIBCV2Transfer_grows:
  assumes "InsertIBCV2Transfer x src dst h t n c c' to d = (d', oe)" "db_wf d" "src \<noteq> []" "in_int32 n"
  shows "grows d d'"
proof -
  let ?r = "new_transfer_row (tx_now x) (next_transfer_id d) src dst h t n c c' to"
  have "d' = d \<or> insert_row ?r d = Inr d'"
    using assms(1) by (auto simp: InsertIBCV2Transfer_def Let_def split: option.splits if_splits sum.splits)
  then show ?thesis using assms(2-4) grows_refl insert_row_grows by blast
qed

lemma InsertRelaySubmission_grows:
  assumes "InsertRelaySubmission x chain h d = (d', oe)" "db_wf d"
  shows "grows d d'"
proof -
  have "transfers d' = transfers d" "distinct (map (\<lambda>s. (sub_source_chain_id s, sub_source_tx_hash s)) (relay_submissions d'))"
    using assms by (auto simp: InsertRelaySubmission_def Let_def db_wf_def split: option.splits if_splits)
  then show ?thesis using assms(2) by (simp add: grows_def find_row_def db_wf_def)
qed

lemma relay_packets_grows:
  assumes "relay_packets cfg x request ps w = (w', res)" "db_wf (db w)" "ChainId request \<noteq> []"
  shows "grows (db w) (db w')"
  using assms(1,2)
proof (induction ps arbitrary: w)
  case Nil
  then show ?case by (auto simp: grows_refl)
next
  case (Cons p ps)
  show ?case
  proof (cases "GetClientCounterpartyChainID cfg (ChainId request) (SourceClient p)")
    case (Inl e)
    then show ?thesis using Cons by simp
  next
    case (Inr dst)
    let ?ins = "InsertIBCV2Transfer x (ChainId request) dst (TxHash request) (Some (PacketTimestamp p))
        (int32_of_uint64 (Sequence p)) (SourceClient p) (DestinationClient p) (Some (TimeoutTimestamp p))"
    obtain d1 oe where ins: "?ins (db w) = (d1, oe)" by (cases "?ins (db w)")
    have g: "grows (db w) d1" using InsertIBCV2Transfer_grows [OF ins Cons.prems(2) assms(3)] by simp
    then have wf1: "db_wf d1" by (simp add: grows_def)
    have "w' = record_metrics [AddRelayRequest (code_number Internal)] (w\<lparr>db := d1\<rparr>) \<or>
        relay_packets cfg x request ps (w\<lparr>db := d1\<rparr>) = (w', res)"
      using Cons.prems(1) Inr ins by (auto simp: with_db_def split: option.splits if_splits)
    then have "grows d1 (db w')" using Cons.IH [of "w\<lparr>db := d1\<rparr>"] wf1 grows_refl by auto
    with g show ?thesis by (rule grows_trans)
  qed
qed

lemma Relay_grows:
  assumes "Relay cfg clients x request w = (w', res)" "db_wf (db w)"
  shows "grows (db w) (db w')"
proof (cases "TxHash request = [] \<or> ChainId request = []")
  case True
  then show ?thesis using assms by (auto simp: Relay_def grows_refl)
next
  case False
  obtain d1 oe where ins: "InsertRelaySubmission x (ChainId request) (TxHash request) (db w) = (d1, oe)"
    by (cases "InsertRelaySubmission x (ChainId request) (TxHash request) (db w)")
  have g: "grows (db w) d1" using InsertRelaySubmission_grows [OF ins assms(2)] .
  then have wf1: "db_wf d1" by (simp add: grows_def)
  have "db w' = d1 \<or> (\<exists>ps. relay_packets cfg x request ps (w\<lparr>db := d1\<rparr>) = (w', res))"
    using assms(1) False ins
    by (auto simp: Relay_def relay_rest_def with_db_def split: option.splits if_splits sum.splits)
  then have "grows d1 (db w')"
    using relay_packets_grows [of cfg x request _ "w\<lparr>db := d1\<rparr>"] wf1 False grows_refl by auto
  with g show ?thesis by (rule grows_trans)
qed

section \<open>Repeating a request\<close>

definition no_fault :: "dbtx \<Rightarrow> bool" where
  "no_fault x \<longleftrightarrow> (\<forall>q k. tx_fault x q k = None) \<and> (\<forall>q. tx_query_fault x q = None)"

definition packet_key :: "api_request \<Rightarrow> PacketInfo \<Rightarrow> row_key" where
  "packet_key request p = (ChainId request, SourceClient p, int32_of_uint64 (Sequence p))"

text \<open>The packets the request is to record: their client is configured.\<close>

definition known_packets :: "configReader \<Rightarrow> api_request \<Rightarrow> PacketInfo list \<Rightarrow> PacketInfo list" where
  "known_packets cfg request ps =
     filter (\<lambda>p. \<exists>c. GetClientCounterpartyChainID cfg (ChainId request) (SourceClient p) = Inr c) ps"

abbreviation row_keys :: "database \<Rightarrow> row_key set" where
  "row_keys d \<equiv> row_key_of ` set (transfers d)"

lemma row_key_of_new: "row_key_of (new_transfer_row now i src dst h t n c c' to) = (src, c, n)"
  by (simp add: row_key_of_def new_transfer_row_def)

lemma InsertIBCV2Transfer_no_fault:
  assumes "no_fault x"
  shows "InsertIBCV2Transfer x src dst h (Some t) n c c' (Some to) d =
    (if (src, c, n) \<in> row_keys d then (d, Some (PgError ErrCode_DuplicateKey))
     else (d\<lparr>transfers := transfers d @
              [new_transfer_row (tx_now x) (next_transfer_id d) src dst h (Some t) n c c' (Some to)],
             next_transfer_id := Suc (next_transfer_id d)\<rparr>, None))"
  using assms row_key_of_new
  by (auto simp: InsertIBCV2Transfer_def insert_row_def no_fault_def Let_def ErrCode_DuplicateKey_def)
    (simp_all add: new_transfer_row_def)

definition recorded :: "api_request \<Rightarrow> database \<Rightarrow> row_key \<Rightarrow> bool" where
  "recorded request d k \<longleftrightarrow>
     (\<exists>r \<in> set (transfers d). row_key_of r = k \<and> source_chain_id r = ChainId request \<and>
        source_tx_hash r = TxHash request \<and> status r = PENDING)"

lemma recorded_key: "recorded request d k \<Longrightarrow> k \<in> row_keys d"
  by (auto simp: recorded_def)

text \<open>One turn of the loop without faults: a new row is recorded, or nothing changes.\<close>

lemma relay_packets_Cons:
  assumes "no_fault x"
  obtains (same) "relay_packets cfg x request (p # ps) w = relay_packets cfg x request ps w"
      "p \<in> set (known_packets cfg request [p]) \<longrightarrow> packet_key request p \<in> row_keys (db w)"
  | (added) w1 where "relay_packets cfg x request (p # ps) w = relay_packets cfg x request ps w1"
      "set (transfers (db w)) \<subseteq> set (transfers (db w1))" "recorded request (db w1) (packet_key request p)"
      "row_keys (db w1) = insert (packet_key request p) (row_keys (db w))"
      "relay_submissions (db w1) = relay_submissions (db w)" "packet_key request p \<notin> row_keys (db w)"
proof (cases "GetClientCounterpartyChainID cfg (ChainId request) (SourceClient p)")
  case (Inl e)
  then show ?thesis by (intro same) (simp_all add: known_packets_def)
next
  case (Inr dst)
  show ?thesis
  proof (cases "packet_key request p \<in> row_keys (db w)")
    case True
    then show ?thesis using Inr
      by (intro same) (simp_all add: with_db_def InsertIBCV2Transfer_no_fault [OF assms] packet_key_def
          is_duplicate_key_def)
  next
    case False
    let ?r = "new_transfer_row (tx_now x) (next_transfer_id (db w)) (ChainId request) dst (TxHash request)
        (Some (PacketTimestamp p)) (int32_of_uint64 (Sequence p)) (SourceClient p) (DestinationClient p)
        (Some (TimeoutTimestamp p))"
    let ?w1 = "w\<lparr>db := (db w)\<lparr>transfers := transfers (db w) @ [?r],
                next_transfer_id := Suc (next_transfer_id (db w))\<rparr>\<rparr>"
    have run: "relay_packets cfg x request (p # ps) w = relay_packets cfg x request ps ?w1"
      using False Inr by (simp add: with_db_def InsertIBCV2Transfer_no_fault [OF assms] packet_key_def)
    have r: "row_key_of ?r = packet_key request p" "source_tx_hash ?r = TxHash request"
        "status ?r = PENDING" "source_chain_id ?r = ChainId request"
      by (simp_all add: row_key_of_new packet_key_def) (simp_all add: new_transfer_row_def)
    then have "recorded request (db ?w1) (packet_key request p)"
      by (auto simp: recorded_def intro!: bexI [of _ ?r])
    then show ?thesis using False r(1) by (intro added [OF run]) auto
  qed
qed

lemma relay_packets_all:
  assumes "no_fault x" "relay_packets cfg x request ps w = (w', res)"
  shows "res = Inr () \<and> set (transfers (db w)) \<subseteq> set (transfers (db w')) \<and>
     relay_submissions (db w') = relay_submissions (db w) \<and>
     (\<forall>p \<in> set (known_packets cfg request ps).
        packet_key request p \<in> row_keys (db w) \<or> recorded request (db w') (packet_key request p))"
  using assms(2)
proof (induction ps arbitrary: w)
  case Nil
  then show ?case by (auto simp: known_packets_def record_metrics_def)
next
  case (Cons p ps)
  have known: "set (known_packets cfg request (p # ps)) \<subseteq>
      set (known_packets cfg request [p]) \<union> set (known_packets cfg request ps)"
    by (auto simp: known_packets_def)
  from assms(1) show ?case
  proof (cases rule: relay_packets_Cons [where cfg = cfg and request = request and p = p and ps = ps and w = w])
    case same
    then show ?thesis using Cons.IH [of w] Cons.prems known
      by (auto simp: known_packets_def split: if_splits)
  next
    case (added w1)
    have IH: "res = Inr ()" "set (transfers (db w1)) \<subseteq> set (transfers (db w'))"
        "relay_submissions (db w') = relay_submissions (db w1)"
        "\<And>q. q \<in> set (known_packets cfg request ps) \<Longrightarrow>
          packet_key request q \<in> row_keys (db w1) \<or> recorded request (db w') (packet_key request q)"
      using Cons.IH [of w1] Cons.prems added(1) by simp_all
    have rec: "recorded request (db w') (packet_key request p)"
      using added(3) IH(2) by (auto simp: recorded_def)
    have "packet_key request q \<in> row_keys (db w) \<or> recorded request (db w') (packet_key request q)"
      if "q \<in> set (known_packets cfg request (p # ps))" for q
      using that IH(4) [of q] rec unfolding added(4) known_packets_def by (auto split: if_splits)
    then show ?thesis using IH(1,2) IH(3) added(2,5) by auto
  qed
qed

text \<open>With every packet recorded the loop changes nothing.\<close>

lemma relay_packets_again:
  assumes "no_fault x" "\<forall>p \<in> set (known_packets cfg request ps). packet_key request p \<in> row_keys (db w)"
  shows "db (fst (relay_packets cfg x request ps w)) = db w"
  using assms(2)
proof (induction ps)
  case Nil
  then show ?case by simp
next
  case (Cons p ps)
  have rest: "\<forall>p \<in> set (known_packets cfg request ps). packet_key request p \<in> row_keys (db w)"
    using Cons.prems by (auto simp: known_packets_def split: if_splits)
  show ?case
  proof (cases "GetClientCounterpartyChainID cfg (ChainId request) (SourceClient p)")
    case (Inl e)
    then show ?thesis using Cons.IH rest by simp
  next
    case (Inr c)
    then have "packet_key request p \<in> row_keys (db w)" using Cons.prems by (auto simp: known_packets_def)
    then have "relay_packets cfg x request (p # ps) w = relay_packets cfg x request ps w"
      using Inr by (simp add: with_db_def InsertIBCV2Transfer_no_fault [OF assms(1)] packet_key_def
          is_duplicate_key_def)
    then show ?thesis using Cons.IH rest by simp
  qed
qed

abbreviation submission_keys :: "database \<Rightarrow> (string \<times> string) set" where
  "submission_keys d \<equiv> (\<lambda>s. (sub_source_chain_id s, sub_source_tx_hash s)) ` set (relay_submissions d)"

lemma Relay_no_fault:
  assumes "no_fault x" "TxHash request \<noteq> []" "ChainId request \<noteq> []"
  obtains w1 where "Relay cfg clients x request w = relay_rest cfg clients x request w1"
    "transfers (db w1) = transfers (db w)" "(ChainId request, TxHash request) \<in> submission_keys (db w1)"
    "(ChainId request, TxHash request) \<in> submission_keys (db w) \<Longrightarrow> w1 = w"
proof -
  obtain d1 where d1: "InsertRelaySubmission x (ChainId request) (TxHash request) (db w) = (d1, None)"
    using assms(1) by (simp add: InsertRelaySubmission_def no_fault_def Let_def)
  then have "transfers d1 = transfers (db w)" "(ChainId request, TxHash request) \<in> submission_keys d1"
      "(ChainId request, TxHash request) \<in> submission_keys (db w) \<Longrightarrow> d1 = db w"
    by (auto simp: InsertRelaySubmission_def Let_def split: option.splits if_splits)
  moreover have "Relay cfg clients x request w = relay_rest cfg clients x request (w\<lparr>db := d1\<rparr>)"
    using assms(2,3) d1 by (simp add: Relay_def with_db_def)
  ultimately show ?thesis by (intro that [of "w\<lparr>db := d1\<rparr>"]) simp_all
qed

lemma relay_rest_cases:
  assumes "no_fault x" "relay_rest cfg clients x request w = (w', res)"
  obtains (refused) "db w' = db w" "\<And>y v. db (fst (relay_rest cfg clients y request v)) = db v"
      "\<And>y v. snd (relay_rest cfg clients y request v) = res" "res \<noteq> Inr ()"
  | (packets) client ps where "clients (ChainId request) = Some client"
      "SendPacketsFromTx client (ChainId request) (TxHash request) = Inr ps"
      "\<And>y v. relay_rest cfg clients y request v = relay_packets cfg y request ps v"
  using assms(2) unfolding relay_rest_def GetClient_def
  by (auto split: option.splits sum.splits if_splits)


definition sample_request :: api_request where
  "sample_request = \<lparr>TxHash = ''0xabcd'', ChainId = ''a''\<rparr>"


lemma relay_reported:
  assumes "no_fault x" "no_fault y"
    and "Relay cfg clients x request w = (w', Inr ())"
    and "clients (ChainId request) = Some client"
    and "SendPacketsFromTx client (ChainId request) (TxHash request) = Inr ps"
    and "p \<in> set (known_packets cfg request ps)" "packet_key request p \<notin> row_keys (db w)"
  shows "\<exists>sts. Status y request (db w') = Inr sts \<and>
     (\<exists>st \<in> set sts. PacketState st = TRANSFER_STATE_PENDING \<and> SourceClientId st = SourceClient p \<and>
        SequenceNumber st = uint64_of_int32 (int32_of_uint64 (Sequence p)))"
proof -
  have req: "TxHash request \<noteq> []" "ChainId request \<noteq> []" using assms(3) by (auto simp: Relay_def)
  then obtain u where u: "Relay cfg clients x request w = relay_rest cfg clients x request u"
      "transfers (db u) = transfers (db w)" "(ChainId request, TxHash request) \<in> submission_keys (db u)"
    using Relay_no_fault [OF assms(1)] by metis
  have run: "relay_rest cfg clients x request u = (w', Inr ())" using u(1) assms(3) by simp
  from assms(1) run have "relay_packets cfg x request ps u = (w', Inr ())"
    by (cases rule: relay_rest_cases) (use assms(4,5) run in auto)
  from relay_packets_all [OF assms(1) this] assms(6,7) u(2)
  have rec: "recorded request (db w') (packet_key request p)"
      "relay_submissions (db w') = relay_submissions (db u)" by auto
  obtain r where r: "r \<in> set (transfers (db w'))" "row_key_of r = packet_key request p"
      "source_chain_id r = ChainId request" "source_tx_hash r = TxHash request" "status r = PENDING"
    using rec(1) by (auto simp: recorded_def)
  have "find (\<lambda>s. (sub_source_chain_id s, sub_source_tx_hash s) = (ChainId request, TxHash request))
      (relay_submissions (db w')) \<noteq> None"
    using u(3) rec(2) by (auto simp: find_None_iff)
  then have "Status y request (db w') = Inr (map packet_status
      (filter (\<lambda>r. source_chain_id r = ChainId request \<and> source_tx_hash r = TxHash request) (transfers (db w'))))"
    using req assms(2)
    by (auto simp: Status_def GetRelaySubmission_def GetTransfersBySourceTx_def no_fault_def split: option.splits)
  moreover have "PacketState (packet_status r) = TRANSFER_STATE_PENDING"
      "SourceClientId (packet_status r) = SourceClient p"
      "SequenceNumber (packet_status r) = uint64_of_int32 (int32_of_uint64 (Sequence p))"
    using r(2,5) by (simp_all add: packet_status_def mapDBStatusToProto_def row_key_of_def packet_key_def)
  ultimately show ?thesis using r(1,3,4) by auto
qed

text \<open>
  C18. A packet of a relayed transaction whose client is configured, and that was not known
  before, is reported by \<open>Status\<close> of the same request as pending, with its source client.
\<close>

theorem relay_then_status:
  assumes "no_fault x" "no_fault y"
    and "Relay cfg clients x request w = (w', Inr ())"
    and "clients (ChainId request) = Some client"
    and "SendPacketsFromTx client (ChainId request) (TxHash request) = Inr ps"
    and "p \<in> set (known_packets cfg request ps)" "packet_key request p \<notin> row_keys (db w)"
  shows "\<exists>sts. Status y request (db w') = Inr sts \<and>
     (\<exists>st \<in> set sts. PacketState st = TRANSFER_STATE_PENDING \<and> SourceClientId st = SourceClient p \<and>
        SequenceNumber st = uint64_of_int32 (int32_of_uint64 (Sequence p)))"
  using assms by (rule relay_reported)

theorem relay_then_status_witness:
  "\<exists>sts. Status sample_dbtx sample_request
        (db (fst (Relay (NewConfigReader sample_config) sample_clients sample_dbtx sample_request sample_world))) = Inr sts \<and>
     (\<exists>st \<in> set sts. PacketState st = TRANSFER_STATE_PENDING \<and> SourceClientId st = ''ca'' \<and>
        SequenceNumber st = uint64_of_int32 (int32_of_uint64 7))"
proof -
  let ?run = "Relay (NewConfigReader sample_config) sample_clients sample_dbtx sample_request sample_world"
  have nf: "no_fault sample_dbtx" by (simp add: no_fault_def sample_dbtx_def)
  have "ToLower ''0xAB'' \<notin> set OFACAddressMap" by code_simp
  then have "snd ?run = Inr ()"
    by (simp add: Relay_def relay_rest_def sample_request_def sample_defs with_db_def GetClient_def
        InsertRelaySubmission_def InsertIBCV2Transfer_def insert_row_def new_transfer_row_def Let_def
        GetClientCounterpartyChainID_def GetChainConfig_def NewConfigReader_def createIndexes_def)
  then have run: "?run = (fst ?run, Inr ())" by (metis prod.collapse)
  have client: "sample_clients (ChainId sample_request) = Some (sample_client ChainType_EVM ''ac'')"
      "SendPacketsFromTx (sample_client ChainType_EVM ''ac'') (ChainId sample_request) (TxHash sample_request) =
        Inr [sample_packet]"
    by (simp_all add: sample_clients_def sample_request_def sample_client_def)
  have known: "sample_packet \<in> set (known_packets (NewConfigReader sample_config) sample_request [sample_packet])"
    by (simp add: known_packets_def sample_request_def sample_defs GetClientCounterpartyChainID_def
        GetChainConfig_def NewConfigReader_def createIndexes_def)
  have fresh: "packet_key sample_request sample_packet \<notin> row_keys (db sample_world)"
    by (simp add: sample_world_def)
  show ?thesis
    using relay_then_status [OF nf nf run client known fresh] by (simp add: sample_packet_def)
qed

text \<open>
  C31. The sequence number \<open>Status\<close> reports is the packet's own exactly when it is below
  \<open>2 ^ 31\<close> (or in the topmost \<open>2 ^ 31\<close> values): the column is 32 bits wide and is sign
  extended on the way out.
\<close>

theorem status_sequence_number:
  "SequenceNumber (packet_status (new_transfer_row now i src dst h t (int32_of_uint64 s) c c' to)) = s \<longleftrightarrow>
     unat s < 2 ^ 31 \<or> 2 ^ 64 - 2 ^ 31 \<le> unat s"
  using uint64_int32_roundtrip_iff by (simp add: packet_status_def new_transfer_row_def)

text \<open>
  C19. A request for an EVM transaction whose sender is on the sanctions list, in any
  spelling of upper and lower case, is refused and adds no transfer.
\<close>

theorem relay_sanctioned:
  assumes "clients (ChainId request) = Some client" "BridgeChainType client = ChainType_EVM"
    and "GetTransactionSender client (TxHash request) = Inr sender" "ToLower sender \<in> set OFACAddressMap"
    and "Relay cfg clients x request w = (w', res)" "no_fault x"
  shows "res = Inl (StatusError InvalidArgument) \<and> transfers (db w') = transfers (db w)"
proof (cases "TxHash request = [] \<or> ChainId request = []")
  case True
  then show ?thesis using assms(5) by (auto simp: Relay_def)
next
  case False
  then obtain u where u: "Relay cfg clients x request w = relay_rest cfg clients x request u"
      "transfers (db u) = transfers (db w)"
    using Relay_no_fault [OF assms(6), of request] by metis
  have "relay_rest cfg clients x request u = (u, Inl (StatusError InvalidArgument))"
    using assms(1-4) by (simp add: relay_rest_def GetClient_def)
  then show ?thesis using u assms(5) by simp
qed

definition sanctioned_clients :: client_manager where
  "sanctioned_clients = [''a'' \<mapsto> (sample_client ChainType_EVM ''ac'')
     \<lparr>GetTransactionSender := (\<lambda>h. Inr ''0x098B716B8Aaf21512996dC57EB0615e2383E2f96'')\<rparr>]"

theorem relay_sanctioned_witness:
  "(let (w', res) = Relay (NewConfigReader sample_config) sanctioned_clients sample_dbtx sample_request sample_world
    in res = Inl (StatusError InvalidArgument) \<and> transfers (db w') = [])"
proof -
  let ?c = "(sample_client ChainType_EVM ''ac'')
     \<lparr>GetTransactionSender := (\<lambda>h. Inr ''0x098B716B8Aaf21512996dC57EB0615e2383E2f96'')\<rparr>"
  obtain w' res where run: "Relay (NewConfigReader sample_config) sanctioned_clients sample_dbtx sample_request
      sample_world = (w', res)" by (rule prod.exhaust)
  have "ToLower ''0x098B716B8Aaf21512996dC57EB0615e2383E2f96'' \<in> set OFACAddressMap" by code_simp
  moreover have "sanctioned_clients (ChainId sample_request) = Some ?c" "BridgeChainType ?c = ChainType_EVM"
      "GetTransactionSender ?c (TxHash sample_request) = Inr ''0x098B716B8Aaf21512996dC57EB0615e2383E2f96''"
    by (simp_all add: sanctioned_clients_def sample_request_def sample_client_def)
  moreover have "no_fault sample_dbtx" by (simp add: no_fault_def sample_dbtx_def)
  ultimately have "res = Inl (StatusError InvalidArgument) \<and> transfers (db w') = transfers (db sample_world)"
    using relay_sanctioned run by blast
  then show ?thesis using run by (simp add: sample_world_def)
qed

text \<open>
  Every key of the sanctions list is in lower case, as the lookup needs, and two keys are
  not addresses: one has 39 hexadecimal digits and one 41, so the lookup of a sender's address,
  which has 40, never finds them.
\<close>

lemma ofac_keys:
  "list_all (\<lambda>a. ToLower a = a) OFACAddressMap \<and>
   filter (\<lambda>a. length a \<noteq> 42) OFACAddressMap =
     [''0x08b2efdcd8822efe5ad0eae55517cf5dc544251'', ''0xdcbefbfeccce100cce9e4b153c4e15cb885643193'']"
  by code_simp

text \<open>
  C20. \<open>Status\<close> reports a row as pending exactly when the dispatcher still loads it.
\<close>

theorem pending_iff_unfinished:
  assumes "r \<in> set (transfers d)" "GetUnfinishedIBCV2Transfers x d = Inr rows"
  shows "PacketState (packet_status r) = TRANSFER_STATE_PENDING \<longleftrightarrow> r \<in> set rows"
  using assms
  by (auto simp: packet_status_def mapDBStatusToProto_def GetUnfinishedIBCV2Transfers_def
      unfinished_status_def split: option.splits)

definition sample_row :: ibcv2_transfer_row where
  "sample_row = new_transfer_row 5 0 ''a'' ''b'' ''0xabcd'' (Some 1) 7 ''ca'' ''cb'' (Some 100)"

theorem pending_iff_unfinished_witness:
  "PacketState (packet_status sample_row) = TRANSFER_STATE_PENDING \<longleftrightarrow> sample_row \<in> set [sample_row]"
proof -
  let ?d = "(db sample_world)\<lparr>transfers := [sample_row, sample_row\<lparr>status := FAILED\<rparr>]\<rparr>"
  have "sample_row \<in> set (transfers ?d)" "GetUnfinishedIBCV2Transfers sample_dbtx ?d = Inr [sample_row]"
    by (simp_all add: GetUnfinishedIBCV2Transfers_def sample_dbtx_def sample_row_def new_transfer_row_def
        unfinished_status_def)
  then show ?thesis by (rule pending_iff_unfinished)
qed

end
