(* ===== verification/Relayer_System.thy ===== *)
theory Relayer_System
  imports Relayer_Dispatcher Relayer_Api
begin

text \<open>
  The relayer as a whole: the API, the dispatcher and the pipelines work on one database, in
  any order. A step (\<open>sys_step\<close>) is one request, the dispatcher's query or one turn of its loop over
  the rows it loaded, or a step of a pipeline (\<open>pipe_step\<close>): one run of a stage
  (\<open>ConditionallyBatchProcess\<close> routes, collects and runs a batch), or one turn of a deduper's loop.
  Each step has its own environment.

  The label of a step says what it did. A batch run whose state update fails sends a transfer twice
  (\<open>Duplicated\<close>); a cancelled context drops transfers (\<open>Dropped\<close>); the dispatcher may submit a row
  that has changed since it was loaded, because its transfer left the pipeline in the meantime
  (\<open>Stale\<close>). Every other step is \<open>Kept\<close>.
\<close>

declare split_paired_All [simp del] split_paired_Ex [simp del]

section \<open>Steps\<close>

datatype event = Kept | Duplicated | Dropped | Stale

definition stage_at :: "system \<Rightarrow> pipelineKey \<Rightarrow> nat \<Rightarrow> stage option" where
  "stage_at s pk i =
     (case sys_pipes s pk of
        None \<Rightarrow> None
      | Some dd \<Rightarrow> if i < length (dd_stages dd) then Some (dd_stages dd ! i) else None)"

text \<open>The steps of the pipelines and of the loops of their dedupers.\<close>

inductive pipe_step :: "system \<Rightarrow> event \<Rightarrow> system \<Rightarrow> bool" where
  single: "sys_tokens s = add_mset (pk, At i, r) T \<Longrightarrow> stage_at s pk i = Some (Single p) \<Longrightarrow>
    MW_Process p en (sys_world s) (Some (sys_heap s r)) = Ret (w', Some t', oe) \<Longrightarrow>
    pipe_step s Kept (s\<lparr>sys_world := w', sys_heap := (sys_heap s)(r := t'),
      sys_tokens := add_mset (pk, At (Suc i), r) T\<rparr>)"
| single_dropped: "sys_tokens s = add_mset (pk, At i, r) T \<Longrightarrow> stage_at s pk i = Some (Single p) \<Longrightarrow>
    MW_Process p en (sys_world s) (Some (sys_heap s r)) = Ret (w', None, oe) \<Longrightarrow>
    pipe_step s Dropped (s\<lparr>sys_world := w', sys_tokens := T\<rparr>)"
| bypass: "sys_tokens s = add_mset (pk, At i, r) T \<Longrightarrow> stage_at s pk i = Some (Batch q n) \<Longrightarrow>
    batch_bypass q now (sys_heap s r) \<Longrightarrow>
    pipe_step s Kept (s\<lparr>sys_tokens := add_mset (pk, At (Suc i), r) T\<rparr>)"
| enqueue: "sys_tokens s = add_mset (pk, At i, r) T \<Longrightarrow> stage_at s pk i = Some (Batch q n) \<Longrightarrow>
    \<not> batch_bypass q now (sys_heap s r) \<Longrightarrow>
    pipe_step s Kept (s\<lparr>sys_tokens := add_mset (pk, Waiting i, r) T\<rparr>)"
| batch: "sys_tokens s = image_mset (\<lambda>r. (pk, Waiting i, r)) (mset rs) + T \<Longrightarrow> rs \<noteq> [] \<Longrightarrow>
    int (length rs) \<le> n \<Longrightarrow> stage_at s pk i = Some (Batch q n) \<Longrightarrow>
    BMW_Process q en (sys_world s) (sys_heap s) rs = (w', h', Inr out) \<Longrightarrow>
    pipe_step s (if distinct out then Kept else Duplicated)
      (s\<lparr>sys_world := w', sys_heap := h',
         sys_tokens := image_mset (\<lambda>r. (pk, At (Suc i), r)) (mset out) + T\<rparr>)"
| batch_dropped: "sys_tokens s = image_mset (\<lambda>r. (pk, Waiting i, r)) (mset rs) + T \<Longrightarrow> rs \<noteq> [] \<Longrightarrow>
    int (length rs) \<le> n \<Longrightarrow> stage_at s pk i = Some (Batch q n) \<Longrightarrow>
    BMW_Process q en (sys_world s) (sys_heap s) rs = (w', h', Inl e) \<Longrightarrow>
    pipe_step s Dropped (s\<lparr>sys_world := w', sys_heap := h', sys_tokens := T\<rparr>)"
| finish: "sys_tokens s = add_mset (pk, At i, r) T \<Longrightarrow> stage_at s pk i = Some (Finisher a b) \<Longrightarrow>
    StateFinisher_Process a b en (sys_world s) (sys_heap s r) = (w', t') \<Longrightarrow>
    pipe_step s Kept (s\<lparr>sys_world := w', sys_heap := (sys_heap s)(r := t'),
      sys_tokens := add_mset (pk, At (Suc i), r) T\<rparr>)"
| poll: "sys_tokens s = add_mset (pk, At i, r) T \<Longrightarrow> sys_pipes s pk = Some dd \<Longrightarrow>
    i = length (dd_stages dd) \<Longrightarrow>
    pipe_step s Kept (s\<lparr>sys_tokens := T,
      sys_pipes := (sys_pipes s)(pk \<mapsto> Deduper_output dd (sys_heap s r))\<rparr>)"

text \<open>Whether submitting the row does anything, and whether the row is no longer that of the table.\<close>

definition in_pipeline :: "system \<Rightarrow> transfer \<Rightarrow> bool" where
  "in_pipeline s t =
     (case sys_pipes s (newPipelineKey t) of None \<Rightarrow> False | Some dd \<Rightarrow> newTransferKey t \<in> inPipeline dd)"

definition outdated :: "system \<Rightarrow> ibcv2_transfer_row \<Rightarrow> bool" where
  "outdated s row \<longleftrightarrow>
     \<not> in_pipeline s (NewIBCV2Transfer row) \<and> find_row (db (sys_world s)) (row_key_of row) \<noteq> Some row"

text \<open>
  The steps of the relayer. \<open>SubmitWaitingUnfinishedTransfers\<close> is a \<open>load\<close> and one \<open>submit\<close> for
  every row, with steps of the others in between.
\<close>

inductive sys_step :: "configReader \<Rightarrow> bool \<Rightarrow> system \<Rightarrow> event \<Rightarrow> system \<Rightarrow> bool" for cfg hp where
  request: "Relay cfg clients x req (sys_world s) = (w', res) \<Longrightarrow>
    sys_step cfg hp s Kept (s\<lparr>sys_world := w'\<rparr>)"
| load: "sys_loaded s = [] \<Longrightarrow> GetUnfinishedIBCV2Transfers x (db (sys_world s)) = Inr rows \<Longrightarrow>
    sys_step cfg hp s Kept (s\<lparr>sys_loaded := rows\<rparr>)"
| submit: "sys_loaded s = row # rows \<Longrightarrow> submit_row cfg hp x now row (s\<lparr>sys_loaded := rows\<rparr>) = Ret s' \<Longrightarrow>
    sys_step cfg hp s (if outdated s row then Stale else Kept) s'"
| pipe: "pipe_step s e s' \<Longrightarrow> sys_step cfg hp s e s'"

definition sys_init :: system where
  "sys_init = \<lparr>sys_world = \<lparr>db = \<lparr>transfers = [], relay_submissions = [], next_transfer_id = 0,
     next_submission_id = 0\<rparr>, metrics = [], submitted = []\<rparr>, sys_heap = (\<lambda>_. undefined),
     sys_next = 0, sys_tokens = {#}, sys_pipes = Map.empty, sys_loaded = []\<rparr>"

text \<open>The states reachable by steps whose labels are in \<open>E\<close>.\<close>

inductive reachable :: "event set \<Rightarrow> configReader \<Rightarrow> bool \<Rightarrow> system \<Rightarrow> bool" for E cfg hp where
  start: "reachable E cfg hp sys_init"
| step: "reachable E cfg hp s \<Longrightarrow> sys_step cfg hp s e s' \<Longrightarrow> e \<in> E \<Longrightarrow> reachable E cfg hp s'"

section \<open>The invariant\<close>

text \<open>Every row: its delivery satisfies the abstract invariant and its status is sound.\<close>

definition rows_ok :: "database \<Rightarrow> bool" where
  "rows_ok d \<longleftrightarrow> db_wf d \<and>
     (\<forall>k row. find_row d k = Some row \<longrightarrow>
        delivery_inv (row_delivery row) \<and> sound_status (status row) (row_delivery row))"

text \<open>
  Every token: its transfer belongs to a row with the same packet; without an error the two agree
  on the delivery and, before the output, the row is unfinished; the deduper of its pipeline knows
  it. What waits in a batch has no error.
\<close>

fun before_output :: "deduper \<Rightarrow> place \<Rightarrow> bool" where
  "before_output dd (At i) = (i < length (dd_stages dd))"
| "before_output dd (Waiting i) = (i < length (dd_stages dd))"

definition transfer_ok :: "database \<Rightarrow> bool \<Rightarrow> transfer \<Rightarrow> bool" where
  "transfer_ok d running t \<longleftrightarrow> error_ok t \<and>
     (\<exists>row. find_row d (transfer_row_key t) = Some row \<and> row_packet row = packet_of t \<and>
        (\<not> has_error t \<longrightarrow> row_delivery row = delivery_of t \<and> (running \<longrightarrow> unfinished_status (status row))))"

definition token_ok :: "system \<Rightarrow> token \<Rightarrow> bool" where
  "token_ok s tok = (case tok of (pk, pl, r) \<Rightarrow>
     r < sys_next s \<and> pk = newPipelineKey (sys_heap s r) \<and>
     (\<exists>dd. sys_pipes s pk = Some dd \<and> newTransferKey (sys_heap s r) \<in> inPipeline dd \<and>
        transfer_ok (db (sys_world s)) (before_output dd pl) (sys_heap s r)) \<and>
     (\<forall>i. pl = Waiting i \<longrightarrow> \<not> has_error (sys_heap s r)))"

abbreviation token_ref :: "token \<Rightarrow> ref" where
  "token_ref tok \<equiv> snd (snd tok)"

definition refs :: "token multiset \<Rightarrow> ref multiset" where
  "refs T = image_mset token_ref T"

definition sys_inv :: "bool \<Rightarrow> system \<Rightarrow> bool" where
  "sys_inv hp s \<longleftrightarrow>
     rows_ok (db (sys_world s)) \<and>
     (\<forall>tok \<in># sys_tokens s. token_ok s tok) \<and>
     (\<forall>r. count (refs (sys_tokens s)) r \<le> 1) \<and>
     inj_on (\<lambda>r. transfer_row_key (sys_heap s r)) (set_mset (refs (sys_tokens s))) \<and>
     (\<forall>pk dd. sys_pipes s pk = Some dd \<longrightarrow> (\<exists>opts. dd_stages dd = NewPipeline hp pk opts)) \<and>
     (\<forall>row \<in> set (sys_loaded s). unfinished_status (status row))"

lemma refs_simps [simp]:
  "refs {#} = {#}" "refs (add_mset tok T) = add_mset (token_ref tok) (refs T)"
  "refs (T + U) = refs T + refs U" "refs (image_mset (\<lambda>r. (pk, pl, r)) R) = R"
  by (simp_all add: refs_def multiset.map_comp comp_def)

lemma in_refs_iff: "r \<in># refs T \<longleftrightarrow> (\<exists>tok \<in># T. token_ref tok = r)"
  by (auto simp: refs_def)

lemma one_ref:
  assumes "count (refs T) (token_ref tok) \<le> 1" "tok \<in># T" "tok' \<in># T" "token_ref tok = token_ref tok'"
  shows "tok = tok' \<and> count T tok = 1"
proof -
  obtain U where U: "T = add_mset tok U" using assms(2) by (metis mset_add)
  then have "token_ref tok \<notin># refs U" using assms(1) by (simp add: not_in_iff)
  then have "\<And>tk. tk \<in># U \<Longrightarrow> token_ref tk \<noteq> token_ref tok" by (auto simp: in_refs_iff)
  then have "tok' \<notin># U" "tok \<notin># U" using assms(4) by metis+
  then show ?thesis using assms(3) by (auto simp: U count_eq_zero_iff)
qed

lemma transfer_ok_synced:
  "transfer_ok d b t \<longleftrightarrow> error_ok t \<and> (\<exists>row. find_row d (transfer_row_key t) = Some row \<and> row_packet row = packet_of t) \<and>
     (has_error t \<or> synced d t \<and> (b \<longrightarrow> (\<forall>row. find_row d (transfer_row_key t) = Some row \<longrightarrow> unfinished_status (status row))))"
  by (auto simp: transfer_ok_def synced_def)

lemma transfer_ok_cong:
  "find_row d' (transfer_row_key t) = find_row d (transfer_row_key t) \<Longrightarrow> transfer_ok d' b t = transfer_ok d b t"
  by (simp add: transfer_ok_def)

text \<open>Finished rows stay as they are.\<close>

definition final_rows_kept :: "database \<Rightarrow> database \<Rightarrow> bool" where
  "final_rows_kept d d' \<longleftrightarrow>
     (\<forall>k row. find_row d k = Some row \<longrightarrow> \<not> unfinished_status (status row) \<longrightarrow> find_row d' k = Some row)"

lemma final_rows_kept_outside:
  "(\<And>k. k \<notin> K \<Longrightarrow> find_row d' k = find_row d k) \<Longrightarrow>
   (\<And>k. k \<in> K \<Longrightarrow> \<exists>row. find_row d k = Some row \<and> unfinished_status (status row)) \<Longrightarrow> final_rows_kept d d'"
  unfolding final_rows_kept_def by (metis option.inject)

lemma final_rows_kept_refl: "final_rows_kept d d"
  by (simp add: final_rows_kept_def)

section \<open>Moving tokens\<close>

text \<open>
  The frame of every stage step: the tokens \<open>M\<close> are replaced by \<open>M'\<close>, which has no more
  references; rows and transfers outside \<open>M\<close> stay and no packet changes. It is enough to look
  at the moved tokens.
\<close>

lemma sys_inv_move:
  assumes inv: "sys_inv hp s" and tok: "sys_tokens s = M + T"
    and s': "s' = s\<lparr>sys_world := w', sys_heap := h', sys_tokens := M' + T\<rparr>"
    and sub: "refs M' \<subseteq># refs M"
    and rows: "rows_ok (db w')"
    and other_rows: "\<And>k. (\<forall>r \<in># refs M. k \<noteq> transfer_row_key (sys_heap s r)) \<Longrightarrow>
        find_row (db w') k = find_row (db (sys_world s)) k"
    and other_refs: "\<And>r. r \<notin># refs M \<Longrightarrow> h' r = sys_heap s r"
    and packets: "\<And>r. packet_of (h' r) = packet_of (sys_heap s r)"
    and moved: "\<And>tok. tok \<in># M' \<Longrightarrow> token_ok s' tok"
  shows "sys_inv hp s'"
proof -
  have key: "transfer_row_key (h' r) = transfer_row_key (sys_heap s r)" for r
    using packets by (rule transfer_row_key_packet)
  have cnt: "count (refs M) r + count (refs T) r \<le> 1" for r
    using inv unfolding sys_inv_def tok by simp
  have subc: "count (refs M') r \<le> count (refs M) r" for r using sub by (simp add: subseteq_mset_def)
  have inj: "inj_on (\<lambda>r. transfer_row_key (sys_heap s r)) (set_mset (refs M) \<union> set_mset (refs T))"
    using inv unfolding sys_inv_def tok by simp
  have rest: "token_ok s' tk" if "tk \<in># T" for tk
  proof -
    obtain pk pl r where tk: "tk = (pk, pl, r)" by (cases tk)
    have rT: "r \<in># refs T" using that tk by (force simp: in_refs_iff)
    have rM: "r \<notin># refs M" using cnt [of r] rT
      by (metis Suc_eq_plus1_left add_mono count_greater_eq_one_iff not_less_eq_eq one_add_one plus_1_eq_Suc)
    have "transfer_row_key (sys_heap s r) \<noteq> transfer_row_key (sys_heap s r')" if "r' \<in># refs M" for r'
      using inj that rT rM unfolding inj_on_def by blast
    then have "find_row (db w') (transfer_row_key (sys_heap s r)) =
        find_row (db (sys_world s)) (transfer_row_key (sys_heap s r))" by (intro other_rows) blast
    then have "transfer_ok (db w') b (sys_heap s r) = transfer_ok (db (sys_world s)) b (sys_heap s r)" for b
      by (rule transfer_ok_cong)
    moreover have "token_ok s tk" using inv that tok by (simp add: sys_inv_def)
    ultimately show ?thesis
      using other_refs [OF rM] by (auto simp: token_ok_def tk s')
  qed
  have "count (refs (M' + T)) r \<le> 1" for r using cnt [of r] subc [of r] by simp
  moreover have "set_mset (refs M' + refs T) \<subseteq> set_mset (refs M) \<union> set_mset (refs T)"
    using set_mset_mono [OF sub] by auto
  then have "inj_on (\<lambda>r. transfer_row_key (h' r)) (set_mset (refs (M' + T)))"
    using inj_on_subset [OF inj] by (simp add: key)
  moreover have "token_ok s' tk" if "tk \<in># M' + T" for tk
    using that rest [of tk] moved [of tk] unfolding union_iff by blast
  ultimately show ?thesis using inv rows unfolding sys_inv_def s' by simp
qed

text \<open>Rows under a stage whose transfers are all unfinished stay sound and unfinished.\<close>

lemma rows_ok_step:
  assumes ok: "rows_ok d" and st: "rows_step st K d d'" "unfinished_status st"
    and K: "\<And>k. k \<in> K \<Longrightarrow> \<exists>row. find_row d k = Some row \<and> unfinished_status (status row)"
  shows "rows_ok d'" and "\<And>k row. k \<in> K \<Longrightarrow> find_row d' k = Some row \<Longrightarrow> unfinished_status (status row)"
proof -
  have in_K: "delivery_inv (row_delivery row) \<and> unfinished_status (status row)"
    if k: "k \<in> K" and row: "find_row d' k = Some row" for k row
  proof -
    obtain row0 where row0: "find_row d k = Some row0" "unfinished_status (status row0)" using K [OF k] by blast
    then obtain row1 where "find_row d' k = Some row1" "delivery_step (row_delivery row0) (row_delivery row1)"
        "status row1 = status row0 \<or> status row1 = st"
      using st(1) unfolding rows_step_def by blast
    moreover have "delivery_inv (row_delivery row0)" using ok row0(1) by (simp add: rows_ok_def)
    ultimately show ?thesis using row row0(2) st(2) delivery_step_inv by auto
  qed
  then show "k \<in> K \<Longrightarrow> find_row d' k = Some row \<Longrightarrow> unfinished_status (status row)" for k row by blast
  have "delivery_inv (row_delivery row) \<and> sound_status (status row) (row_delivery row)"
    if "find_row d' k = Some row" for k row
  proof (cases "k \<in> K")
    case True
    then show ?thesis using in_K that sound_status_unfinished by blast
  next
    case False
    then have "find_row d k = Some row" using st(1) that by (simp add: rows_step_def)
    then show ?thesis using ok by (simp add: rows_ok_def)
  qed
  then show "rows_ok d'" using st(1) by (simp add: rows_ok_def rows_step_def)
qed

lemma token_okE:
  assumes "sys_inv hp s" "(pk, pl, r) \<in># sys_tokens s"
  obtains dd row opts where "r < sys_next s" "pk = newPipelineKey (sys_heap s r)" "sys_pipes s pk = Some dd"
    "newTransferKey (sys_heap s r) \<in> inPipeline dd" "dd_stages dd = NewPipeline hp pk opts"
    "error_ok (sys_heap s r)" "find_row (db (sys_world s)) (transfer_row_key (sys_heap s r)) = Some row"
    "row_packet row = packet_of (sys_heap s r)"
    "\<not> has_error (sys_heap s r) \<Longrightarrow> row_delivery row = delivery_of (sys_heap s r)"
    "\<not> has_error (sys_heap s r) \<Longrightarrow> before_output dd pl \<Longrightarrow> unfinished_status (status row)"
    "\<And>i. pl = Waiting i \<Longrightarrow> \<not> has_error (sys_heap s r)"
proof -
  have tok: "token_ok s (pk, pl, r)" using assms by (simp add: sys_inv_def)
  then obtain dd where dd: "sys_pipes s pk = Some dd" "newTransferKey (sys_heap s r) \<in> inPipeline dd"
      "transfer_ok (db (sys_world s)) (before_output dd pl) (sys_heap s r)"
    by (auto simp: token_ok_def)
  obtain opts where opts: "dd_stages dd = NewPipeline hp pk opts" using assms(1) dd(1) unfolding sys_inv_def by blast
  show ?thesis
    using tok dd opts that unfolding token_ok_def transfer_ok_def by auto
qed

lemma stage_at_some:
  "sys_pipes s pk = Some dd \<Longrightarrow> stage_at s pk i = Some st \<longleftrightarrow> i < length (dd_stages dd) \<and> dd_stages dd ! i = st"
  by (auto simp: stage_at_def)

text \<open>A token moved on in its pipeline.\<close>

lemma token_moved:
  assumes "token_ok s (pk, pl, r)" "s' = s\<lparr>sys_world := w', sys_heap := h', sys_tokens := T'\<rparr>"
    and "packet_of (h' r) = packet_of (sys_heap s r)" "sys_pipes s pk = Some dd"
    and "transfer_ok (db w') (before_output dd pl') (h' r)" "\<And>i. pl' = Waiting i \<Longrightarrow> \<not> has_error (h' r)"
  shows "token_ok s' (pk, pl', r)"
  using assms(1,4-6) newPipelineKey_packet [OF assms(3)] newTransferKey_packet [OF assms(3)]
  by (auto simp: token_ok_def assms(2))

lemma sys_inv_single:
  assumes inv: "sys_inv hp s" and tok: "sys_tokens s = add_mset (pk, At i, r) T"
    and st: "stage_at s pk i = Some (Single p)"
    and run: "MW_Process p en (sys_world s) (Some (sys_heap s r)) = Ret (w', ot, oe)"
  shows "rows_ok (db w')"
    and "k \<noteq> transfer_row_key (sys_heap s r) \<Longrightarrow> find_row (db w') k = find_row (db (sys_world s)) k"
    and "ot = Some t' \<Longrightarrow> packet_of t' = packet_of (sys_heap s r)"
    and "ot = Some t' \<Longrightarrow> transfer_ok (db w') b t'"
    and "final_rows_kept (db (sys_world s)) (db w')"
proof -
  let ?t = "sys_heap s r" and ?d = "db (sys_world s)"
  have "(pk, At i, r) \<in># sys_tokens s" using tok by simp
  with inv obtain dd row opts where dd: "sys_pipes s pk = Some dd" "dd_stages dd = NewPipeline hp pk opts"
      "error_ok ?t" "find_row ?d (transfer_row_key ?t) = Some row" "row_packet row = packet_of ?t"
      "\<not> has_error ?t \<Longrightarrow> row_delivery row = delivery_of ?t"
      "\<not> has_error ?t \<Longrightarrow> before_output dd (At i) \<Longrightarrow> unfinished_status (status row)"
    by (rule token_okE) (blast intro: that)
  have i: "i < length (dd_stages dd)" "Single p \<in> set (NewPipeline hp pk opts)"
    using st stage_at_some [OF dd(1)] dd(2) nth_mem by metis+
  then have p: "processor_contract p" by (intro newp.single_ok)
  have ok: "rows_ok ?d" "db_wf ?d" using inv by (simp_all add: sys_inv_def rows_ok_def)
  have syn: "has_error ?t \<or> synced ?d ?t" using dd(4-6) by (auto simp: synced_def)
  have "rows_ok (db w') \<and> (k \<noteq> transfer_row_key ?t \<longrightarrow> find_row (db w') k = find_row ?d k) \<and>
     (ot = Some t' \<longrightarrow> packet_of t' = packet_of ?t \<and> transfer_ok (db w') b t') \<and> final_rows_kept ?d (db w')"
  proof (cases "has_error ?t")
    case True
    then have "w' = sys_world s \<and> ot = Some ?t" using run processor_contract.passes [OF p] by simp
    then show ?thesis using ok True dd(3-5) by (auto simp: transfer_ok_def final_rows_kept_refl)
  next
    case False
    have step: "row_step (ProcState p) (transfer_row_key ?t) ?d (db w')"
      using processor_contract.run_row_step [OF p run ok(2) syn] .
    note rows = rows_ok_step [OF ok(1) row_step_rows [OF step] processor_contract.unfinished [OF p]]
    have K: "\<exists>row. find_row ?d k = Some row \<and> unfinished_status (status row)" if "k \<in> {transfer_row_key ?t}" for k
      using that dd(4,7) False i(1) by simp
    have "transfer_ok (db w') b t'" "packet_of t' = packet_of ?t" if "ot = Some t'"
    proof -
      note out = processor_contract.run_output [OF p run [unfolded that] ok(2) syn dd(3)]
      show pkt: "packet_of t' = packet_of ?t" by (rule out(1))
      have "find_row (db w') (transfer_row_key t') = Some row' \<Longrightarrow> unfinished_status (status row')" for row'
        using rows(2) [OF K] transfer_row_key_packet [OF pkt] by simp
      moreover obtain row' where "find_row (db w') (transfer_row_key ?t) = Some row'" "row_packet row' = row_packet row"
        using step dd(4) by (auto simp: row_step_def)
      ultimately show "transfer_ok (db w') b t'"
        using out(2,3) transfer_row_key_packet [OF pkt] dd(5) pkt by (auto simp: transfer_ok_synced)
    qed
    moreover have other: "k \<noteq> transfer_row_key ?t \<longrightarrow> find_row (db w') k = find_row ?d k" for k
      using step by (simp add: row_step_def)
    moreover have "final_rows_kept ?d (db w')"
      by (rule final_rows_kept_outside [where K = "{transfer_row_key ?t}"]) (use other K in auto)
    ultimately show ?thesis using rows(1) [OF K] by blast
  qed
  then show "rows_ok (db w')"
    and "k \<noteq> transfer_row_key ?t \<Longrightarrow> find_row (db w') k = find_row ?d k"
    and "ot = Some t' \<Longrightarrow> packet_of t' = packet_of ?t"
    and "ot = Some t' \<Longrightarrow> transfer_ok (db w') b t'"
    and "final_rows_kept (db (sys_world s)) (db w')"
    by blast+
qed

lemma batch_tokens:
  assumes inv: "sys_inv hp s" and tok: "sys_tokens s = image_mset (\<lambda>r. (pk, Waiting i, r)) (mset rs) + T"
  shows "distinct rs" and "inj_on (\<lambda>r. transfer_row_key (sys_heap s r)) (set rs)"
    and "r \<in> set rs \<Longrightarrow> (pk, Waiting i, r) \<in># sys_tokens s"
proof -
  have "count (mset rs) r + count (refs T) r \<le> 1" for r using inv unfolding sys_inv_def tok by simp
  then have "count (mset rs) r \<le> 1" for r by (metis add_leE)
  then show "distinct rs"
    unfolding distinct_count_atmost_1
    by (metis One_nat_def count_greater_zero_iff count_inI le_Suc_eq le_zero_eq not_gr_zero set_mset_mset)
  have "inj_on (\<lambda>r. transfer_row_key (sys_heap s r)) (set rs \<union> set_mset (refs T))"
    using inv unfolding sys_inv_def tok by simp
  then show "inj_on (\<lambda>r. transfer_row_key (sys_heap s r)) (set rs)" by (rule inj_on_subset) simp
  show "r \<in> set rs \<Longrightarrow> (pk, Waiting i, r) \<in># sys_tokens s" unfolding tok by simp
qed

lemma sys_inv_batch:
  assumes inv: "sys_inv hp s" and tok: "sys_tokens s = image_mset (\<lambda>r. (pk, Waiting i, r)) (mset rs) + T"
    and ne: "rs \<noteq> []" and st: "stage_at s pk i = Some (Batch q n)"
    and run: "BMW_Process q en (sys_world s) (sys_heap s) rs = (w', h', res)"
  shows "rows_ok (db w')"
    and "k \<notin> (\<lambda>r. transfer_row_key (sys_heap s r)) ` set rs \<Longrightarrow> find_row (db w') k = find_row (db (sys_world s)) k"
    and "r \<notin> set rs \<Longrightarrow> h' r = sys_heap s r" and "packet_of (h' r) = packet_of (sys_heap s r)"
    and "res = Inr out \<Longrightarrow> set out = set rs"
    and "res = Inr out \<Longrightarrow> r \<in> set rs \<Longrightarrow> transfer_ok (db w') b (h' r)"
    and "final_rows_kept (db (sys_world s)) (db w')"
proof -
  let ?d = "db (sys_world s)" and ?h = "sys_heap s"
  let ?K = "(\<lambda>r. transfer_row_key (?h r)) ` set rs"
  note bt = batch_tokens [OF inv tok]
  obtain r0 where r0: "r0 \<in> set rs" using ne by (cases rs) auto
  obtain dd opts where dd: "sys_pipes s pk = Some dd" "dd_stages dd = NewPipeline hp pk opts"
    using inv bt(3) [OF r0] by (rule token_okE) (blast intro: that)
  have i: "i < length (dd_stages dd)" "Batch q n \<in> set (NewPipeline hp pk opts)"
    using st stage_at_some [OF dd(1)] dd(2) nth_mem by metis+
  then have q: "batch_contract q" by (intro newp.batch_ok)
  have ok: "rows_ok ?d" "db_wf ?d" using inv by (simp_all add: sys_inv_def rows_ok_def)
  have tk: "\<exists>row. error_ok (?h r) \<and> \<not> has_error (?h r) \<and> find_row ?d (transfer_row_key (?h r)) = Some row \<and>
      row_packet row = packet_of (?h r) \<and> row_delivery row = delivery_of (?h r) \<and> unfinished_status (status row)"
    if "r \<in> set rs" for r
    using inv bt(3) [OF that]
  proof (rule token_okE)
    fix dd' row opts'
    assume "sys_pipes s pk = Some dd'" "error_ok (?h r)" "find_row ?d (transfer_row_key (?h r)) = Some row"
      "row_packet row = packet_of (?h r)" "\<not> has_error (?h r) \<Longrightarrow> row_delivery row = delivery_of (?h r)"
      "\<not> has_error (?h r) \<Longrightarrow> before_output dd' (Waiting i) \<Longrightarrow> unfinished_status (status row)"
      "\<And>j. Waiting i = Waiting j \<Longrightarrow> \<not> has_error (?h r)"
    then show ?thesis using dd(1) i(1) by auto
  qed
  then have ok1: "error_ok (?h r) \<and> (has_error (?h r) \<or> synced ?d (?h r))" if "r \<in> set rs" for r
    using that unfolding synced_def by blast
  note facts = q run ok(2) bt(1,2) ok1
  have step: "rows_step (BState q) ?K ?d (db w')" by (rule batch_contract.batch_rows [OF facts])
  have K: "\<exists>row. find_row ?d k = Some row \<and> unfinished_status (status row)" if "k \<in> ?K" for k
    using that tk by blast
  note rows = rows_ok_step [OF ok(1) step batch_contract.b_unfinished [OF q] K]
  show "rows_ok (db w')" by (rule rows(1))
  show other: "k \<notin> ?K \<Longrightarrow> find_row (db w') k = find_row ?d k" for k using step by (simp add: rows_step_def)
  show "final_rows_kept ?d (db w')" using other K by (rule final_rows_kept_outside)
  show "r \<notin> set rs \<Longrightarrow> h' r = ?h r" by (rule batch_contract.batch_heap(1) [OF facts])
  show pkt: "packet_of (h' r) = packet_of (?h r)" for r by (rule batch_contract.batch_heap(2) [OF facts])
  show "res = Inr out \<Longrightarrow> set out = set rs" using batch_contract.batch_complete [OF facts] by simp
  show "transfer_ok (db w') b (h' r)" if res: "res = Inr out" and r: "r \<in> set rs"
  proof -
    have key: "transfer_row_key (h' r) = transfer_row_key (?h r)" by (rule transfer_row_key_packet [OF pkt])
    obtain row row' where row: "find_row ?d (transfer_row_key (?h r)) = Some row" "row_packet row = packet_of (?h r)"
        "find_row (db w') (transfer_row_key (?h r)) = Some row'" "row_packet row' = row_packet row"
      using tk [OF r] step unfolding rows_step_def by metis
    have "unfinished_status (status row')" using rows(2) row(3) r by blast
    then show ?thesis
      using batch_contract.batch_synced [OF facts res r] row pkt [of r] by (simp add: transfer_ok_synced key)
  qed
qed

lemma sys_inv_finish:
  assumes inv: "sys_inv hp s" and tok: "sys_tokens s = add_mset (pk, At i, r) T"
    and st: "stage_at s pk i = Some (Finisher a b)"
    and run: "StateFinisher_Process a b en (sys_world s) (sys_heap s r) = (w', t')"
  shows "rows_ok (db w')"
    and "k \<noteq> transfer_row_key (sys_heap s r) \<Longrightarrow> find_row (db w') k = find_row (db (sys_world s)) k"
    and "packet_of t' = packet_of (sys_heap s r)"
    and "sys_pipes s pk = Some dd \<Longrightarrow> transfer_ok (db w') (before_output dd (At (Suc i))) t'"
    and "final_rows_kept (db (sys_world s)) (db w')"
proof -
  let ?t = "sys_heap s r" and ?d = "db (sys_world s)"
  have "(pk, At i, r) \<in># sys_tokens s" using tok by simp
  with inv obtain dd' row opts where dd: "sys_pipes s pk = Some dd'" "dd_stages dd' = NewPipeline hp pk opts"
      "error_ok ?t" "find_row ?d (transfer_row_key ?t) = Some row" "row_packet row = packet_of ?t"
      "\<not> has_error ?t \<Longrightarrow> row_delivery row = delivery_of ?t"
      "\<not> has_error ?t \<Longrightarrow> before_output dd' (At i) \<Longrightarrow> unfinished_status (status row)"
    by (rule token_okE) (blast intro: that)
  have ok: "rows_ok ?d" "db_wf ?d" using inv by (simp_all add: sys_inv_def rows_ok_def)
  have syn: "has_error ?t \<or> synced ?d ?t" using dd(4-6) by (auto simp: synced_def)
  note fin = finisher_row [OF run ok(2) syn] and tr = finisher_transfer [OF run]
  show other: "k \<noteq> transfer_row_key ?t \<Longrightarrow> find_row (db w') k = find_row ?d k" for k by (rule fin(2))
  have "delivery_inv (row_delivery row') \<and> sound_status (status row') (row_delivery row')"
    if row': "find_row (db w') k = Some row'" for k row'
  proof (cases "find_row ?d k")
    case None
    then have "k \<noteq> transfer_row_key ?t" using dd(4) by auto
    then show ?thesis using other None row' by simp
  next
    case (Some row0)
    then have "delivery_inv (row_delivery row0) \<and> sound_status (status row0) (row_delivery row0)"
      using ok(1) by (simp add: rows_ok_def)
    then show ?thesis using fin(3) [OF Some] row' final_status_sound by fastforce
  qed
  then show "rows_ok (db w')" using fin(1) by (simp add: rows_ok_def)
  show "final_rows_kept ?d (db w')"
  proof (cases "has_error ?t")
    case True
    then show ?thesis using run by (simp add: StateFinisher_Process_def final_rows_kept_refl)
  next
    case False
    then have "unfinished_status (status row)" using dd(7) st stage_at_some [OF dd(1)] by simp
    then show ?thesis
      by (intro final_rows_kept_outside [where K = "{transfer_row_key ?t}"]) (use other dd(4) in auto)
  qed
  show "packet_of t' = packet_of ?t" by (rule tr(1))
  show "transfer_ok (db w') (before_output dd (At (Suc i))) t'" if "sys_pipes s pk = Some dd"
  proof -
    have "i < length (dd_stages dd)" "dd_stages dd ! i = Finisher a b" "dd_stages dd = NewPipeline hp pk opts"
      using st stage_at_some [OF that] that dd(1,2) by auto
    then have "\<not> before_output dd (At (Suc i))" using newp.finisher_last by (metis before_output.simps(1) less_irrefl)
    moreover obtain row' where "find_row (db w') (transfer_row_key ?t) = Some row'"
        "row_packet row' = row_packet row" "row_delivery row' = row_delivery row"
      using fin(3) [OF dd(4)] by blast
    ultimately show ?thesis
      using tr dd(3,5,6) transfer_row_key_packet [OF tr(1)] by (auto simp: transfer_ok_def)
  qed
qed

section \<open>Requests and ticks\<close>

lemma rows_ok_grows:
  assumes "rows_ok d" "grows d d'"
  shows "rows_ok d'"
  unfolding rows_ok_def
proof (intro conjI allI impI)
  show "db_wf d'" using assms(2) by (simp add: grows_def)
  fix k row
  assume row: "find_row d' k = Some row"
  have "delivery_inv (row_delivery row) \<and> sound_status (status row) (row_delivery row)"
  proof (cases "find_row d k")
    case None
    then have "status row = PENDING" "row_delivery row = no_delivery" using assms(2) row by (auto simp: grows_def)
    then show ?thesis by (simp add: no_delivery_def delivery_inv_def)
  next
    case (Some row0)
    then have "row = row0" using assms(2) row by (simp add: grows_def)
    then show ?thesis using Some assms(1) by (simp add: rows_ok_def)
  qed
  then show "delivery_inv (row_delivery row)" "sound_status (status row) (row_delivery row)" by simp_all
qed

text \<open>A change of the database that keeps the rows of all tokens keeps the invariant.\<close>

lemma sys_inv_world:
  assumes inv: "sys_inv hp s" and rows: "rows_ok (db w')"
    and same: "\<And>r. r \<in># refs (sys_tokens s) \<Longrightarrow> find_row (db w') (transfer_row_key (sys_heap s r)) =
        find_row (db (sys_world s)) (transfer_row_key (sys_heap s r))"
  shows "sys_inv hp (s\<lparr>sys_world := w'\<rparr>)"
proof -
  have "token_ok (s\<lparr>sys_world := w'\<rparr>) tok" if "tok \<in># sys_tokens s" for tok
  proof -
    obtain pk pl r where tok: "tok = (pk, pl, r)" by (cases tok)
    have "r \<in># refs (sys_tokens s)" using that tok by (force simp: in_refs_iff)
    from transfer_ok_cong [OF same [OF this]]
    have "transfer_ok (db w') b (sys_heap s r) = transfer_ok (db (sys_world s)) b (sys_heap s r)" for b .
    moreover have "token_ok s tok" using inv that by (simp add: sys_inv_def)
    ultimately show ?thesis by (auto simp: token_ok_def tok)
  qed
  then show ?thesis using inv rows by (simp add: sys_inv_def)
qed

lemma token_row:
  assumes "sys_inv hp s" "r \<in># refs (sys_tokens s)"
  obtains pk pl dd row where "(pk, pl, r) \<in># sys_tokens s" "pk = newPipelineKey (sys_heap s r)" "r < sys_next s"
    "sys_pipes s pk = Some dd" "newTransferKey (sys_heap s r) \<in> inPipeline dd"
    "find_row (db (sys_world s)) (transfer_row_key (sys_heap s r)) = Some row" "row_packet row = packet_of (sys_heap s r)"
proof -
  obtain pk pl where tok: "(pk, pl, r) \<in># sys_tokens s" using assms(2) by (auto simp: in_refs_iff)
  with assms(1) show ?thesis by (rule token_okE) (use that tok in blast)
qed

lemma sys_inv_request:
  assumes "sys_inv hp s" "Relay cfg clients x req (sys_world s) = (w', res)"
  shows "sys_inv hp (s\<lparr>sys_world := w'\<rparr>)"
proof -
  have ok: "rows_ok (db (sys_world s))" using assms(1) by (simp add: sys_inv_def)
  then have g: "grows (db (sys_world s)) (db w')" using Relay_grows [OF assms(2)] by (simp add: rows_ok_def)
  show ?thesis using assms(1) rows_ok_grows [OF ok g]
  proof (rule sys_inv_world)
    fix r assume "r \<in># refs (sys_tokens s)"
    with assms(1) show "find_row (db w') (transfer_row_key (sys_heap s r)) =
        find_row (db (sys_world s)) (transfer_row_key (sys_heap s r))"
      by (rule token_row) (use g in \<open>simp add: grows_def\<close>)
  qed
qed

text \<open>
  One turn of the dispatcher's loop on a row that is in the table as it was loaded. The key of
  the row is new among the tokens, when the deduper takes it or when there is no pipeline: a
  token of the same key has the same packet, so it is in the same pipeline and its deduper knows
  it.
\<close>

lemma fresh_key:
  assumes inv: "sys_inv hp s" and row: "find_row (db (sys_world s)) (row_key_of row) = Some row"
    and new: "\<And>dd. sys_pipes s (newPipelineKey (NewIBCV2Transfer row)) = Some dd \<Longrightarrow>
        newTransferKey (NewIBCV2Transfer row) \<notin> inPipeline dd"
    and r: "r \<in># refs (sys_tokens s)"
  shows "transfer_row_key (sys_heap s r) \<noteq> row_key_of row"
proof
  assume key: "transfer_row_key (sys_heap s r) = row_key_of row"
  from inv r show False
  proof (rule token_row)
    fix pk pl dd row'
    assume a: "pk = newPipelineKey (sys_heap s r)" "sys_pipes s pk = Some dd" "newTransferKey (sys_heap s r) \<in> inPipeline dd"
      "find_row (db (sys_world s)) (transfer_row_key (sys_heap s r)) = Some row'" "row_packet row' = packet_of (sys_heap s r)"
    then have "packet_of (sys_heap s r) = row_packet row" using key row by simp
    then show False using a new newPipelineKey_packet newTransferKey_packet by metis
  qed
qed

lemma row_transfer_ok:
  assumes "db_wf d" "find_row d (row_key_of row) = Some row" "unfinished_status (status row)"
  shows "transfer_ok d b (NewIBCV2Transfer row)" "transfer_row_key (NewIBCV2Transfer row) = row_key_of row"
proof -
  have "in_int32 (packet_sequence_number row)" using assms(1) find_row_key [OF assms(2)] db_wf_in_int32 by blast
  then show key: "transfer_row_key (NewIBCV2Transfer row) = row_key_of row" by (rule NewIBCV2Transfer_key)
  have "ProcessingError (NewIBCV2Transfer row) = None" by (simp add: NewIBCV2Transfer_def)
  then show "transfer_ok d b (NewIBCV2Transfer row)" using assms(2,3) by (simp add: transfer_ok_def key error_ok_def)
qed

lemma sys_inv_push:
  assumes inv: "sys_inv hp s" and row: "find_row (db (sys_world s)) (row_key_of row) = Some row" "unfinished_status (status row)"
    and pipe: "sys_pipes s pk = Some dd \<or> sys_pipes s pk = None \<and> (\<exists>opts. dd = NewPipelineDeduper (NewPipeline hp pk opts))"
    and new: "newTransferKey t \<notin> inPipeline dd"
    and defs: "t = NewIBCV2Transfer row" "pk = newPipelineKey t" "db w' = db (sys_world s)"
    and s': "s' = s\<lparr>sys_world := w', sys_pipes := (sys_pipes s)(pk \<mapsto> dd\<lparr>inPipeline := insert (newTransferKey t) (inPipeline dd)\<rparr>),
              sys_heap := (sys_heap s)(sys_next s := t), sys_next := Suc (sys_next s),
              sys_tokens := add_mset (pk, At 0, sys_next s) (sys_tokens s)\<rparr>"
  shows "sys_inv hp s'"
proof -
  let ?dd = "dd\<lparr>inPipeline := insert (newTransferKey t) (inPipeline dd)\<rparr>"
  have ok: "rows_ok (db (sys_world s))" "db_wf (db (sys_world s))" using inv by (simp_all add: sys_inv_def rows_ok_def)
  note t = row_transfer_ok [OF ok(2) row]
  have fresh: "transfer_row_key (sys_heap s r) \<noteq> transfer_row_key t" if "r \<in># refs (sys_tokens s)" for r
    unfolding defs(1) t(2) using inv row(1) _ that by (rule fresh_key) (use pipe new defs in auto)
  have old: "r < sys_next s" if "r \<in># refs (sys_tokens s)" for r
    using inv that by (rule token_row) blast
  then have next_new: "sys_next s \<notin># refs (sys_tokens s)" by blast
  have "token_ok s' tok" if "tok \<in># sys_tokens s" for tok
  proof -
    obtain pk' pl r where tok: "tok = (pk', pl, r)" by (cases tok)
    have "r \<in># refs (sys_tokens s)" using that tok by (force simp: in_refs_iff)
    then have "r \<noteq> sys_next s" using next_new by blast
    moreover have "before_output ?dd pl = before_output dd pl" by (cases pl) simp_all
    moreover have "token_ok s tok" using inv that by (simp add: sys_inv_def)
    ultimately show ?thesis using pipe by (auto simp: token_ok_def tok s' defs(3))
  qed
  moreover have "token_ok s' (pk, At 0, sys_next s)"
    using t(1) defs by (simp add: token_ok_def s')
  moreover have "count (refs (sys_tokens s')) r \<le> 1" for r
    using inv next_new by (cases "r = sys_next s") (auto simp: s' sys_inv_def not_in_iff)
  moreover have "inj_on (\<lambda>r. transfer_row_key (sys_heap s' r)) (set_mset (refs (sys_tokens s')))"
  proof -
    have "inj_on (\<lambda>r. transfer_row_key (sys_heap s' r)) (set_mset (refs (sys_tokens s))) \<longleftrightarrow>
        inj_on (\<lambda>r. transfer_row_key (sys_heap s r)) (set_mset (refs (sys_tokens s)))"
      by (rule inj_on_cong) (use next_new in \<open>auto simp: s'\<close>)
    moreover have "sys_heap s' r = sys_heap s r" if "r \<in># refs (sys_tokens s)" for r
      using that next_new by (auto simp: s')
    then have "transfer_row_key (sys_heap s' (sys_next s)) \<notin>
        (\<lambda>r. transfer_row_key (sys_heap s' r)) ` set_mset (refs (sys_tokens s))"
      using fresh by (fastforce simp: s')
    moreover have "set_mset (refs (sys_tokens s')) = insert (sys_next s) (set_mset (refs (sys_tokens s)))"
      by (simp add: s')
    ultimately show ?thesis using inv next_new by (simp add: sys_inv_def inj_on_insert)
  qed
  moreover have "\<exists>opts. dd_stages ?dd = NewPipeline hp pk opts"
    using pipe inv by (auto simp: sys_inv_def NewPipelineDeduper_def)
  ultimately show ?thesis using inv ok by (auto simp: sys_inv_def s' defs(3))
qed

lemma rows_ok_failed:
  assumes "rows_ok d" "status_step FAILED {k} d d'" "find_row d k = Some row"
  shows "rows_ok d'"
  unfolding rows_ok_def
proof (intro conjI allI impI)
  show "db_wf d'" using assms(2) by (simp add: status_step_def)
  fix k' row'
  assume row': "find_row d' k' = Some row'"
  obtain row0 where "find_row d k' = Some row0" using assms(2,3) row' by (cases "k' = k") (auto simp: status_step_def)
  then have "delivery_inv (row_delivery row0)" "sound_status (status row0) (row_delivery row0)"
      "row_delivery row' = row_delivery row0" "status row' = status row0 \<or> status row' = FAILED"
    using assms(1,2) row' unfolding rows_ok_def status_step_def by fastforce+
  then show "delivery_inv (row_delivery row')" "sound_status (status row') (row_delivery row')" by auto
qed

lemma sys_inv_submit_row:
  assumes inv: "sys_inv hp s" and run: "submit_row cfg hp x now row s = Ret s'"
    and cur: "\<not> outdated s row" and unf: "unfinished_status (status row)"
  shows "sys_inv hp s'"
    and "k \<noteq> row_key_of row \<Longrightarrow> find_row (db (sys_world s')) k = find_row (db (sys_world s)) k"
    and "final_rows_kept (db (sys_world s)) (db (sys_world s'))"
    and "sys_loaded s' = sys_loaded s"
proof -
  let ?t = "NewIBCV2Transfer row"
  have ok: "rows_ok (db (sys_world s))" "db_wf (db (sys_world s))" using inv by (simp_all add: sys_inv_def rows_ok_def)
  have "sys_inv hp s' \<and> (\<forall>k. k \<noteq> row_key_of row \<longrightarrow> find_row (db (sys_world s')) k = find_row (db (sys_world s)) k) \<and>
     final_rows_kept (db (sys_world s)) (db (sys_world s')) \<and> sys_loaded s' = sys_loaded s"
    using run
  proof (cases rule: submit_row_cases)
    case (known ms dd)
    then show ?thesis
      using sys_inv_world [OF inv, of "record_metrics ms (sys_world s)"] ok by (simp add: final_rows_kept_refl)
  next
    case (pushed ms dd)
    then have row: "find_row (db (sys_world s)) (row_key_of row) = Some row"
      using cur by (auto simp: outdated_def in_pipeline_def split: option.splits)
    then show ?thesis
      using sys_inv_push [OF inv row unf pushed(1,2) refl refl _ pushed(3)] pushed(3) by (simp add: final_rows_kept_refl)
  next
    case (failed ms w oe e)
    then have row: "find_row (db (sys_world s)) (row_key_of row) = Some row"
      using cur by (auto simp: outdated_def in_pipeline_def)
    note t = row_transfer_ok [OF ok(2) row unf]
    have st: "status_step FAILED {row_key_of row} (db (sys_world s)) (db w)"
      using status_step_update [OF failed(3)] ok(2) t(2) by simp
    have fresh: "transfer_row_key (sys_heap s r) \<noteq> row_key_of row" if "r \<in># refs (sys_tokens s)" for r
      using inv row _ that by (rule fresh_key) (use failed(1) in simp)
    have "sys_inv hp (s\<lparr>sys_world := w\<rparr>)"
      using inv rows_ok_failed [OF ok(1) st row]
      by (rule sys_inv_world) (use st fresh in \<open>simp add: status_step_def\<close>)
    moreover have "final_rows_kept (db (sys_world s)) (db w)"
      by (rule final_rows_kept_outside [where K = "{row_key_of row}"]) (use st row unf in \<open>auto simp: status_step_def\<close>)
    ultimately show ?thesis using st failed(4) by (simp add: status_step_def)
  qed
  then show "sys_inv hp s'" "k \<noteq> row_key_of row \<Longrightarrow> find_row (db (sys_world s')) k = find_row (db (sys_world s)) k"
    and "final_rows_kept (db (sys_world s)) (db (sys_world s'))" "sys_loaded s' = sys_loaded s"
    by blast+
qed

text \<open>The rows the dispatcher holds do not matter to a turn of its loop.\<close>

lemma submit_row_loaded:
  "submit_row cfg hp x now row s = Ret s' \<Longrightarrow>
   submit_row cfg hp x now row (s\<lparr>sys_loaded := rows\<rparr>) = Ret (s'\<lparr>sys_loaded := rows\<rparr>)"
  by (auto simp: submit_row_def SubmitTransfer_def Manager_Pipeline_def Let_def
      split: outcome.splits prod.splits sum.splits option.splits bool.splits if_splits)

lemma sys_inv_load:
  "sys_inv hp s \<Longrightarrow> (\<And>row. row \<in> set rows \<Longrightarrow> unfinished_status (status row)) \<Longrightarrow> sys_inv hp (s\<lparr>sys_loaded := rows\<rparr>)"
  by (auto simp: sys_inv_def token_ok_def)

lemma current_row: "find_row (db (sys_world s)) (row_key_of row) = Some row \<Longrightarrow> \<not> outdated s row"
  by (simp add: outdated_def)

text \<open>A tick nobody interrupts, as a sequence of steps.\<close>

lemma sys_inv_submit_rows:
  assumes "sys_inv hp s" "submit_rows cfg hp x now rows s = Ret s'" "distinct (map row_key_of rows)"
    and "\<And>row. row \<in> set rows \<Longrightarrow> find_row (db (sys_world s)) (row_key_of row) = Some row \<and> unfinished_status (status row)"
  shows "sys_inv hp s' \<and> sys_loaded s' = sys_loaded s \<and>
     (\<lambda>s s'. sys_step cfg hp s Kept s')\<^sup>*\<^sup>* (s\<lparr>sys_loaded := rows\<rparr>) (s'\<lparr>sys_loaded := []\<rparr>)"
  using assms
proof (induction rows arbitrary: s)
  case Nil
  then show ?case by simp
next
  case (Cons row rows)
  obtain s1 where s1: "submit_row cfg hp x now row s = Ret s1" "submit_rows cfg hp x now rows s1 = Ret s'"
    using Cons.prems(2) by (auto split: outcome.splits)
  have row: "find_row (db (sys_world s)) (row_key_of row) = Some row" "unfinished_status (status row)"
    using Cons.prems(4) [of row] by simp_all
  note one = sys_inv_submit_row [OF Cons.prems(1) s1(1) current_row [OF row(1)] row(2)]
  have "find_row (db (sys_world s1)) (row_key_of row') = Some row' \<and> unfinished_status (status row')"
    if "row' \<in> set rows" for row'
  proof -
    have "row_key_of row' \<noteq> row_key_of row" using Cons.prems(3) that by (metis distinct.simps(2) image_eqI list.simps(9) set_map)
    then show ?thesis using Cons.prems(4) [of row'] that one(2) [of "row_key_of row'"] by simp
  qed
  then have IH: "sys_inv hp s' \<and> sys_loaded s' = sys_loaded s1 \<and>
     (\<lambda>s s'. sys_step cfg hp s Kept s')\<^sup>*\<^sup>* (s1\<lparr>sys_loaded := rows\<rparr>) (s'\<lparr>sys_loaded := []\<rparr>)"
    using Cons.IH [OF one(1) s1(2)] Cons.prems(3) by simp
  have "sys_step cfg hp (s\<lparr>sys_loaded := row # rows\<rparr>) Kept (s1\<lparr>sys_loaded := rows\<rparr>)"
    using sys_step.submit [of "s\<lparr>sys_loaded := row # rows\<rparr>" row rows cfg hp x now "s1\<lparr>sys_loaded := rows\<rparr>"]
      submit_row_loaded [OF s1(1), of rows] row(1) by (simp add: outdated_def)
  then show ?case using IH one(4) by (auto intro: converse_rtranclp_into_rtranclp)
qed

lemma unfinished_rows:
  assumes "db_wf d" "GetUnfinishedIBCV2Transfers x d = Inr rows"
  shows "distinct (map row_key_of rows)"
    and "row \<in> set rows \<Longrightarrow> find_row d (row_key_of row) = Some row \<and> unfinished_status (status row)"
    and "find_row d k = Some row \<Longrightarrow> unfinished_status (status row) \<Longrightarrow> row \<in> set rows"
proof -
  have rows: "rows = filter (\<lambda>r. unfinished_status (status r)) (transfers d)"
    using assms(2) by (auto simp: GetUnfinishedIBCV2Transfers_def split: option.splits)
  show "distinct (map row_key_of rows)" using assms(1) by (simp add: rows db_wf_def distinct_map_filter)
  show "row \<in> set rows \<Longrightarrow> find_row d (row_key_of row) = Some row \<and> unfinished_status (status row)"
    using assms(1) by (auto simp: rows find_row_mem)
  show "find_row d k = Some row \<Longrightarrow> unfinished_status (status row) \<Longrightarrow> row \<in> set rows"
    using find_row_key by (simp add: rows)
qed

lemma tick_steps:
  assumes inv: "sys_inv hp s" and run: "SubmitWaitingUnfinishedTransfers cfg hp x now s = Ret (s', oe)" and "sys_loaded s = []"
  shows "(\<lambda>s s'. sys_step cfg hp s Kept s')\<^sup>*\<^sup>* s s'" and "sys_loaded s' = []"
proof -
  have wf: "db_wf (db (sys_world s))" using inv by (simp add: sys_inv_def rows_ok_def)
  have "(\<lambda>s s'. sys_step cfg hp s Kept s')\<^sup>*\<^sup>* s s' \<and> sys_loaded s' = []"
  proof (cases "GetUnfinishedIBCV2Transfers x (db (sys_world s))")
    case (Inl e)
    then show ?thesis using run assms(3) by (simp add: SubmitWaitingUnfinishedTransfers_def)
  next
    case (Inr rows)
    then have "submit_rows cfg hp x now rows s = Ret s'"
      using run by (auto simp: SubmitWaitingUnfinishedTransfers_def split: outcome.splits)
    from sys_inv_submit_rows [OF inv this unfinished_rows(1,2) [OF wf Inr]]
    have "sys_loaded s' = []" "(\<lambda>s s'. sys_step cfg hp s Kept s')\<^sup>*\<^sup>* (s\<lparr>sys_loaded := rows\<rparr>) (s'\<lparr>sys_loaded := []\<rparr>)"
      using assms(3) by auto
    moreover have "s'\<lparr>sys_loaded := []\<rparr> = s'" using calculation(1) by simp
    ultimately show ?thesis using sys_step.load [OF assms(3) Inr] by (auto intro: converse_rtranclp_into_rtranclp)
  qed
  then show "(\<lambda>s s'. sys_step cfg hp s Kept s')\<^sup>*\<^sup>* s s'" "sys_loaded s' = []" by blast+
qed

section \<open>Every step keeps the invariant\<close>

lemma sys_inv_poll:
  assumes inv: "sys_inv hp s" and tok: "sys_tokens s = add_mset (pk, At i, r) T" and dd: "sys_pipes s pk = Some dd"
  shows "sys_inv hp (s\<lparr>sys_tokens := T, sys_pipes := (sys_pipes s)(pk \<mapsto> Deduper_output dd (sys_heap s r))\<rparr>)"
    (is "sys_inv hp ?s")
proof -
  have rT: "r \<notin># refs T"
  proof -
    have "count (refs (sys_tokens s)) r \<le> 1" using inv by (simp add: sys_inv_def)
    then show ?thesis by (simp add: tok not_in_iff)
  qed
  have inj: "inj_on (\<lambda>r. transfer_row_key (sys_heap s r)) (insert r (set_mset (refs T)))"
    using inv by (simp add: sys_inv_def tok)
  have out: "before_output (Deduper_output dd t) pl = before_output dd pl" for t pl
    by (cases pl) (simp_all add: Deduper_output_def)
  have "token_ok ?s tk" if "tk \<in># T" for tk
  proof -
    obtain pk' pl r' where tk: "tk = (pk', pl, r')" by (cases tk)
    have r': "r' \<in># refs T" using that tk by (force simp: in_refs_iff)
    then have "r' \<noteq> r" using rT by blast
    then have "transfer_row_key (sys_heap s r') \<noteq> transfer_row_key (sys_heap s r)"
      using inj r' unfolding inj_on_def by blast
    then have "newTransferKey (sys_heap s r') \<noteq> newTransferKey (sys_heap s r)" by (simp add: newTransferKey_eq_iff)
    moreover have "token_ok s tk" using inv that by (simp add: sys_inv_def tok)
    ultimately show ?thesis using dd out by (auto simp: token_ok_def tk Deduper_output_def)
  qed
  moreover have "count (refs T) r' \<le> 1" for r'
    using inv unfolding sys_inv_def tok by (metis (no_types, lifting) count_add_mset le_SucI le_add1 le_trans not_less_eq_eq refs_simps(2))
  moreover have "inj_on (\<lambda>r. transfer_row_key (sys_heap s r)) (set_mset (refs T))"
    using inj by (rule inj_on_subset) blast
  moreover have "\<exists>opts. dd_stages (Deduper_output dd (sys_heap s r)) = NewPipeline hp pk opts"
    using inv dd by (simp add: sys_inv_def Deduper_output_def)
  ultimately show ?thesis using inv by (auto simp: sys_inv_def)
qed

text \<open>One token moves on, or is dropped.\<close>

lemma sys_inv_move_one:
  assumes inv: "sys_inv hp s" and tok: "sys_tokens s = add_mset (pk, At i, r) T" and dd: "sys_pipes s pk = Some dd"
    and rows: "rows_ok (db w')"
    and other: "\<And>k. k \<noteq> transfer_row_key (sys_heap s r) \<Longrightarrow> find_row (db w') k = find_row (db (sys_world s)) k"
    and pkt: "packet_of t' = packet_of (sys_heap s r)"
    and ok: "transfer_ok (db w') (before_output dd pl) t'" "\<And>j. pl = Waiting j \<Longrightarrow> \<not> has_error t'"
  shows "sys_inv hp (s\<lparr>sys_world := w', sys_heap := (sys_heap s)(r := t'), sys_tokens := add_mset (pk, pl, r) T\<rparr>)"
    (is "sys_inv hp ?s")
proof (rule sys_inv_move [OF inv, where M = "{#(pk, At i, r)#}" and T = T and w' = w' and
      h' = "(sys_heap s)(r := t')" and M' = "{#(pk, pl, r)#}"])
  have "token_ok s (pk, At i, r)" using inv tok by (simp add: sys_inv_def)
  then have "token_ok ?s (pk, pl, r)"
    by (rule token_moved [OF _ refl _ dd]) (use pkt ok in auto)
  then show "token_ok ?s tk" if "tk \<in># {#(pk, pl, r)#}" for tk using that by simp
  show "packet_of (((sys_heap s)(r := t')) r') = packet_of (sys_heap s r')" for r' using pkt by simp
qed (use tok rows other in auto)

lemma sys_inv_drop_one:
  assumes inv: "sys_inv hp s" and tok: "sys_tokens s = add_mset (pk, At i, r) T"
    and rows: "rows_ok (db w')"
    and other: "\<And>k. k \<noteq> transfer_row_key (sys_heap s r) \<Longrightarrow> find_row (db w') k = find_row (db (sys_world s)) k"
  shows "sys_inv hp (s\<lparr>sys_world := w', sys_tokens := T\<rparr>)"
  by (rule sys_inv_move [OF inv, where M = "{#(pk, At i, r)#}" and T = T and w' = w' and
      h' = "sys_heap s" and M' = "{#}"]) (use tok rows other in auto)

text \<open>Routing into or around a batch changes no transfer.\<close>

lemma sys_inv_route:
  assumes inv: "sys_inv hp s" and tok: "sys_tokens s = add_mset (pk, At i, r) T" and st: "stage_at s pk i = Some (Batch q n)"
    and pl: "pl = At (Suc i) \<or> pl = Waiting i \<and> \<not> batch_bypass q now (sys_heap s r)"
  shows "sys_inv hp (s\<lparr>sys_tokens := add_mset (pk, pl, r) T\<rparr>)"
proof -
  have "token_ok s (pk, At i, r)" using inv tok by (simp add: sys_inv_def)
  then obtain dd where dd: "sys_pipes s pk = Some dd" "transfer_ok (db (sys_world s)) (before_output dd (At i)) (sys_heap s r)"
    by (auto simp: token_ok_def)
  then have "transfer_ok (db (sys_world s)) True (sys_heap s r)" using st stage_at_some [OF dd(1)] by simp
  then have "transfer_ok (db (sys_world s)) (before_output dd pl) (sys_heap s r)" by (auto simp: transfer_ok_def)
  moreover have "rows_ok (db (sys_world s))" using inv by (simp add: sys_inv_def)
  ultimately have "sys_inv hp (s\<lparr>sys_world := sys_world s, sys_heap := (sys_heap s)(r := sys_heap s r),
      sys_tokens := add_mset (pk, pl, r) T\<rparr>)"
    using pl by (intro sys_inv_move_one [OF inv tok dd(1)]) (auto simp: batch_bypass_def)
  then show ?thesis by simp
qed

lemma pipe_step_inv:
  assumes "pipe_step s e s'" "sys_inv hp s" "e \<noteq> Duplicated"
  shows "sys_inv hp s' \<and> final_rows_kept (db (sys_world s)) (db (sys_world s'))"
  using assms
proof (induction rule: pipe_step.induct)
  case (single s pk i r T p en w' t' oe)
  note one = sys_inv_single [OF single.prems(1) single.hyps]
  obtain dd where dd: "sys_pipes s pk = Some dd" using single.hyps(2) by (auto simp: stage_at_def split: option.splits)
  show ?case
    using sys_inv_move_one [OF single.prems(1) single.hyps(1) dd one(1,2) one(3) [OF refl] one(4) [OF refl], of "At (Suc i)"] one(5)
    by simp
next
  case (single_dropped s pk i r T p en w' oe)
  note one = sys_inv_single [OF single_dropped.prems(1) single_dropped.hyps]
  show ?case using sys_inv_drop_one [OF single_dropped.prems(1) single_dropped.hyps(1) one(1,2)] one(5) by simp
next
  case (bypass s pk i r T q n now)
  then show ?case using sys_inv_route by (simp add: final_rows_kept_refl)
next
  case (enqueue s pk i r T q n now)
  then show ?case using sys_inv_route by (simp add: final_rows_kept_refl)
next
  case (batch s pk i rs T n q en w' h' out)
  note b = sys_inv_batch [OF batch.prems(1) batch.hyps(1,2,4,5)]
  let ?s = "s\<lparr>sys_world := w', sys_heap := h', sys_tokens := image_mset (\<lambda>r. (pk, At (Suc i), r)) (mset out) + T\<rparr>"
  have out: "distinct out" "set out = set rs" using batch.prems(2) b(5) by (auto split: if_splits)
  then have mset: "mset out = mset rs"
    using batch_tokens(1) [OF batch.prems(1) batch.hyps(1)] by (metis set_eq_iff_mset_eq_distinct)
  obtain dd where dd: "sys_pipes s pk = Some dd" using batch.hyps(4) by (auto simp: stage_at_def split: option.splits)
  have "token_ok ?s (pk, At (Suc i), r)" if "r \<in> set rs" for r
  proof -
    have "token_ok s (pk, Waiting i, r)"
      using batch.prems(1) batch_tokens(3) [OF batch.prems(1) batch.hyps(1) that] by (simp add: sys_inv_def)
    then show ?thesis by (rule token_moved [OF _ refl b(4) dd]) (use b(6) that in auto)
  qed
  then have "sys_inv hp ?s"
    by (intro sys_inv_move [OF batch.prems(1) batch.hyps(1) refl _ b(1,2) b(3,4)]) (auto simp: mset)
  then show ?case using b(7) by simp
next
  case (batch_dropped s pk i rs T n q en w' h' e)
  note b = sys_inv_batch [OF batch_dropped.prems(1) batch_dropped.hyps(1,2,4,5)]
  have "sys_inv hp (s\<lparr>sys_world := w', sys_heap := h', sys_tokens := {#} + T\<rparr>)"
    by (rule sys_inv_move [OF batch_dropped.prems(1) batch_dropped.hyps(1) refl _ b(1,2) b(3,4)]) auto
  then show ?case using b(7) by simp
next
  case (finish s pk i r T a b en w' t')
  note f = sys_inv_finish [OF finish.prems(1) finish.hyps]
  obtain dd where dd: "sys_pipes s pk = Some dd" using finish.hyps(2) by (auto simp: stage_at_def split: option.splits)
  show ?case
    using sys_inv_move_one [OF finish.prems(1) finish.hyps(1) dd f(1,2) f(3) f(4) [OF dd]] f(5)
    by simp
next
  case (poll s pk i r T dd)
  then show ?case using sys_inv_poll by (simp add: final_rows_kept_refl)
qed

lemma sys_step_inv:
  assumes "sys_step cfg hp s e s'" "sys_inv hp s" "e \<noteq> Duplicated" "e \<noteq> Stale"
  shows "sys_inv hp s' \<and> final_rows_kept (db (sys_world s)) (db (sys_world s'))"
  using assms
proof (induction rule: sys_step.induct)
  case (request clients x req s w' res)
  have "db_wf (db (sys_world s))" using request.prems(1) by (simp add: sys_inv_def rows_ok_def)
  then have "final_rows_kept (db (sys_world s)) (db w')"
    using Relay_grows [OF request.hyps] by (simp add: grows_def final_rows_kept_def)
  then show ?case using sys_inv_request [OF request.prems(1) request.hyps] by simp
next
  case (load s x rows)
  have "db_wf (db (sys_world s))" using load.prems(1) by (simp add: sys_inv_def rows_ok_def)
  then show ?case
    using sys_inv_load [OF load.prems(1)] unfinished_rows(2) [OF _ load.hyps(2)] by (simp add: final_rows_kept_refl)
next
  case (submit s row rows x now s')
  have "unfinished_status (status row')" if "row' \<in> set (row # rows)" for row'
    using submit.prems(1) submit.hyps(1) that by (auto simp: sys_inv_def)
  then have unf: "unfinished_status (status row)" "sys_inv hp (s\<lparr>sys_loaded := rows\<rparr>)"
    using sys_inv_load [OF submit.prems(1)] by simp_all
  have "\<not> outdated (s\<lparr>sys_loaded := rows\<rparr>) row"
    using submit.prems(3) by (simp add: outdated_def in_pipeline_def split: if_splits)
  from sys_inv_submit_row(1,3) [OF unf(2) submit.hyps(2) this unf(1)] show ?case by simp
next
  case (pipe s e s')
  then show ?case using pipe_step_inv by blast
qed

lemma sys_inv_init: "sys_inv hp sys_init"
  by (simp add: sys_inv_def sys_init_def rows_ok_def db_wf_def find_row_def)

lemma reachable_inv:
  assumes "reachable E cfg hp s" "Duplicated \<notin> E" "Stale \<notin> E"
  shows "sys_inv hp s"
  using assms
proof (induction rule: reachable.induct)
  case start
  show ?case by (rule sys_inv_init)
next
  case (step s e s')
  then show ?case using sys_step_inv by metis
qed

lemma reachable_mono: "reachable E cfg hp s \<Longrightarrow> E \<subseteq> E' \<Longrightarrow> reachable E' cfg hp s"
  by (induction rule: reachable.induct) (auto intro: reachable.intros)

lemma reachable_kept_steps:
  "(\<lambda>s s'. sys_step cfg hp s Kept s')\<^sup>*\<^sup>* s s' \<Longrightarrow> reachable E cfg hp s \<Longrightarrow> Kept \<in> E \<Longrightarrow> reachable E cfg hp s'"
  by (induction rule: rtranclp_induct) (auto intro: reachable.step)

lemma reachable_tick:
  assumes "reachable {Kept} cfg hp s" "SubmitWaitingUnfinishedTransfers cfg hp x now s = Ret (s', oe)" "sys_loaded s = []"
  shows "reachable {Kept} cfg hp s'"
  using reachable_kept_steps [OF tick_steps(1) [OF reachable_inv [OF assms(1)] assms(2,3)] assms(1)] by simp

text \<open>The dispatcher's loop, left alone, is a sequence of steps; a disabled dispatcher makes none.\<close>

lemma Dispatcher_Run_reachable:
  "Dispatcher_Run cfg hp enabled evs s = Ret (s', fin) \<Longrightarrow> reachable {Kept} cfg hp s \<Longrightarrow> sys_loaded s = [] \<Longrightarrow>
   reachable {Kept} cfg hp s'"
proof (induction cfg hp enabled evs s rule: Dispatcher_Run.induct)
  case (3 cfg hp enabled x now evs s)
  show ?case
  proof (cases enabled)
    case True
    then obtain s1 oe where s1: "SubmitWaitingUnfinishedTransfers cfg hp x now s = Ret (s1, oe)"
        "Dispatcher_Run cfg hp enabled evs s1 = Ret (s', fin)"
      using "3.prems"(1) by (auto split: outcome.splits prod.splits)
    have "sys_inv hp s" by (rule reachable_inv [OF "3.prems"(2)]) simp_all
    then have "sys_loaded s1 = []" by (rule tick_steps(2) [OF _ s1(1) "3.prems"(3)])
    then show ?thesis
      using "3.IH"(2) [OF _ s1(1) refl s1(2)] True reachable_tick [OF "3.prems"(2) s1(1) "3.prems"(3)] by simp
  qed (use 3 in simp)
qed simp_all

lemma Dispatcher_Run_disabled: "Dispatcher_Run cfg hp False evs s = Ret (s', fin) \<Longrightarrow> s' = s"
  by (induction cfg hp False evs s rule: Dispatcher_Run.induct) simp_all

end
