(* ===== verification/Relayer_Progress.thy ===== *)
theory Relayer_Progress
  imports Relayer_System
begin

text \<open>
  Progress of the relayer: no unfinished transfer is forgotten by the dispatcher, no transfer
  gets stuck in a pipeline, and the pipelines drain.

  \<^item> \<open>no_leak\<close>: a key a deduper holds is the key of a transfer in its pipeline. Without it a
    transfer could be refused for ever.
  \<^item> \<open>place_rank\<close> counts the places a token has passed; every stage step raises it.
\<close>

section \<open>Nothing is forgotten\<close>

definition no_leak :: "system \<Rightarrow> bool" where
  "no_leak s \<longleftrightarrow>
     (\<forall>pk dd k. sys_pipes s pk = Some dd \<longrightarrow> k \<in> inPipeline dd \<longrightarrow>
        (\<exists>pl r. (pk, pl, r) \<in># sys_tokens s \<and> newTransferKey (sys_heap s r) = k))"

lemma no_leak_init: "no_leak sys_init"
  by (simp add: no_leak_def sys_init_def)

text \<open>A step that keeps every reference in its pipeline and every packet keeps it.\<close>

lemma no_leak_move:
  assumes "no_leak s" "sys_pipes s' = sys_pipes s"
    and "\<And>pk pl r. (pk, pl, r) \<in># sys_tokens s \<Longrightarrow>
        (\<exists>pl'. (pk, pl', r) \<in># sys_tokens s') \<and> newTransferKey (sys_heap s' r) = newTransferKey (sys_heap s r)"
  shows "no_leak s'"
  using assms unfolding no_leak_def by metis

lemma no_leak_submit_row:
  assumes leak: "no_leak s" and inv: "sys_inv hp s" and run: "submit_row cfg hp x now row s = Ret s'"
  shows "no_leak s'"
    and "\<And>pk pl r. (pk, pl, r) \<in># sys_tokens s \<Longrightarrow> (pk, pl, r) \<in># sys_tokens s' \<and> sys_heap s' r = sys_heap s r"
    and "NewPipelineOpts cfg (NewIBCV2Transfer row) = Inr opts \<Longrightarrow>
      \<exists>pk pl r. (pk, pl, r) \<in># sys_tokens s' \<and> newTransferKey (sys_heap s' r) = newTransferKey (NewIBCV2Transfer row)"
proof -
  let ?t = "NewIBCV2Transfer row"
  have old: "r \<noteq> sys_next s" if "(pk, pl, r) \<in># sys_tokens s" for pk pl r
    using inv that by (auto simp: sys_inv_def token_ok_def)
  have "no_leak s' \<and> (\<forall>pk pl r. (pk, pl, r) \<in># sys_tokens s \<longrightarrow> (pk, pl, r) \<in># sys_tokens s' \<and> sys_heap s' r = sys_heap s r) \<and>
     (NewPipelineOpts cfg ?t = Inr opts \<longrightarrow>
      (\<exists>pk pl r. (pk, pl, r) \<in># sys_tokens s' \<and> newTransferKey (sys_heap s' r) = newTransferKey ?t))"
    using run
  proof (cases rule: submit_row_cases)
    case (known ms dd)
    then have "\<exists>pk pl r. (pk, pl, r) \<in># sys_tokens s \<and> newTransferKey (sys_heap s r) = newTransferKey ?t"
      using leak unfolding no_leak_def by blast
    moreover have "no_leak s'" using leak known(3) by (simp add: no_leak_def)
    ultimately show ?thesis using known(3) by simp
  next
    case (pushed ms dd)
    have "\<exists>pl r. (pk, pl, r) \<in># sys_tokens s' \<and> newTransferKey (sys_heap s' r) = k"
      if pk: "sys_pipes s' pk = Some dd'" and k: "k \<in> inPipeline dd'" for pk dd' k
    proof (cases "pk = newPipelineKey ?t \<and> k = newTransferKey ?t")
      case True
      then show ?thesis by (intro exI [of _ "At 0"] exI [of _ "sys_next s"]) (simp add: pushed(3))
    next
      case False
      have "\<exists>dd0. sys_pipes s pk = Some dd0 \<and> k \<in> inPipeline dd0"
        using pk k False pushed(1) by (auto simp: pushed(3) NewPipelineDeduper_def split: if_splits)
      then obtain pl r where "(pk, pl, r) \<in># sys_tokens s" "newTransferKey (sys_heap s r) = k"
        using leak unfolding no_leak_def by blast
      then show ?thesis using old by (intro exI [of _ pl] exI [of _ r]) (auto simp: pushed(3))
    qed
    then have "no_leak s'" unfolding no_leak_def by blast
    then show ?thesis using old by (auto simp: pushed(3))
  next
    case (failed ms w oe e)
    then show ?thesis using leak by (auto simp: no_leak_def)
  qed
  then show "no_leak s'"
    and "\<And>pk pl r. (pk, pl, r) \<in># sys_tokens s \<Longrightarrow> (pk, pl, r) \<in># sys_tokens s' \<and> sys_heap s' r = sys_heap s r"
    and "NewPipelineOpts cfg ?t = Inr opts \<Longrightarrow>
      \<exists>pk pl r. (pk, pl, r) \<in># sys_tokens s' \<and> newTransferKey (sys_heap s' r) = newTransferKey ?t"
    by blast+
qed

text \<open>A tick keeps the tokens and covers every row it loaded whose pipeline can be made.\<close>

lemma no_leak_submit_rows:
  assumes "no_leak s" "sys_inv hp s" "submit_rows cfg hp x now rows s = Ret s'" "distinct (map row_key_of rows)"
    and "\<And>row. row \<in> set rows \<Longrightarrow> find_row (db (sys_world s)) (row_key_of row) = Some row \<and> unfinished_status (status row)"
  shows "no_leak s' \<and>
     (\<forall>pk pl r. (pk, pl, r) \<in># sys_tokens s \<longrightarrow> (pk, pl, r) \<in># sys_tokens s' \<and> sys_heap s' r = sys_heap s r) \<and>
     (\<forall>row \<in> set rows. \<forall>opts. NewPipelineOpts cfg (NewIBCV2Transfer row) = Inr opts \<longrightarrow>
        (\<exists>pk pl r. (pk, pl, r) \<in># sys_tokens s' \<and> newTransferKey (sys_heap s' r) = newTransferKey (NewIBCV2Transfer row)))"
  using assms
proof (induction rows arbitrary: s)
  case Nil
  then show ?case by simp
next
  case (Cons row rows)
  obtain s1 where s1: "submit_row cfg hp x now row s = Ret s1" "submit_rows cfg hp x now rows s1 = Ret s'"
    using Cons.prems(3) by (auto split: outcome.splits)
  have row: "find_row (db (sys_world s)) (row_key_of row) = Some row" "unfinished_status (status row)"
    using Cons.prems(5) [of row] by simp_all
  note inv1 = sys_inv_submit_row [OF Cons.prems(2) s1(1) current_row [OF row(1)] row(2)]
  note one = no_leak_submit_row [OF Cons.prems(1,2) s1(1)]
  have "find_row (db (sys_world s1)) (row_key_of row') = Some row' \<and> unfinished_status (status row')"
    if "row' \<in> set rows" for row'
  proof -
    have "row_key_of row' \<noteq> row_key_of row"
      using Cons.prems(4) that by (metis distinct.simps(2) image_eqI list.simps(9) set_map)
    then show ?thesis using Cons.prems(5) [of row'] that inv1(2) [of "row_key_of row'"] by simp
  qed
  then have IH: "no_leak s'"
      "\<And>pk pl r. (pk, pl, r) \<in># sys_tokens s1 \<Longrightarrow> (pk, pl, r) \<in># sys_tokens s' \<and> sys_heap s' r = sys_heap s1 r"
      "\<And>row opts. row \<in> set rows \<Longrightarrow> NewPipelineOpts cfg (NewIBCV2Transfer row) = Inr opts \<Longrightarrow>
        \<exists>pk pl r. (pk, pl, r) \<in># sys_tokens s' \<and> newTransferKey (sys_heap s' r) = newTransferKey (NewIBCV2Transfer row)"
    using Cons.IH [OF one(1) inv1(1) s1(2)] Cons.prems(4) by simp_all
  have kept: "(pk, pl, r) \<in># sys_tokens s' \<and> sys_heap s' r = sys_heap s r" if "(pk, pl, r) \<in># sys_tokens s" for pk pl r
    using one(2) [OF that] IH(2) [of pk pl r] by simp
  have cov: "\<exists>pk pl r. (pk, pl, r) \<in># sys_tokens s' \<and> newTransferKey (sys_heap s' r) = newTransferKey (NewIBCV2Transfer row')"
    if "row' \<in> set (row # rows)" and opts: "NewPipelineOpts cfg (NewIBCV2Transfer row') = Inr opts" for row' opts
  proof (cases "row' = row")
    case True
    then show ?thesis using one(3) [of opts] opts IH(2) by metis
  next
    case False
    then show ?thesis using IH(3) that by simp
  qed
  show ?case using IH(1) kept cov by blast
qed

lemma no_leak_tick:
  assumes leak: "no_leak s" and inv: "sys_inv hp s"
    and run: "SubmitWaitingUnfinishedTransfers cfg hp x now s = Ret (s', oe)"
  shows "no_leak s'"
    and "oe = None \<Longrightarrow> find_row (db (sys_world s)) k = Some row \<Longrightarrow> unfinished_status (status row) \<Longrightarrow>
      NewPipelineOpts cfg (NewIBCV2Transfer row) = Inr opts \<Longrightarrow>
      \<exists>pk pl r. (pk, pl, r) \<in># sys_tokens s' \<and> newTransferKey (sys_heap s' r) = newTransferKey (NewIBCV2Transfer row)"
proof -
  have wf: "db_wf (db (sys_world s))" using inv by (simp add: sys_inv_def rows_ok_def)
  have "no_leak s' \<and> (oe = None \<longrightarrow> find_row (db (sys_world s)) k = Some row \<longrightarrow> unfinished_status (status row) \<longrightarrow>
      NewPipelineOpts cfg (NewIBCV2Transfer row) = Inr opts \<longrightarrow>
      (\<exists>pk pl r. (pk, pl, r) \<in># sys_tokens s' \<and> newTransferKey (sys_heap s' r) = newTransferKey (NewIBCV2Transfer row)))"
  proof (cases "GetUnfinishedIBCV2Transfers x (db (sys_world s))")
    case (Inl e)
    then show ?thesis using run leak by (auto simp: SubmitWaitingUnfinishedTransfers_def)
  next
    case (Inr rows)
    then have "submit_rows cfg hp x now rows s = Ret s'"
      using run by (auto simp: SubmitWaitingUnfinishedTransfers_def split: outcome.splits)
    from no_leak_submit_rows [OF leak inv this unfinished_rows(1,2) [OF wf Inr]] unfinished_rows(3) [OF wf Inr]
    show ?thesis by blast
  qed
  then show "no_leak s'"
    and "oe = None \<Longrightarrow> find_row (db (sys_world s)) k = Some row \<Longrightarrow> unfinished_status (status row) \<Longrightarrow>
      NewPipelineOpts cfg (NewIBCV2Transfer row) = Inr opts \<Longrightarrow>
      \<exists>pk pl r. (pk, pl, r) \<in># sys_tokens s' \<and> newTransferKey (sys_heap s' r) = newTransferKey (NewIBCV2Transfer row)"
    by blast+
qed

lemma no_leak_pipe_step:
  assumes "pipe_step s e s'" "sys_inv hp s" "no_leak s" "e = Kept"
  shows "no_leak s'"
  using assms
proof (induction rule: pipe_step.induct)
  case (single s pk i r T p en w' t' oe)
  have "newTransferKey t' = newTransferKey (sys_heap s r)"
    by (intro newTransferKey_packet sys_inv_single(3) [OF single.prems(1) single.hyps refl])
  then show ?case using single.prems(2) by (rule_tac no_leak_move) (auto simp: single.hyps(1))
next
  case (single_dropped s pk i r T p en w' oe)
  then show ?case by simp
next
  case (bypass s pk i r T q n now)
  from bypass.prems(2) show ?case by (rule no_leak_move) (auto simp: bypass.hyps(1))
next
  case (enqueue s pk i r T q n now)
  from enqueue.prems(2) show ?case by (rule no_leak_move) (auto simp: enqueue.hyps(1))
next
  case (batch s pk i rs T n q en w' h' out)
  note b = sys_inv_batch [OF batch.prems(1) batch.hyps(1,2,4,5)]
  have "set out = set rs" using b(5) by blast
  moreover have "newTransferKey (h' r) = newTransferKey (sys_heap s r)" for r
    by (rule newTransferKey_packet [OF b(4)])
  ultimately show ?case using batch.prems(2) by (rule_tac no_leak_move) (auto 4 4 simp: batch.hyps(1))
next
  case (batch_dropped s pk i rs T n q en w' h' e)
  then show ?case by simp
next
  case (finish s pk i r T a b en w' t')
  have "newTransferKey t' = newTransferKey (sys_heap s r)"
    by (rule newTransferKey_packet [OF sys_inv_finish(3) [OF finish.prems(1) finish.hyps]])
  then show ?case using finish.prems(2) by (rule_tac no_leak_move) (auto simp: finish.hyps(1))
next
  case (poll s pk i r T dd)
  show ?case unfolding no_leak_def
  proof (intro allI impI)
    fix pk' dd' k
    assume pk': "sys_pipes (s\<lparr>sys_tokens := T, sys_pipes := (sys_pipes s)(pk \<mapsto> Deduper_output dd (sys_heap s r))\<rparr>) pk' = Some dd'"
      and k: "k \<in> inPipeline dd'"
    then have k': "\<exists>dd0. sys_pipes s pk' = Some dd0 \<and> k \<in> inPipeline dd0" "pk' = pk \<longrightarrow> k \<noteq> newTransferKey (sys_heap s r)"
      using poll.hyps(2) by (auto simp: Deduper_output_def split: if_splits)
    then obtain pl r' where "(pk', pl, r') \<in># sys_tokens s" "newTransferKey (sys_heap s r') = k"
      using poll.prems(2) unfolding no_leak_def by blast
    then show "\<exists>pl r'. (pk', pl, r') \<in># sys_tokens (s\<lparr>sys_tokens := T, sys_pipes := (sys_pipes s)(pk \<mapsto> Deduper_output dd (sys_heap s r))\<rparr>) \<and>
        newTransferKey (sys_heap (s\<lparr>sys_tokens := T, sys_pipes := (sys_pipes s)(pk \<mapsto> Deduper_output dd (sys_heap s r))\<rparr>) r') = k"
      using k'(2) by (auto simp: poll.hyps(1))
  qed
qed

lemma no_leak_step:
  assumes "sys_step cfg hp s e s'" "sys_inv hp s" "no_leak s" "e = Kept"
  shows "no_leak s'"
  using assms
proof (induction rule: sys_step.induct)
  case (request clients x req s w' res)
  then show ?case by (simp add: no_leak_def)
next
  case (load s x rows)
  then show ?case by (simp add: no_leak_def)
next
  case (submit s row rows x now s')
  have "no_leak (s\<lparr>sys_loaded := rows\<rparr>)" using submit.prems(2) by (simp add: no_leak_def)
  moreover have "sys_inv hp (s\<lparr>sys_loaded := rows\<rparr>)"
    by (rule sys_inv_load [OF submit.prems(1)]) (use submit.prems(1) submit.hyps(1) in \<open>auto simp: sys_inv_def\<close>)
  ultimately show ?case using no_leak_submit_row(1) submit.hyps(2) by blast
next
  case (pipe s e s')
  then show ?case using no_leak_pipe_step by blast
qed

lemma reachable_no_leak: "reachable {Kept} cfg hp s \<Longrightarrow> no_leak s"
proof (induction rule: reachable.induct)
  case start
  show ?case by (rule no_leak_init)
next
  case (step s e s')
  moreover have "sys_inv hp s" using step.hyps(1) by (rule reachable_inv) simp_all
  ultimately show ?case using no_leak_step by blast
qed

section \<open>Pipelines drain\<close>

fun place_rank :: "place \<Rightarrow> nat" where
  "place_rank (At i) = 2 * i"
| "place_rank (Waiting i) = 2 * i + 1"

definition token_left :: "system \<Rightarrow> token \<Rightarrow> nat" where
  "token_left s tok = (case tok of (pk, pl, r) \<Rightarrow>
     (case sys_pipes s pk of None \<Rightarrow> 0 | Some dd \<Rightarrow> 2 * length (dd_stages dd) + 1 - place_rank pl))"

definition work_left :: "system \<Rightarrow> nat" where
  "work_left s = (\<Sum>tok \<in># sys_tokens s. token_left s tok)"

lemma token_left_pipes:
  "sys_pipes s' = sys_pipes s \<Longrightarrow> token_left s' = token_left s"
  by (rule ext) (simp add: token_left_def)

lemma token_left_at: "sys_pipes s pk = Some dd \<Longrightarrow> token_left s (pk, pl, r) = 2 * length (dd_stages dd) + 1 - place_rank pl"
  by (simp add: token_left_def)

lemma work_left_add: "sys_tokens s = M + T \<Longrightarrow> work_left s = (\<Sum>tok \<in># M. token_left s tok) + (\<Sum>tok \<in># T. token_left s tok)"
  by (simp add: work_left_def)

text \<open>One token moves from \<open>pl\<close> to a later place.\<close>

lemma work_left_one:
  assumes "sys_tokens s = add_mset (pk, pl, r) T" "sys_tokens s' = add_mset (pk, pl', r) T" "sys_pipes s' = sys_pipes s"
    and "sys_pipes s pk = Some dd" "place_rank pl < place_rank pl'" "place_rank pl \<le> 2 * length (dd_stages dd)"
  shows "work_left s' < work_left s"
  using assms token_left_pipes [OF assms(3)] by (simp add: work_left_def token_left_at)

lemma work_left_drop:
  assumes "sys_tokens s = add_mset (pk, pl, r) T" "sys_tokens s' = T" "sys_pipes s' = sys_pipes s"
    and "sys_pipes s pk = Some dd" "place_rank pl \<le> 2 * length (dd_stages dd)"
  shows "work_left s' < work_left s"
  using assms token_left_pipes [OF assms(3)] by (simp add: work_left_def token_left_at)

lemma stage_at_pipe: "stage_at s pk i = Some st \<Longrightarrow> \<exists>dd. sys_pipes s pk = Some dd \<and> i < length (dd_stages dd)"
  by (auto simp: stage_at_def split: option.splits if_splits)

lemma pipe_step_work:
  assumes "pipe_step s e s'" "sys_inv hp s" "e \<noteq> Duplicated"
  shows "work_left s' < work_left s"
  using assms
proof (induction rule: pipe_step.induct)
  case (single s pk i r T p en w' t' oe)
  then show ?case using stage_at_pipe [OF single.hyps(2)] by (auto intro!: work_left_one [OF single.hyps(1)])
next
  case (single_dropped s pk i r T p en w' oe)
  then show ?case using stage_at_pipe [OF single_dropped.hyps(2)]
    by (auto intro!: work_left_drop [OF single_dropped.hyps(1)])
next
  case (bypass s pk i r T q n now)
  then show ?case using stage_at_pipe [OF bypass.hyps(2)] by (auto intro!: work_left_one [OF bypass.hyps(1)])
next
  case (enqueue s pk i r T q n now)
  then show ?case using stage_at_pipe [OF enqueue.hyps(2)] by (auto intro!: work_left_one [OF enqueue.hyps(1)])
next
  case (batch s pk i rs T n q en w' h' out)
  obtain dd where dd: "sys_pipes s pk = Some dd" "i < length (dd_stages dd)" using stage_at_pipe [OF batch.hyps(4)] by blast
  have "distinct out" "set out = set rs" using batch.prems(2) sys_inv_batch(5) [OF batch.prems(1) batch.hyps(1,2,4,5)]
    by (auto split: if_splits)
  then have mset: "mset out = mset rs"
    using batch_tokens(1) [OF batch.prems(1) batch.hyps(1)] by (metis set_eq_iff_mset_eq_distinct)
  have len: "length rs > 0" using batch.hyps(2) by simp
  let ?s = "s\<lparr>sys_world := w', sys_heap := h', sys_tokens := image_mset (\<lambda>r. (pk, At (Suc i), r)) (mset out) + T\<rparr>"
  have "work_left ?s = length rs * (2 * length (dd_stages dd) - 2 * i - 1) + (\<Sum>tok \<in># T. token_left s tok)"
    using dd token_left_pipes [of ?s s]
    by (simp add: work_left_def token_left_at mset multiset.map_comp comp_def)
  moreover have "work_left s = length rs * (2 * length (dd_stages dd) - 2 * i) + (\<Sum>tok \<in># T. token_left s tok)"
    using dd by (simp add: work_left_def batch.hyps(1) token_left_at multiset.map_comp comp_def)
  moreover have "2 * length (dd_stages dd) - 2 * i - 1 < 2 * length (dd_stages dd) - 2 * i" using dd(2) by simp
  ultimately show ?case using len by simp
next
  case (batch_dropped s pk i rs T n q en w' h' e)
  obtain dd where dd: "sys_pipes s pk = Some dd" "i < length (dd_stages dd)" using stage_at_pipe [OF batch_dropped.hyps(4)] by blast
  have "length rs > 0" using batch_dropped.hyps(2) by simp
  moreover have "work_left s = length rs * (2 * length (dd_stages dd) - 2 * i) + (\<Sum>tok \<in># T. token_left s tok)"
    using dd by (simp add: work_left_def batch_dropped.hyps(1) token_left_at multiset.map_comp comp_def)
  moreover have "work_left (s\<lparr>sys_world := w', sys_heap := h', sys_tokens := T\<rparr>) = (\<Sum>tok \<in># T. token_left s tok)"
    using token_left_pipes [of "s\<lparr>sys_world := w', sys_heap := h', sys_tokens := T\<rparr>" s] by (simp add: work_left_def)
  ultimately show ?case using dd(2) by simp
next
  case (finish s pk i r T a b en w' t')
  then show ?case using stage_at_pipe [OF finish.hyps(2)] by (auto intro!: work_left_one [OF finish.hyps(1)])
next
  case (poll s pk i r T dd)
  let ?s = "s\<lparr>sys_tokens := T, sys_pipes := (sys_pipes s)(pk \<mapsto> Deduper_output dd (sys_heap s r))\<rparr>"
  have "token_left ?s = token_left s"
    using poll.hyps(2) by (auto simp: token_left_def Deduper_output_def fun_eq_iff split: option.splits)
  then show ?case using poll.hyps by (simp add: work_left_def token_left_at)
qed

text \<open>Tokens stand at places their pipeline has.\<close>

fun place_ok :: "system \<Rightarrow> token \<Rightarrow> bool" where
  "place_ok s (pk, At i, r) = (\<exists>dd. sys_pipes s pk = Some dd \<and> i \<le> length (dd_stages dd))"
| "place_ok s (pk, Waiting i, r) = (\<exists>q n. stage_at s pk i = Some (Batch q n))"

definition stages_kept :: "system \<Rightarrow> system \<Rightarrow> bool" where
  "stages_kept s s' \<longleftrightarrow>
     (\<forall>pk dd. sys_pipes s pk = Some dd \<longrightarrow> (\<exists>dd'. sys_pipes s' pk = Some dd' \<and> dd_stages dd' = dd_stages dd))"

lemma place_ok_kept: "stages_kept s s' \<Longrightarrow> place_ok s tok \<Longrightarrow> place_ok s' tok"
  by (cases "(s, tok)" rule: place_ok.cases)
    (fastforce simp: stages_kept_def stage_at_def split: option.splits)+

lemma places_move:
  assumes "\<forall>tok \<in># sys_tokens s. place_ok s tok" "stages_kept s s'"
    and "\<And>tok. tok \<in># sys_tokens s' \<Longrightarrow> tok \<in># sys_tokens s \<or> place_ok s' tok"
  shows "\<forall>tok \<in># sys_tokens s'. place_ok s' tok"
  using assms place_ok_kept by blast

lemma places_submit_row:
  assumes "\<forall>tok \<in># sys_tokens s. place_ok s tok" "submit_row cfg hp x now row s = Ret s'"
  shows "\<forall>tok \<in># sys_tokens s'. place_ok s' tok"
  using assms(2)
proof (cases rule: submit_row_cases)
  case (known ms dd)
  from assms(1) show ?thesis by (rule places_move) (auto simp: known(3) stages_kept_def)
next
  case (pushed ms dd)
  from assms(1) show ?thesis
    by (rule places_move) (use pushed(1) in \<open>auto simp: pushed(3) stages_kept_def\<close>)
next
  case (failed ms w oe e)
  from assms(1) show ?thesis by (rule places_move) (auto simp: failed(4) stages_kept_def)
qed

lemma places_pipe_step:
  assumes "pipe_step s e s'" "\<forall>tok \<in># sys_tokens s. place_ok s tok"
  shows "\<forall>tok \<in># sys_tokens s'. place_ok s' tok"
  using assms
proof (induction rule: pipe_step.induct)
  case (single s pk i r T p en w' t' oe)
  from single.prems show ?case
    by (rule places_move) (use stage_at_pipe [OF single.hyps(2)] in \<open>auto simp: single.hyps(1) stages_kept_def\<close>)
next
  case (single_dropped s pk i r T p en w' oe)
  from single_dropped.prems show ?case by (rule places_move) (auto simp: single_dropped.hyps(1) stages_kept_def)
next
  case (bypass s pk i r T q n now)
  from bypass.prems show ?case
    by (rule places_move) (use stage_at_pipe [OF bypass.hyps(2)] in \<open>auto simp: bypass.hyps(1) stages_kept_def\<close>)
next
  case (enqueue s pk i r T q n now)
  from enqueue.prems show ?case
    by (rule places_move) (use enqueue.hyps(2) in \<open>auto simp: enqueue.hyps(1) stages_kept_def stage_at_def\<close>)
next
  case (batch s pk i rs T n q en w' h' out)
  from batch.prems show ?case
    by (rule places_move) (use stage_at_pipe [OF batch.hyps(4)] in \<open>auto simp: batch.hyps(1) stages_kept_def\<close>)
next
  case (batch_dropped s pk i rs T n q en w' h' e)
  from batch_dropped.prems show ?case by (rule places_move) (auto simp: batch_dropped.hyps(1) stages_kept_def)
next
  case (finish s pk i r T a b en w' t')
  from finish.prems show ?case
    by (rule places_move) (use stage_at_pipe [OF finish.hyps(2)] in \<open>auto simp: finish.hyps(1) stages_kept_def\<close>)
next
  case (poll s pk i r T dd)
  from poll.prems show ?case
    by (rule places_move) (use poll.hyps in \<open>auto simp: stages_kept_def Deduper_output_def\<close>)
qed

lemma reachable_places: "reachable E cfg hp s \<Longrightarrow> \<forall>tok \<in># sys_tokens s. place_ok s tok"
proof (induction rule: reachable.induct)
  case start
  show ?case by (simp add: sys_init_def)
next
  case (step s e s')
  from step.hyps(2) step.IH show ?case
  proof (induction rule: sys_step.induct)
    case (request clients x req s w' res)
    from request.prems show ?case by (rule places_move) (auto simp: stages_kept_def)
  next
    case (load s x rows)
    from load.prems show ?case by (rule places_move) (auto simp: stages_kept_def)
  next
    case (submit s row rows x now s')
    from submit.prems have "\<forall>tok \<in># sys_tokens (s\<lparr>sys_loaded := rows\<rparr>). place_ok (s\<lparr>sys_loaded := rows\<rparr>) tok"
      by (rule places_move) (auto simp: stages_kept_def)
    then show ?case using submit.hyps(2) by (rule places_submit_row)
  next
    case (pipe s e s')
    then show ?case using places_pipe_step by blast
  qed
qed

text \<open>A token that is in a pipeline can always move, whatever the environment answers.\<close>

lemma token_can_move:
  assumes inv: "sys_inv hp s" and tok: "(pk, pl, r) \<in># sys_tokens s" and pl: "place_ok s (pk, pl, r)"
    and size: "\<And>pk dd q n. sys_pipes s pk = Some dd \<Longrightarrow> Batch q n \<in> set (dd_stages dd) \<Longrightarrow> 1 \<le> n"
  shows "\<exists>e s'. pipe_step s e s'"
proof -
  obtain T where T: "sys_tokens s = add_mset (pk, pl, r) T" using tok by (metis mset_add)
  obtain dd opts where dd: "sys_pipes s pk = Some dd" "dd_stages dd = NewPipeline hp pk opts"
    using inv tok by (rule token_okE) (blast intro: that)
  show ?thesis
  proof (cases pl)
    case (At i)
    show ?thesis
    proof (cases "i < length (dd_stages dd)")
      case False
      then have "i = length (dd_stages dd)" using pl dd(1) At by simp
      then show ?thesis using T dd(1) At pipe_step.poll by blast
    next
      case True
      then have at: "stage_at s pk i = Some (dd_stages dd ! i)" by (simp add: stage_at_def dd(1))
      show ?thesis
      proof (cases "dd_stages dd ! i")
        case (Single p)
        then have "processor_contract p" using True dd(2) nth_mem newp.single_ok by metis
        then obtain w' ot oe where "MW_Process p undefined (sys_world s) (Some (sys_heap s r)) = Ret (w', ot, oe)"
          using processor_contract.total by blast
        then show ?thesis using T at Single At pipe_step.single pipe_step.single_dropped by (cases ot) metis+
      next
        case (Batch q n)
        then show ?thesis using T at At pipe_step.bypass pipe_step.enqueue by metis
      next
        case (Finisher a b)
        then show ?thesis using T at At pipe_step.finish by (metis surj_pair)
      qed
    qed
  next
    case (Waiting i)
    then obtain q n where at: "stage_at s pk i = Some (Batch q n)" using pl by auto
    then have "1 \<le> n" using size [OF dd(1)] stage_at_some [OF dd(1)] nth_mem by metis
    then have len: "int (length [r]) \<le> n" by simp
    have T': "sys_tokens s = image_mset (\<lambda>r. (pk, Waiting i, r)) (mset [r]) + T" using T Waiting by simp
    obtain w' h' res where run: "BMW_Process q undefined (sys_world s) (sys_heap s) [r] = (w', h', res)" using prod_cases3 by blast
    show ?thesis
      using pipe_step.batch [OF T' _ len at] pipe_step.batch_dropped [OF T' _ len at] run by (cases res) blast+
  qed
qed

section \<open>An example run\<close>

text \<open>The request of the examples, then a tick: one transfer stands at the head of its pipeline.\<close>

definition sample_cfg :: configReader where
  "sample_cfg = NewConfigReader sample_config"

definition sample_pk :: pipelineKey where
  "sample_pk = \<lparr>sourceChainID = ''a'', sourceClientID = ''ca'', destinationChainID = ''b'', destinationClientID = ''cb''\<rparr>"

definition sample_opts :: PipelineOptions where
  "sample_opts = NewDefaultPipelineOpts\<lparr>OptRelaySuccessAcks := True, OptRecvBatchConcurrency := 10\<rparr>"

definition sample_relayed :: system where
  "sample_relayed = sys_init\<lparr>sys_world := fst (Relay sample_cfg sample_clients sample_dbtx sample_request (sys_world sys_init))\<rparr>"

definition sample_ticked :: system where
  "sample_ticked = sample_relayed\<lparr>
     sys_pipes := [sample_pk \<mapsto> \<lparr>dd_stages = NewPipeline False sample_pk sample_opts,
        inPipeline = {newTransferKey (NewIBCV2Transfer sample_row)}\<rparr>],
     sys_heap := (sys_heap sys_init)(0 := NewIBCV2Transfer sample_row),
     sys_next := 1, sys_tokens := {#(sample_pk, At 0, 0)#}\<rparr>"

lemma sample_not_listed: "ToLower ''0xAB'' \<notin> set OFACAddressMap"
  by code_simp

lemma sample_relayed_db: "transfers (db (sys_world sample_relayed)) = [sample_row]"
proof -
  have "int32_of_uint64 7 = 7" by (simp add: int32_of_uint64_def)
  with sample_not_listed show ?thesis
    by (simp add: sample_relayed_def sample_cfg_def sys_init_def Relay_def relay_rest_def sample_request_def sample_defs
        with_db_def GetClient_def InsertRelaySubmission_def InsertIBCV2Transfer_def insert_row_def new_transfer_row_def
        Let_def GetClientCounterpartyChainID_def GetChainConfig_def NewConfigReader_def createIndexes_def
        record_metrics_def sample_row_def)
qed

lemma sample_opts: "NewPipelineOpts sample_cfg (NewIBCV2Transfer sample_row) = Inr sample_opts"
  by (simp add: NewPipelineOpts_def sample_cfg_def NewIBCV2Transfer_def sample_row_def new_transfer_row_def
      GetChainConfig_def NewConfigReader_def createIndexes_def sample_config_def sample_chain_def sample_ibc_def
      or_default_def sample_opts_def NewDefaultPipelineOpts_def DefaultRecvBatchConcurrency_def DefaultRecvBatchSize_def)

lemma sample_alert: "AlertOnExcessiveRelayLatency sample_cfg 5 (NewIBCV2Transfer sample_row) = Ret []"
  by (simp add: AlertOnExcessiveRelayLatency_def sample_cfg_def NewIBCV2Transfer_def sample_row_def new_transfer_row_def
      GetChainConfig_def NewConfigReader_def createIndexes_def sample_config_def sample_chain_def sample_ibc_def
      ongoingRelayType_def IsComplete_def Let_def evmSourceExcessiveLatency_def cosmosSourceExcessiveLatency_def
      minute_def second_def time_Sub_def min_duration_def max_duration_def)

lemma sample_key: "newPipelineKey (NewIBCV2Transfer sample_row) = sample_pk"
  by (simp add: newPipelineKey_def NewIBCV2Transfer_def sample_row_def new_transfer_row_def sample_pk_def)

lemma sample_tick:
  "SubmitWaitingUnfinishedTransfers sample_cfg False sample_dbtx 5 sample_relayed = Ret (sample_ticked, None)"
proof -
  have rows: "GetUnfinishedIBCV2Transfers sample_dbtx (db (sys_world sample_relayed)) = Inr [sample_row]"
    by (simp add: GetUnfinishedIBCV2Transfers_def sample_dbtx_def sample_relayed_db)
      (simp add: sample_row_def new_transfer_row_def unfinished_status_def)
  have "sys_pipes sample_relayed = Map.empty" "sys_heap sample_relayed = sys_heap sys_init"
      "sys_tokens sample_relayed = {#}" "sys_next sample_relayed = 0"
    by (simp_all add: sample_relayed_def sys_init_def)
  then show ?thesis
    by (simp add: SubmitWaitingUnfinishedTransfers_def rows submit_row_def sample_alert SubmitTransfer_def
        Manager_Pipeline_def newPipelineForTransfer_def sample_opts sample_key Deduper_Push_def NewPipelineDeduper_def
        sample_ticked_def record_metrics_def Let_def)
qed

lemma sample_relayed_reachable: "reachable {Kept} sample_cfg False sample_relayed"
proof (rule reachable.step [OF reachable.start])
  show "sys_step sample_cfg False sys_init Kept sample_relayed"
    unfolding sample_relayed_def by (rule sys_step.request) (rule prod.collapse [symmetric])
qed simp

lemma sample_reachable: "reachable {Kept} sample_cfg False sample_ticked"
  by (rule reachable_tick [OF sample_relayed_reachable sample_tick]) (simp add: sample_relayed_def sys_init_def)

end
