(* ===== verification/Relayer_Pass.thy ===== *)
theory Relayer_Pass
  imports Relayer_Progress
begin

text \<open>
  One pass of a transfer through its pipeline, when the chains and the database answer.

  \<^item> \<open>run_stage\<close> runs one stage on one transfer and \<open>run_pass\<close> a list of stages;
    \<open>run_pass_steps\<close> shows that a pass is a run of the pipeline (\<open>pipe_step\<close>).
  \<^item> \<open>leads\<close> composes what stages do to a transfer and its row; the stage lemmas compute it.
  \<^item> \<open>delivers\<close> names the answers a pass needs to bring a new packet to its end.
\<close>

section \<open>Passes\<close>

fun run_stage :: "stage \<Rightarrow> env \<Rightarrow> ref \<Rightarrow> world \<times> heap \<Rightarrow> (world \<times> heap) option" where
  "run_stage (Single p) en r (w, h) =
     (case MW_Process p en w (Some (h r)) of
        Ret (w', Some t', oe) \<Rightarrow> Some (w', h(r := t'))
      | _ \<Rightarrow> None)"
| "run_stage (Batch q n) en r (w, h) =
     (if batch_bypass q (env_guard_now en) (h r) then Some (w, h)
      else (case BMW_Process q en w h [r] of
              (w', h', Inr out) \<Rightarrow> if out = [r] then Some (w', h') else None
            | _ \<Rightarrow> None))"
| "run_stage (Finisher a b) en r (w, h) =
     (case StateFinisher_Process a b en w (h r) of (w', t') \<Rightarrow> Some (w', h(r := t')))"

fun run_pass :: "stage list \<Rightarrow> env \<Rightarrow> ref \<Rightarrow> world \<times> heap \<Rightarrow> (world \<times> heap) option" where
  "run_pass [] en r wh = Some wh"
| "run_pass (st # sts) en r wh =
     (case run_stage st en r wh of None \<Rightarrow> None | Some wh' \<Rightarrow> run_pass sts en r wh')"

lemma run_pass_append:
  "run_pass (xs @ ys) en r wh = (case run_pass xs en r wh of None \<Rightarrow> None | Some wh' \<Rightarrow> run_pass ys en r wh')"
  by (induction xs arbitrary: wh) (auto split: option.splits)

abbreviation kept_step :: "system \<Rightarrow> system \<Rightarrow> bool" where
  "kept_step s s' \<equiv> pipe_step s Kept s'"

abbreviation with_token :: "system \<Rightarrow> world \<times> heap \<Rightarrow> token multiset \<Rightarrow> system" where
  "with_token s wh T \<equiv> s\<lparr>sys_world := fst wh, sys_heap := snd wh, sys_tokens := T\<rparr>"

lemma run_stage_steps:
  assumes tok: "sys_tokens s = add_mset (pk, At i, r) T" and at: "stage_at s pk i = Some st"
    and run: "run_stage st en r (sys_world s, sys_heap s) = Some wh"
    and size: "\<And>q n. st = Batch q n \<Longrightarrow> 1 \<le> n"
  shows "kept_step\<^sup>*\<^sup>* s (with_token s wh (add_mset (pk, At (Suc i), r) T))"
proof (cases st)
  case (Single p)
  then obtain w' t' oe where "MW_Process p en (sys_world s) (Some (sys_heap s r)) = Ret (w', Some t', oe)"
      "wh = (w', (sys_heap s)(r := t'))"
    using run by (auto split: outcome.splits option.splits)
  then show ?thesis using pipe_step.single [OF tok at [unfolded Single]] by auto
next
  case (Finisher a b)
  obtain w' t' where "StateFinisher_Process a b en (sys_world s) (sys_heap s r) = (w', t')" by fastforce
  then show ?thesis using run pipe_step.finish [OF tok at [unfolded Finisher]] by (auto simp: Finisher)
next
  case (Batch q n)
  show ?thesis
  proof (cases "batch_bypass q (env_guard_now en) (sys_heap s r)")
    case True
    then have "wh = (sys_world s, sys_heap s)" using run Batch by simp
    then show ?thesis using pipe_step.bypass [OF tok at [unfolded Batch] True] by auto
  next
    case False
    let ?s = "s\<lparr>sys_tokens := add_mset (pk, Waiting i, r) T\<rparr>"
    obtain w' h' where b: "BMW_Process q en (sys_world s) (sys_heap s) [r] = (w', h', Inr [r])" "wh = (w', h')"
      using run Batch False by (auto split: prod.splits sum.splits if_splits)
    have "stage_at ?s pk i = Some (Batch q n)" using at Batch by (simp add: stage_at_def)
    moreover have "int (length [r]) \<le> n" using size [OF Batch] by simp
    ultimately have "pipe_step ?s Kept (with_token s wh (add_mset (pk, At (Suc i), r) T))"
      using pipe_step.batch [of ?s pk i "[r]" T n q en w' h' "[r]"] b by simp
    then show ?thesis using pipe_step.enqueue [OF tok at [unfolded Batch] False]
      by (meson converse_rtranclp_into_rtranclp r_into_rtranclp)
  qed
qed

text \<open>A pass is a run of the pipeline that keeps every transfer.\<close>

lemma run_pass_steps:
  assumes "sys_tokens s = add_mset (pk, At i, r) T" "sys_pipes s pk = Some dd"
    and "run_pass (drop i (dd_stages dd)) en r (sys_world s, sys_heap s) = Some wh" "i \<le> length (dd_stages dd)"
    and "\<And>q n. Batch q n \<in> set (dd_stages dd) \<Longrightarrow> 1 \<le> n"
  shows "kept_step\<^sup>*\<^sup>* s (with_token s wh (add_mset (pk, At (length (dd_stages dd)), r) T))"
  using assms(1-4)
proof (induction "length (dd_stages dd) - i" arbitrary: s i)
  case 0
  then have "s = with_token s wh (add_mset (pk, At (length (dd_stages dd)), r) T)" by auto
  then show ?case by (metis rtranclp.rtrancl_refl)
next
  case (Suc m)
  then have i: "i < length (dd_stages dd)" by simp
  then have d: "drop i (dd_stages dd) = dd_stages dd ! i # drop (Suc i) (dd_stages dd)" by (simp add: Cons_nth_drop_Suc)
  with Suc.prems(3) obtain wh1 where
      run: "run_stage (dd_stages dd ! i) en r (sys_world s, sys_heap s) = Some wh1"
        "run_pass (drop (Suc i) (dd_stages dd)) en r wh1 = Some wh"
    by (auto split: option.splits)
  have at: "stage_at s pk i = Some (dd_stages dd ! i)" using Suc.prems(2) i by (simp add: stage_at_def)
  let ?s = "with_token s wh1 (add_mset (pk, At (Suc i), r) T)"
  have "kept_step\<^sup>*\<^sup>* s ?s"
    using run_stage_steps [OF Suc.prems(1) at run(1)] assms(5) nth_mem [OF i] by metis
  moreover have "kept_step\<^sup>*\<^sup>* ?s (with_token ?s wh (add_mset (pk, At (length (dd_stages dd)), r) T))"
    by (rule Suc.hyps(1)) (use Suc.hyps(2) Suc.prems(2) run(2) Suc_leI [OF i] in simp_all)
  ultimately show ?case by simp
qed

section \<open>What stages do to a transfer and its row\<close>

text \<open>The row of a transfer and the chains transactions were sent to.\<close>

definition stands :: "world \<Rightarrow> transfer \<Rightarrow> string list \<Rightarrow> bool" where
  "stands w t subs \<longleftrightarrow>
     (\<exists>row. find_row (db w) (transfer_row_key t) = Some row \<and> row_delivery row = delivery_of t \<and>
        status row = State t) \<and> map fst (submitted w) = subs"

text \<open>
  The stages lead from the transfer \<open>t\<close> to \<open>t'\<close>, up to its state, which the stages set
  and which the row follows.
\<close>

definition leads :: "env \<Rightarrow> stage list \<Rightarrow> transfer \<Rightarrow> string list \<Rightarrow> transfer \<Rightarrow> string list \<Rightarrow> bool" where
  "leads en sts t subs t' subs' \<longleftrightarrow>
     (\<forall>w h r st. h r = t\<lparr>State := st\<rparr> \<longrightarrow> st \<noteq> FAILED \<longrightarrow> stands w (h r) subs \<longrightarrow>
        (\<exists>w' st'. run_pass sts en r (w, h) = Some (w', h(r := t'\<lparr>State := st'\<rparr>)) \<and> st' \<noteq> FAILED \<and>
           stands w' (t'\<lparr>State := st'\<rparr>) subs'))"

lemma leads_append:
  assumes "leads en xs t subs t1 subs1" "leads en ys t1 subs1 t2 subs2"
  shows "leads en (xs @ ys) t subs t2 subs2"
  unfolding leads_def
proof (intro allI impI)
  fix w h r st
  assume "(h :: heap) r = t\<lparr>State := st\<rparr>" "st \<noteq> FAILED" "stands w (h r) subs"
  then obtain w1 st1 where 1: "run_pass xs en r (w, h) = Some (w1, h(r := t1\<lparr>State := st1\<rparr>))" "st1 \<noteq> FAILED"
      "stands w1 (t1\<lparr>State := st1\<rparr>) subs1"
    using assms(1) unfolding leads_def by blast
  then obtain w2 st2 where "run_pass ys en r (w1, h(r := t1\<lparr>State := st1\<rparr>)) =
        Some (w2, h(r := t1\<lparr>State := st1\<rparr>, r := t2\<lparr>State := st2\<rparr>))" "st2 \<noteq> FAILED"
      "stands w2 (t2\<lparr>State := st2\<rparr>) subs2"
    using assms(2) unfolding leads_def by (metis fun_upd_same)
  with 1 show "\<exists>w' st'. run_pass (xs @ ys) en r (w, h) = Some (w', h(r := t2\<lparr>State := st'\<rparr>)) \<and> st' \<noteq> FAILED \<and>
      stands w' (t2\<lparr>State := st'\<rparr>) subs2"
    by (auto simp: run_pass_append)
qed

lemmas leads_Cons = leads_append [where xs = "[x]" for x, simplified]

lemma leads_nil: "leads en [] t subs t subs"
  unfolding leads_def by (metis fun_upd_triv run_pass.simps(1))

text \<open>A stage whose guard says no.\<close>

lemma leads_skip:
  assumes "\<And>st. \<not> ShouldProcess p (env_guard_now en) (t\<lparr>State := st\<rparr>)"
  shows "leads en [Single p] t subs t subs"
  unfolding leads_def using assms by (fastforce simp: MW_Process_def)

lemma leads_bypass:
  assumes "\<And>st. \<not> BShouldProcess q (env_guard_now en) (t\<lparr>State := st\<rparr>)"
  shows "leads en [Batch q n] t subs t subs"
  unfolding leads_def using assms by (fastforce simp: batch_bypass_def)

abbreviation no_faults :: "dbtx \<Rightarrow> bool" where
  "no_faults x \<equiv> tx_fault x = (\<lambda>_ _. None)"

text \<open>A statement on the transfer's row, without faults.\<close>

lemma stands_exec:
  assumes "stands w t subs" "no_faults x" "changes f g"
    and "transfer_row_key t' = transfer_row_key t" "State t' = State t" "delivery_of t' = g (delivery_of t)"
  shows "\<exists>w1. with_db (exec_update x q (transfer_row_key t) f) w = (w1, None) \<and> stands w1 t' subs"
proof (intro exI conjI)
  show "with_db (exec_update x q (transfer_row_key t) f) w = (w\<lparr>db := update_where (transfer_row_key t) f (db w)\<rparr>, None)"
    using assms(2) by (simp add: with_db_def exec_update_def)
  have "keeps_key f" "benign f" using assms(3) by (simp_all add: changes_def benign_keeps_key)
  then show "stands (w\<lparr>db := update_where (transfer_row_key t) f (db w)\<rparr>) t' subs"
    using assms(1,3-6) by (auto simp: stands_def rows.find_upd changes_def benign_def)
qed

lemma stands_status:
  assumes "stands w t subs" "no_faults x"
  obtains w1 where "with_db (UpdateTransferState x s (transfer_row_key t)) w = (w1, None)"
    "stands w1 (t\<lparr>State := s\<rparr>) subs"
proof (rule that)
  let ?f = "\<lambda>r. r\<lparr>updated_at := tx_now x, status := s\<rparr>"
  show "with_db (UpdateTransferState x s (transfer_row_key t)) w =
      (w\<lparr>db := update_where (transfer_row_key t) ?f (db w)\<rparr>, None)"
    using assms(2) by (simp add: with_db_def exec_update_def UpdateTransferState_def)
  show "stands (w\<lparr>db := update_where (transfer_row_key t) ?f (db w)\<rparr>) (t\<lparr>State := s\<rparr>) subs"
    using assms(1) by (auto simp: stands_def rows.find_upd [OF keeps_key_status])
qed

lemma stands_metrics [simp]: "stands (record_metrics ms w) t subs = stands w t subs"
  by (simp add: stands_def record_metrics_def)

text \<open>A processor in its middleware.\<close>

lemma leads_single:
  assumes "ProcessingError t = None"
    and "\<And>st. ShouldProcess p (env_guard_now en) (t\<lparr>State := st\<rparr>)" "no_faults (env_db en)" "ProcState p \<noteq> FAILED"
    and "\<And>w. stands w (t\<lparr>State := ProcState p\<rparr>) subs \<Longrightarrow>
        \<exists>w'. Process p en w (t\<lparr>State := ProcState p\<rparr>) = (w', Inr (t'\<lparr>State := ProcState p\<rparr>)) \<and>
             stands w' (t'\<lparr>State := ProcState p\<rparr>) subs'"
  shows "leads en [Single p] t subs t' subs'"
  unfolding leads_def
proof (intro allI impI)
  fix w h r st
  assume h: "(h :: heap) r = t\<lparr>State := st\<rparr>" "st \<noteq> FAILED" "stands w (h r) subs"
  obtain w1 where w1: "with_db (UpdateTransferState (env_db en) (ProcState p) (transfer_row_key t)) w = (w1, None)"
      "stands w1 (t\<lparr>State := ProcState p\<rparr>) subs"
    using stands_status [OF h(3) assms(3)] h(1) by (metis transfer.surjective transfer.update_convs(1) transfer_state_simps(3))
  then obtain w2 where w2: "Process p en w1 (t\<lparr>State := ProcState p\<rparr>) = (w2, Inr (t'\<lparr>State := ProcState p\<rparr>))"
      "stands w2 (t'\<lparr>State := ProcState p\<rparr>) subs'" using assms(5) by blast
  have "run_pass [Single p] en r (w, h) = Some (w2, h(r := t'\<lparr>State := ProcState p\<rparr>))"
    using h assms(1,2) w1(1) w2(1) by (simp add: MW_Process_def has_error_def Let_def)
  then show "\<exists>w' st'. run_pass [Single p] en r (w, h) = Some (w', h(r := t'\<lparr>State := st'\<rparr>)) \<and> st' \<noteq> FAILED \<and>
      stands w' (t'\<lparr>State := st'\<rparr>) subs'"
    using w2(2) assms(4) by blast
qed

text \<open>A batch processor in its middleware, on a batch of one.\<close>

lemma leads_batch:
  assumes "ProcessingError t = None" "\<And>st. BShouldProcess q (env_guard_now en) (t\<lparr>State := st\<rparr>)"
    and "no_faults (env_db en)" "BState q \<noteq> FAILED"
    and "\<And>w h r. (h :: heap) r = t\<lparr>State := BState q\<rparr> \<Longrightarrow> stands w (t\<lparr>State := BState q\<rparr>) subs \<Longrightarrow>
        \<exists>w'. BProcess q en w h [r] = (w', h(r := t'\<lparr>State := BState q\<rparr>), Inr [r]) \<and>
             stands w' (t'\<lparr>State := BState q\<rparr>) subs'"
  shows "leads en [Batch q n] t subs t' subs'"
  unfolding leads_def
proof (intro allI impI)
  fix w h r st
  assume h: "(h :: heap) r = t\<lparr>State := st\<rparr>" "st \<noteq> FAILED" "stands w (h r) subs"
  obtain w1 where w1: "with_db (UpdateTransferState (env_db en) (BState q) (transfer_row_key t)) w = (w1, None)"
      "stands w1 (t\<lparr>State := BState q\<rparr>) subs"
    using stands_status [OF h(3) assms(3)] h(1) by (metis transfer.surjective transfer.update_convs(1) transfer_state_simps(3))
  moreover have "(h(r := t\<lparr>State := BState q\<rparr>)) r = t\<lparr>State := BState q\<rparr>" by simp
  ultimately obtain w2 where w2: "BProcess q en w1 (h(r := t\<lparr>State := BState q\<rparr>)) [r] =
        (w2, h(r := t\<lparr>State := BState q\<rparr>, r := t'\<lparr>State := BState q\<rparr>), Inr [r])"
      "stands w2 (t'\<lparr>State := BState q\<rparr>) subs'"
    using assms(5) by blast
  have "run_pass [Batch q n] en r (w, h) = Some (w2, h(r := t'\<lparr>State := BState q\<rparr>))"
    using h assms(1,2) w1(1) w2(1) by (simp add: BMW_Process_def BMW_select_def batch_bypass_def has_error_def Let_def)
  then show "\<exists>w' st'. run_pass [Batch q n] en r (w, h) = Some (w', h(r := t'\<lparr>State := st'\<rparr>)) \<and> st' \<noteq> FAILED \<and>
      stands w' (t'\<lparr>State := st'\<rparr>) subs'"
    using w2(2) assms(4) by blast
qed

text \<open>Stages that only look.\<close>

lemma leads_check_recv:
  assumes "ProcessingError t = None" "no_faults (env_db en)" "RecvTxHash t = None" "AckTxHash t = None" "TimeoutTxHash t = None"
    and "env_clients en (DestinationChainID t) = Some dst"
    and "IsPacketReceived dst (PacketDestinationClientID t) (uint64_of_uint32 (PacketSequenceNumber t)) = Inr False"
  shows "leads en [Single CheckRecvPacketDeliveryProcessor] t subs t subs"
  using assms
  by (intro leads_single)
    (simp_all add: CheckRecvPacketDeliveryProcessor_def guard_defs CheckRecvPacketDelivery_Process_def GetClient_def)

lemma leads_check_commitment:
  assumes "ProcessingError t = None" "no_faults (env_db en)" "AckTxHash t = None" "TimeoutTxHash t = None"
    and "env_clients en (SourceChainID t) = Some src"
    and "IsPacketCommitted src (PacketSourceClientID t) (uint64_of_uint32 (PacketSequenceNumber t)) = Inr True"
  shows "leads en [Single CheckPacketCommitmentProcessor] t subs t subs"
  using assms
  by (intro leads_single)
    (simp_all add: CheckPacketCommitmentProcessor_def guard_defs CheckPacketCommitment_Process_def GetClient_def)

lemma leads_retry_recv:
  assumes "ProcessingError t = None" "no_faults (env_db en)" "RecvTxHash t = Some h" "RecvTxTime t = Some u" "WriteAckTxHash t = None"
    and "env_clients en chainID = Some dst" "ShouldRetryTx dst h RetryRecvExpiry u = Inr False"
  shows "leads en [Single (RetryRecvPacketProcessor chainID)] t subs t subs"
  using assms
  by (intro leads_single)
    (simp_all add: RetryRecvPacketProcessor_def guard_defs RetryRecvPacket_Process_def GetClient_def)

lemma leads_retry_ack:
  assumes "ProcessingError t = None" "no_faults (env_db en)" "AckTxHash t = Some h" "AckTxTime t = Some u"
    and "env_clients en chainID = Some src" "ShouldRetryTx src h RetryAckExpiry u = Inr False"
  shows "leads en [Single (RetryAckPacketProcessor chainID)] t subs t subs"
  using assms
  by (intro leads_single)
    (simp_all add: RetryAckPacketProcessor_def guard_defs RetryAckPacket_Process_def GetClient_def)

lemma leads_retry_timeout:
  assumes "ProcessingError t = None" "no_faults (env_db en)" "TimeoutTxHash t = Some h" "TimeoutTxTime t = Some u"
    and "env_clients en chainID = Some src" "ShouldRetryTx src h RetryTimeoutExpiry u = Inr False"
  shows "leads en [Single (RetryTimeoutPacketProcessor chainID)] t subs t subs"
  using assms
  by (intro leads_single)
    (simp_all add: RetryTimeoutPacketProcessor_def guard_defs RetryTimeoutPacket_Process_def GetClient_def)

lemma leads_check_timeout:
  assumes "ProcessingError t = None" "no_faults (env_db en)" "RecvTxHash t = None" "AckTxHash t = None" "TimeoutTxHash t = None"
    and "IsTimedOut (env_guard_now en) t" "env_clients en (DestinationChainID t) = Some dst"
    and "IsTimestampFinalized dst (PacketTimeoutTimestamp t) off = Inr True"
  shows "leads en [Single (CheckTimeoutFinalityProcessor off)] t subs t subs"
  using assms
  by (intro leads_single)
    (simp_all add: CheckTimeoutFinalityProcessor_def guard_defs CheckTimeoutFinality_Process_def GetClient_def IsTimedOut_def)

text \<open>Gas costs go to columns outside the delivery.\<close>

lemma leads_gas_stage:
  assumes "leads en [Single (calculator coin decimals)] t subs t subs"
  shows "leads en (gas_stage hp coin decimals calculator) t subs t subs"
  using assms leads_nil by (simp add: gas_stage_def)

lemmas gas_changes =
  UpdateTransferRecvTxGasCostUSD_def UpdateTransferAckTxGasCostUSD_def UpdateTransferTimeoutTxGasCostUSD_def

lemma leads_recv_gas:
  assumes "ProcessingError t = None" "no_faults (env_db en)" "RecvTxHash t = Some h" "RecvTxGasCostUSD t = None"
    and "env_clients en (DestinationChainID t) = Some dst" "TxFee dst h = Inr fee" "env_price en coin decimals fee = Inr usd"
  shows "leads en [Single (RecvTxGasCalculatorProcessor coin decimals)] t subs t subs"
proof (rule leads_single)
  let ?t = "t\<lparr>State := ProcState (RecvTxGasCalculatorProcessor coin decimals)\<rparr>"
  fix w
  assume st: "stands w ?t subs"
  have "changes (\<lambda>r. r\<lparr>updated_at := tx_now (env_db en), recv_tx_gas_cost_usd := Some usd\<rparr>) (\<lambda>d. d)"
    by (simp add: changes_def benign_def delivery_simps)
  from stands_exec [OF st assms(2) this, of ?t "''UpdateTransferRecvTxGasCostUSD''"] obtain w1 where
      w1: "with_db (UpdateTransferRecvTxGasCostUSD (env_db en) (Some usd) (transfer_row_key t)) w = (w1, None)" "stands w1 ?t subs"
    by (auto simp: gas_changes)
  then show "\<exists>w'. Process (RecvTxGasCalculatorProcessor coin decimals) en w ?t = (w', Inr ?t) \<and> stands w' ?t subs"
    using assms by (simp add: RecvTxGasCalculatorProcessor_def RecvTxGasCalculator_Process_def GetClient_def)
qed (use assms in \<open>simp_all add: RecvTxGasCalculatorProcessor_def guard_defs\<close>)

lemma leads_ack_gas:
  assumes "ProcessingError t = None" "no_faults (env_db en)" "AckTxHash t = Some h" "AckTxGasCostUSD t = None"
    and "env_clients en (SourceChainID t) = Some src" "TxFee src h = Inr fee" "env_price en coin decimals fee = Inr usd"
  shows "leads en [Single (AckTxGasCalculatorProcessor coin decimals)] t subs t subs"
proof (rule leads_single)
  let ?t = "t\<lparr>State := ProcState (AckTxGasCalculatorProcessor coin decimals)\<rparr>"
  fix w
  assume st: "stands w ?t subs"
  have "changes (\<lambda>r. r\<lparr>updated_at := tx_now (env_db en), ack_tx_gas_cost_usd := Some usd\<rparr>) (\<lambda>d. d)"
    by (simp add: changes_def benign_def delivery_simps)
  from stands_exec [OF st assms(2) this, of ?t "''UpdateTransferAckTxGasCostUSD''"] obtain w1 where
      w1: "with_db (UpdateTransferAckTxGasCostUSD (env_db en) (Some usd) (transfer_row_key t)) w = (w1, None)" "stands w1 ?t subs"
    by (auto simp: gas_changes)
  then show "\<exists>w'. Process (AckTxGasCalculatorProcessor coin decimals) en w ?t = (w', Inr ?t) \<and> stands w' ?t subs"
    using assms by (simp add: AckTxGasCalculatorProcessor_def AckTxGasCalculator_Process_def GetClient_def)
qed (use assms in \<open>simp_all add: AckTxGasCalculatorProcessor_def guard_defs\<close>)

lemma leads_timeout_gas:
  assumes "ProcessingError t = None" "no_faults (env_db en)" "TimeoutTxHash t = Some h" "TimeoutTxGasCostUSD t = None"
    and "env_clients en (SourceChainID t) = Some src" "TxFee src h = Inr fee" "env_price en coin decimals fee = Inr usd"
  shows "leads en [Single (TimeoutTxGasCalculatorProcessor coin decimals)] t subs t subs"
proof (rule leads_single)
  let ?t = "t\<lparr>State := ProcState (TimeoutTxGasCalculatorProcessor coin decimals)\<rparr>"
  fix w
  assume st: "stands w ?t subs"
  have "changes (\<lambda>r. r\<lparr>updated_at := tx_now (env_db en), timeout_tx_gas_cost_usd := Some usd\<rparr>) (\<lambda>d. d)"
    by (simp add: changes_def benign_def delivery_simps)
  from stands_exec [OF st assms(2) this, of ?t "''UpdateTransferTimeoutTxGasCostUSD''"] obtain w1 where
      w1: "with_db (UpdateTransferTimeoutTxGasCostUSD (env_db en) (Some usd) (transfer_row_key t)) w = (w1, None)" "stands w1 ?t subs"
    by (auto simp: gas_changes)
  then show "\<exists>w'. Process (TimeoutTxGasCalculatorProcessor coin decimals) en w ?t = (w', Inr ?t) \<and> stands w' ?t subs"
    using assms by (simp add: TimeoutTxGasCalculatorProcessor_def TimeoutTxGasCalculator_Process_def GetClient_def)
qed (use assms in \<open>simp_all add: TimeoutTxGasCalculatorProcessor_def guard_defs\<close>)

text \<open>Stages that record.\<close>

lemma leads_check_send:
  assumes "ProcessingError t = None" "no_faults (env_db en)" "RecvTxHash t = None" "SourceTxFinalizedTime t = None"
    and "env_clients en (SourceChainID t) = Some src" "IsTxFinalized src (SourceTxHash t) off = Inr True"
  shows "leads en [Single (CheckSendFinalityProcessor off)] t subs
      (t\<lparr>SourceTxFinalizedTime := Some (env_now en)\<rparr>) subs"
proof (rule leads_single)
  let ?t = "t\<lparr>State := ProcState (CheckSendFinalityProcessor off)\<rparr>"
  let ?t' = "t\<lparr>SourceTxFinalizedTime := Some (env_now en), State := ProcState (CheckSendFinalityProcessor off)\<rparr>"
  fix w
  assume st: "stands w ?t subs"
  have "changes (\<lambda>r. r\<lparr>updated_at := tx_now (env_db en), source_tx_finalized_time := Some (env_now en)\<rparr>) (\<lambda>d. d)"
    by (simp add: changes_def benign_def delivery_simps)
  from stands_exec [OF st assms(2) this, of ?t' "''UpdateTransferSourceTxFinalizedTime''"] obtain w1 where
      "with_db (UpdateTransferSourceTxFinalizedTime (env_db en) (Some (env_now en)) (transfer_row_key ?t)) w = (w1, None)"
      "stands w1 ?t' subs"
    by (auto simp: UpdateTransferSourceTxFinalizedTime_def transfer_row_key_def delivery_of_def)
  then show "\<exists>w'. Process (CheckSendFinalityProcessor off) en w ?t = (w', Inr ?t') \<and> stands w' ?t' subs"
    using assms by (simp add: CheckSendFinalityProcessor_def CheckSendFinality_Process_def GetClient_def)
qed (use assms in \<open>simp_all add: CheckSendFinalityProcessor_def guard_defs\<close>)

lemma leads_wait_write_ack:
  assumes "ProcessingError t = None" "no_faults (env_db en)" "RecvTxHash t = Some h" "RecvTxTime t = Some u"
    and "WriteAckTxHash t = None" "TimeoutTxHash t = None" "env_clients en (DestinationChainID t) = Some dst"
    and "PacketWriteAckStatus dst h (uint64_of_uint32 (PacketSequenceNumber t)) (PacketSourceClientID t)
           (PacketDestinationClientID t) = Inr s"
  shows "leads en [Single WaitForWriteAckPacket] t subs
      (t\<lparr>WriteAckTxHash := Some h, WriteAckTxTime := Some u, WriteAckStatus := Some s\<rparr>) subs"
proof (rule leads_single)
  let ?t = "t\<lparr>State := ProcState WaitForWriteAckPacket\<rparr>"
  let ?t' = "t\<lparr>WriteAckTxHash := Some h, WriteAckTxTime := Some u, WriteAckStatus := Some s,
               State := ProcState WaitForWriteAckPacket\<rparr>"
  fix w
  assume st: "stands w ?t subs"
  let ?w = "record_metrics (RecordRecvSendLatency (env_config en) ?t @ RecordRecvRelayed ?t) w"
  have "changes (\<lambda>r. r\<lparr>updated_at := tx_now (env_db en), write_ack_tx_hash := Some h, write_ack_tx_time := Some u,
         write_ack_status := Some s\<rparr>) (\<lambda>d. d\<lparr>dl_wack_hash := Some h, dl_wack_time := Some u, dl_wack_status := Some s\<rparr>)"
    by (simp add: changes_def benign_def delivery_simps)
  from stands_exec [OF _ assms(2) this, of ?w ?t subs ?t' "''UpdateTransferWriteAckTx''"] st obtain w1 where
      "with_db (UpdateTransferWriteAckTx (env_db en) (Some h) (Some u) (Some s) (transfer_row_key t)) ?w = (w1, None)"
      "stands w1 ?t' subs"
    by (auto simp: UpdateTransferWriteAckTx_def transfer_row_key_def delivery_of_def)
  then show "\<exists>w'. Process WaitForWriteAckPacket en w ?t = (w', Inr ?t') \<and> stands w' ?t' subs"
    using assms by (simp add: WaitForWriteAckPacket_def WaitForWriteAck_Process_def WaitForWriteAck_record_def GetClient_def Let_def)
qed (use assms in \<open>simp_all add: WaitForWriteAckPacket_def guard_defs\<close>)

text \<open>The statement of this stage misses the row; the transfer in memory gets the time.\<close>

lemma leads_check_write_ack:
  assumes "ProcessingError t = None" "no_faults (env_db en)" "WriteAckTxHash t = Some h" "WriteAckStatus t = Some s"
    and "WriteAckTxFinalizedTime t = None" "wants_ack succ err s" "env_clients en (DestinationChainID t) = Some dst"
    and "IsTxFinalized dst h off = Inr True"
  shows "leads en [Single (CheckWriteAckFinalityProcessor off succ err)] t subs
      (t\<lparr>WriteAckTxFinalizedTime := Some (env_now en)\<rparr>) subs"
proof (rule leads_single)
  let ?st = "ProcState (CheckWriteAckFinalityProcessor off succ err)"
  let ?t = "t\<lparr>State := ?st\<rparr>" and ?t' = "t\<lparr>WriteAckTxFinalizedTime := Some (env_now en), State := ?st\<rparr>"
  let ?f = "\<lambda>r. r\<lparr>updated_at := tx_now (env_db en), write_ack_tx_finalized_time := Some (env_now en)\<rparr>"
  fix w
  assume st: "stands w ?t subs"
  let ?w = "w\<lparr>db := update_where ([], [], 0) ?f (db w)\<rparr>"
  have "with_db (UpdateTransferWriteAckTxFinalizedTime (env_db en) (Some (env_now en)) ([], [], 0)) w = (?w, None)"
    using assms(2) by (simp add: with_db_def exec_update_def UpdateTransferWriteAckTxFinalizedTime_def)
  moreover have "keeps_key ?f" by (simp add: keeps_key_def row_key_of_def)
  then have "stands ?w ?t' subs"
    using st by (auto simp: stands_def rows.find_upd delivery_simps transfer_row_key_def)
  ultimately show "\<exists>w'. Process (CheckWriteAckFinalityProcessor off succ err) en w ?t = (w', Inr ?t') \<and> stands w' ?t' subs"
    using assms by (simp add: CheckWriteAckFinalityProcessor_def CheckWriteAckFinality_Process_def GetClient_def)
next
  show "ShouldProcess (CheckWriteAckFinalityProcessor off succ err) (env_guard_now en) (t\<lparr>State := st\<rparr>)" for st
    using assms by (cases s) (simp_all add: CheckWriteAckFinalityProcessor_def guard_defs wants_ack_def)
qed (use assms in \<open>simp_all add: CheckWriteAckFinalityProcessor_def\<close>)

section \<open>Deliveries\<close>

text \<open>A chain takes what the proof service gives.\<close>

definition takes :: "env \<Rightarrow> string \<Rightarrow> BridgeTx \<Rightarrow> bool" where
  "takes en chainID tx \<longleftrightarrow>
     (\<exists>client. env_clients en chainID = Some client \<and> WaitForChain client = None \<and>
        (\<forall>req. \<exists>txBytes to. env_relay en req = Inr (txBytes, to) \<and> DeliverTx client txBytes to = Inr tx))"

lemma submit_batch_taken:
  assumes "takes en chainID tx" "stands w t subs"
  shows "\<exists>w'. submit_batch m1 m2 m3 req chainID en w = (w', Inr tx) \<and> stands w' t (subs @ [chainID])"
proof -
  obtain client txBytes to where "env_clients en chainID = Some client" "WaitForChain client = None"
      "env_relay en req = Inr (txBytes, to)" "DeliverTx client txBytes to = Inr tx"
    using assms(1) unfolding takes_def by blast
  then show ?thesis using assms(2) by (auto simp: submit_batch_def GetClient_def stands_def record_submission_def)
qed

abbreviation pool_ok :: "env \<Rightarrow> bool" where
  "pool_ok en \<equiv> pool_begin (env_pool en) = None \<and> pool_commit (env_pool en) = None \<and> no_faults (pool_tx (env_pool en))"

lemma ExecTx_one:
  assumes "pool_ok en" "with_db (stmt (pool_tx (env_pool en)) k) w = (w', None)"
  shows "with_db (ExecTx (env_pool en) (\<lambda>x. update_all msg (stmt x) [k])) w = (w', None)"
  using assms by (auto simp: with_db_def ExecTx_def split: prod.splits)

lemma leads_batch_recv:
  assumes "ProcessingError t = None" "no_faults (env_db en)" "pool_ok en" "RecvTxHash t = None"
    and "\<not> IsTimedOut (env_guard_now en) t" "hex_DecodeString (TrimPrefix (SourceTxHash t) ''0x'') = Inr txID"
    and "takes en (destinationChainID rt) tx"
  shows "leads en [Batch (BatchRecvPacketProcessor rt) n] t subs
      (t\<lparr>RecvTxHash := Some (Hash tx), RecvTxTime := Some (Timestamp tx),
         RecvTxRelayerAddress := Some (RelayerAddress tx)\<rparr>)
      (subs @ [destinationChainID rt])"
proof (rule leads_batch)
  let ?q = "BatchRecvPacketProcessor rt" and ?x = "pool_tx (env_pool en)"
  let ?t = "t\<lparr>State := BState ?q\<rparr>" and ?t' = "t\<lparr>RecvTxHash := Some (Hash tx), RecvTxTime := Some (Timestamp tx),
         RecvTxRelayerAddress := Some (RelayerAddress tx), State := BState ?q\<rparr>"
  fix w and h :: heap and r
  assume h: "h r = ?t" and st: "stands w ?t subs"
  obtain w1 where w1: "\<And>req. submit_batch ''getting recv tx bytes from relay service for batch of %d transfers: %w'' ''getting client for transfer destination chain %s: %w'' ''signing and submitting recv tx bytes for batch of %d transfers: %w'' req (destinationChainID rt) en w = (w1 req, Inr tx)"
      "\<And>req. stands (w1 req) ?t (subs @ [destinationChainID rt])"
    using submit_batch_taken [OF assms(7) st] by metis
  have "changes (\<lambda>r. r\<lparr>updated_at := tx_now ?x, recv_tx_hash := Some (Hash tx), recv_tx_time := Some (Timestamp tx),
         recv_tx_relayer_address := Some (RelayerAddress tx)\<rparr>) (\<lambda>d. d\<lparr>dl_recv_hash := Some (Hash tx), dl_recv_time := Some (Timestamp tx)\<rparr>)"
    by (simp add: changes_def benign_def delivery_simps)
  from stands_exec [OF w1(2) _ this, where x = ?x and t' = ?t' and q = "''UpdateTransferRecvTx''"] assms(3) have
      "\<exists>w2. with_db (UpdateTransferRecvTx ?x (Some (Hash tx)) (Some (Timestamp tx)) (Some (RelayerAddress tx))
         (transfer_row_key t)) (w1 req) = (w2, None) \<and> stands w2 ?t' (subs @ [destinationChainID rt])" for req
    by (auto simp: UpdateTransferRecvTx_def transfer_row_key_def delivery_of_def)
  then obtain w2 where w2: "\<And>req. with_db (UpdateTransferRecvTx ?x (Some (Hash tx)) (Some (Timestamp tx)) (Some (RelayerAddress tx))
         (transfer_row_key t)) (w1 req) = (w2 req, None)" "\<And>req. stands (w2 req) ?t' (subs @ [destinationChainID rt])" by metis
  let ?stmt = "\<lambda>x. UpdateTransferRecvTx x (Some (Hash tx)) (Some (Timestamp tx)) (Some (RelayerAddress tx))"
  show "\<exists>w'. BProcess ?q en w h [r] = (w', h(r := ?t'), Inr [r]) \<and> stands w' ?t' (subs @ [destinationChainID rt])"
    using h assms w1(1) w2 ExecTx_one [OF assms(3), where stmt = ?stmt, OF w2(1)]
    by (simp add: BatchRecvPacketProcessor_def BatchRecvPacket_Process_def collect_source_def Let_def live_keys_def set_live_def)
      (rule arg_cong [where f = "fun_upd h r"], simp)
next
  show "BShouldProcess (BatchRecvPacketProcessor rt) (env_guard_now en) (t\<lparr>State := st\<rparr>)" for st
    using assms by (simp add: BatchRecvPacketProcessor_def guard_defs IsTimedOut_def)
qed (use assms in \<open>simp_all add: BatchRecvPacketProcessor_def\<close>)

lemma leads_batch_timeout:
  assumes "ProcessingError t = None" "no_faults (env_db en)" "pool_ok en" "RecvTxHash t = None" "AckTxHash t = None" "TimeoutTxHash t = None"
    and "IsTimedOut (env_guard_now en) t" "hex_DecodeString (TrimPrefix (SourceTxHash t) ''0x'') = Inr txID"
    and "takes en (sourceChainID rt) tx"
  shows "leads en [Batch (BatchTimeoutPacketProcessor rt) n] t subs
      (t\<lparr>TimeoutTxHash := Some (Hash tx), TimeoutTxTime := Some (Timestamp tx)\<rparr>)
      (subs @ [sourceChainID rt])"
proof (rule leads_batch)
  let ?q = "BatchTimeoutPacketProcessor rt" and ?x = "pool_tx (env_pool en)"
  let ?t = "t\<lparr>State := BState ?q\<rparr>" and ?t' = "t\<lparr>TimeoutTxHash := Some (Hash tx), TimeoutTxTime := Some (Timestamp tx), State := BState ?q\<rparr>"
  fix w and h :: heap and r
  assume h: "h r = ?t" and st: "stands w ?t subs"
  obtain w1 where w1: "\<And>req. submit_batch ''getting timeout tx bytes from ibcv2 relayer for batch of %d transfers: %w'' ''getting client for transfer source chain %s: %w'' ''submitting batch timeout tx: %w'' req (sourceChainID rt) en w = (w1 req, Inr tx)"
      "\<And>req. stands (w1 req) ?t (subs @ [sourceChainID rt])"
    using submit_batch_taken [OF assms(9) st] by metis
  have "changes (\<lambda>r. r\<lparr>updated_at := tx_now ?x, timeout_tx_hash := Some (Hash tx), timeout_tx_time := Some (Timestamp tx),
         timeout_tx_relayer_address := Some (RelayerAddress tx)\<rparr>) (\<lambda>d. d\<lparr>dl_timeout_hash := Some (Hash tx), dl_timeout_time := Some (Timestamp tx)\<rparr>)"
    by (simp add: changes_def benign_def delivery_simps)
  from stands_exec [OF w1(2) _ this, where x = ?x and t' = ?t' and q = "''UpdateTransferTimeoutTx''"] assms(3) have
      "\<exists>w2. with_db (UpdateTransferTimeoutTx ?x (Some (Hash tx)) (Some (Timestamp tx)) (Some (RelayerAddress tx))
         (transfer_row_key t)) (w1 req) = (w2, None) \<and> stands w2 ?t' (subs @ [sourceChainID rt])" for req
    by (auto simp: UpdateTransferTimeoutTx_def transfer_row_key_def delivery_of_def)
  then obtain w2 where w2: "\<And>req. with_db (UpdateTransferTimeoutTx ?x (Some (Hash tx)) (Some (Timestamp tx)) (Some (RelayerAddress tx))
         (transfer_row_key t)) (w1 req) = (w2 req, None)" "\<And>req. stands (w2 req) ?t' (subs @ [sourceChainID rt])" by metis
  let ?stmt = "\<lambda>x. UpdateTransferTimeoutTx x (Some (Hash tx)) (Some (Timestamp tx)) (Some (RelayerAddress tx))"
  show "\<exists>w'. BProcess ?q en w h [r] = (w', h(r := ?t'), Inr [r]) \<and> stands w' ?t' (subs @ [sourceChainID rt])"
    using h assms w1(1) w2 ExecTx_one [OF assms(3), where stmt = ?stmt, OF w2(1)]
    by (simp add: BatchTimeoutPacketProcessor_def BatchTimeoutPacket_Process_def collect_source_def Let_def live_keys_def set_live_def)
      (rule arg_cong [where f = "fun_upd h r"], simp)
next
  show "BShouldProcess (BatchTimeoutPacketProcessor rt) (env_guard_now en) (t\<lparr>State := st\<rparr>)" for st
    using assms by (simp add: BatchTimeoutPacketProcessor_def guard_defs IsTimedOut_def)
qed (use assms in \<open>simp_all add: BatchTimeoutPacketProcessor_def\<close>)

lemma leads_batch_ack:
  assumes "ProcessingError t = None" "no_faults (env_db en)" "pool_ok en" "WriteAckTxHash t = Some hash" "WriteAckStatus t = Some s"
    and "wants_ack succ err s" "AckTxHash t = None" "TimeoutTxHash t = None"
    and "hex_DecodeString (TrimPrefix hash ''0x'') = Inr txID"
    and "takes en (sourceChainID rt) tx"
  shows "leads en [Batch (BatchAckPacketProcessor rt succ err) n] t subs
      (t\<lparr>AckTxHash := Some (Hash tx), AckTxTime := Some (Timestamp tx)\<rparr>)
      (subs @ [sourceChainID rt])"
proof (rule leads_batch)
  let ?q = "BatchAckPacketProcessor rt succ err" and ?x = "pool_tx (env_pool en)"
  let ?t = "t\<lparr>State := BState ?q\<rparr>" and ?t' = "t\<lparr>AckTxHash := Some (Hash tx), AckTxTime := Some (Timestamp tx), State := BState ?q\<rparr>"
  fix w and h :: heap and r
  assume h: "h r = ?t" and st: "stands w ?t subs"
  obtain w1 where w1: "\<And>req. submit_batch ''getting ack tx bytes from relay service for batch of %d transfers: %w'' ''getting client for transfer source chain %s: %w'' ''signing and submitting ack tx bytes for batch of %d transfers: %w'' req (sourceChainID rt) en w = (w1 req, Inr tx)"
      "\<And>req. stands (w1 req) ?t (subs @ [sourceChainID rt])"
    using submit_batch_taken [OF assms(10) st] by metis
  have "changes (\<lambda>r. r\<lparr>updated_at := tx_now ?x, ack_tx_hash := Some (Hash tx), ack_tx_time := Some (Timestamp tx),
         ack_tx_relayer_address := Some (RelayerAddress tx)\<rparr>) (\<lambda>d. d\<lparr>dl_ack_hash := Some (Hash tx), dl_ack_time := Some (Timestamp tx)\<rparr>)"
    by (simp add: changes_def benign_def delivery_simps)
  from stands_exec [OF w1(2) _ this, where x = ?x and t' = ?t' and q = "''UpdateTransferAckTx''"] assms(3) have
      "\<exists>w2. with_db (UpdateTransferAckTx ?x (Some (Hash tx)) (Some (Timestamp tx)) (Some (RelayerAddress tx))
         (transfer_row_key t)) (w1 req) = (w2, None) \<and> stands w2 ?t' (subs @ [sourceChainID rt])" for req
    by (auto simp: UpdateTransferAckTx_def transfer_row_key_def delivery_of_def)
  then obtain w2 where w2: "\<And>req. with_db (UpdateTransferAckTx ?x (Some (Hash tx)) (Some (Timestamp tx)) (Some (RelayerAddress tx))
         (transfer_row_key t)) (w1 req) = (w2 req, None)" "\<And>req. stands (w2 req) ?t' (subs @ [sourceChainID rt])" by metis
  let ?stmt = "\<lambda>x. UpdateTransferAckTx x (Some (Hash tx)) (Some (Timestamp tx)) (Some (RelayerAddress tx))"
  show "\<exists>w'. BProcess ?q en w h [r] = (w', h(r := ?t'), Inr [r]) \<and> stands w' ?t' (subs @ [sourceChainID rt])"
    using h assms w1(1) w2 ExecTx_one [OF assms(3), where stmt = ?stmt, OF w2(1)]
    by (simp add: BatchAckPacketProcessor_def BatchAckPacket_Process_def collect_write_ack_def Let_def live_keys_def set_live_def)
      (rule arg_cong [where f = "fun_upd h r"], simp)
next
  show "BShouldProcess (BatchAckPacketProcessor rt succ err) (env_guard_now en) (t\<lparr>State := st\<rparr>)" for st
    using assms by (cases s) (simp_all add: BatchAckPacketProcessor_def guard_defs wants_ack_def)
qed (use assms in \<open>simp_all add: BatchAckPacketProcessor_def\<close>)

section \<open>A new packet to its end\<close>

text \<open>A transfer of which nothing is recorded yet.\<close>

definition fresh :: "transfer \<Rightarrow> bool" where
  "fresh t \<longleftrightarrow>
     ProcessingError t = None \<and> State t \<noteq> FAILED \<and> SourceTxFinalizedTime t = None \<and>
     RecvTxHash t = None \<and> RecvTxTime t = None \<and> RecvTxGasCostUSD t = None \<and>
     WriteAckTxHash t = None \<and> WriteAckTxTime t = None \<and> WriteAckStatus t = None \<and> WriteAckTxFinalizedTime t = None \<and>
     AckTxHash t = None \<and> AckTxTime t = None \<and> AckTxGasCostUSD t = None \<and>
     TimeoutTxHash t = None \<and> TimeoutTxTime t = None \<and> TimeoutTxGasCostUSD t = None"

text \<open>
  The answers a pass relies on. \<open>answers_send\<close>: the database works, both chains are known,
  the packet is committed on the source and not received, and its transaction is final.
  \<open>follows\<close>: a transaction on a chain is not to be retried, and its fee and its price are known.
\<close>

definition answers_send :: "env \<Rightarrow> PipelineOptions \<Rightarrow> transfer \<Rightarrow> bool" where
  "answers_send en opts t \<longleftrightarrow>
     no_faults (env_db en) \<and> pool_ok en \<and>
     (\<exists>txID. hex_DecodeString (TrimPrefix (SourceTxHash t) ''0x'') = Inr txID) \<and>
     (\<exists>src dst. env_clients en (SourceChainID t) = Some src \<and> env_clients en (DestinationChainID t) = Some dst \<and>
        IsPacketReceived dst (PacketDestinationClientID t) (uint64_of_uint32 (PacketSequenceNumber t)) = Inr False \<and>
        IsPacketCommitted src (PacketSourceClientID t) (uint64_of_uint32 (PacketSequenceNumber t)) = Inr True \<and>
        IsTxFinalized src (SourceTxHash t) (SourceFinalityOffset opts) = Inr True)"

definition follows :: "env \<Rightarrow> string \<Rightarrow> string \<Rightarrow> uint8 \<Rightarrow> duration \<Rightarrow> BridgeTx \<Rightarrow> bool" where
  "follows en chainID coin decimals expiry tx \<longleftrightarrow>
     (\<exists>client fee usd. env_clients en chainID = Some client \<and>
        ShouldRetryTx client (Hash tx) expiry (Timestamp tx) = Inr False \<and>
        TxFee client (Hash tx) = Inr fee \<and> env_price en coin decimals fee = Inr usd)"

definition answers_recv :: "env \<Rightarrow> PipelineOptions \<Rightarrow> transfer \<Rightarrow> BridgeTx \<Rightarrow> Ibcv2WriteAckStatus \<Rightarrow> bool" where
  "answers_recv en opts t tx s \<longleftrightarrow>
     \<not> IsTimedOut (env_guard_now en) t \<and> takes en (DestinationChainID t) tx \<and>
     follows en (DestinationChainID t) (DestinationChainGasTokenCoingeckoID opts)
       (DestinationChainGasTokenDecimals opts) RetryRecvExpiry tx \<and>
     (\<exists>txID. hex_DecodeString (TrimPrefix (Hash tx) ''0x'') = Inr txID) \<and>
     (\<exists>dst. env_clients en (DestinationChainID t) = Some dst \<and>
        PacketWriteAckStatus dst (Hash tx) (uint64_of_uint32 (PacketSequenceNumber t)) (PacketSourceClientID t)
          (PacketDestinationClientID t) = Inr s \<and>
        IsTxFinalized dst (Hash tx) (DestinationFinalityOffset opts) = Inr True)"

definition answers_ack :: "env \<Rightarrow> PipelineOptions \<Rightarrow> transfer \<Rightarrow> BridgeTx \<Rightarrow> bool" where
  "answers_ack en opts t tx \<longleftrightarrow>
     takes en (SourceChainID t) tx \<and>
     follows en (SourceChainID t) (SourceChainGasTokenCoingeckoID opts) (SourceChainGasTokenDecimals opts) RetryAckExpiry tx"

definition answers_timeout :: "env \<Rightarrow> PipelineOptions \<Rightarrow> transfer \<Rightarrow> BridgeTx \<Rightarrow> bool" where
  "answers_timeout en opts t tx \<longleftrightarrow>
     IsTimedOut (env_guard_now en) t \<and> takes en (SourceChainID t) tx \<and>
     follows en (SourceChainID t) (SourceChainGasTokenCoingeckoID opts) (SourceChainGasTokenDecimals opts)
       RetryTimeoutExpiry tx \<and>
     (\<exists>dst. env_clients en (DestinationChainID t) = Some dst \<and>
        IsTimestampFinalized dst (PacketTimeoutTimestamp t) (DestinationFinalityOffset opts) = Inr True)"

text \<open>The parts of the pipeline.\<close>

abbreviation check_stages :: "PipelineOptions \<Rightarrow> stage list" where
  "check_stages opts \<equiv>
     [Single CheckRecvPacketDeliveryProcessor, Single CheckPacketCommitmentProcessor,
      Single (CheckSendFinalityProcessor (SourceFinalityOffset opts))]"

abbreviation timeout_stages :: "bool \<Rightarrow> route \<Rightarrow> PipelineOptions \<Rightarrow> stage list" where
  "timeout_stages hp rt opts \<equiv>
     [Single (CheckTimeoutFinalityProcessor (DestinationFinalityOffset opts)),
      Batch (BatchTimeoutPacketProcessor rt) (OptTimeoutBatchSize opts),
      Single (RetryTimeoutPacketProcessor (sourceChainID rt))] @
     gas_stage hp (SourceChainGasTokenCoingeckoID opts) (SourceChainGasTokenDecimals opts) TimeoutTxGasCalculatorProcessor"

abbreviation recv_stages :: "bool \<Rightarrow> route \<Rightarrow> PipelineOptions \<Rightarrow> stage list" where
  "recv_stages hp rt opts \<equiv>
     [Batch (BatchRecvPacketProcessor rt) (OptRecvBatchSize opts),
      Single (RetryRecvPacketProcessor (destinationChainID rt))] @
     gas_stage hp (DestinationChainGasTokenCoingeckoID opts) (DestinationChainGasTokenDecimals opts)
       RecvTxGasCalculatorProcessor @ [Single WaitForWriteAckPacket]"

abbreviation ack_stages :: "bool \<Rightarrow> route \<Rightarrow> PipelineOptions \<Rightarrow> stage list" where
  "ack_stages hp rt opts \<equiv>
     [Single (CheckWriteAckFinalityProcessor (DestinationFinalityOffset opts) (OptRelaySuccessAcks opts)
        (OptRelayErrorAcks opts)),
      Single CheckPacketCommitmentProcessor,
      Batch (BatchAckPacketProcessor rt (OptRelaySuccessAcks opts) (OptRelayErrorAcks opts)) (OptAckBatchSize opts),
      Single (RetryAckPacketProcessor (sourceChainID rt))] @
     gas_stage hp (SourceChainGasTokenCoingeckoID opts) (SourceChainGasTokenDecimals opts) AckTxGasCalculatorProcessor"

lemma NewPipeline_parts:
  "NewPipeline hp rt opts =
     check_stages opts @ timeout_stages hp rt opts @ recv_stages hp rt opts @ ack_stages hp rt opts @
     [Finisher (OptRelaySuccessAcks opts) (OptRelayErrorAcks opts)]"
  by (simp add: NewPipeline_def)

lemma leads_checks:
  assumes "fresh t" "answers_send en opts t"
  shows "leads en (check_stages opts) t subs (t\<lparr>SourceTxFinalizedTime := Some (env_now en)\<rparr>) subs"
proof -
  obtain src dst where c: "env_clients en (SourceChainID t) = Some src" "env_clients en (DestinationChainID t) = Some dst"
     "IsPacketReceived dst (PacketDestinationClientID t) (uint64_of_uint32 (PacketSequenceNumber t)) = Inr False"
     "IsPacketCommitted src (PacketSourceClientID t) (uint64_of_uint32 (PacketSequenceNumber t)) = Inr True"
     "IsTxFinalized src (SourceTxHash t) (SourceFinalityOffset opts) = Inr True"
    using assms(2) unfolding answers_send_def by blast
  have f: "ProcessingError t = None" "no_faults (env_db en)" "RecvTxHash t = None" "AckTxHash t = None"
      "TimeoutTxHash t = None" "SourceTxFinalizedTime t = None"
    using assms by (simp_all add: fresh_def answers_send_def)
  show ?thesis
    by (rule leads_Cons [OF leads_check_recv [OF f(1-5) c(2,3)]],
        rule leads_Cons [OF leads_check_commitment [OF f(1,2,4,5) c(1,4)]],
        rule leads_check_send [OF f(1-3,6) c(1,5)])
qed

text \<open>Stages that have no business with the transfer.\<close>

fun idle :: "env \<Rightarrow> transfer \<Rightarrow> stage \<Rightarrow> bool" where
  "idle en t (Single p) = (\<forall>st. \<not> ShouldProcess p (env_guard_now en) (t\<lparr>State := st\<rparr>))"
| "idle en t (Batch q n) = (\<forall>st. \<not> BShouldProcess q (env_guard_now en) (t\<lparr>State := st\<rparr>))"
| "idle en t (Finisher a b) = False"

lemma leads_idle: "(\<And>st. st \<in> set sts \<Longrightarrow> idle en t st) \<Longrightarrow> leads en sts t subs t subs"
proof (induction sts)
  case Nil
  show ?case by (rule leads_nil)
next
  case (Cons st sts)
  have "leads en [st] t subs t subs"
    using Cons.prems [of st] by (cases st) (auto intro: leads_skip leads_bypass)
  then show ?case using Cons.IH Cons.prems by (auto intro: leads_Cons)
qed

lemmas processor_defs =
  CheckTimeoutFinalityProcessor_def RetryTimeoutPacketProcessor_def TimeoutTxGasCalculatorProcessor_def
  BatchTimeoutPacketProcessor_def BatchRecvPacketProcessor_def RetryRecvPacketProcessor_def
  RecvTxGasCalculatorProcessor_def WaitForWriteAckPacket_def CheckWriteAckFinalityProcessor_def
  CheckPacketCommitmentProcessor_def BatchAckPacketProcessor_def RetryAckPacketProcessor_def
  AckTxGasCalculatorProcessor_def

text \<open>The stages of a part the transfer has no business in.\<close>

lemma leads_timeout_idle:
  assumes "TimeoutTxHash t = None" "\<not> IsTimedOut (env_guard_now en) t"
  shows "leads en (timeout_stages hp rt opts) t subs t subs"
  by (rule leads_idle) (use assms in \<open>auto simp: processor_defs guard_defs IsTimedOut_def dest!: gas_stage_single\<close>)

lemma leads_recv_idle:
  assumes "RecvTxHash t = None" "IsTimedOut (env_guard_now en) t"
  shows "leads en (recv_stages hp rt opts) t subs t subs"
  by (rule leads_idle) (use assms in \<open>auto simp: processor_defs guard_defs IsTimedOut_def dest!: gas_stage_single\<close>)

lemma leads_ack_idle:
  assumes "WriteAckTxHash t = None" "AckTxHash t = None" "TimeoutTxHash t = Some h"
  shows "leads en (ack_stages hp rt opts) t subs t subs"
  by (rule leads_idle) (use assms in \<open>auto simp: processor_defs guard_defs IsTimedOut_def dest!: gas_stage_single\<close>)

lemma leads_ack_unwanted:
  assumes "ProcessingError t = None" "answers_send en opts t" "WriteAckStatus t = Some s"
    and "\<not> wants_ack (OptRelaySuccessAcks opts) (OptRelayErrorAcks opts) s" "AckTxHash t = None" "TimeoutTxHash t = None"
  shows "leads en (ack_stages hp rt opts) t subs t subs"
proof -
  obtain src where src: "env_clients en (SourceChainID t) = Some src"
      "IsPacketCommitted src (PacketSourceClientID t) (uint64_of_uint32 (PacketSequenceNumber t)) = Inr True"
    using assms(2) unfolding answers_send_def by blast
  have "no_faults (env_db en)" using assms(2) by (simp add: answers_send_def)
  note commitment = leads_check_commitment [OF assms(1) this assms(5,6) src]
  let ?check = "CheckWriteAckFinalityProcessor (DestinationFinalityOffset opts) (OptRelaySuccessAcks opts) (OptRelayErrorAcks opts)"
  have "leads en [Single ?check] t subs t subs"
    by (rule leads_idle) (use assms in \<open>cases s; auto simp: processor_defs guard_defs wants_ack_def\<close>)
  moreover have "leads en (drop 2 (ack_stages hp rt opts)) t subs t subs"
    by (rule leads_idle) (use assms in \<open>cases s; auto simp: processor_defs guard_defs wants_ack_def dest!: gas_stage_single\<close>)
  ultimately show ?thesis using leads_Cons [OF commitment] by (auto intro: leads_Cons)
qed

text \<open>The parts at work.\<close>

lemma leads_timeouts:
  assumes "ProcessingError t = None" "RecvTxHash t = None" "AckTxHash t = None" "TimeoutTxHash t = None"
    and "TimeoutTxGasCostUSD t = None" "answers_send en opts t" "answers_timeout en opts t tx" "sourceChainID rt = SourceChainID t"
  shows "leads en (timeout_stages hp rt opts) t subs
      (t\<lparr>TimeoutTxHash := Some (Hash tx), TimeoutTxTime := Some (Timestamp tx)\<rparr>) (subs @ [SourceChainID t])"
proof -
  have a: "no_faults (env_db en)" "pool_ok en" "IsTimedOut (env_guard_now en) t" "takes en (SourceChainID t) tx"
    using assms(6,7) by (simp_all add: answers_send_def answers_timeout_def)
  obtain dst txID where d: "env_clients en (DestinationChainID t) = Some dst"
      "IsTimestampFinalized dst (PacketTimeoutTimestamp t) (DestinationFinalityOffset opts) = Inr True"
      "hex_DecodeString (TrimPrefix (SourceTxHash t) ''0x'') = Inr txID"
    using assms(6,7) unfolding answers_send_def answers_timeout_def by blast
  obtain src fee usd where f: "env_clients en (SourceChainID t) = Some src"
      "ShouldRetryTx src (Hash tx) RetryTimeoutExpiry (Timestamp tx) = Inr False" "TxFee src (Hash tx) = Inr fee"
      "env_price en (SourceChainGasTokenCoingeckoID opts) (SourceChainGasTokenDecimals opts) fee = Inr usd"
    using assms(7) unfolding answers_timeout_def follows_def by blast
  let ?t = "t\<lparr>TimeoutTxHash := Some (Hash tx), TimeoutTxTime := Some (Timestamp tx)\<rparr>"
  have batch: "leads en [Batch (BatchTimeoutPacketProcessor rt) n] t subs ?t (subs @ [SourceChainID t])" for n subs
    using leads_batch_timeout [OF assms(1) a(1,2) assms(2-4) a(3) d(3), of rt tx n] a(4) assms(8) by simp
  show ?thesis unfolding append_Cons append_Nil
    by (rule leads_Cons [OF leads_check_timeout [OF assms(1) a(1) assms(2-4) a(3) d(1,2)]], rule leads_Cons [OF batch],
        rule leads_Cons [OF leads_retry_timeout leads_gas_stage [OF leads_timeout_gas]])
      (use assms a f in simp_all)
qed

lemma leads_recvs:
  assumes "ProcessingError t = None" "RecvTxHash t = None" "RecvTxGasCostUSD t = None" "WriteAckTxHash t = None"
    and "TimeoutTxHash t = None" "answers_send en opts t" "answers_recv en opts t tx s"
    and "destinationChainID rt = DestinationChainID t"
  shows "leads en (recv_stages hp rt opts) t subs
      (t\<lparr>RecvTxHash := Some (Hash tx), RecvTxTime := Some (Timestamp tx), RecvTxRelayerAddress := Some (RelayerAddress tx),
         WriteAckTxHash := Some (Hash tx), WriteAckTxTime := Some (Timestamp tx), WriteAckStatus := Some s\<rparr>)
      (subs @ [DestinationChainID t])"
proof -
  have a: "no_faults (env_db en)" "pool_ok en" "\<not> IsTimedOut (env_guard_now en) t" "takes en (DestinationChainID t) tx"
    using assms(6,7) by (simp_all add: answers_send_def answers_recv_def)
  obtain txID where txID: "hex_DecodeString (TrimPrefix (SourceTxHash t) ''0x'') = Inr txID"
    using assms(6) unfolding answers_send_def by blast
  obtain dst fee usd where f: "env_clients en (DestinationChainID t) = Some dst"
      "ShouldRetryTx dst (Hash tx) RetryRecvExpiry (Timestamp tx) = Inr False" "TxFee dst (Hash tx) = Inr fee"
      "env_price en (DestinationChainGasTokenCoingeckoID opts) (DestinationChainGasTokenDecimals opts) fee = Inr usd"
      "PacketWriteAckStatus dst (Hash tx) (uint64_of_uint32 (PacketSequenceNumber t)) (PacketSourceClientID t)
          (PacketDestinationClientID t) = Inr s"
    using assms(7) unfolding answers_recv_def follows_def by auto
  let ?t = "t\<lparr>RecvTxHash := Some (Hash tx), RecvTxTime := Some (Timestamp tx), RecvTxRelayerAddress := Some (RelayerAddress tx)\<rparr>"
  have batch: "leads en [Batch (BatchRecvPacketProcessor rt) n] t subs ?t (subs @ [DestinationChainID t])" for n subs
    using leads_batch_recv [OF assms(1) a(1,2) assms(2) a(3) txID, of rt tx n] a(4) assms(8) by simp
  show ?thesis unfolding append_Cons append_Nil
    by (rule leads_Cons [OF batch],
        rule leads_Cons [OF leads_retry_recv leads_append [OF leads_gas_stage [OF leads_recv_gas] leads_wait_write_ack]])
      (use assms a f in simp_all)
qed

lemma leads_acks:
  assumes "ProcessingError t = None" "WriteAckTxHash t = Some hash" "WriteAckStatus t = Some s" "WriteAckTxFinalizedTime t = None"
    and "AckTxHash t = None" "TimeoutTxHash t = None" "AckTxGasCostUSD t = None" "answers_send en opts t" "answers_ack en opts t tx"
    and "wants_ack (OptRelaySuccessAcks opts) (OptRelayErrorAcks opts) s" "sourceChainID rt = SourceChainID t"
    and "env_clients en (DestinationChainID t) = Some dst" "IsTxFinalized dst hash (DestinationFinalityOffset opts) = Inr True"
    and "hex_DecodeString (TrimPrefix hash ''0x'') = Inr txID"
  shows "leads en (ack_stages hp rt opts) t subs
      (t\<lparr>WriteAckTxFinalizedTime := Some (env_now en), AckTxHash := Some (Hash tx), AckTxTime := Some (Timestamp tx)\<rparr>)
      (subs @ [SourceChainID t])"
proof -
  have a: "no_faults (env_db en)" "pool_ok en" "takes en (SourceChainID t) tx"
    using assms(8,9) by (simp_all add: answers_send_def answers_ack_def)
  obtain src fee usd where f: "env_clients en (SourceChainID t) = Some src"
      "ShouldRetryTx src (Hash tx) RetryAckExpiry (Timestamp tx) = Inr False" "TxFee src (Hash tx) = Inr fee"
      "env_price en (SourceChainGasTokenCoingeckoID opts) (SourceChainGasTokenDecimals opts) fee = Inr usd"
      "IsPacketCommitted src (PacketSourceClientID t) (uint64_of_uint32 (PacketSequenceNumber t)) = Inr True"
    using assms(8,9) unfolding answers_ack_def answers_send_def follows_def by auto
  let ?t = "t\<lparr>WriteAckTxFinalizedTime := Some (env_now en)\<rparr>"
  have commitment: "leads en [Single CheckPacketCommitmentProcessor] ?t subs ?t subs" for subs
    by (rule leads_check_commitment) (use assms a f in simp_all)
  have batch: "leads en [Batch (BatchAckPacketProcessor rt (OptRelaySuccessAcks opts) (OptRelayErrorAcks opts)) n] ?t subs
      (?t\<lparr>AckTxHash := Some (Hash tx), AckTxTime := Some (Timestamp tx)\<rparr>) (subs @ [SourceChainID t])" for n subs
    using leads_batch_ack [of ?t en hash s _ _ txID rt tx n subs] assms a by simp
  show ?thesis unfolding append_Cons append_Nil
    by (rule leads_Cons [OF leads_check_write_ack [OF assms(1) a(1) assms(2-4,10,12,13)]], rule leads_Cons [OF commitment],
        rule leads_Cons [OF batch], rule leads_Cons [OF leads_retry_ack leads_gas_stage [OF leads_ack_gas]])
      (use assms a f in simp_all)
qed

text \<open>The finisher at the end of a pass.\<close>

lemma IsComplete_state [simp]: "IsComplete succ err (t\<lparr>State := st\<rparr>) = IsComplete succ err t"
  by (simp add: IsComplete_def)

lemma pass_finishes:
  assumes "leads en sts t subs t' subs'" "ProcessingError t' = None" "no_faults (env_db en)"
    and "IsComplete succ err t'" "final_status succ err (delivery_of t') = Some st"
    and "h r = t" "State t \<noteq> FAILED" "stands w t subs"
  shows "\<exists>w'. run_pass (sts @ [Finisher succ err]) en r (w, h) = Some (w', h(r := t'\<lparr>State := st\<rparr>)) \<and>
      stands w' (t'\<lparr>State := st\<rparr>) subs'"
proof -
  have "h r = t\<lparr>State := State t\<rparr>" using assms(6) by simp
  then obtain w1 st1 where 1: "run_pass sts en r (w, h) = Some (w1, h(r := t'\<lparr>State := st1\<rparr>))" "stands w1 (t'\<lparr>State := st1\<rparr>) subs'"
    using assms(1,6-8) unfolding leads_def by blast
  let ?t = "t'\<lparr>State := st1\<rparr>"
  have c: "\<not> has_error ?t" "IsComplete succ err ?t" using assms(2,4) by (simp_all add: has_error_def)
  obtain w2 t2 where run: "StateFinisher_Process succ err en w1 ?t = (w2, t2)" by fastforce
  then have "t2 = t'\<lparr>State := st\<rparr> \<and> stands w2 (t'\<lparr>State := st\<rparr>) subs'"
  proof (cases rule: finisher_cases)
    case pass
    then show ?thesis using c assms(5) by simp
  next
    case (failed s ms e)
    then show ?thesis using assms(3) by (simp add: with_db_def UpdateTransferState_def exec_update_def)
  next
    case (finished s ms)
    obtain w3 where "with_db (UpdateTransferState (env_db en) s (transfer_row_key ?t)) (record_metrics ms w1) = (w3, None)"
        "stands w3 (?t\<lparr>State := s\<rparr>) subs'"
      using stands_status [OF _ assms(3), of "record_metrics ms w1" ?t subs' s] 1(2) by auto
    then show ?thesis using finished assms(5) by simp
  qed
  then show ?thesis using 1(1) run by (auto simp: run_pass_append)
qed

text \<open>What a pass makes of a transfer: received with an acknowledgement, acknowledged, timed out.\<close>

definition received :: "time \<Rightarrow> BridgeTx \<Rightarrow> Ibcv2WriteAckStatus \<Rightarrow> transfer \<Rightarrow> transfer" where
  "received now tx s t = t\<lparr>SourceTxFinalizedTime := Some now, RecvTxHash := Some (Hash tx), RecvTxTime := Some (Timestamp tx),
     RecvTxRelayerAddress := Some (RelayerAddress tx), WriteAckTxHash := Some (Hash tx),
     WriteAckTxTime := Some (Timestamp tx), WriteAckStatus := Some s\<rparr>"

definition acknowledged :: "time \<Rightarrow> BridgeTx \<Rightarrow> transfer \<Rightarrow> transfer" where
  "acknowledged now tx t =
     t\<lparr>WriteAckTxFinalizedTime := Some now, AckTxHash := Some (Hash tx), AckTxTime := Some (Timestamp tx)\<rparr>"

definition timed_out :: "time \<Rightarrow> BridgeTx \<Rightarrow> transfer \<Rightarrow> transfer" where
  "timed_out now tx t =
     t\<lparr>SourceTxFinalizedTime := Some now, TimeoutTxHash := Some (Hash tx), TimeoutTxTime := Some (Timestamp tx)\<rparr>"

lemmas pass_defs = received_def acknowledged_def timed_out_def

lemma leads_received:
  assumes "fresh t" "answers_send en opts t" "answers_recv en opts t tx s" "rt = newPipelineKey t"
  shows "leads en (check_stages opts @ timeout_stages hp rt opts @ recv_stages hp rt opts) t subs
      (received (env_now en) tx s t) (subs @ [DestinationChainID t])"
proof -
  let ?t = "t\<lparr>SourceTxFinalizedTime := Some (env_now en)\<rparr>"
  note t = assms(1) [unfolded fresh_def]
  have recv: "answers_send en opts ?t" "answers_recv en opts ?t tx s"
    using assms(2,3) by (simp_all add: answers_send_def answers_recv_def IsTimedOut_def)
  then have "\<not> IsTimedOut (env_guard_now en) ?t" by (simp add: answers_recv_def)
  then have idle: "leads en (timeout_stages hp rt opts) ?t subs ?t subs" using t by (intro leads_timeout_idle) simp_all
  have "leads en (recv_stages hp rt opts) ?t subs (received (env_now en) tx s t) (subs @ [DestinationChainID t])"
    using leads_recvs [OF _ _ _ _ _ recv, of rt hp subs] t assms(4) by (simp add: received_def newPipelineKey_def)
  then show ?thesis by (rule leads_append [OF leads_checks [OF assms(1,2)] leads_append [OF idle]])
qed

lemma leads_acknowledged:
  assumes "fresh t" "answers_send en opts t" "answers_recv en opts t recvTx s" "answers_ack en opts t tx" "rt = newPipelineKey t"
    and "wants_ack (OptRelaySuccessAcks opts) (OptRelayErrorAcks opts) s"
  shows "leads en (ack_stages hp rt opts) (received (env_now en) recvTx s t) subs
      (acknowledged (env_now en) tx (received (env_now en) recvTx s t)) (subs @ [SourceChainID t])"
proof -
  obtain dst txID where "env_clients en (DestinationChainID t) = Some dst"
      "IsTxFinalized dst (Hash recvTx) (DestinationFinalityOffset opts) = Inr True"
      "hex_DecodeString (TrimPrefix (Hash recvTx) ''0x'') = Inr txID"
    using assms(3) unfolding answers_recv_def by blast
  moreover have "answers_send en opts (received (env_now en) recvTx s t)" "answers_ack en opts (received (env_now en) recvTx s t) tx"
    using assms(2,4) by (simp_all add: received_def answers_send_def answers_ack_def)
  ultimately show ?thesis
    using leads_acks [of "received (env_now en) recvTx s t" "Hash recvTx" s en opts tx rt dst txID hp subs] assms(1,5,6)
    by (simp add: fresh_def pass_defs newPipelineKey_def)
qed

text \<open>The whole pipeline.\<close>

lemma pass_acknowledged:
  assumes "fresh t" "answers_send en opts t" "answers_recv en opts t recvTx s" "answers_ack en opts t tx"
    and "wants_ack (OptRelaySuccessAcks opts) (OptRelayErrorAcks opts) s" "h r = t" "stands w t subs"
    and "t' = (acknowledged (env_now en) tx (received (env_now en) recvTx s t))\<lparr>State := COMPLETE_WITH_ACK\<rparr>"
  shows "\<exists>w'. run_pass (NewPipeline hp (newPipelineKey t) opts) en r (w, h) = Some (w', h(r := t')) \<and>
      stands w' t' (subs @ [DestinationChainID t, SourceChainID t])"
proof -
  let ?succ = "OptRelaySuccessAcks opts" and ?err = "OptRelayErrorAcks opts"
  let ?t = "acknowledged (env_now en) tx (received (env_now en) recvTx s t)"
  have "ProcessingError ?t = None" "no_faults (env_db en)" "IsComplete ?succ ?err ?t"
      "final_status ?succ ?err (delivery_of ?t) = Some COMPLETE_WITH_ACK" "State t \<noteq> FAILED"
    using assms(1,2) by (simp_all add: fresh_def answers_send_def pass_defs IsComplete_def final_status_def)
  from pass_finishes [where h = h and r = r, OF leads_append [OF leads_received [OF assms(1-3) refl] leads_acknowledged [OF assms(1-4) refl assms(5)]]
      this(1-4) assms(6) this(5) assms(7)]
  show ?thesis by (simp add: NewPipeline_parts assms(8))
qed

lemma pass_not_acknowledged:
  assumes "fresh t" "answers_send en opts t" "answers_recv en opts t recvTx s"
    and "\<not> wants_ack (OptRelaySuccessAcks opts) (OptRelayErrorAcks opts) s" "h r = t" "stands w t subs"
    and "t' = (received (env_now en) recvTx s t)\<lparr>State :=
           if s = SUCCESS then COMPLETE_WITH_WRITE_ACK_SUCCESS else COMPLETE_WITH_WRITE_ACK_ERROR\<rparr>"
  shows "\<exists>w'. run_pass (NewPipeline hp (newPipelineKey t) opts) en r (w, h) = Some (w', h(r := t')) \<and>
      stands w' t' (subs @ [DestinationChainID t])"
proof -
  let ?succ = "OptRelaySuccessAcks opts" and ?err = "OptRelayErrorAcks opts"
  let ?t = "received (env_now en) recvTx s t"
  have f: "ProcessingError ?t = None" "no_faults (env_db en)" "IsComplete ?succ ?err ?t"
      "final_status ?succ ?err (delivery_of ?t) =
         Some (if s = SUCCESS then COMPLETE_WITH_WRITE_ACK_SUCCESS else COMPLETE_WITH_WRITE_ACK_ERROR)" "State t \<noteq> FAILED"
    using assms(1,2,4) by (cases s; simp add: fresh_def answers_send_def pass_defs IsComplete_def final_status_def wants_ack_def)+
  have "answers_send en opts ?t" using assms(2) by (simp add: pass_defs answers_send_def)
  then have "leads en (ack_stages hp (newPipelineKey t) opts) ?t subs ?t subs" for subs
    using assms(1,4) by (intro leads_ack_unwanted [where s = s]) (simp_all add: fresh_def pass_defs)
  from pass_finishes [where h = h and r = r, OF leads_append [OF leads_received [OF assms(1-3) refl] this] f(1-4) assms(5) f(5) assms(6)]
  show ?thesis by (simp add: NewPipeline_parts assms(7))
qed

lemma pass_timed_out:
  assumes "fresh t" "answers_send en opts t" "answers_timeout en opts t tx" "h r = t" "stands w t subs"
    and "t' = (timed_out (env_now en) tx t)\<lparr>State := COMPLETE_WITH_TIMEOUT\<rparr>"
  shows "\<exists>w'. run_pass (NewPipeline hp (newPipelineKey t) opts) en r (w, h) = Some (w', h(r := t')) \<and>
      stands w' t' (subs @ [SourceChainID t])"
proof -
  let ?u = "t\<lparr>SourceTxFinalizedTime := Some (env_now en)\<rparr>" and ?t = "timed_out (env_now en) tx t" and ?rt = "newPipelineKey t"
  let ?succ = "OptRelaySuccessAcks opts" and ?err = "OptRelayErrorAcks opts"
  note t = assms(1) [unfolded fresh_def]
  have a: "answers_send en opts ?u" "answers_timeout en opts ?u tx" "IsTimedOut (env_guard_now en) ?t"
    using assms(2,3) by (simp_all add: answers_send_def answers_timeout_def IsTimedOut_def pass_defs)
  have timeouts: "leads en (timeout_stages hp ?rt opts) ?u subs ?t (subs @ [SourceChainID t])"
    using leads_timeouts [OF _ _ _ _ _ a(1,2), of ?rt hp subs] t by (simp add: newPipelineKey_def timed_out_def)
  have recvs: "leads en (recv_stages hp ?rt opts) ?t subs' ?t subs'" and acks: "leads en (ack_stages hp ?rt opts) ?t subs' ?t subs'" for subs'
    using leads_recv_idle [OF _ a(3)] leads_ack_idle [of ?t "Hash tx"] t by (simp_all add: timed_out_def)
  have "ProcessingError ?t = None" "no_faults (env_db en)" "IsComplete ?succ ?err ?t"
      "final_status ?succ ?err (delivery_of ?t) = Some COMPLETE_WITH_TIMEOUT" "State t \<noteq> FAILED"
    using t assms(2) by (simp_all add: answers_send_def pass_defs IsComplete_def final_status_def)
  from pass_finishes [where h = h and r = r, OF leads_append [OF leads_checks [OF assms(1,2)] leads_append [OF timeouts leads_append [OF recvs acks]]]
      this(1-4) assms(4) this(5) assms(5)]
  show ?thesis by (simp add: NewPipeline_parts assms(6))
qed

section \<open>Passes as runs of the relayer\<close>

text \<open>A pass through the whole pipeline, and the turn of the deduper that takes the transfer out.\<close>

lemma pass_steps:
  assumes "sys_tokens s = add_mset (pk, At 0, r) T" "sys_pipes s pk = Some dd"
    and "run_pass (dd_stages dd) en r (sys_world s, sys_heap s) = Some (w', h')"
    and "\<And>q n. Batch q n \<in> set (dd_stages dd) \<Longrightarrow> 1 \<le> n"
  obtains s' where "kept_step\<^sup>*\<^sup>* s s'" "sys_world s' = w'" "sys_heap s' = h'" "sys_tokens s' = T"
    "sys_pipes s' = (sys_pipes s)(pk \<mapsto> Deduper_output dd (h' r))" "sys_loaded s' = sys_loaded s"
proof -
  let ?s = "with_token s (w', h') (add_mset (pk, At (length (dd_stages dd)), r) T)"
  have "kept_step\<^sup>*\<^sup>* s ?s"
    using run_pass_steps [OF assms(1,2), where en = en and wh = "(w', h')"] assms(3,4) by simp
  moreover have "kept_step ?s (?s\<lparr>sys_tokens := T, sys_pipes := (sys_pipes ?s)(pk \<mapsto> Deduper_output dd (sys_heap ?s r))\<rparr>)"
    by (rule pipe_step.poll) (use assms(2) in simp_all)
  ultimately show ?thesis
    by (intro that [of "?s\<lparr>sys_tokens := T, sys_pipes := (sys_pipes ?s)(pk \<mapsto> Deduper_output dd (sys_heap ?s r))\<rparr>"])
      (auto intro: rtranclp.rtrancl_into_rtrancl)
qed

lemma reachable_steps: "kept_step\<^sup>*\<^sup>* s s' \<Longrightarrow> reachable {Kept} cfg hp s \<Longrightarrow> reachable {Kept} cfg hp s'"
  by (induction rule: rtranclp_induct) (auto intro: reachable.step sys_step.pipe)

text \<open>
  The first stage writes its status to the row whatever the row says by then, and the chain answers.
\<close>

lemma first_stage_status:
  assumes "no_faults (env_db en)" "fresh t" "find_row (db w) (transfer_row_key t) = Some row"
    and "MW_Process CheckRecvPacketDeliveryProcessor en w (Some t) = Ret (w', ot, oe)"
  shows "\<exists>row'. find_row (db w') (transfer_row_key t) = Some row' \<and> status row' = CHECK_RECV_PACKET_DELIVERY"
  using assms
  by (auto simp: MW_Process_def CheckRecvPacketDeliveryProcessor_def CheckRecvPacketDelivery_ShouldProcess_def
      CheckRecvPacketDelivery_Process_def fresh_def has_error_def with_db_def UpdateTransferState_def UpdateTransferRecvTx_def
      exec_update_def store_simps keeps_key_def row_key_of_def Let_def
      split: if_splits sum.splits option.splits prod.splits bool.splits)

text \<open>
  The dispatcher pushes a row that was finished after it had been loaded, and the first stage opens
  it again.
\<close>

lemma stale_steps:
  fixes row defines "t \<equiv> NewIBCV2Transfer row"
  assumes "sys_loaded s = row # rows" "sys_pipes s (newPipelineKey t) = Some dd"
    and "dd_stages dd = NewPipeline hp (newPipelineKey t) opts" "newTransferKey t \<notin> inPipeline dd"
    and "AlertOnExcessiveRelayLatency cfg now t = Ret ms" "fresh t" "transfer_row_key t = row_key_of row"
    and "find_row (db (sys_world s)) (row_key_of row) = Some row'" "row' \<noteq> row"
  shows "\<exists>s1 e s2 row2. sys_step cfg hp s Stale s1 \<and> pipe_step s1 e s2 \<and>
    find_row (db (sys_world s2)) (row_key_of row) = Some row2 \<and> status row2 = CHECK_RECV_PACKET_DELIVERY"
proof -
  let ?pk = "newPipelineKey t" and ?r = "sys_next s"
  let ?s1 = "s\<lparr>sys_world := record_metrics ms (sys_world s), sys_loaded := rows,
      sys_pipes := (sys_pipes s)(?pk \<mapsto> dd\<lparr>inPipeline := insert (newTransferKey t) (inPipeline dd)\<rparr>),
      sys_heap := (sys_heap s)(?r := t), sys_next := Suc ?r, sys_tokens := add_mset (?pk, At 0, ?r) (sys_tokens s)\<rparr>"
  have "submit_row cfg hp x now row (s\<lparr>sys_loaded := rows\<rparr>) = Ret ?s1" for x
    using assms(3,5,6) by (simp add: submit_row_def t_def [symmetric] SubmitTransfer_def Manager_Pipeline_def Deduper_Push_def Let_def)
  moreover have "outdated s row" using assms(3,5,9,10) by (simp add: outdated_def in_pipeline_def t_def)
  ultimately have step: "sys_step cfg hp s Stale ?s1"
    using sys_step.submit [of s row rows cfg hp _ now ?s1, OF assms(2)] by simp
  have at: "stage_at ?s1 ?pk 0 = Some (Single CheckRecvPacketDeliveryProcessor)"
    using assms(4) by (simp add: stage_at_def NewPipeline_def)
  have "processor_contract CheckRecvPacketDeliveryProcessor" by (rule newp.single_ok) (simp add: NewPipeline_def)
  then obtain w' ot oe where
    run: "MW_Process CheckRecvPacketDeliveryProcessor sample_env (sys_world ?s1) (Some (sys_heap ?s1 ?r)) = Ret (w', ot, oe)"
    using processor_contract.total by blast
  have "find_row (db (sys_world ?s1)) (transfer_row_key t) = Some row'" using assms(8,9) by simp
  moreover have "no_faults (env_db sample_env)" by (simp add: sample_env_def sample_dbtx_def)
  ultimately
  obtain row2 where row2: "find_row (db w') (row_key_of row) = Some row2" "status row2 = CHECK_RECV_PACKET_DELIVERY"
    using first_stage_status [of sample_env t] run assms(7,8) by fastforce
  have tok: "sys_tokens ?s1 = add_mset (?pk, At 0, ?r) (sys_tokens s)" by simp
  show ?thesis
  proof (cases ot)
    case None
    from pipe_step.single_dropped [OF tok at run [unfolded None]] step row2 show ?thesis by fastforce
  next
    case (Some t')
    from pipe_step.single [OF tok at run [unfolded Some]] step row2 show ?thesis by fastforce
  qed
qed

lemma stands_row:
  assumes "stands w t subs"
  obtains row where "find_row (db w) (transfer_row_key t) = Some row" "status row = State t" "recv_tx_hash row = RecvTxHash t"
    "ack_tx_hash row = AckTxHash t" "timeout_tx_hash row = TimeoutTxHash t" "write_ack_status row = WriteAckStatus t"
    "map fst (submitted w) = subs"
  using assms by (auto simp: stands_def delivery_of_def NewIBCV2Transfer_def)

text \<open>The example's packet, by its environment, to its acknowledgement.\<close>

abbreviation sample_transfer :: transfer where
  "sample_transfer \<equiv> NewIBCV2Transfer sample_row"

abbreviation sample_recv_tx :: BridgeTx where
  "sample_recv_tx \<equiv> \<lparr>Hash = ''bc'', Timestamp = 6, RelayerAddress = ''relayer''\<rparr>"

abbreviation sample_ack_tx :: BridgeTx where
  "sample_ack_tx \<equiv> \<lparr>Hash = ''ac'', Timestamp = 6, RelayerAddress = ''relayer''\<rparr>"

lemma sample_fresh: "fresh sample_transfer"
  by (simp add: fresh_def NewIBCV2Transfer_def sample_row_def new_transfer_row_def)

lemma sample_hex: "\<exists>b. hex_DecodeString (TrimPrefix ''0xabcd'' ''0x'') = Inr b" "\<exists>b. hex_DecodeString (TrimPrefix ''bc'' ''0x'') = Inr b"
  by (simp_all add: TrimPrefix_def hex_value_def Let_def)

lemma sample_answers_send: "answers_send sample_env sample_opts sample_transfer"
  using sample_hex(1) by (simp add: answers_send_def NewIBCV2Transfer_def sample_row_def new_transfer_row_def sample_env_def
      sample_dbtx_def sample_clients_def sample_client_def)

lemma sample_takes:
  "takes sample_env ''b'' sample_recv_tx" "takes sample_env ''a'' sample_ack_tx"
  by (simp_all add: takes_def sample_env_def sample_clients_def sample_client_def)

lemma sample_follows:
  "follows sample_env ''b'' coin decimals expiry tx" "follows sample_env ''a'' coin decimals expiry tx"
  by (simp_all add: follows_def sample_env_def sample_clients_def sample_client_def)

lemma sample_answers_recv: "answers_recv sample_env sample_opts sample_transfer sample_recv_tx SUCCESS"
  using sample_hex(2) sample_takes(1) sample_follows(1)
  by (simp add: answers_recv_def NewIBCV2Transfer_def sample_row_def new_transfer_row_def IsTimedOut_def)
    (simp add: sample_env_def sample_clients_def sample_client_def)

lemma sample_answers_ack: "answers_ack sample_env sample_opts sample_transfer sample_ack_tx"
  using sample_takes(2) sample_follows(2) by (simp add: answers_ack_def NewIBCV2Transfer_def sample_row_def new_transfer_row_def)

lemma sample_stands: "stands (sys_world sample_ticked) sample_transfer []"
proof -
  have "submitted (sys_world sample_relayed) = []"
    using sample_not_listed by (simp add: sample_relayed_def sample_cfg_def sys_init_def Relay_def relay_rest_def sample_request_def sample_defs
        with_db_def GetClient_def InsertRelaySubmission_def InsertIBCV2Transfer_def insert_row_def new_transfer_row_def
        Let_def GetClientCounterpartyChainID_def GetChainConfig_def NewConfigReader_def createIndexes_def record_metrics_def)
  then show ?thesis
    by (simp add: stands_def sample_ticked_def sample_relayed_db find_row_def)
      (simp add: sample_row_def new_transfer_row_def row_key_of_def transfer_row_key_def NewIBCV2Transfer_def int32_of_uint32_def uint32_of_int32_def)
qed

lemma sample_row_key: "transfer_row_key sample_transfer = row_key_of sample_row"
  by (simp add: sample_row_def new_transfer_row_def row_key_of_def transfer_row_key_def NewIBCV2Transfer_def int32_of_uint32_def uint32_of_int32_def)

lemma sample_wants: "wants_ack (OptRelaySuccessAcks sample_opts) (OptRelayErrorAcks sample_opts) SUCCESS"
  by (simp add: wants_ack_def sample_opts_def)

lemma sample_tokens: "sys_tokens sample_ticked = add_mset (sample_pk, At 0, 0) {#}" "sys_heap sample_ticked 0 = sample_transfer"
  "sys_pipes sample_ticked sample_pk =
     Some \<lparr>dd_stages = NewPipeline False sample_pk sample_opts, inPipeline = {newTransferKey sample_transfer}\<rparr>"
  by (simp_all add: sample_ticked_def)

lemma sample_sizes: "Batch q n \<in> set (NewPipeline False sample_pk sample_opts) \<Longrightarrow> 1 \<le> n"
  by (auto simp: NewPipeline_def sample_opts_def NewDefaultPipelineOpts_def DefaultAckBatchSize_def
      DefaultRecvBatchSize_def DefaultTimeoutBatchSize_def)

text \<open>
  The packet of the example is brought to its end, whatever rows the dispatcher holds meanwhile: the
  deduper has forgotten it.
\<close>

lemma sample_pass:
  obtains s row where "kept_step\<^sup>*\<^sup>* (sample_ticked\<lparr>sys_loaded := rows\<rparr>) s" "sys_tokens s = {#}" "sys_loaded s = rows"
    "find_row (db (sys_world s)) (transfer_row_key sample_transfer) = Some row" "status row = COMPLETE_WITH_ACK"
    "sys_pipes s sample_pk = Some \<lparr>dd_stages = NewPipeline False sample_pk sample_opts, inPipeline = {}\<rparr>"
proof -
  let ?s = "sample_ticked\<lparr>sys_loaded := rows\<rparr>"
  let ?t = "(acknowledged (env_now sample_env) sample_ack_tx (received (env_now sample_env) sample_recv_tx SUCCESS sample_transfer))
              \<lparr>State := COMPLETE_WITH_ACK\<rparr>"
  have tok: "sys_tokens ?s = add_mset (sample_pk, At 0, 0) {#}" "sys_heap ?s 0 = sample_transfer"
      "sys_pipes ?s sample_pk = Some \<lparr>dd_stages = NewPipeline False sample_pk sample_opts, inPipeline = {newTransferKey sample_transfer}\<rparr>"
    using sample_tokens by simp_all
  obtain w' where w': "run_pass (NewPipeline False sample_pk sample_opts) sample_env 0
        (sys_world ?s, sys_heap ?s) = Some (w', (sys_heap ?s)(0 := ?t))"
      "stands w' ?t ([] @ [DestinationChainID sample_transfer, SourceChainID sample_transfer])"
    using pass_acknowledged [where h = "sys_heap ?s" and r = 0, OF sample_fresh sample_answers_send sample_answers_recv sample_answers_ack sample_wants
        tok(2) sample_stands refl] unfolding sample_key by auto
  obtain s' where s': "kept_step\<^sup>*\<^sup>* ?s s'" "sys_world s' = w'" "sys_tokens s' = {#}" "sys_loaded s' = rows"
      "sys_pipes s' = (sys_pipes ?s)(sample_pk \<mapsto>
         Deduper_output \<lparr>dd_stages = NewPipeline False sample_pk sample_opts, inPipeline = {newTransferKey sample_transfer}\<rparr> ?t)"
    by (rule pass_steps [OF tok(1,3)]) (use w'(1) sample_sizes in auto)
  obtain row where "find_row (db w') (transfer_row_key ?t) = Some row" "status row = COMPLETE_WITH_ACK"
    using w'(2) by (rule stands_row) simp
  then show ?thesis
    using s' by (intro that [of s' row]) (simp_all add: pass_defs transfer_row_key_def Deduper_output_def newTransferKey_def)
qed

text \<open>A reachable state in which the packet of the example is done.\<close>

lemma sample_done:
  obtains s row where "reachable {Kept} sample_cfg False s" "kept_step\<^sup>*\<^sup>* sample_ticked s" "sys_tokens s = {#}"
    "find_row (db (sys_world s)) (transfer_row_key sample_transfer) = Some row" "status row = COMPLETE_WITH_ACK"
proof -
  have "sample_ticked\<lparr>sys_loaded := []\<rparr> = sample_ticked" by (simp add: sample_ticked_def sample_relayed_def sys_init_def)
  then show ?thesis
    using sample_pass [of "[]"] that reachable_steps [OF _ sample_reachable] by metis
qed

text \<open>The dispatcher loads the row of the example; then its transfer is brought to its end.\<close>

lemma sample_overtaken:
  obtains s row where "reachable {Kept} sample_cfg False s" "sys_loaded s = [sample_row]"
    "find_row (db (sys_world s)) (row_key_of sample_row) = Some row" "status row = COMPLETE_WITH_ACK"
    "sys_pipes s sample_pk = Some \<lparr>dd_stages = NewPipeline False sample_pk sample_opts, inPipeline = {}\<rparr>"
proof -
  have "sys_loaded sample_ticked = []" by (simp add: sample_ticked_def sample_relayed_def sys_init_def)
  moreover have "GetUnfinishedIBCV2Transfers sample_dbtx (db (sys_world sample_ticked)) = Inr [sample_row]"
    by (simp add: GetUnfinishedIBCV2Transfers_def sample_dbtx_def sample_ticked_def sample_relayed_db)
      (simp add: sample_row_def new_transfer_row_def unfinished_status_def)
  ultimately have "sys_step sample_cfg False sample_ticked Kept (sample_ticked\<lparr>sys_loaded := [sample_row]\<rparr>)" by (rule sys_step.load)
  then have "reachable {Kept} sample_cfg False (sample_ticked\<lparr>sys_loaded := [sample_row]\<rparr>)"
    by (rule reachable.step [OF sample_reachable]) simp
  moreover have "transfer_row_key sample_transfer = row_key_of sample_row" by (rule sample_row_key)
  ultimately show ?thesis
    using sample_pass [of "[sample_row]"] that reachable_steps by metis
qed

end
