(* ===== verification/Relayer_Once.thy ===== *)
theory Relayer_Once
  imports Relayer_Prelude
begin

text \<open>
  \<open>shared/bridges/ibcv2/once.go\<close>: \<open>OnceWithKey\<close>, which shares the result of a call among
  all callers with the same key until a timeout.

  \<^item> The entries live in a heap, since a caller keeps the pointer of its entry after the lock is
    released; the map is keyed by values of any type, and the callers' keys are strings.
  \<^item> \<open>Do\<close> has two critical sections and, between them, the call of \<open>sync.OnceValues\<close>. The
    relation \<open>once_step\<close> interleaves the sections of any number of callers; \<open>Once_Do\<close> is one
    caller alone. Every reading of the clock is an argument.
\<close>

section \<open>Entries and the map\<close>

text \<open>A key is the caller's or, in the \<open>delete\<close> of the second section, the pointer of the entry.\<close>

datatype any_key = KeyString string | KeyPtr nat

record 'a onceWithTimeout =
  once_result :: "('a res) option"
  once_errorTimeout :: time
  once_successTimeout :: time
  once_err :: "go_error option"

record 'a OnceWithKey =
  onces :: "any_key \<rightharpoonup> nat"
  once_heap :: "nat \<Rightarrow> 'a onceWithTimeout"
  once_next :: nat
  successTimeout :: duration
  errorTimeout :: duration

definition NewOnceWithKey :: "duration \<Rightarrow> duration \<Rightarrow> 'a OnceWithKey" where
  "NewOnceWithKey st et =
     \<lparr>onces = Map.empty, once_heap = (\<lambda>_. \<lparr>once_result = None, once_errorTimeout = 0, once_successTimeout = 0, once_err = None\<rparr>),
      once_next = 0, successTimeout = st, errorTimeout = et\<rparr>"

text \<open>The two deadlines are computed from two readings of the clock, as are the two tests.\<close>

definition newOnceWithTimeout :: "time \<Rightarrow> time \<Rightarrow> duration \<Rightarrow> duration \<Rightarrow> 'a onceWithTimeout" where
  "newOnceWithTimeout now now' st et =
     \<lparr>once_result = None, once_errorTimeout = now + et, once_successTimeout = now' + st, once_err = None\<rparr>"

definition Once_IsTimedOut :: "time \<Rightarrow> time \<Rightarrow> 'a onceWithTimeout \<Rightarrow> bool" where
  "Once_IsTimedOut now now' o1 \<longleftrightarrow>
     \<not> now < once_errorTimeout o1 \<and> once_err o1 \<noteq> None \<or>
     \<not> now' < once_successTimeout o1 \<and> once_err o1 = None"

definition Once_SetError :: "go_error \<Rightarrow> 'a onceWithTimeout \<Rightarrow> 'a onceWithTimeout" where
  "Once_SetError e o1 = o1\<lparr>once_err := Some e\<rparr>"

section \<open>Do\<close>

text \<open>
  The first critical section: the entry the caller goes on with. The clock is read twice by the
  test and twice more when an entry is made.
\<close>

definition Do_enter :: "string \<Rightarrow> time \<times> time \<Rightarrow> time \<times> time \<Rightarrow> 'a OnceWithKey \<Rightarrow> 'a OnceWithKey \<times> nat" where
  "Do_enter key test built m =
     (let r = once_next m;
          fresh = (m\<lparr>onces := (onces m)(KeyString key \<mapsto> r),
                     once_heap := (once_heap m)(r := newOnceWithTimeout (fst built) (snd built) (successTimeout m) (errorTimeout m)),
                     once_next := Suc r\<rparr>, r)
      in case onces m (KeyString key) of
           None \<Rightarrow> fresh
         | Some r0 \<Rightarrow> if Once_IsTimedOut (fst test) (snd test) (once_heap m r0) then fresh else (m, r0))"

text \<open>
  The call \<open>once.once()\<close>: the first caller runs the action, the others get its result; an
  error is noted in the entry.
\<close>

definition Do_call :: "nat \<Rightarrow> 'a res \<Rightarrow> 'a OnceWithKey \<Rightarrow> 'a OnceWithKey \<times> 'a res" where
  "Do_call r action m =
     (let res = (case once_result (once_heap m r) of None \<Rightarrow> action | Some v \<Rightarrow> v);
          o1 = (once_heap m r)\<lparr>once_result := Some res\<rparr>;
          o2 = (case res of Inl e \<Rightarrow> Once_SetError e o1 | Inr v \<Rightarrow> o1)
      in (m\<lparr>once_heap := (once_heap m)(r := o2)\<rparr>, res))"

text \<open>The second critical section deletes by the pointer of the entry.\<close>

definition Do_leave :: "nat \<Rightarrow> time \<Rightarrow> time \<Rightarrow> 'a OnceWithKey \<Rightarrow> 'a OnceWithKey" where
  "Do_leave r now now' m =
     (if Once_IsTimedOut now now' (once_heap m r) then m\<lparr>onces := (onces m)(KeyPtr r := None)\<rparr> else m)"

definition Once_Do :: "string \<Rightarrow> 'a res \<Rightarrow> time \<Rightarrow> time \<Rightarrow> 'a OnceWithKey \<Rightarrow> 'a OnceWithKey \<times> 'a res" where
  "Once_Do key action now later m =
     (case Do_enter key (now, now) (now, now) m of (m1, r) \<Rightarrow>
     (case Do_call r action m1 of (m2, res) \<Rightarrow> (Do_leave r later later m2, res)))"

section \<open>Interleavings\<close>

text \<open>
  What a caller is about to do, and the state of all: the shared value, the callers, the clock
  and the keys and times at which entries were made, latest first.
\<close>

datatype 'a once_phase = Outside | Entered nat | Returning nat "'a res"

record 'a once_system =
  os_once :: "'a OnceWithKey"
  os_callers :: "nat \<Rightarrow> 'a once_phase"
  os_clock :: time
  os_made :: "(string \<times> time) list"

inductive once_step :: "'a once_system \<Rightarrow> 'a once_system \<Rightarrow> bool" where
  enter: "os_callers s c = Outside \<Longrightarrow> os_clock s \<le> n1 \<Longrightarrow> n1 \<le> n2 \<Longrightarrow> n2 \<le> n3 \<Longrightarrow> n3 \<le> n4 \<Longrightarrow>
    Do_enter key (n1, n2) (n3, n4) (os_once s) = (m, r) \<Longrightarrow>
    once_step s (s\<lparr>os_once := m, os_callers := (os_callers s)(c := Entered r), os_clock := n4,
      os_made := (if once_next m = once_next (os_once s) then os_made s else (key, n3) # os_made s)\<rparr>)"
| call: "os_callers s c = Entered r \<Longrightarrow> os_clock s \<le> now \<Longrightarrow> Do_call r action (os_once s) = (m, res) \<Longrightarrow>
    once_step s (s\<lparr>os_once := m, os_callers := (os_callers s)(c := Returning r res), os_clock := now\<rparr>)"
| leave: "os_callers s c = Returning r res \<Longrightarrow> os_clock s \<le> now \<Longrightarrow> now \<le> now' \<Longrightarrow>
    once_step s (s\<lparr>os_once := Do_leave r now now' (os_once s), os_callers := (os_callers s)(c := Outside), os_clock := now'\<rparr>)"

definition once_init :: "duration \<Rightarrow> duration \<Rightarrow> time \<Rightarrow> 'a once_system" where
  "once_init st et now = \<lparr>os_once = NewOnceWithKey st et, os_callers = (\<lambda>_. Outside), os_clock = now, os_made = []\<rparr>"

text \<open>Entries of one key are at least \<open>d\<close> apart.\<close>

fun spaced :: "duration \<Rightarrow> (string \<times> time) list \<Rightarrow> bool" where
  "spaced d [] = True"
| "spaced d ((k, t) # made) = ((\<forall>t'. (k, t') \<in> set made \<longrightarrow> t' + d \<le> t) \<and> spaced d made)"

text \<open>
  The invariant: pointers are allocated; the deadlines of a key's entry lie at least \<open>d\<close> after
  every time an entry of the key was made; and the map has the callers' keys only.
\<close>

definition once_inv :: "duration \<Rightarrow> 'a once_system \<Rightarrow> bool" where
  "once_inv d s \<longleftrightarrow>
     d \<le> successTimeout (os_once s) \<and> d \<le> errorTimeout (os_once s) \<and> spaced d (os_made s) \<and>
     (\<forall>k r. onces (os_once s) k = Some r \<longrightarrow> r < once_next (os_once s)) \<and>
     (\<forall>k t. (k, t) \<in> set (os_made s) \<longrightarrow>
        (\<exists>r. onces (os_once s) (KeyString k) = Some r \<and>
           t + d \<le> once_errorTimeout (once_heap (os_once s) r) \<and> t + d \<le> once_successTimeout (once_heap (os_once s) r)))"

text \<open>What leaves the deadlines, the map on strings and the allocation alone keeps it.\<close>

lemma once_inv_frame:
  assumes "once_inv d s" "os_made s' = os_made s" "successTimeout (os_once s') = successTimeout (os_once s)"
    "errorTimeout (os_once s') = errorTimeout (os_once s)" "once_next (os_once s') = once_next (os_once s)"
    and "\<And>k. onces (os_once s') (KeyString k) = onces (os_once s) (KeyString k)"
    and "\<And>k r. onces (os_once s') k = Some r \<Longrightarrow> onces (os_once s) k = Some r"
    and "\<And>r. once_errorTimeout (once_heap (os_once s') r) = once_errorTimeout (once_heap (os_once s) r)"
    and "\<And>r. once_successTimeout (once_heap (os_once s') r) = once_successTimeout (once_heap (os_once s) r)"
  shows "once_inv d s'"
  using assms(1) unfolding once_inv_def assms(2-6,8,9) using assms(7) by blast

lemma Do_call_frame:
  assumes "Do_call r action m = (m', res)"
  shows "onces m' = onces m" "once_next m' = once_next m" "successTimeout m' = successTimeout m" "errorTimeout m' = errorTimeout m"
    and "once_errorTimeout (once_heap m' i) = once_errorTimeout (once_heap m i)"
    and "once_successTimeout (once_heap m' i) = once_successTimeout (once_heap m i)"
  using assms by (auto simp: Do_call_def Once_SetError_def Let_def split: sum.splits)

lemma Do_enter_cases:
  assumes "Do_enter key (n1, n2) (n3, n4) m = (m', r)"
  obtains (shared) "m' = m" "onces m (KeyString key) = Some r" "\<not> Once_IsTimedOut n1 n2 (once_heap m r)"
  | (made) "r = once_next m" "m' = m\<lparr>onces := (onces m)(KeyString key \<mapsto> r),
        once_heap := (once_heap m)(r := newOnceWithTimeout n3 n4 (successTimeout m) (errorTimeout m)), once_next := Suc r\<rparr>"
      "\<And>r0. onces m (KeyString key) = Some r0 \<Longrightarrow> Once_IsTimedOut n1 n2 (once_heap m r0)"
  using assms by (auto simp: Do_enter_def Let_def split: option.splits if_splits)

lemma once_inv_made:
  assumes "once_inv d s" "(k, t) \<in> set (os_made s)"
  obtains r where "onces (os_once s) (KeyString k) = Some r" "r < once_next (os_once s)"
    "t + d \<le> once_errorTimeout (once_heap (os_once s) r)" "t + d \<le> once_successTimeout (once_heap (os_once s) r)"
  using assms unfolding once_inv_def by blast

text \<open>A timed-out entry has passed a deadline.\<close>

lemma timed_out_late:
  assumes "Once_IsTimedOut n1 n2 o1" "t \<le> once_errorTimeout o1" "t \<le> once_successTimeout o1" "n1 \<le> n2"
  shows "t \<le> n2"
  using assms by (auto simp: Once_IsTimedOut_def)

lemma once_inv_enter:
  assumes inv: "once_inv d s" "0 \<le> d" and now: "n1 \<le> n2" "n2 \<le> n3" "n3 \<le> n4"
    and r: "r = once_next (os_once s)"
    and m: "m = (os_once s)\<lparr>onces := (onces (os_once s))(KeyString key \<mapsto> r), once_heap := (once_heap (os_once s))
        (r := newOnceWithTimeout n3 n4 (successTimeout (os_once s)) (errorTimeout (os_once s))), once_next := Suc r\<rparr>"
    and out: "\<And>r0. onces (os_once s) (KeyString key) = Some r0 \<Longrightarrow> Once_IsTimedOut n1 n2 (once_heap (os_once s) r0)"
    and s': "os_once s' = m" "os_made s' = (key, n3) # os_made s"
  shows "once_inv d s'"
proof -
  have old: "t + d \<le> n3" if made: "(key, t) \<in> set (os_made s)" for t
    using inv(1) made
  proof (rule once_inv_made)
    fix r0
    assume "onces (os_once s) (KeyString key) = Some r0" "t + d \<le> once_errorTimeout (once_heap (os_once s) r0)"
      "t + d \<le> once_successTimeout (once_heap (os_once s) r0)"
    then show ?thesis using timed_out_late [OF out] now(1,2) by fastforce
  qed
  have d: "d \<le> successTimeout (os_once s)" "d \<le> errorTimeout (os_once s)" "spaced d (os_made s)"
      "\<And>k r. onces (os_once s) k = Some r \<Longrightarrow> r < once_next (os_once s)"
    using inv(1) unfolding once_inv_def by blast+
  have new: "\<exists>r. onces m (KeyString k) = Some r \<and> t + d \<le> once_errorTimeout (once_heap m r) \<and>
      t + d \<le> once_successTimeout (once_heap m r)" if kt: "(k, t) \<in> set (os_made s')" for k t
  proof (cases "k = key")
    case True
    then have "t \<le> n3" using kt old inv(2) by (auto simp: s') fastforce
    then show ?thesis using True d(1,2) now by (simp add: m r newOnceWithTimeout_def)
  next
    case False
    then have "(k, t) \<in> set (os_made s)" using kt by (simp add: s')
    with inv(1) show ?thesis
    proof (rule once_inv_made)
      fix r0
      assume "onces (os_once s) (KeyString k) = Some r0" "r0 < once_next (os_once s)"
        "t + d \<le> once_errorTimeout (once_heap (os_once s) r0)" "t + d \<le> once_successTimeout (once_heap (os_once s) r0)"
      then show ?thesis using False by (intro exI [of _ r0]) (simp add: m r)
    qed
  qed
  show ?thesis unfolding once_inv_def s'(1)
    using d new old by (auto simp: s' m r less_Suc_eq split: if_splits)
qed

lemma once_step_inv:
  assumes "once_step s s'" "once_inv d s" "0 \<le> d"
  shows "once_inv d s'"
  using assms
proof (induction rule: once_step.induct)
  case (enter s c n1 n2 n3 n4 key m r)
  show ?case
    using enter.hyps(6)
  proof (cases rule: Do_enter_cases)
    case shared
    then show ?thesis by (intro once_inv_frame [OF enter.prems(1)]) simp_all
  next
    case made
    show ?thesis
      by (rule once_inv_enter [OF enter.prems enter.hyps(3-5) made]) (simp_all add: made)
  qed
next
  case (call s c r now action m res)
  then show ?case using Do_call_frame [OF call.hyps(3)] by (intro once_inv_frame [OF call.prems(1)]) simp_all
next
  case (leave s c r res now now')
  then show ?case by (intro once_inv_frame [OF leave.prems(1)]) (auto simp: Do_leave_def split: if_splits)
qed

section \<open>Properties\<close>

lemma once_init_inv: "d \<le> st \<Longrightarrow> d \<le> et \<Longrightarrow> once_inv d (once_init st et now)"
  by (simp add: once_inv_def once_init_def NewOnceWithKey_def)


text \<open>
  C37. A second call with a key gets the result of the first and does not run its own action,
  until the timeout for that kind of result has passed; then it runs its own.
\<close>

theorem once_shared:
  assumes "onces m (KeyString key) = None"
    and "Once_Do key a1 now1 later1 m = (m1, res1)" "Once_Do key a2 now2 later2 m1 = (m2, res2)"
  shows "res1 = a1 \<and>
    res2 = (if now2 < now1 + (case a1 of Inl e \<Rightarrow> errorTimeout m | Inr v \<Rightarrow> successTimeout m) then a1 else a2)"
  using assms
  by (cases a1)
    (auto simp: Once_Do_def Do_enter_def Do_call_def Do_leave_def newOnceWithTimeout_def Once_IsTimedOut_def
      Once_SetError_def Let_def split: prod.splits if_splits sum.splits)

text \<open>
  The map of entries never shrinks: the second section of \<open>Do\<close> deletes with the pointer
  of the entry as the key, and no such key is in the map.
\<close>

lemma once_never_deleted:
  assumes "once_step\<^sup>*\<^sup>* s s'" "onces (os_once s) (KeyString k) = Some r"
  shows "\<exists>r'. onces (os_once s') (KeyString k) = Some r'"
  using assms(1)
proof (induction rule: rtranclp_induct)
  case base
  then show ?case using assms(2) by blast
next
  case (step s1 s2)
  from step.hyps(2) step.IH show ?case
  proof (induction rule: once_step.induct)
    case (enter s c n1 n2 n3 n4 key m r)
    from enter.hyps(6) enter.prems show ?case by (cases rule: Do_enter_cases) auto
  next
    case (call s c r now action m res)
    then show ?case using Do_call_frame(1) [OF call.hyps(3)] by simp
  next
    case (leave s c r res now now')
    then show ?case by (auto simp: Do_leave_def)
  qed
qed

section \<open>Examples\<close>

text \<open>Two callers, the second a minute and more after the first.\<close>

definition sample_once :: "int once_system" where
  "sample_once = (let m = fst (Do_enter ''k'' (0, 0) (0, 0) (NewOnceWithKey 60 5)) in
     \<lparr>os_once = m, os_callers = (\<lambda>_. Outside)(0 := Entered 0), os_clock = 0, os_made = [(''k'', 0)]\<rparr>)"

lemma sample_once_step: "once_step (once_init 60 5 0) sample_once"
proof -
  have "Do_enter ''k'' (0, 0) (0, 0) (NewOnceWithKey 60 5) = (os_once sample_once, 0)"
    by (simp add: sample_once_def Do_enter_def NewOnceWithKey_def Let_def)
  moreover have "os_once (once_init 60 5 0) = NewOnceWithKey 60 5" by (simp add: once_init_def)
  ultimately show ?thesis
    using once_step.enter [of "once_init 60 5 0" 0 0 0 0 0 "''k''" "os_once sample_once" 0]
    by (simp add: once_init_def sample_once_def Do_enter_def NewOnceWithKey_def Let_def)
qed


theorem once_shared_witness:
  "snd (Once_Do ''k'' (Inr 2) 59 59 (fst (Once_Do ''k'' (Inr (1 :: int)) 0 0 (NewOnceWithKey 60 5)))) = Inr 1"
proof -
  obtain m1 res1 where 1: "Once_Do ''k'' (Inr (1 :: int)) 0 0 (NewOnceWithKey 60 5) = (m1, res1)" by fastforce
  obtain m2 res2 where 2: "Once_Do ''k'' (Inr 2) 59 59 m1 = (m2, res2)" by fastforce
  have "onces (NewOnceWithKey 60 5 :: int OnceWithKey) (KeyString ''k'') = None" by (simp add: NewOnceWithKey_def)
  from once_shared [OF this 1 2] show ?thesis using 1 2 by (simp add: NewOnceWithKey_def)
qed

end
