(* ===== verification/Relayer_Float.thy ===== *)
theory Relayer_Float
  imports Complex_Main "HOL-Library.Log_Nat"
begin

text \<open>
  Rounding as \<open>math/big.Float\<close> and \<open>float64\<close> do it, on rationals: to a number of mantissa
  bits, to nearest, ties to even. The range of exponents is not bounded.

  \<^item> \<open>bin_exp z\<close> is the exponent of a positive number: \<open>2^(k-1) \<le> z < 2^k\<close>.
  \<^item> \<open>float_round_dyadic\<close>: numbers with few enough bits are kept; \<open>float_round_above\<close>:
    rounding does not fall below such an integer.
\<close>

section \<open>Definitions\<close>

definition bin_exp :: "rat \<Rightarrow> int" where
  "bin_exp z =
     (let (a, b) = quotient_of z; k = bitlen a - bitlen b
      in if 2 powi k \<le> z then k + 1 else k)"

definition round_half_even :: "rat \<Rightarrow> int" where
  "round_half_even x =
     (let f = \<lfloor>x\<rfloor>; r = x - of_int f
      in if r < 1 / 2 then f else if 1 / 2 < r then f + 1 else if even f then f else f + 1)"

definition float_round :: "int \<Rightarrow> rat \<Rightarrow> rat" where
  "float_round prec z =
     (if z = 0 then 0
      else (let q = 2 powi (bin_exp \<bar>z\<bar> - prec) in sgn z * (of_int (round_half_even (\<bar>z\<bar> / q)) * q)))"

text \<open>\<open>Int\<close> of a \<open>big.Float\<close> cuts off towards zero.\<close>

definition float_Int :: "rat \<Rightarrow> int" where
  "float_Int z = (if 0 \<le> z then \<lfloor>z\<rfloor> else \<lceil>z\<rceil>)"

text \<open>
  The product of an integer and a \<open>float64\<close>: \<open>SetInt\<close> takes the bits of the integer, at
  least 64, and the product the larger precision of its factors.
\<close>

definition float_scale :: "int \<Rightarrow> rat \<Rightarrow> int" where
  "float_scale n m = float_Int (float_round (max 64 (bitlen \<bar>n\<bar>)) (of_int n * m))"

section \<open>The exponent\<close>

lemma bitlen_powi:
  assumes "0 < n"
  shows "(2 :: rat) powi (bitlen n - 1) \<le> of_int n" "of_int n < (2 :: rat) powi bitlen n"
proof -
  have "bitlen n \<noteq> 0" using bitlen_bounds [OF assms] assms by auto
  then have len: "0 < bitlen n" using bitlen_nonneg [of n] by simp
  have b: "2 ^ nat (bitlen n - 1) \<le> n" "n < 2 ^ nat (bitlen n)" using bitlen_bounds [OF assms] by simp_all
  have "(2 :: rat) ^ nat (bitlen n - 1) \<le> of_int n" using b(1) by (metis of_int_le_iff of_int_numeral of_int_power)
  then show "(2 :: rat) powi (bitlen n - 1) \<le> of_int n" using len by (simp add: power_int_def)
  have "of_int n < (2 :: rat) ^ nat (bitlen n)" using b(2) by (metis of_int_less_iff of_int_numeral of_int_power)
  then show "of_int n < (2 :: rat) powi bitlen n" using len by (simp add: power_int_def)
qed

lemma bin_exp_bounds:
  assumes "0 < z"
  shows "2 powi (bin_exp z - 1) \<le> z" "z < 2 powi bin_exp z"
proof -
  obtain a b where ab: "quotient_of z = (a, b)" by fastforce
  have z: "z = of_int a / of_int b" "0 < b" using quotient_of_div [OF ab] quotient_of_denom_pos [OF ab] by simp_all
  then have a: "0 < a" using assms by (simp add: zero_less_divide_iff)
  have B: "0 < (of_int b :: rat)" using z(2) by simp
  let ?k = "bitlen a - bitlen b"
  have "(2 :: rat) powi (?k - 1) * of_int b \<le> 2 powi (?k - 1) * 2 powi bitlen b"
    using bitlen_powi(2) [OF z(2)] by (intro mult_left_mono) simp_all
  also have "\<dots> = 2 powi (bitlen a - 1)" by (simp flip: power_int_add)
  also have "\<dots> \<le> of_int a" by (rule bitlen_powi(1) [OF a])
  finally have lo: "2 powi (?k - 1) \<le> z" using B by (simp add: z(1) pos_le_divide_eq)
  have "of_int a < (2 :: rat) powi bitlen a" by (rule bitlen_powi(2) [OF a])
  also have "\<dots> = 2 powi (?k + 1) * 2 powi (bitlen b - 1)" by (simp flip: power_int_add)
  also have "\<dots> \<le> 2 powi (?k + 1) * of_int b"
    using bitlen_powi(1) [OF z(2)] by (intro mult_left_mono) simp_all
  finally have hi: "z < 2 powi (?k + 1)" using B by (simp add: z(1) pos_divide_less_eq)
  show "2 powi (bin_exp z - 1) \<le> z" "z < 2 powi bin_exp z"
    using lo hi by (simp_all add: bin_exp_def ab Let_def)
qed

lemma powi_two_mono: "i \<le> j \<Longrightarrow> (2 :: rat) powi i \<le> 2 powi j"
  by (rule power_int_increasing) simp_all

lemma bin_exp_unique:
  assumes "0 < z" "2 powi (k - 1) \<le> z" "z < 2 powi k"
  shows "bin_exp z = k"
proof (rule antisym)
  show "bin_exp z \<le> k"
    using bin_exp_bounds(1) [OF assms(1)] assms(3) powi_two_mono [of k "bin_exp z - 1"] by linarith
  show "k \<le> bin_exp z"
    using bin_exp_bounds(2) [OF assms(1)] assms(2) powi_two_mono [of "bin_exp z" "k - 1"] by linarith
qed

lemma bin_exp_dyadic:
  assumes "0 < n"
  shows "bin_exp (of_int n * 2 powi e) = bitlen n + e"
proof (rule bin_exp_unique)
  have p: "0 < (2 :: rat) powi e" by simp
  show "0 < of_int n * (2 :: rat) powi e" using assms p by simp
  have "2 powi (bitlen n + e - 1) = (2 :: rat) powi (bitlen n - 1) * 2 powi e"
    by (simp add: algebra_simps flip: power_int_add)
  then show "2 powi (bitlen n + e - 1) \<le> of_int n * (2 :: rat) powi e"
    using mult_right_mono [OF bitlen_powi(1) [OF assms], of "2 powi e"] p by simp
  have "(2 :: rat) powi (bitlen n + e) = 2 powi bitlen n * 2 powi e" by (simp flip: power_int_add)
  then show "of_int n * 2 powi e < (2 :: rat) powi (bitlen n + e)"
    using mult_strict_right_mono [OF bitlen_powi(2) [OF assms] p] by simp
qed

section \<open>Rounding\<close>

lemma round_half_even_int [simp]: "round_half_even (of_int n) = n"
  by (simp add: round_half_even_def)

lemma round_half_even_ge: "of_int i \<le> x \<Longrightarrow> i \<le> round_half_even x"
  using le_floor_iff [of i x] by (auto simp: round_half_even_def Let_def)

lemma float_round_dyadic:
  assumes "bitlen \<bar>n\<bar> \<le> prec"
  shows "float_round prec (of_int n * 2 powi e) = of_int n * 2 powi e"
proof (cases "n = 0")
  case False
  define k q where "k = nat (prec - bitlen \<bar>n\<bar>)" and "q = (2 :: rat) powi (bitlen \<bar>n\<bar> + e - prec)"
  define z where "z = of_int n * (2 :: rat) powi e"
  have z: "\<bar>z\<bar> = of_int \<bar>n\<bar> * 2 powi e" "z \<noteq> 0" using False by (simp_all add: z_def abs_mult)
  have e: "bin_exp \<bar>z\<bar> = bitlen \<bar>n\<bar> + e" unfolding z(1) using False by (intro bin_exp_dyadic) simp
  have "(2 :: rat) powi e = q * 2 powi int k" unfolding q_def using assms by (simp add: k_def flip: power_int_add)
  then have p: "(2 :: rat) powi e = q * 2 ^ k" by (simp only: power_int_of_nat)
  have q: "q \<noteq> 0" by (simp add: q_def)
  have "\<bar>z\<bar> / q = of_int (\<bar>n\<bar> * 2 ^ k)" unfolding z(1) p using q by simp
  then have "of_int (round_half_even (\<bar>z\<bar> / q)) * q = \<bar>z\<bar>"
    by (simp only: round_half_even_int) (simp add: z(1) p)
  then have "float_round prec z = sgn z * \<bar>z\<bar>" using z(2) by (simp add: float_round_def e Let_def q_def)
  then show ?thesis by (simp add: sgn_mult_abs z_def [symmetric])
qed (simp add: float_round_def)

lemma float_round_int: "bitlen \<bar>n\<bar> \<le> prec \<Longrightarrow> float_round prec (of_int n) = of_int n"
  using float_round_dyadic [of n prec 0] by simp

lemma float_round_above:
  assumes "0 < z" "of_int m \<le> z" "bin_exp z \<le> prec"
  shows "of_int m \<le> float_round prec z"
proof -
  define k q where "k = nat (prec - bin_exp z)" and "q = (2 :: rat) powi (bin_exp z - prec)"
  have "bin_exp z - prec = - int k" using assms(3) by (simp add: k_def)
  then have q: "q = inverse (2 ^ k)" unfolding q_def by (simp only: power_int_minus power_int_of_nat)
  have "of_int (m * 2 ^ k) \<le> z / q" using assms(2) unfolding q by (simp add: divide_inverse)
  then have "m * 2 ^ k \<le> round_half_even (z / q)" by (rule round_half_even_ge)
  then have "of_int (m * 2 ^ k) * q \<le> of_int (round_half_even (z / q)) * q"
    by (intro mult_right_mono) (simp_all add: q of_int_le_iff del: of_int_mult)
  moreover have "of_int (m * 2 ^ k) * q = of_int m" by (simp add: q)
  moreover have "float_round prec z = of_int (round_half_even (z / q)) * q"
    using assms(1) by (simp add: float_round_def Let_def q_def)
  ultimately show ?thesis by (simp only:)
qed

text \<open>Scaling by a whole number, or a half, is exact while the bits suffice.\<close>

lemma float_scale_int:
  assumes "bitlen \<bar>n * k\<bar> \<le> max 64 (bitlen \<bar>n\<bar>)"
  shows "float_scale n (of_int k) = n * k"
  using float_round_int [OF assms] by (simp add: float_scale_def float_Int_def flip: of_int_mult)

lemma bitlen_below: "0 \<le> n \<Longrightarrow> n < 2 ^ j \<Longrightarrow> bitlen n \<le> int j"
  using bitlen_le_iff_power [of n "int j"] by simp

lemma float_scale_whole:
  assumes "0 \<le> n" "0 \<le> k" "n * k < 2 ^ 64"
  shows "float_scale n (of_int k) = n * k"
proof (rule float_scale_int)
  have "bitlen (n * k) \<le> 64" using bitlen_below [of "n * k" 64] assms by simp
  then show "bitlen \<bar>n * k\<bar> \<le> max 64 (bitlen \<bar>n\<bar>)" using assms by simp
qed

text \<open>Cut off and one more: not below the exact product.\<close>

lemma float_Int_covers:
  assumes "0 < z" "z < 2 powi prec" "0 \<le> prec"
  shows "z \<le> of_int (float_Int (float_round prec z) + 1)"
proof (rule ccontr)
  let ?r = "float_round prec z" and ?m = "float_Int (float_round prec z) + 1"
  assume less: "\<not> z \<le> of_int ?m"
  have e: "bin_exp z \<le> prec"
    using bin_exp_bounds(1) [OF assms(1)] assms(2) powi_two_mono [of prec "bin_exp z - 1"] by linarith
  have "0 \<le> ?r" using float_round_above [OF assms(1) _ e, of 0] assms(1) by simp
  then have "?r < of_int ?m" by (simp add: float_Int_def) linarith
  moreover have "of_int ?m \<le> ?r" using less by (intro float_round_above [OF assms(1) _ e]) linarith
  ultimately show False by linarith
qed

lemma round_half_even_le: "x \<le> of_int i \<Longrightarrow> round_half_even x \<le> i"
  using floor_less_iff [of x i] by (auto simp: round_half_even_def Let_def floor_le_iff le_less)

lemma float_round_below:
  assumes "0 < z" "z \<le> of_int m" "bin_exp z \<le> prec"
  shows "float_round prec z \<le> of_int m"
proof -
  define k q where "k = nat (prec - bin_exp z)" and "q = (2 :: rat) powi (bin_exp z - prec)"
  have "bin_exp z - prec = - int k" using assms(3) by (simp add: k_def)
  then have q: "q = inverse (2 ^ k)" unfolding q_def by (simp only: power_int_minus power_int_of_nat)
  have "z / q \<le> of_int (m * 2 ^ k)" using assms(2) unfolding q by (simp add: divide_inverse)
  then have "round_half_even (z / q) \<le> m * 2 ^ k" by (rule round_half_even_le)
  then have "of_int (round_half_even (z / q)) * q \<le> of_int (m * 2 ^ k) * q"
    by (intro mult_right_mono) (simp_all add: q of_int_le_iff del: of_int_mult)
  moreover have "of_int (m * 2 ^ k) * q = of_int m" by (simp add: q)
  moreover have "float_round prec z = of_int (round_half_even (z / q)) * q"
    using assms(1) by (simp add: float_round_def Let_def q_def)
  ultimately show ?thesis by (simp only:)
qed

lemma float_Int_capped:
  assumes "0 < z" "z < 2 powi prec" "0 \<le> prec"
  shows "float_Int (float_round prec z) \<le> \<lceil>z\<rceil>"
proof -
  have e: "bin_exp z \<le> prec"
    using bin_exp_bounds(1) [OF assms(1)] assms(2) powi_two_mono [of prec "bin_exp z - 1"] by linarith
  have "float_round prec z \<le> of_int \<lceil>z\<rceil>" by (rule float_round_below [OF assms(1) _ e]) simp
  moreover have "0 \<le> float_round prec z" using float_round_above [OF assms(1) _ e, of 0] assms(1) by simp
  ultimately show ?thesis by (simp add: float_Int_def floor_le_iff)
qed

lemma float_Int_nonneg: "0 \<le> z \<Longrightarrow> 0 \<le> float_Int (float_round prec z)"
  using round_half_even_ge [of 0 "\<bar>z\<bar> / 2 powi (bin_exp \<bar>z\<bar> - prec)"]
  by (auto simp: float_Int_def float_round_def Let_def sgn_if)

end
