(* ===== verification/Relayer_Evm.thy ===== *)
theory Relayer_Evm
  imports Relayer_Bridge Relayer_Once Relayer_Float Relayer_Strings
begin

text \<open>
  The bridge client of an EVM chain, \<open>shared/bridges/ibcv2/evm_bridge_client.go\<close>.

  \<^item> \<open>eth_lib\<close> holds the functions of go-ethereum and of the generated contract bindings the
    client calls without asking the node: hashing, parsing of hashes, topics and logs, recovering
    a sender, signing. \<open>evm_node\<close> holds what the node answers. Both are parameters.
  \<^item> \<open>EVMBridgeClient\<close> is the client's own state. A receipt comes through \<open>txOnce\<close>
    (\<open>Relayer_Once\<close>); methods that use it or submit return the new state.
  \<^item> The loops of \<open>WaitForChain\<close> and \<open>WaitForTx\<close> run on the list of what their \<open>select\<close>
    receives; \<open>None\<close> means that the loop has not returned yet.
\<close>

section \<open>Library and node\<close>

type_synonym hash = bytes
type_synonym address = bytes

record log =
  Topics :: "hash list"
  LogBlockNumber :: uint64
  LogTxHash :: hash
  LogData :: bytes

record receipt =
  Logs :: "log option list"
  ReceiptStatus :: uint64
  BlockNumber :: int
  EffectiveGasPrice :: int
  GasUsed :: uint64

record header =
  HeaderNumber :: int
  HeaderTime :: uint64
  BaseFee :: int

record router_packet =
  RPSequence :: uint64
  RPSourceClient :: string
  RPDestClient :: string
  RPTimeoutTimestamp :: uint64

record DynamicFeeTx =
  TxTo :: address
  TxNonce :: uint64
  TxGasFeeCap :: int
  TxGasTipCap :: int
  TxGas :: uint64
  TxData :: bytes

record eth_lib =
  Keccak256Hash :: "bytes \<Rightarrow> hash"
  HexToHash :: "string \<Rightarrow> hash"
  HashString :: "hash \<Rightarrow> string"
  HexToAddress :: "string \<Rightarrow> address"
  AddressString :: "address \<Rightarrow> string"
  GetAbi :: "go_error option"
  EventID :: "string \<Rightarrow> hash"
  MakeTopics :: "hash \<Rightarrow> string \<Rightarrow> uint64 \<Rightarrow> hash list list res"
  ParseWriteAcknowledgement :: "log \<Rightarrow> (router_packet \<times> bytes list) res"
  ParseAckPacket :: "log \<Rightarrow> router_packet res"
  ParseTimeoutPacket :: "log \<Rightarrow> router_packet res"
  ParseSendPacket :: "log \<Rightarrow> router_packet res"
  Sender :: "int \<Rightarrow> bytes \<Rightarrow> address res"
  FinalizedBlockNumber :: int
  SignTx :: "address \<Rightarrow> DynamicFeeTx \<Rightarrow> bytes res"
  SignedHash :: "bytes \<Rightarrow> hash"

record evm_node =
  GetCommitment :: "hash \<Rightarrow> hash res"
  FilterLogs :: "address \<Rightarrow> hash list list \<Rightarrow> log list res"
  HeaderByNumber :: "int option \<Rightarrow> header res"
  TransactionReceipt :: "hash \<Rightarrow> receipt res"
  TransactionByHash :: "hash \<Rightarrow> bytes res"
  SuggestGasTipCap :: "int res"
  PendingCodeAt :: "address \<Rightarrow> bytes res"
  EstimateGas :: "address \<Rightarrow> address \<Rightarrow> bytes \<Rightarrow> uint64 res"
  PendingNonceAt :: "address \<Rightarrow> uint64 res"
  SendTransaction :: "bytes \<Rightarrow> go_error option"
  BalanceAt :: "address \<Rightarrow> int res"

record EVMBridgeClient =
  evm_chainID :: string
  evm_routerAddress :: address
  evm_signerAddress :: address
  lastSubmissionTime :: time
  txSubmissionDelay :: duration
  txOnce :: "receipt OnceWithKey"
  gasFeeCapMultiplier :: "rat option"
  gasTipCapMultiplier :: "rat option"

section \<open>Standard library functions the client uses\<close>

text \<open>\<open>Uint64\<close> and \<open>Int64\<close> of a \<open>big.Int\<close>, and \<open>sdk.Uint64ToBigEndian\<close>.\<close>

definition big_Uint64 :: "int \<Rightarrow> uint64" where
  "big_Uint64 n = word_of_int \<bar>n\<bar>"

definition big_Int64 :: "int \<Rightarrow> int" where
  "big_Int64 n = sint (word_of_int n :: uint64)"

definition Uint64ToBigEndian :: "uint64 \<Rightarrow> bytes" where
  "Uint64ToBigEndian w = map (\<lambda>i. ucast (drop_bit (8 * i) w)) (rev [0..<8])"

section \<open>Commitments\<close>

text \<open>The arguments \<open>encodePacked\<close> accepts; any other type is an error.\<close>

datatype packed = PBytes bytes | PByte "8 word" | PString string | POther

fun encodePacked :: "packed list \<Rightarrow> bytes res" where
  "encodePacked [] = Inr []"
| "encodePacked (v # vs) =
     (case v of
        POther \<Rightarrow> Inl (Errorf ''unsupported value type %T'' [])
      | PBytes b \<Rightarrow> map_sum id (\<lambda>bs. b @ bs) (encodePacked vs)
      | PByte b \<Rightarrow> map_sum id (\<lambda>bs. b # bs) (encodePacked vs)
      | PString s \<Rightarrow> map_sum id (\<lambda>bs. string_bytes s @ bs) (encodePacked vs))"

text \<open>\<open>common.BytesToHash\<close> pads on the left to 32 bytes; the unwritten value is all zeros.\<close>

definition unwritten :: hash where
  "unwritten = replicate 32 0"

definition evm_IsPacketReceived :: "eth_lib \<Rightarrow> evm_node \<Rightarrow> string \<Rightarrow> uint64 \<Rightarrow> bool res" where
  "evm_IsPacketReceived lib node packetDestinationClientID sequence =
     (case encodePacked [PString packetDestinationClientID, PByte 2, PBytes (Uint64ToBigEndian sequence)] of
        Inl e \<Rightarrow> Inl (Errorf ''encoding packed client id '%s' '2' and sequence '%d': %w'' [e])
      | Inr path \<Rightarrow>
     (case GetCommitment node (Keccak256Hash lib path) of
        Inl e \<Rightarrow> Inl (Errorf ''getting commitment for packet with destination client id %s and sequence %d and hashed path %s: %w'' [e])
      | Inr commitment \<Rightarrow> Inr (commitment \<noteq> unwritten)))"

definition evm_IsPacketCommitted :: "eth_lib \<Rightarrow> evm_node \<Rightarrow> string \<Rightarrow> uint64 \<Rightarrow> bool res" where
  "evm_IsPacketCommitted lib node packetSourceClientID sequence =
     (case encodePacked [PString packetSourceClientID, PByte 1, PBytes (Uint64ToBigEndian sequence)] of
        Inl e \<Rightarrow> Inl (Errorf ''encoding packed client id '%s' '1' and sequence '%d': %w'' [e])
      | Inr path \<Rightarrow>
     (case GetCommitment node (Keccak256Hash lib path) of
        Inl e \<Rightarrow> Inl (Errorf ''getting commitment for packet with source client id %s and sequence %d and hashed path %s: %w'' [e])
      | Inr commitment \<Rightarrow> Inr (commitment \<noteq> unwritten)))"

section \<open>Finding transactions\<close>

definition evm_txSigner :: "eth_lib \<Rightarrow> evm_node \<Rightarrow> EVMBridgeClient \<Rightarrow> hash \<Rightarrow> string res" where
  "evm_txSigner lib node cl hash =
     (case big_SetString10 (evm_chainID cl) of
        None \<Rightarrow> Inl (Errorf ''could not convert chain id %s to *big.Int'' [])
      | Some chainID \<Rightarrow>
     (case TransactionByHash node hash of
        Inl e \<Rightarrow> Inl (Errorf ''getting transaction for hash %s: %w'' [e])
      | Inr tx \<Rightarrow>
     (case Sender lib chainID tx of
        Inl e \<Rightarrow> Inl (Errorf ''getting transaction %s sender: %w'' [e])
      | Inr sender \<Rightarrow> Inr (AddressString lib sender))))"

text \<open>
  The body the three searches share: one log of the event for the client and the sequence, the
  time of its block, and the signer of its transaction, whose absence is only logged.
\<close>

definition evm_find_event ::
  "string \<Rightarrow> string \<Rightarrow> string \<Rightarrow> string \<Rightarrow> (log \<Rightarrow> 'p res) \<Rightarrow> eth_lib \<Rightarrow> evm_node \<Rightarrow> EVMBridgeClient \<Rightarrow>
   string \<Rightarrow> uint64 \<Rightarrow> BridgeTx res" where
  "evm_find_event eventName filterMsg countMsg parseMsg parse lib node cl clientID sequence =
     (case GetAbi lib of
        Some e \<Rightarrow> Inl (Errorf ''getting ics26 router abi: %w'' [e])
      | None \<Rightarrow>
     (case MakeTopics lib (EventID lib eventName) clientID sequence of
        Inl e \<Rightarrow> Inl (Errorf ''creating topics for filter logs query: %w'' [e])
      | Inr topics \<Rightarrow>
     (case FilterLogs node (evm_routerAddress cl) topics of
        Inl e \<Rightarrow> Inl (Errorf filterMsg [e])
      | Inr [] \<Rightarrow> Inl (Sentinel ErrTxNotFound)
      | Inr (l # l' # ls) \<Rightarrow> Inl (Errorf countMsg [])
      | Inr [l] \<Rightarrow>
     (case parse l of
        Inl e \<Rightarrow> Inl (Errorf parseMsg [e])
      | Inr packet \<Rightarrow>
     (case HeaderByNumber node (Some (sint (LogBlockNumber l))) of
        Inl e \<Rightarrow> Inl (Errorf ''getting block header at height %d: %w'' [e])
      | Inr header \<Rightarrow>
          Inr \<lparr>Hash = HashString lib (LogTxHash l), Timestamp = time_Unix (HeaderTime header),
               RelayerAddress = (case evm_txSigner lib node cl (LogTxHash l) of Inl e \<Rightarrow> [] | Inr signer \<Rightarrow> signer)\<rparr>)))))"

definition evm_FindRecvTx ::
  "eth_lib \<Rightarrow> evm_node \<Rightarrow> EVMBridgeClient \<Rightarrow> string \<Rightarrow> string \<Rightarrow> uint64 \<Rightarrow> time \<Rightarrow> BridgeTx res" where
  "evm_FindRecvTx lib node cl sourceClientID destinationClientID sequence timeoutTimestamp =
     evm_find_event ''WriteAcknowledgement'' ''filtering for write ack logs: %w''
       ''expected to receive 1 log for write ack with sequence %d and dest client ID %s, instead got %d''
       ''parsing write ack: %w'' (ParseWriteAcknowledgement lib) lib node cl destinationClientID sequence"

definition evm_FindAckTx ::
  "eth_lib \<Rightarrow> evm_node \<Rightarrow> EVMBridgeClient \<Rightarrow> string \<Rightarrow> string \<Rightarrow> uint64 \<Rightarrow> BridgeTx res" where
  "evm_FindAckTx lib node cl sourceClientID destinationClientID sequence =
     evm_find_event ''AckPacket'' ''filtering ack logs: %w''
       ''expected to receive 1 log for ack packet with sequence %d and source client ID %s, instead got %d''
       ''parsing ack packet log: %w'' (ParseAckPacket lib) lib node cl sourceClientID sequence"

definition evm_FindTimeoutTx ::
  "eth_lib \<Rightarrow> evm_node \<Rightarrow> EVMBridgeClient \<Rightarrow> string \<Rightarrow> string \<Rightarrow> uint64 \<Rightarrow> BridgeTx res" where
  "evm_FindTimeoutTx lib node cl sourceClientID destinationClientID sequence =
     evm_find_event ''TimeoutPacket'' ''filtering for timeout logs: %w''
       ''expected to receive 1 log for timeout with sequence %d and source client ID %s, instead got %d''
       ''parsing timeout packet: %w'' (ParseTimeoutPacket lib) lib node cl sourceClientID sequence"

section \<open>Reading a transaction\<close>

text \<open>The loop over the logs of a receipt.\<close>

fun evm_ack_loop ::
  "eth_lib \<Rightarrow> uint64 \<Rightarrow> string \<Rightarrow> string \<Rightarrow> log option list \<Rightarrow> Ibcv2WriteAckStatus res" where
  "evm_ack_loop lib sequence sourceClientID destClientID [] = Inl (Sentinel ErrWriteAckNotFoundForPacket)"
| "evm_ack_loop lib sequence sourceClientID destClientID (None # ls) =
     evm_ack_loop lib sequence sourceClientID destClientID ls"
| "evm_ack_loop lib sequence sourceClientID destClientID (Some l # ls) =
     (if Topics l = [] then evm_ack_loop lib sequence sourceClientID destClientID ls
      else if EventID lib ''WriteAcknowledgement'' \<noteq> hd (Topics l) then
        evm_ack_loop lib sequence sourceClientID destClientID ls
      else
        (case ParseWriteAcknowledgement lib l of
           Inl e \<Rightarrow> Inl (Errorf ''parsing write packet event from log %v: %w'' [e])
         | Inr (packet, acks) \<Rightarrow>
             if RPSequence packet = sequence \<and> RPSourceClient packet = sourceClientID \<and> RPDestClient packet = destClientID
             then Inr (if acks = [ErrorAcknowledgement] then ERROR else SUCCESS)
             else evm_ack_loop lib sequence sourceClientID destClientID ls))"

text \<open>A receipt through \<open>txOnce\<close>; the clock is read at \<open>now\<close> and \<open>later\<close>.\<close>

definition evm_receipt ::
  "eth_lib \<Rightarrow> evm_node \<Rightarrow> time \<Rightarrow> time \<Rightarrow> string \<Rightarrow> EVMBridgeClient \<Rightarrow> EVMBridgeClient \<times> receipt res" where
  "evm_receipt lib node now later hash cl =
     (case Once_Do hash (TransactionReceipt node (HexToHash lib hash)) now later (txOnce cl) of
        (m, res) \<Rightarrow> (cl\<lparr>txOnce := m\<rparr>, res))"

definition evm_PacketWriteAckStatus ::
  "eth_lib \<Rightarrow> evm_node \<Rightarrow> time \<Rightarrow> time \<Rightarrow> EVMBridgeClient \<Rightarrow> string \<Rightarrow> uint64 \<Rightarrow> string \<Rightarrow> string \<Rightarrow>
   EVMBridgeClient \<times> Ibcv2WriteAckStatus res" where
  "evm_PacketWriteAckStatus lib node now later cl hash sequence sourceClientID destClientID =
     (case GetAbi lib of
        Some e \<Rightarrow> (cl, Inl (Errorf ''getting ics26 router abi: %w'' [e]))
      | None \<Rightarrow>
     (case evm_receipt lib node now later hash cl of
        (cl1, Inl e) \<Rightarrow>
          (cl1, if error_Contains e ''not found'' then Inl (Sentinel ErrTxNotFound)
                else Inl (Errorf ''getting transaction receipt: %w'' [e]))
      | (cl1, Inr rc) \<Rightarrow> (cl1, evm_ack_loop lib sequence sourceClientID destClientID (Logs rc))))"

fun evm_send_loop :: "eth_lib \<Rightarrow> log option list \<Rightarrow> PacketInfo list res" where
  "evm_send_loop lib [] = Inr []"
| "evm_send_loop lib (None # ls) = evm_send_loop lib ls"
| "evm_send_loop lib (Some l # ls) =
     (if Topics l = [] then evm_send_loop lib ls
      else if EventID lib ''SendPacket'' \<noteq> hd (Topics l) then evm_send_loop lib ls
      else
        (case ParseSendPacket lib l of
           Inl e \<Rightarrow> Inl (Errorf ''parsing send packet event from tx %s logs on chain %s: %w'' [e])
         | Inr packet \<Rightarrow>
             map_sum id (\<lambda>ps. \<lparr>Sequence = RPSequence packet, SourceClient = RPSourceClient packet,
               DestinationClient = RPDestClient packet, TimeoutTimestamp = time_Unix (RPTimeoutTimestamp packet),
               PacketTimestamp = zero_time\<rparr> # ps) (evm_send_loop lib ls)))"

definition evm_SendPacketsFromTx :: "eth_lib \<Rightarrow> evm_node \<Rightarrow> string \<Rightarrow> string \<Rightarrow> PacketInfo list res" where
  "evm_SendPacketsFromTx lib node sourceChainID txHash =
     (case GetAbi lib of
        Some e \<Rightarrow> Inl (Errorf ''getting contract ics26RouterABI for ics_26 router: %w'' [e])
      | None \<Rightarrow>
     (case TransactionReceipt node (HexToHash lib txHash) of
        Inl e \<Rightarrow> Inl (Errorf ''getting transaction receipt for tx %s on chain %s: %w'' [e])
      | Inr rc \<Rightarrow>
     (case evm_send_loop lib (Logs rc) of
        Inl e \<Rightarrow> Inl e
      | Inr [] \<Rightarrow> Inr []
      | Inr packets \<Rightarrow>
     (case HeaderByNumber node (Some (BlockNumber rc)) of
        Inl e \<Rightarrow> Inl (Errorf ''getting block header for height %s of tx %s o chain %s: %w'' [e])
      | Inr header \<Rightarrow> Inr (map (\<lambda>p. p\<lparr>PacketTimestamp := time_Unix (HeaderTime header)\<rparr>) packets)))))"

section \<open>Retrying and finality\<close>

definition evm_ShouldRetryTx ::
  "eth_lib \<Rightarrow> evm_node \<Rightarrow> time \<Rightarrow> time \<Rightarrow> EVMBridgeClient \<Rightarrow> string \<Rightarrow> duration \<Rightarrow> time \<Rightarrow> EVMBridgeClient \<times> bool res" where
  "evm_ShouldRetryTx lib node now later cl txHash expiry sentTs =
     (case evm_receipt lib node now later txHash cl of
        (cl1, Inl e) \<Rightarrow>
          (cl1,
           if error_Contains e ''not found'' then
             (case HeaderByNumber node None of
                Inl e' \<Rightarrow> Inl (Errorf ''getting latest block header: %w'' [e'])
              | Inr header \<Rightarrow>
                  if sentTs + expiry < time_Unix (HeaderTime header) then Inr True
                  else Inl (Sentinel ErrTxNotFound))
           else Inl (Errorf ''could not get transaction receipt for tx with hash %s: %w'' [e]))
      | (cl1, Inr rc) \<Rightarrow> (cl1, Inr (ReceiptStatus rc \<noteq> 1)))"

definition evm_IsTxFinalized :: "eth_lib \<Rightarrow> evm_node \<Rightarrow> string \<Rightarrow> uint64 option \<Rightarrow> bool res" where
  "evm_IsTxFinalized lib node txHash offset =
     (case TransactionReceipt node (HexToHash lib txHash) of
        Inl e \<Rightarrow>
          if error_Contains e ''not found'' then Inl (Sentinel ErrTxNotFound)
          else Inl (Errorf ''getting receipt for tx %s: %w'' [e])
      | Inr rc \<Rightarrow>
     (case offset of
        None \<Rightarrow>
          (case HeaderByNumber node (Some (FinalizedBlockNumber lib)) of
             Inl e \<Rightarrow> Inl (Errorf ''getting finalized block height: %w'' [e])
           | Inr finalizedHeader \<Rightarrow> Inr (big_Int64 (BlockNumber rc) \<le> HeaderNumber finalizedHeader))
      | Some off \<Rightarrow>
          (case HeaderByNumber node None of
             Inl e \<Rightarrow> Inl (Errorf ''getting latest block height: %w'' [e])
           | Inr latestHeader \<Rightarrow>
               (let txBlockNumber = big_Uint64 (BlockNumber rc);
                    latestBlockNumber = big_Uint64 (HeaderNumber latestHeader)
                in Inr (txBlockNumber \<le> latestBlockNumber \<and> off \<le> latestBlockNumber - txBlockNumber)))))"

definition evm_IsTimestampFinalized :: "eth_lib \<Rightarrow> evm_node \<Rightarrow> time \<Rightarrow> uint64 option \<Rightarrow> bool res" where
  "evm_IsTimestampFinalized lib node timestamp offset =
     (case offset of
        None \<Rightarrow>
          (case HeaderByNumber node (Some (FinalizedBlockNumber lib)) of
             Inl e \<Rightarrow> Inl (Errorf ''getting finalized block header: %w'' [e])
           | Inr header \<Rightarrow> Inr (\<not> time_Unix (HeaderTime header) < timestamp))
      | Some off \<Rightarrow>
          (case HeaderByNumber node None of
             Inl e \<Rightarrow> Inl (Errorf ''getting latest block height: %w'' [e])
           | Inr latestHeader \<Rightarrow>
               if big_Uint64 (HeaderNumber latestHeader) < off then Inr False
               else
                 (case HeaderByNumber node (Some (sint (big_Uint64 (HeaderNumber latestHeader) - off))) of
                    Inl e \<Rightarrow> Inl (Errorf ''getting block header at height %d: %w'' [e])
                  | Inr header \<Rightarrow> Inr (\<not> time_Unix (HeaderTime header) < timestamp))))"

section \<open>Waiting\<close>

fun evm_WaitForChain :: "time \<Rightarrow> header res wait_event list \<Rightarrow> go_error option option" where
  "evm_WaitForChain now [] = None"
| "evm_WaitForChain now (CtxEnd e # evs) = Some (Some e)"
| "evm_WaitForChain now (TickAt t answer # evs) =
     (case answer of
        Inl e \<Rightarrow> Some (Some (Errorf ''getting latest block header: %w'' [e]))
      | Inr latest \<Rightarrow>
          if now < time_Unix (HeaderTime latest) then Some None
          else evm_WaitForChain now evs)"

fun evm_WaitForTx :: "time \<Rightarrow> receipt option res wait_event list \<Rightarrow> go_error option option" where
  "evm_WaitForTx start [] = None"
| "evm_WaitForTx start (CtxEnd e # evs) = Some (Some e)"
| "evm_WaitForTx start (TickAt t answer # evs) =
     (case answer of
        Inl e \<Rightarrow> evm_WaitForTx start evs
      | Inr (Some rc) \<Rightarrow> Some None
      | Inr None \<Rightarrow>
          if minute < time_Sub t start
          then Some (Some (Errorf ''timeout after waiting %s for transaction receipt'' []))
          else evm_WaitForTx start evs)"

section \<open>Submitting\<close>

definition adjustGasFeeCap :: "EVMBridgeClient \<Rightarrow> int \<Rightarrow> int" where
  "adjustGasFeeCap cl gasFeeCap =
     (case gasFeeCapMultiplier cl of None \<Rightarrow> gasFeeCap | Some m \<Rightarrow> float_scale gasFeeCap m)"

definition adjustGasTipCap :: "EVMBridgeClient \<Rightarrow> int \<Rightarrow> int" where
  "adjustGasTipCap cl gasTipCap =
     (case gasTipCapMultiplier cl of None \<Rightarrow> gasTipCap | Some m \<Rightarrow> float_scale gasTipCap m)"

definition evm_newTx :: "eth_lib \<Rightarrow> evm_node \<Rightarrow> EVMBridgeClient \<Rightarrow> bytes \<Rightarrow> string \<Rightarrow> DynamicFeeTx res" where
  "evm_newTx lib node cl bz address =
     (let to = HexToAddress lib address in
      case HeaderByNumber node None of
        Inl e \<Rightarrow> Inl (Errorf ''getting latest block header: %w'' [e])
      | Inr head \<Rightarrow>
     (case SuggestGasTipCap node of
        Inl e \<Rightarrow> Inl (Errorf ''getting suggested gas price for chain %s: %w'' [e])
      | Inr gasTipCap \<Rightarrow>
     (let gasFeeCap = gasTipCap + BaseFee head * 2 in
      case PendingCodeAt node to of
        Inl e \<Rightarrow> Inl (Errorf ''getting pending code at for address %s: %w'' [e])
      | Inr code \<Rightarrow>
          if code = [] then Inl (Errorf ''code no length response when getting pending code for address %s: %w'' [])
          else
     (case EstimateGas node (evm_signerAddress cl) to bz of
        Inl e \<Rightarrow> Inl (Errorf ''estimating gas to deliver msg to %s: %w'' [e])
      | Inr gasLimit \<Rightarrow>
     (case PendingNonceAt node (evm_signerAddress cl) of
        Inl e \<Rightarrow> Inl (Errorf ''getting pending nonce for address %s on chain %s: %w'' [e])
      | Inr nonce \<Rightarrow>
          Inr \<lparr>TxTo = to, TxNonce = nonce, TxGasFeeCap = adjustGasFeeCap cl gasFeeCap,
               TxGasTipCap = adjustGasTipCap cl gasTipCap, TxGas = gasLimit, TxData = bz\<rparr>)))))"

text \<open>The hash of the sent transaction; the first component lists what was handed to the node.\<close>

definition evm_signAndSubmitData ::
  "eth_lib \<Rightarrow> evm_node \<Rightarrow> EVMBridgeClient \<Rightarrow> bytes \<Rightarrow> string \<Rightarrow> bytes list \<times> hash res" where
  "evm_signAndSubmitData lib node cl bz address =
     (case evm_newTx lib node cl bz address of
        Inl e \<Rightarrow> ([], Inl (Errorf ''creating tx to sign and submit: %w'' [e]))
      | Inr tx \<Rightarrow>
     (case SignTx lib (evm_signerAddress cl) tx of
        Inl e \<Rightarrow> ([], Inl (Errorf ''signing tx with address %s: %w'' [e]))
      | Inr signedTx \<Rightarrow>
     (case SendTransaction node signedTx of
        Some e \<Rightarrow> ([signedTx], Inl (Errorf ''sending signed transaction: %w'' [e]))
      | None \<Rightarrow> ([signedTx], Inr (SignedHash lib signedTx)))))"

text \<open>
  \<open>DeliverTx\<close>, alone under its lock, taken at \<open>now\<close>. The wait for the delay ends with it or
  with the end of the context; \<open>finish\<close> is the time of the result and of the deferred function
  right after it, taken as one reading of the clock. On the end
  of the context the variable \<open>err\<close> is still nil, so the time of the last submission is set
  there too. What was handed to the node is listed with its time.
\<close>

definition evm_DeliverTx ::
  "eth_lib \<Rightarrow> evm_node \<Rightarrow> go_error option \<Rightarrow> time \<Rightarrow> time \<Rightarrow> EVMBridgeClient \<Rightarrow> bytes \<Rightarrow> string \<Rightarrow>
   EVMBridgeClient \<times> (time \<times> bytes) list \<times> BridgeTx res" where
  "evm_DeliverTx lib node cancelled now finish cl bz address =
     (case cancelled of
        Some e \<Rightarrow> (cl\<lparr>lastSubmissionTime := finish\<rparr>, [], Inl e)
      | None \<Rightarrow>
     (let wake = max now (lastSubmissionTime cl + txSubmissionDelay cl) in
      case evm_signAndSubmitData lib node cl bz address of
        (sent, Inl e) \<Rightarrow> (cl, map (Pair wake) sent, Inl (Errorf ''signing and submitting data to %s: %w'' [e]))
      | (sent, Inr hash) \<Rightarrow>
          (cl\<lparr>lastSubmissionTime := finish\<rparr>, map (Pair wake) sent,
           Inr \<lparr>Hash = HashString lib hash, Timestamp = finish,
                RelayerAddress = AddressString lib (evm_signerAddress cl)\<rparr>)))"

section \<open>Other queries\<close>

definition evm_TxFee ::
  "eth_lib \<Rightarrow> evm_node \<Rightarrow> time \<Rightarrow> time \<Rightarrow> EVMBridgeClient \<Rightarrow> string \<Rightarrow> EVMBridgeClient \<times> int res" where
  "evm_TxFee lib node now later cl txHash =
     (case evm_receipt lib node now later txHash cl of
        (cl1, Inl e) \<Rightarrow> (cl1, Inl (Errorf ''getting transaction receipt for tx hash %s: %w'' [e]))
      | (cl1, Inr rc) \<Rightarrow> (cl1, Inr (EffectiveGasPrice rc * uint (GasUsed rc))))"

definition evm_SignerGasTokenBalance :: "evm_node \<Rightarrow> EVMBridgeClient \<Rightarrow> int res" where
  "evm_SignerGasTokenBalance node cl = BalanceAt node (evm_signerAddress cl)"

definition evm_GetTransactionSender :: "eth_lib \<Rightarrow> evm_node \<Rightarrow> EVMBridgeClient \<Rightarrow> string \<Rightarrow> string res" where
  "evm_GetTransactionSender lib node cl hash = evm_txSigner lib node cl (HexToHash lib hash)"

definition evm_TimestampAtHeight :: "evm_node \<Rightarrow> uint64 \<Rightarrow> time res" where
  "evm_TimestampAtHeight node height =
     (case HeaderByNumber node (Some (sint height)) of
        Inl e \<Rightarrow> Inl (Errorf ''getting block header at height %d: %w'' [e])
      | Inr header \<Rightarrow> Inr (time_Unix (HeaderTime header)))"

definition evm_LatestOnChainTimestamp ::
  "evm_node \<Rightarrow> time \<Rightarrow> time \<Rightarrow> time OnceWithKey \<Rightarrow> time OnceWithKey \<times> time res" where
  "evm_LatestOnChainTimestamp node now later latestTimestampOnce =
     Once_Do ''key''
       (case HeaderByNumber node None of
          Inl e \<Rightarrow> Inl (Errorf ''getting latest header on chain: %w'' [e])
        | Inr header \<Rightarrow> Inr (time_Unix (HeaderTime header))) now later latestTimestampOnce"

definition NewEVMBridgeClient ::
  "eth_lib \<Rightarrow> string \<Rightarrow> string \<Rightarrow> go_error option \<Rightarrow> go_error option \<Rightarrow> bytes \<Rightarrow> rat option \<Rightarrow> rat option \<Rightarrow>
   EVMBridgeClient res" where
  "NewEVMBridgeClient lib chainID routerAddress routerErr transferErr signerAddressBytes feeMultiplier tipMultiplier =
     (case routerErr of
        Some e \<Rightarrow> Inl (Errorf ''creating contract binding for ics26 router at %s: %w'' [e])
      | None \<Rightarrow>
     (case transferErr of
        Some e \<Rightarrow> Inl (Errorf ''creating contract binding for ics20 transfer at %s: %w'' [e])
      | None \<Rightarrow>
          if length signerAddressBytes \<noteq> 20
          then Inl (Errorf ''invalid signer address length: expected %d bytes, got %d bytes (failed to get address from remote signer)'' [])
          else
            Inr \<lparr>evm_chainID = chainID, evm_routerAddress = HexToAddress lib routerAddress,
                 evm_signerAddress = signerAddressBytes, lastSubmissionTime = zero_time,
                 txSubmissionDelay = 2 * second, txOnce = NewOnceWithKey minute (5 * second),
                 gasFeeCapMultiplier = feeMultiplier, gasTipCapMultiplier = tipMultiplier\<rparr>))"

record TendermintClientState =
  TrustingPeriod :: duration
  LatestHeight :: uint64

text \<open>
  \<open>ClientState\<close>: the router's answer for the client, the binding of the light client, and its
  answer, a trusting period in seconds and a height.
\<close>

definition evm_ClientState ::
  "(string \<Rightarrow> address res) \<Rightarrow> (address \<Rightarrow> go_error option) \<Rightarrow> (address \<Rightarrow> (uint32 \<times> uint64) res) \<Rightarrow> string \<Rightarrow>
   TendermintClientState res" where
  "evm_ClientState getClient newContract clientState clientID =
     (case getClient clientID of
        Inl e \<Rightarrow> Inl (Errorf ''getting client %s: %w'' [e])
      | Inr addr \<Rightarrow>
          if addr = replicate 20 0 then Inl (Errorf ''could not find client %s: %w'' [])
          else
     (case newContract addr of
        Some e \<Rightarrow> Inl (Errorf ''creating new instance of sp1 ics07 tendermint contract at address %s: %w'' [e])
      | None \<Rightarrow>
     (case clientState addr of
        Inl e \<Rightarrow> Inl (Errorf ''getting tendermint client state at address %s: %w'' [e])
      | Inr (trustingPeriod, revisionHeight) \<Rightarrow>
          Inr \<lparr>TrustingPeriod = uint trustingPeriod * second, LatestHeight = revisionHeight\<rparr>)))"

record SendTransferMsg =
  MsgDenom :: address
  MsgAmount :: int
  MsgReceiver :: string
  MsgSourceClient :: string
  MsgDestPort :: string
  MsgTimeoutTimestamp :: uint64
  MsgMemo :: string

text \<open>
  \<open>SendTransfer\<close> with the bindings of the two contracts as parameters: an approval when the
  allowance is too small, then the transfer, each waited for; \<open>None\<close> while it waits.
\<close>

definition evm_SendTransfer ::
  "eth_lib \<Rightarrow> go_error option \<Rightarrow> int res \<Rightarrow> (int \<Rightarrow> hash res) \<Rightarrow> (SendTransferMsg \<Rightarrow> hash res) \<Rightarrow>
   (hash \<Rightarrow> go_error option option) \<Rightarrow> time \<Rightarrow> string \<Rightarrow> string \<Rightarrow> string \<Rightarrow> int \<Rightarrow> string \<Rightarrow> string res option" where
  "evm_SendTransfer lib newContract allowance approve sendTransfer waitForTx now clientID denom receiver amount memo =
     (case newContract of
        Some e \<Rightarrow> Some (Inl (Errorf ''creating erc20 contract for denom %s: %w'' [e]))
      | None \<Rightarrow>
     (case allowance of
        Inl e \<Rightarrow> Some (Inl (Errorf ''getting current allowance for ics20 transfer %s to spend %s from wallet %s: %w'' [e]))
      | Inr currentApproval \<Rightarrow>
     (case (if currentApproval < amount then
              (case approve amount of
                 Inl e \<Rightarrow> Some (Some (Errorf ''approving %s to be spent from wallet %s by ics20 transfer %s: %w'' [e]))
               | Inr tx \<Rightarrow> map_option (map_option (\<lambda>e. Errorf ''waiting for receipt of erc20 approval tx %s: %w'' [e])) (waitForTx tx))
            else Some None) of
        None \<Rightarrow> None
      | Some (Some e) \<Rightarrow> Some (Inl e)
      | Some None \<Rightarrow>
     (case sendTransfer \<lparr>MsgDenom = HexToAddress lib denom, MsgAmount = amount, MsgReceiver = receiver,
             MsgSourceClient = clientID, MsgDestPort = ''transfer'',
             MsgTimeoutTimestamp = word_of_int ((now + 12 * 60 * minute) div second), MsgMemo = memo\<rparr> of
        Inl e \<Rightarrow> Some (Inl (Errorf ''sending transfer from %s of %s %s to %s from client %s: %w'' [e]))
      | Inr tx \<Rightarrow>
     (case waitForTx tx of
        None \<Rightarrow> None
      | Some (Some e) \<Rightarrow> Some (Inl (Errorf ''waiting for receipt of send transfer tx %s: %w'' [e]))
      | Some None \<Rightarrow> Some (Inr (HashString lib tx)))))))"

text \<open>
  The methods as the record of the interface the pipeline calls; a run of a stage sees the answers
  of the node at that moment. A stage that waits has run only when the wait has ended.
\<close>

definition evm_bridge ::
  "eth_lib \<Rightarrow> evm_node \<Rightarrow> go_error option \<Rightarrow> time \<Rightarrow> header res wait_event list \<Rightarrow> EVMBridgeClient \<Rightarrow> BridgeClient" where
  "evm_bridge lib node cancelled now ticks cl =
     \<lparr>IsPacketReceived = evm_IsPacketReceived lib node,
      IsPacketCommitted = evm_IsPacketCommitted lib node,
      FindRecvTx = evm_FindRecvTx lib node cl,
      FindAckTx = evm_FindAckTx lib node cl,
      FindTimeoutTx = evm_FindTimeoutTx lib node cl,
      DeliverTx = (\<lambda>bz to. snd (snd (evm_DeliverTx lib node cancelled now now cl bz to))),
      PacketWriteAckStatus = (\<lambda>h s c d. snd (evm_PacketWriteAckStatus lib node now now cl h s c d)),
      SendPacketsFromTx = evm_SendPacketsFromTx lib node,
      ShouldRetryTx = (\<lambda>h e t. snd (evm_ShouldRetryTx lib node now now cl h e t)),
      WaitForChain = the (evm_WaitForChain now ticks),
      IsTxFinalized = evm_IsTxFinalized lib node,
      IsTimestampFinalized = evm_IsTimestampFinalized lib node,
      BridgeChainType = ChainType_EVM,
      SignerGasTokenBalance = evm_SignerGasTokenBalance node cl,
      TxFee = (\<lambda>h. snd (evm_TxFee lib node now now cl h)),
      GetTransactionSender = evm_GetTransactionSender lib node cl\<rparr>"

section \<open>Facts\<close>

lemma length_BigEndian [simp]: "length (Uint64ToBigEndian w) = 8"
  by (simp add: Uint64ToBigEndian_def)

lemma BigEndian_inject [simp]: "Uint64ToBigEndian v = Uint64ToBigEndian w \<longleftrightarrow> v = w"
proof
  assume "Uint64ToBigEndian v = Uint64ToBigEndian w"
  then have eq: "(ucast (drop_bit (8 * i) v) :: 8 word) = ucast (drop_bit (8 * i) w)" if "i < 8" for i
    using that unfolding Uint64ToBigEndian_def map_eq_conv by simp
  show "v = w"
  proof (rule bit_word_eqI)
    fix n
    assume n: "n < LENGTH(64)"
    have "bit (ucast (drop_bit (8 * (n div 8)) v) :: 8 word) (n mod 8) =
        bit (ucast (drop_bit (8 * (n div 8)) w) :: 8 word) (n mod 8)"
      using eq [of "n div 8"] n by simp
    then show "bit v n = bit w n" by (simp add: bit_ucast_iff bit_drop_bit_eq)
  qed
qed simp

lemma commitment_path:
  "encodePacked [PString c, PByte k, PBytes (Uint64ToBigEndian s)] = Inr (string_bytes c @ k # Uint64ToBigEndian s)"
  by simp

text \<open>The first use of a key in \<open>txOnce\<close> asks the node.\<close>

lemma evm_receipt_first:
  assumes "onces (txOnce cl) (KeyString hash) = None"
  shows "snd (evm_receipt lib node now later hash cl) = TransactionReceipt node (HexToHash lib hash)"
  using assms by (simp add: evm_receipt_def Once_Do_def Do_enter_def Do_call_def newOnceWithTimeout_def Let_def split: prod.splits)

lemma evm_receipt_pair:
  assumes "onces (txOnce cl) (KeyString hash) = None"
  obtains cl1 where "evm_receipt lib node now later hash cl = (cl1, TransactionReceipt node (HexToHash lib hash))"
  using evm_receipt_first [OF assms] by (metis prod.collapse)

text \<open>The logs of an event, in order.\<close>

definition event_logs :: "eth_lib \<Rightarrow> string \<Rightarrow> log option list \<Rightarrow> log list" where
  "event_logs lib name ls = filter (\<lambda>l. Topics l \<noteq> [] \<and> hd (Topics l) = EventID lib name) (List.map_filter id ls)"

lemma event_logs_simps [simp]:
  "event_logs lib name [] = []" "event_logs lib name (None # ls) = event_logs lib name ls"
  "event_logs lib name (Some l # ls) =
     (if Topics l \<noteq> [] \<and> hd (Topics l) = EventID lib name then l # event_logs lib name ls else event_logs lib name ls)"
  by (simp_all add: event_logs_def)

lemma evm_ack_loop_find:
  assumes "\<And>l. l \<in> set (event_logs lib ''WriteAcknowledgement'' ls) \<Longrightarrow> ParseWriteAcknowledgement lib l = Inr (f l)"
  shows "evm_ack_loop lib sequence src dst ls =
     (case find (\<lambda>(p, acks). RPSequence p = sequence \<and> RPSourceClient p = src \<and> RPDestClient p = dst)
             (map f (event_logs lib ''WriteAcknowledgement'' ls)) of
        None \<Rightarrow> Inl (Sentinel ErrWriteAckNotFoundForPacket)
      | Some (p, acks) \<Rightarrow> Inr (if acks = [ErrorAcknowledgement] then ERROR else SUCCESS))"
  using assms
proof (induction lib sequence src dst ls rule: evm_ack_loop.induct)
  case (3 lib sequence src dst l ls)
  show ?case
  proof (cases "Topics l \<noteq> [] \<and> hd (Topics l) = EventID lib ''WriteAcknowledgement''")
    case True
    moreover obtain p acks where p: "f l = (p, acks)" by (cases "f l")
    moreover have "ParseWriteAcknowledgement lib l = Inr (f l)" using "3.prems" [of l] True by simp
    ultimately show ?thesis using 3 by auto
  next
    case False
    then show ?thesis using 3 by auto
  qed
qed simp_all

lemma evm_send_loop_map:
  assumes "\<And>l. l \<in> set (event_logs lib ''SendPacket'' ls) \<Longrightarrow> ParseSendPacket lib l = Inr (f l)"
  shows "evm_send_loop lib ls = Inr (map (\<lambda>l. \<lparr>Sequence = RPSequence (f l), SourceClient = RPSourceClient (f l),
      DestinationClient = RPDestClient (f l), TimeoutTimestamp = time_Unix (RPTimeoutTimestamp (f l)),
      PacketTimestamp = zero_time\<rparr>) (event_logs lib ''SendPacket'' ls))"
  using assms by (induction lib ls rule: evm_send_loop.induct) auto

section \<open>Properties\<close>


text \<open>
  C26. With an offset a transaction is final exactly when its block lies at least the offset below
  the latest one: the unsigned subtraction never wraps around.
\<close>

theorem evm_finality_offset:
  assumes "TransactionReceipt node (HexToHash lib txHash) = Inr rc" "HeaderByNumber node None = Inr latest"
    and "0 \<le> BlockNumber rc" "BlockNumber rc < 2 ^ 64" "0 \<le> HeaderNumber latest" "HeaderNumber latest < 2 ^ 64"
  shows "evm_IsTxFinalized lib node txHash (Some off) = Inr (BlockNumber rc + uint off \<le> HeaderNumber latest)"
proof -
  have u: "uint (big_Uint64 (BlockNumber rc)) = BlockNumber rc" "uint (big_Uint64 (HeaderNumber latest)) = HeaderNumber latest"
    using assms(3-6) by (simp_all add: big_Uint64_def uint_word_of_int_eq take_bit_int_eq_self)
  have "(big_Uint64 (BlockNumber rc) \<le> big_Uint64 (HeaderNumber latest) \<and>
      off \<le> big_Uint64 (HeaderNumber latest) - big_Uint64 (BlockNumber rc)) \<longleftrightarrow> BlockNumber rc + uint off \<le> HeaderNumber latest"
  proof (cases "big_Uint64 (BlockNumber rc) \<le> big_Uint64 (HeaderNumber latest)")
    case True
    then have "uint (big_Uint64 (HeaderNumber latest) - big_Uint64 (BlockNumber rc)) = HeaderNumber latest - BlockNumber rc"
      using u by (simp add: uint_minus_simple_alt [THEN iffD1])
    then show ?thesis using True by (simp add: word_le_def) linarith
  next
    case False
    then show ?thesis using u by (simp add: word_le_def) (use uint_ge_0 [of off] in linarith)
  qed
  then show ?thesis using assms(1,2) by (simp add: evm_IsTxFinalized_def Let_def)
qed


text \<open>
  C24. The packets of a transaction are those of its \<open>SendPacket\<close> logs, all of them, in their
  order, each with the time of the block.
\<close>

theorem evm_send_packets:
  assumes "GetAbi lib = None" "TransactionReceipt node (HexToHash lib txHash) = Inr rc"
    and "HeaderByNumber node (Some (BlockNumber rc)) = Inr header"
    and "\<And>l. l \<in> set (event_logs lib ''SendPacket'' (Logs rc)) \<Longrightarrow> ParseSendPacket lib l = Inr (f l)"
  shows "evm_SendPacketsFromTx lib node chain txHash =
    Inr (map (\<lambda>l. \<lparr>Sequence = RPSequence (f l), SourceClient = RPSourceClient (f l), DestinationClient = RPDestClient (f l),
      TimeoutTimestamp = time_Unix (RPTimeoutTimestamp (f l)), PacketTimestamp = time_Unix (HeaderTime header)\<rparr>)
      (event_logs lib ''SendPacket'' (Logs rc)))"
proof -
  have "evm_send_loop lib (Logs rc) = Inr (map (\<lambda>l. \<lparr>Sequence = RPSequence (f l), SourceClient = RPSourceClient (f l),
      DestinationClient = RPDestClient (f l), TimeoutTimestamp = time_Unix (RPTimeoutTimestamp (f l)),
      PacketTimestamp = zero_time\<rparr>) (event_logs lib ''SendPacket'' (Logs rc)))"
    by (rule evm_send_loop_map) (rule assms(4))
  then show ?thesis using assms(1-3)
    by (cases "event_logs lib ''SendPacket'' (Logs rc)") (simp_all add: evm_SendPacketsFromTx_def)
qed

text \<open>
  \<open>WaitForTx\<close> does not time out while the node answers with an error, as it does for a
  transaction it has not seen: after any number of such ticks, at any times, it still waits.
\<close>

lemma evm_wait_ignores_timeout:
  assumes "\<And>ev. ev \<in> set evs \<Longrightarrow> \<exists>t e. ev = TickAt t (Inl e)"
  shows "evm_WaitForTx start evs = None"
  using assms
proof (induction evs)
  case (Cons ev evs)
  then obtain t e where "ev = TickAt t (Inl e)" by (meson list.set_intros(1))
  then show ?case using Cons by simp
qed simp

text \<open>
  C32. With whole multipliers the caps of a new transaction are exact, and the fee cap is not below
  the tip cap, as the chain demands, when the multiplier of the tip is not the larger one.
\<close>

theorem evm_fee_caps:
  assumes "evm_newTx lib node cl bz to = Inr tx" "HeaderByNumber node None = Inr head" "SuggestGasTipCap node = Inr tip"
    and "gasFeeCapMultiplier cl = Some (of_int k)" "gasTipCapMultiplier cl = Some (of_int j)" "0 \<le> j" "j \<le> k"
    and "0 \<le> tip" "0 \<le> BaseFee head" "(tip + BaseFee head * 2) * k < 2 ^ 64"
  shows "TxGasFeeCap tx = (tip + BaseFee head * 2) * k \<and> TxGasTipCap tx = tip * j \<and> TxGasTipCap tx \<le> TxGasFeeCap tx"
proof -
  have tip: "tip * j \<le> (tip + BaseFee head * 2) * k" using assms(6-9) by (intro mult_mono) auto
  have "TxGasFeeCap tx = float_scale (tip + BaseFee head * 2) (of_int k)" "TxGasTipCap tx = float_scale tip (of_int j)"
    using assms(1-5) by (auto simp: evm_newTx_def Let_def adjustGasFeeCap_def adjustGasTipCap_def split: sum.splits if_splits)
  then show ?thesis using float_scale_whole [of "tip + BaseFee head * 2" k] float_scale_whole [of tip j] assms(6-10) tip by simp
qed

section \<open>A sample chain\<close>

text \<open>One transaction in block 90 of 100, with a send and a write acknowledgement; the library is simple.\<close>

definition sample_router_packet :: router_packet where
  "sample_router_packet = \<lparr>RPSequence = 7, RPSourceClient = ''ca'', RPDestClient = ''cb'', RPTimeoutTimestamp = 100\<rparr>"

definition sample_lib :: eth_lib where
  "sample_lib =
     \<lparr>Keccak256Hash = (\<lambda>b. b), HexToHash = string_bytes, HashString = (\<lambda>h. ''0x''), HexToAddress = string_bytes,
      AddressString = (\<lambda>a. ''0xAB''), GetAbi = None, EventID = string_bytes,
      MakeTopics = (\<lambda>e c s. Inr [[e], [string_bytes c], [Uint64ToBigEndian s]]),
      ParseWriteAcknowledgement = (\<lambda>l. Inr (sample_router_packet, [LogData l])),
      ParseAckPacket = (\<lambda>l. Inr sample_router_packet), ParseTimeoutPacket = (\<lambda>l. Inr sample_router_packet),
      ParseSendPacket = (\<lambda>l. Inr sample_router_packet), Sender = (\<lambda>c tx. Inr []), FinalizedBlockNumber = -3,
      SignTx = (\<lambda>a tx. Inr (TxData tx)), SignedHash = (\<lambda>b. b)\<rparr>"

definition sample_receipt :: receipt where
  "sample_receipt =
     \<lparr>Logs = [None, Some \<lparr>Topics = [string_bytes ''SendPacket''], LogBlockNumber = 90, LogTxHash = [], LogData = []\<rparr>,
        Some \<lparr>Topics = [string_bytes ''WriteAcknowledgement''], LogBlockNumber = 90, LogTxHash = [], LogData = [1]\<rparr>],
      ReceiptStatus = 1, BlockNumber = 90, EffectiveGasPrice = 3, GasUsed = 5\<rparr>"

definition sample_header :: header where
  "sample_header = \<lparr>HeaderNumber = 100, HeaderTime = 50, BaseFee = 10\<rparr>"

definition sample_node :: evm_node where
  "sample_node =
     \<lparr>GetCommitment = (\<lambda>h. Inr unwritten), FilterLogs = (\<lambda>a t. Inr []), HeaderByNumber = (\<lambda>n. Inr sample_header),
      TransactionReceipt = (\<lambda>h. Inr sample_receipt), TransactionByHash = (\<lambda>h. Inr []), SuggestGasTipCap = Inr 2,
      PendingCodeAt = (\<lambda>a. Inr [1]), EstimateGas = (\<lambda>f t b. Inr 21), PendingNonceAt = (\<lambda>a. Inr 0),
      SendTransaction = (\<lambda>b. None), BalanceAt = (\<lambda>a. Inr 0)\<rparr>"

definition sample_evm_client :: EVMBridgeClient where
  "sample_evm_client =
     \<lparr>evm_chainID = ''1'', evm_routerAddress = [], evm_signerAddress = [], lastSubmissionTime = 0, txSubmissionDelay = 2,
      txOnce = NewOnceWithKey 60 5, gasFeeCapMultiplier = Some 3, gasTipCapMultiplier = Some 2\<rparr>"

lemmas sample_evm_defs = sample_lib_def sample_receipt_def sample_header_def sample_node_def sample_evm_client_def
  sample_router_packet_def

theorem evm_finality_offset_witness:
  "evm_IsTxFinalized sample_lib sample_node ''tx'' (Some 10) = Inr True \<and>
   evm_IsTxFinalized sample_lib sample_node ''tx'' (Some 11) = Inr False"
  using evm_finality_offset [of sample_node sample_lib "''tx''" sample_receipt sample_header 10]
    evm_finality_offset [of sample_node sample_lib "''tx''" sample_receipt sample_header 11]
  by (simp add: sample_evm_defs)


theorem evm_send_packets_witness:
  "evm_SendPacketsFromTx sample_lib sample_node ''a'' ''tx'' =
     Inr [\<lparr>Sequence = 7, SourceClient = ''ca'', DestinationClient = ''cb'', TimeoutTimestamp = time_Unix 100,
           PacketTimestamp = time_Unix 50\<rparr>]"
  using evm_send_packets [of sample_lib sample_node "''tx''" sample_receipt sample_header "\<lambda>l. sample_router_packet" "''a''"]
  by (simp add: sample_evm_defs)

theorem evm_fee_caps_witness:
  "\<exists>tx. evm_newTx sample_lib sample_node sample_evm_client [1] ''router'' = Inr tx \<and> TxGasFeeCap tx = 66 \<and> TxGasTipCap tx = 4"
proof -
  obtain tx where tx: "evm_newTx sample_lib sample_node sample_evm_client [1] ''router'' = Inr tx"
    by (simp add: evm_newTx_def sample_evm_defs)
  from evm_fee_caps [OF tx, of sample_header 2 3 2] tx show ?thesis
    by (simp add: sample_evm_defs)
qed

end
