(* ===== verification/Relayer_Cosmos.thy ===== *)
theory Relayer_Cosmos
  imports Relayer_Bridge Relayer_Once Relayer_Float Relayer_Strings "HOL-Library.Multiset"
begin

text \<open>
  The bridge client of a Cosmos chain, \<open>shared/bridges/ibcv2/cosmos_bridge_client.go\<close>.

  \<^item> \<open>cosmos_lib\<close> holds what the client takes from the SDK and from protobuf: decoding, bech32,
    signing and encoding. \<open>cosmos_node\<close> holds the answers of the node. Both are parameters.
  \<^item> \<open>CosmosBridgeClient\<close> is the client's own state; a transaction result comes through
    \<open>txOnce\<close>.
\<close>

section \<open>Library and node\<close>

type_synonym attribute = "string \<times> string"

record event =
  EventType :: string
  Attributes :: "attribute list"

record ResultTx =
  TxHashBytes :: bytes
  TxHeight :: int
  TxCode :: uint32
  TxEvents :: "event list"
  RawTx :: bytes

text \<open>The messages the client tells apart, with their signers; the others by their type URL.\<close>

datatype sdk_msg =
    MsgRecvPacket string bytes
  | MsgAcknowledgement string bytes
  | MsgTimeout string bytes
  | MsgUpdateClient bytes
  | MsgOther string bytes

text \<open>
  What the transaction builder has been given: the messages, the gas limit once it is set, the coin
  of the fee once it is set. \<open>SignCosmosTx\<close> of the library signs it for a chain.
\<close>

record cosmos_tx =
  CtMsgs :: "sdk_msg list"
  CtGasLimit :: "uint64 option"
  CtFee :: "(string \<times> int) option"
  CtAccountNumber :: uint64
  CtSequence :: uint64

text \<open>
  \<open>HugeToUint64\<close> is the conversion of a \<open>float64\<close> of \<open>2^64\<close> and more, which the language
  leaves to the implementation. \<open>TxDecoder\<close> gives the messages and, when the transaction is an
  \<open>sdk.FeeTx\<close>, the amounts of its fee.
\<close>

record cosmos_lib =
  StatusCode :: "go_error \<Rightarrow> nat option"
  HexBytesString :: "bytes \<Rightarrow> string"
  UnmarshalAcknowledgement :: "bytes \<Rightarrow> bytes list res"
  UnmarshalTxBody :: "bytes \<Rightarrow> bytes list res"
  UnpackAny :: "bytes \<Rightarrow> sdk_msg res"
  TxDecoder :: "bytes \<Rightarrow> (sdk_msg list \<times> (string \<Rightarrow> int) option) res"
  ConvertAndEncode :: "string \<Rightarrow> bytes \<Rightarrow> string res"
  SetMsgs :: "sdk_msg list \<Rightarrow> go_error option"
  SignCosmosTx :: "string \<Rightarrow> cosmos_tx \<Rightarrow> bytes res"
  HugeToUint64 :: "rat \<Rightarrow> uint64"
  TxEncoder :: "bytes \<Rightarrow> bytes res"

record cosmos_node =
  PacketReceipt :: "string \<Rightarrow> uint64 \<Rightarrow> bool res"
  PacketCommitment :: "string \<Rightarrow> uint64 \<Rightarrow> unit res"
  TxSearch :: "string \<Rightarrow> (int \<times> ResultTx list) res"
  CometHeader :: "int option \<Rightarrow> time option res"
  CometTx :: "bytes \<Rightarrow> ResultTx res"
  AccountInfo :: "string \<Rightarrow> (uint64 \<times> uint64) option res"
  Simulate :: "bytes \<Rightarrow> uint64 option res"
  BroadcastTxSync :: "bytes \<Rightarrow> (uint32 \<times> bytes) res"
  BankBalance :: "string \<Rightarrow> string \<Rightarrow> int option res"

record CosmosBridgeClient =
  cosmos_chainID :: string
  cosmos_signer :: bytes
  cosmos_prefix :: string
  cosmos_gasPrice :: rat
  cosmos_feeDenom :: string
  cosmos_feeAmount :: uint64
  cosmos_txOnce :: "ResultTx OnceWithKey"
  cosmos_lastSubmissionTime :: time
  cosmos_txSubmissionDelay :: duration
  cosmos_latestTimestampOnce :: "time OnceWithKey"

definition NewCosmosBridgeClient ::
  "string \<Rightarrow> bytes \<Rightarrow> string \<Rightarrow> rat \<Rightarrow> string \<Rightarrow> uint64 \<Rightarrow> CosmosBridgeClient" where
  "NewCosmosBridgeClient chainID signer prefix gasPrice feeDenom feeAmount =
     \<lparr>cosmos_chainID = chainID, cosmos_signer = signer, cosmos_prefix = prefix, cosmos_gasPrice = gasPrice,
      cosmos_feeDenom = feeDenom, cosmos_feeAmount = feeAmount, cosmos_txOnce = NewOnceWithKey minute (5 * second),
      cosmos_lastSubmissionTime = zero_time, cosmos_txSubmissionDelay = 8 * second,
      cosmos_latestTimestampOnce = NewOnceWithKey (6 * second) (200 * millisecond)\<rparr>"

section \<open>Packets\<close>

definition cosmos_IsPacketReceived :: "cosmos_node \<Rightarrow> string \<Rightarrow> uint64 \<Rightarrow> bool res" where
  "cosmos_IsPacketReceived node destinationClientID sequence =
     (case PacketReceipt node destinationClientID sequence of
        Inl e \<Rightarrow> Inl (Errorf ''querying for packet receipt with sequence number %d to destination client %s: %w'' [e])
      | Inr received \<Rightarrow> Inr received)"

text \<open>The gRPC code \<open>NotFound\<close> is 5.\<close>

definition cosmos_IsPacketCommitted :: "cosmos_lib \<Rightarrow> cosmos_node \<Rightarrow> string \<Rightarrow> uint64 \<Rightarrow> bool res" where
  "cosmos_IsPacketCommitted lib node sourceClientID sequence =
     (case PacketCommitment node sourceClientID sequence of
        Inl e \<Rightarrow>
          if StatusCode lib e = Some 5 then Inr False
          else Inl (Errorf ''querying for packet commitment with sequence number %d to source client %s: %w'' [e])
      | Inr _ \<Rightarrow> Inr True)"

section \<open>Finding transactions\<close>

text \<open>The signer of the first message that relays a packet.\<close>

fun msg_signer :: "sdk_msg list \<Rightarrow> string res" where
  "msg_signer [] = Inl (Errorf ''expected recv packet, ack packet, or timeout packet msg but found none'' [])"
| "msg_signer (MsgRecvPacket signer b # ms) = Inr signer"
| "msg_signer (MsgAcknowledgement signer b # ms) = Inr signer"
| "msg_signer (MsgTimeout signer b # ms) = Inr signer"
| "msg_signer (_ # ms) = msg_signer ms"

definition cosmos_txSigner :: "cosmos_lib \<Rightarrow> ResultTx \<Rightarrow> string res" where
  "cosmos_txSigner lib result =
     (case TxDecoder lib (RawTx result) of
        Inl e \<Rightarrow> Inl (Errorf ''decoding tx result: %w'' [e])
      | Inr (msgs, fee) \<Rightarrow> msg_signer msgs)"

text \<open>A condition of a search: \<open>type.key='value'\<close> or \<open>type.key=number\<close>; conditions are joined.\<close>

definition cond_str :: "string \<Rightarrow> string \<Rightarrow> string \<Rightarrow> string" where
  "cond_str ty key v = ty @ ''.'' @ key @ ''='' @ [CHR 0x27] @ v @ [CHR 0x27]"

definition cond_num :: "string \<Rightarrow> string \<Rightarrow> int \<Rightarrow> string" where
  "cond_num ty key n = ty @ ''.'' @ key @ ''='' @ strconv_Itoa n"

fun strings_Join :: "string list \<Rightarrow> string \<Rightarrow> string" where
  "strings_Join [] sep = []"
| "strings_Join [s] sep = s"
| "strings_Join (s # s' # ss) sep = s @ sep @ strings_Join (s' # ss) sep"

text \<open>
  The body the three searches share, from the query on. Reading the first result of an empty
  page panics.
\<close>

definition cosmos_search ::
  "string \<Rightarrow> string \<Rightarrow> string \<Rightarrow> cosmos_lib \<Rightarrow> cosmos_node \<Rightarrow> string list \<Rightarrow> BridgeTx res outcome" where
  "cosmos_search searchMsg heightMsg nilMsg lib node conds =
     (case TxSearch node (strings_Join conds '' AND '') of
        Inl e \<Rightarrow> Ret (Inl (Errorf searchMsg [e]))
      | Inr (totalCount, txs) \<Rightarrow>
          if totalCount = 0 then Ret (Inl (Sentinel ErrTxNotFound))
          else if totalCount \<noteq> 1 then Ret (Inl (Errorf ''expected only 1 tx, but got %d'' []))
          else
     (case txs of
        [] \<Rightarrow> Panic
      | tx # _ \<Rightarrow>
     (case CometHeader node (Some (TxHeight tx)) of
        Inl e \<Rightarrow> Ret (Inl (Errorf heightMsg [e]))
      | Inr None \<Rightarrow> Ret (Inl (Errorf nilMsg []))
      | Inr (Some t) \<Rightarrow>
          Ret (Inr \<lparr>Hash = HexBytesString lib (TxHashBytes tx), Timestamp = t,
                    RelayerAddress = (case cosmos_txSigner lib tx of Inl e \<Rightarrow> [] | Inr signer \<Rightarrow> signer)\<rparr>))))"

definition cosmos_FindRecvTx ::
  "cosmos_lib \<Rightarrow> cosmos_node \<Rightarrow> string \<Rightarrow> string \<Rightarrow> uint64 \<Rightarrow> time \<Rightarrow> BridgeTx res outcome" where
  "cosmos_FindRecvTx lib node sourceClientID destClientID sequence timeoutTimestamp =
     cosmos_search
       ''searching for recv tx from source client %s to dest client %s with sequence %d and timeout tx %d: %w''
       ''fetching block header at recv tx height %d: %w''
       ''fetched block header at recv tx height %d without err but header was nil'' lib node
       [cond_str ''recv_packet'' ''packet_source_client'' sourceClientID,
        cond_str ''recv_packet'' ''packet_dest_client'' destClientID,
        cond_num ''recv_packet'' ''packet_sequence'' (uint sequence),
        cond_num ''recv_packet'' ''packet_timeout_timestamp'' (unix_seconds timeoutTimestamp)]"

definition cosmos_FindAckTx ::
  "cosmos_lib \<Rightarrow> cosmos_node \<Rightarrow> string \<Rightarrow> string \<Rightarrow> uint64 \<Rightarrow> BridgeTx res outcome" where
  "cosmos_FindAckTx lib node sourceClientID destClientID sequence =
     cosmos_search
       ''searching for ack tx from source client %s to dest client %s with sequence %d: %w''
       ''fetching block header at ack tx height %d: %w''
       ''fetched block header at ack tx height %d without err but header was nil'' lib node
       [cond_str ''acknowledge_packet'' ''packet_source_client'' sourceClientID,
        cond_str ''acknowledge_packet'' ''packet_dest_client'' destClientID,
        cond_num ''acknowledge_packet'' ''packet_sequence'' (uint sequence)]"

definition cosmos_FindTimeoutTx ::
  "cosmos_lib \<Rightarrow> cosmos_node \<Rightarrow> string \<Rightarrow> string \<Rightarrow> uint64 \<Rightarrow> BridgeTx res outcome" where
  "cosmos_FindTimeoutTx lib node sourceClientID destClientID sequence =
     cosmos_search
       ''searching for timeout tx from source client %s to dest client %s with sequence %d: %w''
       ''fetching block header at timeout tx height %d: %w''
       ''fetched block header at timeout tx height %d without err but header was nil'' lib node
       [cond_str ''timeout_packet'' ''packet_source_client'' sourceClientID,
        cond_str ''timeout_packet'' ''packet_dest_client'' destClientID,
        cond_num ''timeout_packet'' ''packet_sequence'' (uint sequence)]"

section \<open>Reading a transaction\<close>

text \<open>A transaction result through \<open>txOnce\<close>.\<close>

definition cosmos_result ::
  "cosmos_node \<Rightarrow> time \<Rightarrow> time \<Rightarrow> string \<Rightarrow> bytes \<Rightarrow> CosmosBridgeClient \<Rightarrow> CosmosBridgeClient \<times> ResultTx res" where
  "cosmos_result node now later hash hashBytes cl =
     (case Once_Do hash (CometTx node hashBytes) now later (cosmos_txOnce cl) of
        (m, res) \<Rightarrow> (cl\<lparr>cosmos_txOnce := m\<rparr>, res))"

text \<open>The three flags after the loop over the attributes of an event.\<close>

definition ack_event_matches :: "uint64 \<Rightarrow> string \<Rightarrow> string \<Rightarrow> event \<Rightarrow> bool" where
  "ack_event_matches sequence sourceClientID destClientID ev \<longleftrightarrow>
     list_ex (\<lambda>(k, v). k = ''packet_sequence'' \<and> v = strconv_Itoa (sint sequence)) (Attributes ev) \<and>
     list_ex (\<lambda>(k, v). k = ''packet_source_client'' \<and> v = sourceClientID) (Attributes ev) \<and>
     list_ex (\<lambda>(k, v). k = ''packet_dest_client'' \<and> v = destClientID) (Attributes ev)"

fun parseWriteAckStatus_loop :: "cosmos_lib \<Rightarrow> attribute list \<Rightarrow> Ibcv2WriteAckStatus res" where
  "parseWriteAckStatus_loop lib [] = Inr UNKNOWN"
| "parseWriteAckStatus_loop lib ((k, v) # as) =
     (if k \<noteq> ''encoded_acknowledgement_hex'' then parseWriteAckStatus_loop lib as
      else
        (case hex_DecodeString v of
           Inl e \<Rightarrow> Inl (Errorf ''%w:%w'' [Sentinel ErrWriteAckDecoding, e])
         | Inr b \<Rightarrow>
        (case UnmarshalAcknowledgement lib b of
           Inl e \<Rightarrow> Inl (Errorf ''%w:%w'' [Sentinel ErrWriteAckDecoding, e])
         | Inr acks \<Rightarrow> Inr (if acks = [ErrorAcknowledgement] then ERROR else SUCCESS))))"

definition parseWriteAckStatusForPacket :: "cosmos_lib \<Rightarrow> event \<Rightarrow> Ibcv2WriteAckStatus res" where
  "parseWriteAckStatusForPacket lib ev = parseWriteAckStatus_loop lib (Attributes ev)"

definition cosmos_PacketWriteAckStatus ::
  "cosmos_lib \<Rightarrow> cosmos_node \<Rightarrow> time \<Rightarrow> time \<Rightarrow> CosmosBridgeClient \<Rightarrow> string \<Rightarrow> uint64 \<Rightarrow> string \<Rightarrow> string \<Rightarrow>
   CosmosBridgeClient \<times> Ibcv2WriteAckStatus res" where
  "cosmos_PacketWriteAckStatus lib node now later cl hash sequence sourceClientID destClientID =
     (case hex_DecodeString hash of
        Inl e \<Rightarrow> (cl, Inl (Errorf ''hex decoding tx hash string %s: %w'' [e]))
      | Inr hashBytes \<Rightarrow>
     (case cosmos_result node now later hash hashBytes cl of
        (cl1, Inl e) \<Rightarrow>
          (cl1, if error_Contains e ''not found'' then Inl (Sentinel ErrTxNotFound)
                else Inl (Errorf ''getting tx %s's result: %w'' [e]))
      | (cl1, Inr tx) \<Rightarrow>
          (cl1,
           case find (\<lambda>ev. EventType ev = ''write_acknowledgement'' \<and> ack_event_matches sequence sourceClientID destClientID ev)
                  (TxEvents tx) of
             None \<Rightarrow> Inl (Sentinel ErrWriteAckNotFoundForPacket)
           | Some ev \<Rightarrow> parseWriteAckStatusForPacket lib ev)))"

text \<open>The loop over the attributes of a \<open>send_packet\<close> event.\<close>

fun send_attributes :: "attribute list \<Rightarrow> PacketInfo \<Rightarrow> PacketInfo res" where
  "send_attributes [] p = Inr p"
| "send_attributes ((k, v) # as) p =
     (if k = ''packet_sequence'' then
        (case strconv_Atoi v of
           Inl e \<Rightarrow> Inl (Errorf ''converting packet sequence %s to int'' [])
         | Inr n \<Rightarrow> send_attributes as (p\<lparr>Sequence := word_of_int n\<rparr>))
      else if k = ''packet_source_client'' then send_attributes as (p\<lparr>SourceClient := v\<rparr>)
      else if k = ''packet_dest_client'' then send_attributes as (p\<lparr>DestinationClient := v\<rparr>)
      else if k = ''packet_timeout_timestamp'' then
        (case strconv_Atoi v of
           Inl e \<Rightarrow> Inl (Errorf ''converting attribute timeout ts %s to int'' [])
         | Inr n \<Rightarrow> send_attributes as (p\<lparr>TimeoutTimestamp := n * second\<rparr>))
      else send_attributes as p)"

definition empty_packet :: PacketInfo where
  "empty_packet = \<lparr>Sequence = 0, SourceClient = [], DestinationClient = [], TimeoutTimestamp = zero_time,
     PacketTimestamp = zero_time\<rparr>"

fun cosmos_send_loop :: "event list \<Rightarrow> PacketInfo list res" where
  "cosmos_send_loop [] = Inr []"
| "cosmos_send_loop (ev # evs) =
     (if EventType ev \<noteq> ''send_packet'' then cosmos_send_loop evs
      else
        (case send_attributes (Attributes ev) empty_packet of
           Inl e \<Rightarrow> Inl e
         | Inr p \<Rightarrow>
             if SourceClient p = [] \<or> DestinationClient p = [] then cosmos_send_loop evs
             else map_sum id (\<lambda>ps. p # ps) (cosmos_send_loop evs)))"

definition cosmos_SendPacketsFromTx :: "cosmos_node \<Rightarrow> string \<Rightarrow> string \<Rightarrow> PacketInfo list res" where
  "cosmos_SendPacketsFromTx node sourceChainID txHash =
     (case hex_DecodeString txHash of
        Inl e \<Rightarrow> Inl (Errorf ''hex decoding tx hash: %w'' [e])
      | Inr hashBytes \<Rightarrow>
     (case CometTx node hashBytes of
        Inl e \<Rightarrow> Inl (Errorf ''getting tx result: %w'' [e])
      | Inr tx \<Rightarrow>
     (case cosmos_send_loop (TxEvents tx) of
        Inl e \<Rightarrow> Inl e
      | Inr [] \<Rightarrow> Inr []
      | Inr packets \<Rightarrow>
     (case CometHeader node (Some (TxHeight tx)) of
        Inl e \<Rightarrow> Inl (Errorf ''getting header for height %d: %w'' [e])
      | Inr None \<Rightarrow> Inl (Errorf ''got nil header at height %d'' [])
      | Inr (Some t) \<Rightarrow> Inr (map (\<lambda>p. p\<lparr>PacketTimestamp := t\<rparr>) packets)))))"

section \<open>Retrying, finality and waiting\<close>

definition cosmos_ShouldRetryTx ::
  "cosmos_node \<Rightarrow> time \<Rightarrow> time \<Rightarrow> CosmosBridgeClient \<Rightarrow> string \<Rightarrow> duration \<Rightarrow> time \<Rightarrow> CosmosBridgeClient \<times> bool res" where
  "cosmos_ShouldRetryTx node now later cl txHash expiry sentTs =
     (case hex_DecodeString txHash of
        Inl e \<Rightarrow> (cl, Inl (Errorf ''decoding hex tx hash %s to bytes: %w'' [e]))
      | Inr txHashBytes \<Rightarrow>
     (case cosmos_result node now later txHash txHashBytes cl of
        (cl1, Inl e) \<Rightarrow>
          (cl1,
           if error_Contains e ''not found'' then
             (case CometHeader node None of
                Inl e' \<Rightarrow> Inl (Errorf ''getting latest block header: %w'' [e'])
              | Inr None \<Rightarrow> Inl (Errorf ''fetched block header at latest height without err but header was nil'' [])
              | Inr (Some t) \<Rightarrow> if sentTs + expiry < t then Inr True else Inl (Sentinel ErrTxNotFound))
           else Inl (Errorf ''fetching tx %s on chain: %w'' [e]))
      | (cl1, Inr resp) \<Rightarrow> (cl1, Inr (TxCode resp \<noteq> 0))))"

fun cosmos_WaitForChain :: "time \<Rightarrow> time option res wait_event list \<Rightarrow> go_error option option" where
  "cosmos_WaitForChain now [] = None"
| "cosmos_WaitForChain now (CtxEnd e # evs) = Some (Some e)"
| "cosmos_WaitForChain now (TickAt t answer # evs) =
     (case answer of
        Inl e \<Rightarrow> Some (Some (Errorf ''getting latest block header: %w'' [e]))
      | Inr None \<Rightarrow> Some (Some (Errorf ''latest header was nil'' []))
      | Inr (Some latest) \<Rightarrow> if now < latest then Some None else cosmos_WaitForChain now evs)"

definition cosmos_IsTxFinalized :: "string \<Rightarrow> uint64 option \<Rightarrow> bool res" where
  "cosmos_IsTxFinalized txHash offset = Inr True"

definition cosmos_IsTimestampFinalized :: "cosmos_node \<Rightarrow> time \<Rightarrow> uint64 option \<Rightarrow> bool res" where
  "cosmos_IsTimestampFinalized node timestamp offset =
     (case CometHeader node None of
        Inl e \<Rightarrow> Inl (Errorf ''getting latest header: %w'' [e])
      | Inr None \<Rightarrow> Inl (Errorf ''got nil header when fetching latest header'' [])
      | Inr (Some t) \<Rightarrow> Inr (timestamp < t))"

fun cosmos_wait_loop :: "time \<Rightarrow> ResultTx option res wait_event list \<Rightarrow> go_error option option" where
  "cosmos_wait_loop start [] = None"
| "cosmos_wait_loop start (CtxEnd e # evs) = Some (Some e)"
| "cosmos_wait_loop start (TickAt t answer # evs) =
     (case answer of
        Inl e \<Rightarrow>
          if error_Contains e ''not found'' then cosmos_wait_loop start evs
          else Some (Some (Errorf ''getting tx result: %w'' [e]))
      | Inr (Some result) \<Rightarrow> Some None
      | Inr None \<Rightarrow>
          if minute < time_Sub t start
          then Some (Some (Errorf ''timeout after waiting %s for transaction result'' []))
          else cosmos_wait_loop start evs)"

definition cosmos_WaitForTx :: "time \<Rightarrow> string \<Rightarrow> ResultTx option res wait_event list \<Rightarrow> go_error option option" where
  "cosmos_WaitForTx start hash evs =
     (case hex_DecodeString hash of
        Inl e \<Rightarrow> Some (Some (Errorf ''hex decoding tx hash string %s: %w'' [e]))
      | Inr _ \<Rightarrow> cosmos_wait_loop start evs)"

section \<open>Submitting\<close>

text \<open>
  The fee: the product has 64 bits of mantissa, those of \<open>SetInt64\<close>, and is cut off to an
  integer before one is added.
\<close>

definition getTxFee :: "CosmosBridgeClient \<Rightarrow> uint64 \<Rightarrow> (string \<times> int) res" where
  "getTxFee cl gasLimit =
     (if cosmos_feeDenom cl = [] then Inl (Errorf ''fee denom not set for chain %s'' [])
      else if 0 < cosmos_gasPrice cl \<and> 0 < cosmos_feeAmount cl
      then Inl (Errorf ''gas price and fee amount cannot both be set for chain %s'' [])
      else if 0 < cosmos_gasPrice cl
      then Inr (cosmos_feeDenom cl, float_Int (float_round 64 (cosmos_gasPrice cl * of_int (sint gasLimit))) + 1)
      else if 0 < cosmos_feeAmount cl then Inr (cosmos_feeDenom cl, uint (cosmos_feeAmount cl))
      else Inr (cosmos_feeDenom cl, 0))"

text \<open>\<open>uint64(math.Ceil(float64(gasUsed) * 1.5))\<close>.\<close>

definition gas_limit :: "cosmos_lib \<Rightarrow> uint64 \<Rightarrow> uint64" where
  "gas_limit lib gasUsed =
     (let c = \<lceil>float_round 53 (float_round 53 (of_int (uint gasUsed)) * (3 / 2))\<rceil>
      in if c < 2 ^ 64 then word_of_int c else HugeToUint64 lib (of_int c))"

definition getEstimatedGasLimit ::
  "cosmos_lib \<Rightarrow> cosmos_node \<Rightarrow> CosmosBridgeClient \<Rightarrow> cosmos_tx \<Rightarrow> uint64 res" where
  "getEstimatedGasLimit lib node cl tx =
     (case SignCosmosTx lib (cosmos_chainID cl) tx of
        Inl e \<Rightarrow> Inl (Errorf ''signing tx: %w'' [e])
      | Inr signedTx \<Rightarrow>
     (case TxEncoder lib signedTx of
        Inl e \<Rightarrow> Inl (Errorf ''encoding signed tx: %w'' [e])
      | Inr signedTxBytes \<Rightarrow>
     (case Simulate node signedTxBytes of
        Inl e \<Rightarrow> Inl (Errorf ''simulating tx to get estimated gas usage: %w'' [e])
      | Inr None \<Rightarrow> Inl (Errorf ''got nil gas info after simulating tx'' [])
      | Inr (Some gasUsed) \<Rightarrow> Inr (gas_limit lib gasUsed))))"

text \<open>The transactions handed to \<open>BroadcastTxSync\<close>, and the hash.\<close>

definition signAndSubmitMessages ::
  "cosmos_lib \<Rightarrow> cosmos_node \<Rightarrow> CosmosBridgeClient \<Rightarrow> sdk_msg list \<Rightarrow> cosmos_tx list \<times> bytes res" where
  "signAndSubmitMessages lib node cl msgs =
     (case ConvertAndEncode lib (cosmos_prefix cl) (cosmos_signer cl) of
        Inl e \<Rightarrow> ([], Inl (Errorf ''converting and encoding signer address %s with prefix %s to bech32: %w'' [e]))
      | Inr bech32Address \<Rightarrow>
     (case AccountInfo node bech32Address of
        Inl e \<Rightarrow> ([], Inl (Errorf ''getting account info for cosmos signer %s on chain %s: %w'' [e]))
      | Inr None \<Rightarrow> ([], Inl (Errorf ''got no info for cosmos signer account %s on chain %s: %w'' []))
      | Inr (Some (accountNumber, sequence)) \<Rightarrow>
     (case SetMsgs lib msgs of
        Some e \<Rightarrow> ([], Inl (Errorf ''setting message in tx: %w'' [e]))
      | None \<Rightarrow>
     (let built = \<lparr>CtMsgs = msgs, CtGasLimit = None, CtFee = None, CtAccountNumber = accountNumber,
                   CtSequence = sequence\<rparr> in
      case getEstimatedGasLimit lib node cl built of
        Inl e \<Rightarrow> ([], Inl (Errorf ''getting estimated gas limit for tx: %w'' [e]))
      | Inr gasLimit \<Rightarrow>
     (case (if cosmos_feeDenom cl \<noteq> [] then map_sum id Some (getTxFee cl gasLimit) else Inr None) of
        Inl e \<Rightarrow> ([], Inl (Errorf ''getting tx fee: %w'' [e]))
      | Inr fee \<Rightarrow>
     (let unsigedTx = built\<lparr>CtGasLimit := Some gasLimit, CtFee := fee\<rparr> in
      case SignCosmosTx lib (cosmos_chainID cl) unsigedTx of
        Inl e \<Rightarrow> ([], Inl (Errorf ''signing tx: %w'' [e]))
      | Inr signedTx \<Rightarrow>
     (case TxEncoder lib signedTx of
        Inl e \<Rightarrow> ([], Inl (Errorf ''encoding signed tx: %w'' [e]))
      | Inr signedTxBytes \<Rightarrow>
     (case BroadcastTxSync node signedTxBytes of
        Inl e \<Rightarrow> ([unsigedTx], Inl (Errorf ''broadcasting tx synchronously from signer %s: %w'' [e]))
      | Inr (code, hash) \<Rightarrow>
          if code \<noteq> 0
          then ([unsigedTx], Inl (Errorf ''broadcasting cosmos tx from signer %s returned error code %d: %s'' []))
          else ([unsigedTx], Inr hash)))))))))"

definition is_update :: "sdk_msg \<Rightarrow> bool" where
  "is_update m = (case m of MsgUpdateClient _ \<Rightarrow> True | _ \<Rightarrow> False)"

text \<open>The loop that unpacks the messages of the body.\<close>

fun unpack_messages :: "cosmos_lib \<Rightarrow> bytes list \<Rightarrow> sdk_msg list res" where
  "unpack_messages lib [] = Inr []"
| "unpack_messages lib (b # bs) =
     (case UnpackAny lib b of
        Inl e \<Rightarrow> Inl (Errorf ''unpacking msg into sdk.Msg: %w'' [e])
      | Inr m \<Rightarrow> map_sum id (\<lambda>ms. m # ms) (unpack_messages lib bs))"

text \<open>
  The loop that submits the client updates one by one; the node answers each submission in the
  state it has then, \<open>nodes i\<close> for the \<open>i\<close>-th. The messages that are not updates are
  collected.
\<close>

fun submit_updates ::
  "cosmos_lib \<Rightarrow> (nat \<Rightarrow> cosmos_node) \<Rightarrow> CosmosBridgeClient \<Rightarrow> nat \<Rightarrow> sdk_msg list \<Rightarrow> sdk_msg list \<Rightarrow>
   cosmos_tx list \<times> (nat \<times> sdk_msg list) res" where
  "submit_updates lib nodes cl numSubmitted nonClientUpdateMsgs [] = ([], Inr (numSubmitted, nonClientUpdateMsgs))"
| "submit_updates lib nodes cl numSubmitted nonClientUpdateMsgs (msg # msgs) =
     (if \<not> is_update msg then submit_updates lib nodes cl numSubmitted (nonClientUpdateMsgs @ [msg]) msgs
      else
        (case signAndSubmitMessages lib (nodes numSubmitted) cl [msg] of
           (sent, Inl e) \<Rightarrow>
             (sent, Inl (Errorf ''submitting individual update client message number %d since there were %d included in tx: %w'' [e]))
         | (sent, Inr hash) \<Rightarrow>
             (case submit_updates lib nodes cl (Suc numSubmitted) nonClientUpdateMsgs msgs of
                (sent', res) \<Rightarrow> (sent @ sent', res))))"

definition cosmos_signAndSubmit ::
  "cosmos_lib \<Rightarrow> (nat \<Rightarrow> cosmos_node) \<Rightarrow> CosmosBridgeClient \<Rightarrow> bytes \<Rightarrow> cosmos_tx list \<times> bytes res" where
  "cosmos_signAndSubmit lib nodes cl bz =
     (case UnmarshalTxBody lib bz of
        Inl e \<Rightarrow> ([], Inl (Errorf ''unmarshaling tx bytes: %w'' [e]))
      | Inr messages \<Rightarrow>
          if messages = [] then ([], Inl (Errorf ''no messages to relay'' []))
          else
     (case unpack_messages lib messages of
        Inl e \<Rightarrow> ([], Inl e)
      | Inr msgs \<Rightarrow>
          if 1 < length (filter is_update msgs) then
            (case submit_updates lib nodes cl 0 [] msgs of
               (sent, Inl e) \<Rightarrow> (sent, Inl e)
             | (sent, Inr (numSubmitted, nonClientUpdateMsgs)) \<Rightarrow>
                 (case signAndSubmitMessages lib (nodes numSubmitted) cl nonClientUpdateMsgs of
                    (sent', res) \<Rightarrow> (sent @ sent', res)))
          else signAndSubmitMessages lib (nodes 0) cl msgs))"

text \<open>
  \<open>DeliverTx\<close>, alone under its lock, taken at \<open>now\<close>, as for the EVM client: it waits for the
  delay or the end of the context; on the latter \<open>err\<close> is still nil and the time of the last
  submission is set. \<open>finish\<close> is the time of the result and of the deferred function right
  after it, taken as one reading of the clock. The first component of the middle result is the time the wait ended.
\<close>

definition cosmos_DeliverTx ::
  "cosmos_lib \<Rightarrow> (nat \<Rightarrow> cosmos_node) \<Rightarrow> go_error option \<Rightarrow> time \<Rightarrow> time \<Rightarrow> CosmosBridgeClient \<Rightarrow> bytes \<Rightarrow> string \<Rightarrow>
   CosmosBridgeClient \<times> (time \<times> cosmos_tx list) \<times> BridgeTx res" where
  "cosmos_DeliverTx lib nodes cancelled now finish cl bz address =
     (case cancelled of
        Some e \<Rightarrow> (cl\<lparr>cosmos_lastSubmissionTime := finish\<rparr>, (now, []), Inl e)
      | None \<Rightarrow>
     (let wake = max now (cosmos_lastSubmissionTime cl + cosmos_txSubmissionDelay cl) in
      case ConvertAndEncode lib (cosmos_prefix cl) (cosmos_signer cl) of
        Inl e \<Rightarrow> (cl, (wake, []), Inl (Errorf ''converting and encoding signer address %s with prefix %s to bech32: %w'' [e]))
      | Inr bech32Address \<Rightarrow>
     (case cosmos_signAndSubmit lib nodes cl bz of
        (sent, Inl e) \<Rightarrow> (cl, (wake, sent), Inl (Errorf ''signing and submitting recv tx: %w'' [e]))
      | (sent, Inr hash) \<Rightarrow>
          (cl\<lparr>cosmos_lastSubmissionTime := finish\<rparr>, (wake, sent),
           Inr \<lparr>Hash = HexBytesString lib hash, Timestamp = finish, RelayerAddress = bech32Address\<rparr>))))"

section \<open>Other queries\<close>

definition cosmos_LatestOnChainTimestamp ::
  "cosmos_node \<Rightarrow> time \<Rightarrow> time \<Rightarrow> CosmosBridgeClient \<Rightarrow> CosmosBridgeClient \<times> time res" where
  "cosmos_LatestOnChainTimestamp node now later cl =
     (case Once_Do ''key''
             (case CometHeader node None of
                Inl e \<Rightarrow> Inl (Errorf ''getting latest header: %w'' [e])
              | Inr None \<Rightarrow> Inl (Errorf ''got nil header when fetching latest header'' [])
              | Inr (Some t) \<Rightarrow> Inr t) now later (cosmos_latestTimestampOnce cl) of
        (m, res) \<Rightarrow> (cl\<lparr>cosmos_latestTimestampOnce := m\<rparr>, res))"

definition cosmos_SignerGasTokenBalance :: "cosmos_lib \<Rightarrow> cosmos_node \<Rightarrow> CosmosBridgeClient \<Rightarrow> int res" where
  "cosmos_SignerGasTokenBalance lib node cl =
     (case ConvertAndEncode lib (cosmos_prefix cl) (cosmos_signer cl) of
        Inl e \<Rightarrow> Inl (Errorf ''converting and encoding signer address %s with prefix %s to bech32: %w'' [e])
      | Inr bech32Address \<Rightarrow>
     (case BankBalance node bech32Address (cosmos_feeDenom cl) of
        Inl e \<Rightarrow> Inl (Errorf ''getting %s balance for signer on chain %s: %w'' [e])
      | Inr None \<Rightarrow> Inl (Errorf ''got nil %s balance for signer on chain %s: %w'' [])
      | Inr (Some amount) \<Rightarrow> Inr amount))"

text \<open>
  \<open>TxFee\<close>. The comparison of the fee with \<open>sdk_math.ZeroInt()\<close> compares two structs that hold
  pointers; \<open>ZeroInt\<close> allocates, so they are never equal and the branch is not taken.
\<close>

definition cosmos_TxFee ::
  "cosmos_lib \<Rightarrow> cosmos_node \<Rightarrow> time \<Rightarrow> time \<Rightarrow> CosmosBridgeClient \<Rightarrow> string \<Rightarrow> CosmosBridgeClient \<times> int res" where
  "cosmos_TxFee lib node now later cl txHash =
     (case hex_DecodeString txHash of
        Inl e \<Rightarrow> (cl, Inl (Errorf ''hex decoding tx hash string %s: %w'' [e]))
      | Inr hashBytes \<Rightarrow>
     (case cosmos_result node now later txHash hashBytes cl of
        (cl1, Inl e) \<Rightarrow> (cl1, Inl (Errorf ''getting results for ts hash %s: %w'' [e]))
      | (cl1, Inr result) \<Rightarrow>
          (cl1,
           case TxDecoder lib (RawTx result) of
             Inl e \<Rightarrow> Inl (Errorf ''decoding tx result: %w'' [e])
           | Inr (msgs, None) \<Rightarrow> Inl (Errorf ''could not convert decoded tx to sdk.FeeTx'' [])
           | Inr (msgs, Some amountOf) \<Rightarrow> Inr (amountOf (cosmos_feeDenom cl)))))"

definition cosmos_SendTransfer :: "string \<Rightarrow> string \<Rightarrow> string \<Rightarrow> int \<Rightarrow> string \<Rightarrow> string res outcome" where
  "cosmos_SendTransfer clientID denom receiver amount memo = Panic"

definition cosmos_TimestampAtHeight :: "cosmos_node \<Rightarrow> uint64 \<Rightarrow> time res" where
  "cosmos_TimestampAtHeight node height =
     (case CometHeader node (Some (sint height)) of
        Inl e \<Rightarrow> Inl (Errorf ''fetching block header at height %d: %w'' [e])
      | Inr None \<Rightarrow> Inl (Errorf ''fetched block header at height %d without err but header was nil'' [])
      | Inr (Some t) \<Rightarrow> Inr t)"

record WasmClientState =
  LatestExecutionBlockNumber :: uint64

text \<open>
  \<open>ClientState\<close>: the answer of the chain is an optional \<open>Any\<close>, a type URL with an optional
  value; the two decoders are parameters.
\<close>

definition cosmos_ClientState ::
  "(string \<Rightarrow> (string \<times> bytes option) option res) \<Rightarrow> (bytes \<Rightarrow> bytes res) \<Rightarrow> (bytes \<Rightarrow> WasmClientState res) \<Rightarrow>
   string \<Rightarrow> WasmClientState res" where
  "cosmos_ClientState queryState unmarshalWasm unmarshalJson clientID =
     (case queryState clientID of
        Inl e \<Rightarrow> Inl (Errorf ''querying for state of client: %w'' [e])
      | Inr None \<Rightarrow> Inl (Errorf ''got nil client state'' [])
      | Inr (Some (typeUrl, None)) \<Rightarrow> Inl (Errorf ''got nil client state value'' [])
      | Inr (Some (typeUrl, Some val)) \<Rightarrow>
          if typeUrl = ''/ibc.lightclients.wasm.v1.ClientState'' then
            (case unmarshalWasm val of
               Inl e \<Rightarrow> Inl (Errorf ''proto decoding full wasm client state (%s): %w'' [e])
             | Inr dat \<Rightarrow>
            (case unmarshalJson dat of
               Inl e \<Rightarrow> Inl (Errorf ''json decoding wasm client state data (%s): %w'' [e])
             | Inr wasmClientState \<Rightarrow> Inr wasmClientState))
          else Inl (Errorf ''unsupported client state type url %s'' []))"

definition cosmos_GetTransactionSender :: "string \<Rightarrow> string res" where
  "cosmos_GetTransactionSender hash = Inl (Errorf ''GetTransactionSender not implemented'' [])"

primrec result_of :: "'a outcome \<Rightarrow> 'a" where
  "result_of (Ret x) = x"

text \<open>
  The methods as the record of the interface the pipeline calls; a stage has run only when its
  calls have returned.
\<close>

definition cosmos_bridge ::
  "cosmos_lib \<Rightarrow> (nat \<Rightarrow> cosmos_node) \<Rightarrow> go_error option \<Rightarrow> time \<Rightarrow> time option res wait_event list \<Rightarrow>
   CosmosBridgeClient \<Rightarrow> BridgeClient" where
  "cosmos_bridge lib nodes cancelled now ticks cl =
     (let node = nodes 0 in
     \<lparr>IsPacketReceived = cosmos_IsPacketReceived node,
      IsPacketCommitted = cosmos_IsPacketCommitted lib node,
      FindRecvTx = (\<lambda>s d q t. result_of (cosmos_FindRecvTx lib node s d q t)),
      FindAckTx = (\<lambda>s d q. result_of (cosmos_FindAckTx lib node s d q)),
      FindTimeoutTx = (\<lambda>s d q. result_of (cosmos_FindTimeoutTx lib node s d q)),
      DeliverTx = (\<lambda>bz to. snd (snd (cosmos_DeliverTx lib nodes cancelled now now cl bz to))),
      PacketWriteAckStatus = (\<lambda>h s c d. snd (cosmos_PacketWriteAckStatus lib node now now cl h s c d)),
      SendPacketsFromTx = cosmos_SendPacketsFromTx node,
      ShouldRetryTx = (\<lambda>h e t. snd (cosmos_ShouldRetryTx node now now cl h e t)),
      WaitForChain = the (cosmos_WaitForChain now ticks),
      IsTxFinalized = cosmos_IsTxFinalized,
      IsTimestampFinalized = cosmos_IsTimestampFinalized node,
      BridgeChainType = ChainType_COSMOS,
      SignerGasTokenBalance = cosmos_SignerGasTokenBalance lib node cl,
      TxFee = (\<lambda>h. snd (cosmos_TxFee lib node now now cl h)),
      GetTransactionSender = cosmos_GetTransactionSender\<rparr>)"

section \<open>Facts\<close>

lemma sint_small:
  fixes w :: uint64
  assumes "uint w < 2 ^ 63"
  shows "sint w = uint w"
proof -
  have "- (2 ^ 63) \<le> uint w" by (rule order_trans [OF _ uint_ge_0]) simp
  then show ?thesis using assms unfolding sint_uint by (intro signed_take_bit_int_eq_self) simp_all
qed

lemma cosmos_result_first:
  assumes "onces (cosmos_txOnce cl) (KeyString hash) = None"
  shows "snd (cosmos_result node now later hash hashBytes cl) = CometTx node hashBytes"
  using assms by (simp add: cosmos_result_def Once_Do_def Do_enter_def Do_call_def newOnceWithTimeout_def Let_def split: prod.splits)

lemma cosmos_result_pair:
  assumes "onces (cosmos_txOnce cl) (KeyString hash) = None"
  obtains cl1 where "cosmos_result node now later hash hashBytes cl = (cl1, CometTx node hashBytes)"
  using cosmos_result_first [OF assms] by (metis prod.collapse)

text \<open>A submission broadcasts at most one transaction, of the messages it was given.\<close>

lemma submit_sent:
  assumes "signAndSubmitMessages lib node cl msgs = (sent, res)"
  shows "map CtMsgs sent = [] \<and> (\<exists>e. res = Inl e) \<or> map CtMsgs sent = [msgs]"
  using assms unfolding signAndSubmitMessages_def Let_def
  by (auto split: sum.splits option.splits prod.splits if_splits)

lemma submit_hash:
  assumes "signAndSubmitMessages lib node cl msgs = (sent, Inr hash)"
  shows "map CtMsgs sent = [msgs] \<and> (\<exists>b. BroadcastTxSync node b = Inr (0, hash))"
  using assms unfolding signAndSubmitMessages_def Let_def
  by (auto split: sum.splits option.splits prod.splits if_splits)

lemma submit_updates_sent:
  assumes "submit_updates lib nodes cl n acc msgs = (sent, res)"
  shows "(\<exists>rest. map (\<lambda>m. [m]) (filter is_update msgs) = map CtMsgs sent @ rest) \<and>
    (\<forall>k others. res = Inr (k, others) \<longrightarrow>
       map CtMsgs sent = map (\<lambda>m. [m]) (filter is_update msgs) \<and> others = acc @ filter (\<lambda>m. \<not> is_update m) msgs)"
  using assms
proof (induction msgs arbitrary: n acc sent res)
  case (Cons m msgs)
  show ?case
  proof (cases "is_update m")
    case False
    then show ?thesis using Cons.IH [of n "acc @ [m]" sent res] Cons.prems by simp
  next
    case True
    obtain s r where sr: "signAndSubmitMessages lib (nodes n) cl [m] = (s, r)" by fastforce
    show ?thesis
    proof (cases r)
      case (Inl e)
      then show ?thesis using submit_sent [OF sr] Cons.prems True sr by auto
    next
      case (Inr hash)
      obtain s' r' where sr': "submit_updates lib nodes cl (Suc n) acc msgs = (s', r')" by fastforce
      have "sent = s @ s'" "res = r'" using Cons.prems True sr sr' Inr by simp_all
      then show ?thesis using Cons.IH [OF sr'] submit_sent [OF sr] True Inr by auto
    qed
  qed
qed simp

text \<open>The transactions a body of messages is to become.\<close>

definition planned :: "sdk_msg list \<Rightarrow> sdk_msg list list" where
  "planned msgs =
     (if 1 < length (filter is_update msgs)
      then map (\<lambda>m. [m]) (filter is_update msgs) @ [filter (\<lambda>m. \<not> is_update m) msgs]
      else [msgs])"

lemma planned_mset: "mset (concat (planned msgs)) = mset msgs"
proof -
  have "concat (map (\<lambda>m. [m]) xs) = xs" for xs :: "sdk_msg list" by (induction xs) simp_all
  then show ?thesis by (simp add: planned_def flip: multiset_partition)
qed

lemma planned_updates: "ms \<in> set (planned msgs) \<Longrightarrow> length (filter is_update ms) \<le> 1"
  by (auto simp: planned_def filter_empty_conv split: if_splits)

lemma signAndSubmit_sent:
  assumes "UnmarshalTxBody lib bz = Inr messages" "unpack_messages lib messages = Inr msgs" "messages \<noteq> []"
    and "cosmos_signAndSubmit lib nodes cl bz = (sent, res)"
  shows "(\<exists>rest. planned msgs = map CtMsgs sent @ rest) \<and> ((\<exists>hash. res = Inr hash) \<longrightarrow> map CtMsgs sent = planned msgs)"
proof (cases "1 < length (filter is_update msgs)")
  case False
  then have "signAndSubmitMessages lib (nodes 0) cl msgs = (sent, res)"
    using assms by (simp add: cosmos_signAndSubmit_def)
  then show ?thesis using submit_sent [of lib "nodes 0" cl msgs sent res] False by (auto simp: planned_def)
next
  case True
  obtain s r where sr: "submit_updates lib nodes cl 0 [] msgs = (s, r)" by fastforce
  note up = submit_updates_sent [OF sr]
  show ?thesis
  proof (cases r)
    case (Inl e)
    then have "sent = s" "res = Inl e" using assms True sr by (simp_all add: cosmos_signAndSubmit_def)
    then show ?thesis using up True by (auto simp: planned_def)
  next
    case (Inr p)
    obtain k others where p: "p = (k, others)" by fastforce
    obtain s' r' where sr': "signAndSubmitMessages lib (nodes k) cl others = (s', r')" by fastforce
    have "sent = s @ s'" "res = r'" using assms True sr sr' Inr p by (simp_all add: cosmos_signAndSubmit_def)
    then show ?thesis using up submit_sent [OF sr'] True Inr p by (auto simp: planned_def)
  qed
qed

text \<open>
  C11. The transaction body of the proof service is submitted in transactions that hold at most one
  client update each. With more than one update, each is submitted alone, in order, and the other
  messages follow together; else the body is submitted as it is. What was broadcast is always an
  initial part of that, all of it when a hash is returned, and then no message of the body is
  lost, added or submitted twice.
\<close>

theorem cosmos_updates_alone:
  assumes "UnmarshalTxBody lib bz = Inr messages" "messages \<noteq> []" "unpack_messages lib messages = Inr msgs"
    and "cosmos_signAndSubmit lib nodes cl bz = (sent, res)"
  shows "(\<exists>rest. (if 1 < length (filter is_update msgs)
            then map (\<lambda>m. [m]) (filter is_update msgs) @ [filter (\<lambda>m. \<not> is_update m) msgs] else [msgs]) =
            map CtMsgs sent @ rest \<and> ((\<exists>hash. res = Inr hash) \<longrightarrow> rest = [])) \<and>
    (\<forall>tx \<in> set sent. length (filter is_update (CtMsgs tx)) \<le> 1) \<and>
    ((\<exists>hash. res = Inr hash) \<longrightarrow> mset (concat (map CtMsgs sent)) = mset msgs)"
proof -
  obtain rest where rest: "planned msgs = map CtMsgs sent @ rest" "(\<exists>hash. res = Inr hash) \<longrightarrow> map CtMsgs sent = planned msgs"
    using signAndSubmit_sent [OF assms(1,3,2,4)] by blast
  have "length (filter is_update (CtMsgs tx)) \<le> 1" if "tx \<in> set sent" for tx
    using planned_updates [of "CtMsgs tx" msgs] rest(1) that by auto
  then show ?thesis using rest planned_mset [of msgs] unfolding planned_def [symmetric] by auto
qed

section \<open>Fees and gas\<close>

text \<open>
  C28. A fee computed from a gas price covers the price of the gas limit and exceeds the next whole
  amount by at most one unit of the denomination, for prices and limits whose product is below
  \<open>2^64\<close>.
\<close>

theorem cosmos_fee_covers:
  assumes "getTxFee cl gasLimit = Inr (denom, amount)" "0 < cosmos_gasPrice cl"
    and "0 < gasLimit" "uint gasLimit < 2 ^ 63" "cosmos_gasPrice cl * of_int (uint gasLimit) < 2 ^ 64"
  shows "denom = cosmos_feeDenom cl \<and> cosmos_gasPrice cl * of_int (uint gasLimit) \<le> of_int amount \<and>
    amount \<le> \<lceil>cosmos_gasPrice cl * of_int (uint gasLimit)\<rceil> + 1"
proof -
  let ?z = "cosmos_gasPrice cl * of_int (uint gasLimit)"
  have sint: "sint gasLimit = uint gasLimit" using assms(4) by (rule sint_small)
  have amount: "denom = cosmos_feeDenom cl" "amount = float_Int (float_round 64 ?z) + 1"
    using assms(1,2) unfolding getTxFee_def sint by (auto split: if_splits)
  have "0 < uint gasLimit" using assms(3) by (simp add: word_less_def)
  then have pos: "0 < ?z" using assms(2) by (intro mult_pos_pos) (simp_all only: of_int_0_less_iff)
  have below: "?z < 2 powi 64" using assms(5) by (simp add: power_int_def)
  show ?thesis
    using float_Int_covers [OF pos below] float_Int_capped [OF pos below] amount by simp
qed

text \<open>
  C29. The gas limit is the simulated gas and a half, rounded up: the \<open>float64\<close> product is exact
  for an amount of gas below \<open>2^51\<close>.
\<close>

theorem cosmos_gas_limit:
  assumes "uint gasUsed < 2 ^ 51"
  shows "uint (gas_limit lib gasUsed) = (3 * uint gasUsed + 1) div 2"
proof -
  let ?g = "uint gasUsed"
  have "bitlen ?g \<le> 53" using bitlen_below [of ?g 51] assms by simp
  then have g: "float_round 53 (of_int ?g) = of_int ?g" by (intro float_round_int) simp
  have "bitlen (3 * ?g) \<le> 53" using bitlen_below [of "3 * ?g" 53] assms by simp
  then have "float_round 53 (of_int (3 * ?g) * 2 powi - 1) = of_int (3 * ?g) * 2 powi - 1"
    by (intro float_round_dyadic) simp
  then have "float_round 53 (of_int ?g * (3 / 2)) = of_int (3 * ?g) / 2"
    by (simp add: power_int_minus field_simps)
  moreover have "\<lceil>of_int (3 * ?g) / (2 :: rat)\<rceil> = (3 * ?g + 1) div 2"
    by (rule ceiling_unique) linarith+
  moreover have "(3 * ?g + 1) div 2 < 2 ^ 64" using assms by simp
  ultimately have "gas_limit lib gasUsed = word_of_int ((3 * ?g + 1) div 2)"
    using assms unfolding gas_limit_def g Let_def by (simp only: if_True)
  then show ?thesis using assms by (simp add: take_bit_int_eq_self unsigned_of_int)
qed

section \<open>Sequence numbers in events\<close>

text \<open>
  C30. A sequence number as a chain prints it, in decimal, is read back by \<open>SendPacketsFromTx\<close> and
  recognised by \<open>PacketWriteAckStatus\<close> exactly when it is below \<open>2^63\<close>. From there on the first
  refuses the transaction and the second does not find the acknowledgement, since both go
  through the signed \<open>int\<close>; two numbers never have the same text.
\<close>

theorem cosmos_sequence_text:
  "send_attributes [(''packet_sequence'', strconv_Itoa (uint sequence))] p =
     (if uint sequence < 2 ^ 63 then Inr (p\<lparr>Sequence := sequence\<rparr>)
      else Inl (Errorf ''converting packet sequence %s to int'' [])) \<and>
   ack_event_matches wanted src dst
     \<lparr>EventType = ty, Attributes = [(''packet_sequence'', strconv_Itoa (uint sequence)),
        (''packet_source_client'', src), (''packet_dest_client'', dst)]\<rparr> =
     (wanted = sequence \<and> uint sequence < 2 ^ 63)"
proof
  have "in_int64 (uint sequence) \<longleftrightarrow> uint sequence < 2 ^ 63"
    using uint_ge_0 [of sequence] unfolding in_int64_def by linarith
  then show "send_attributes [(''packet_sequence'', strconv_Itoa (uint sequence))] p =
     (if uint sequence < 2 ^ 63 then Inr (p\<lparr>Sequence := sequence\<rparr>)
      else Inl (Errorf ''converting packet sequence %s to int'' []))"
    by (simp add: Atoi_Itoa)
  have "uint sequence = sint wanted \<longleftrightarrow> wanted = sequence \<and> uint sequence < 2 ^ 63"
  proof
    assume eq: "uint sequence = sint wanted"
    then have "(word_of_int (uint sequence) :: uint64) = word_of_int (sint wanted)" by (rule arg_cong)
    then have "wanted = sequence" by simp
    moreover have "sint wanted < 2 ^ 63" using sint_lt [of wanted] by simp
    ultimately show "wanted = sequence \<and> uint sequence < 2 ^ 63" using eq by simp
  next
    assume "wanted = sequence \<and> uint sequence < 2 ^ 63"
    then show "uint sequence = sint wanted" using sint_small [of sequence] by simp
  qed
  then show "ack_event_matches wanted src dst
     \<lparr>EventType = ty, Attributes = [(''packet_sequence'', strconv_Itoa (uint sequence)),
        (''packet_source_client'', src), (''packet_dest_client'', dst)]\<rparr> =
     (wanted = sequence \<and> uint sequence < 2 ^ 63)"
    by (simp add: ack_event_matches_def)
qed

section \<open>From a delivery to its retry\<close>

lemma signAndSubmit_hash:
  assumes "cosmos_signAndSubmit lib nodes cl bz = (sent, Inr hash)"
  shows "\<exists>i b. BroadcastTxSync (nodes i) b = Inr (0, hash)"
  using assms submit_hash [of lib _ cl _ _ hash] unfolding cosmos_signAndSubmit_def
  by (fastforce split: sum.splits prod.splits if_splits)

lemma cosmos_retry_decoded:
  assumes "hex_DecodeString txHash = Inr b" "onces (cosmos_txOnce cl) (KeyString txHash) = None"
  shows "snd (cosmos_ShouldRetryTx node now later cl txHash expiry sentTs) =
    (case CometTx node b of
       Inr resp \<Rightarrow> Inr (TxCode resp \<noteq> 0)
     | Inl e \<Rightarrow>
         if error_Contains e ''not found'' then
           (case CometHeader node None of
              Inl e' \<Rightarrow> Inl (Errorf ''getting latest block header: %w'' [e'])
            | Inr None \<Rightarrow> Inl (Errorf ''fetched block header at latest height without err but header was nil'' [])
            | Inr (Some t) \<Rightarrow> if sentTs + expiry < t then Inr True else Inl (Sentinel ErrTxNotFound))
         else Inl (Errorf ''fetching tx %s on chain: %w'' [e]))"
proof -
  obtain cl1 where "cosmos_result node now later txHash b cl = (cl1, CometTx node b)"
    using assms(2) by (rule cosmos_result_pair)
  then show ?thesis unfolding cosmos_ShouldRetryTx_def by (simp add: assms(1) split: sum.split)
qed

text \<open>
  C12. The hash a delivery reports is the one the node gave for a broadcast it accepted, and
  \<open>ShouldRetryTx\<close> of that hash asks the node for exactly that transaction: it is retried when its
  code is not 0, or when it is not found and its expiry has passed on the chain. The hypothesis on
  the library says that the text of a hash, as \<open>HexBytes.String\<close> prints it, is its hexadecimal
  form.
\<close>

theorem cosmos_hash_read_back:
  assumes "\<forall>b. hex_DecodeString (HexBytesString lib b) = Inr b"
    and "cosmos_DeliverTx lib nodes None now finish cl bz to = (cl1, sent, Inr tx)"
    and "onces (cosmos_txOnce cl') (KeyString (Hash tx)) = None"
  shows "\<exists>hash i b. BroadcastTxSync (nodes i) b = Inr (0, hash) \<and> Hash tx = HexBytesString lib hash \<and>
    snd (cosmos_ShouldRetryTx node now' later cl' (Hash tx) expiry sentTs) =
      (case CometTx node hash of
         Inr resp \<Rightarrow> Inr (TxCode resp \<noteq> 0)
       | Inl e \<Rightarrow>
           if error_Contains e ''not found'' then
             (case CometHeader node None of
                Inl e' \<Rightarrow> Inl (Errorf ''getting latest block header: %w'' [e'])
              | Inr None \<Rightarrow> Inl (Errorf ''fetched block header at latest height without err but header was nil'' [])
              | Inr (Some t) \<Rightarrow> if sentTs + expiry < t then Inr True else Inl (Sentinel ErrTxNotFound))
           else Inl (Errorf ''fetching tx %s on chain: %w'' [e]))"
proof -
  obtain sent' hash where hash: "cosmos_signAndSubmit lib nodes cl bz = (sent', Inr hash)" "Hash tx = HexBytesString lib hash"
    using assms(2) unfolding cosmos_DeliverTx_def Let_def by (auto split: sum.splits prod.splits)
  have "hex_DecodeString (Hash tx) = Inr hash" using assms(1) hash(2) by simp
  then show ?thesis using signAndSubmit_hash [OF hash(1)] hash(2) cosmos_retry_decoded [OF _ assms(3)] by blast
qed

section \<open>A sample chain\<close>

text \<open>Hexadecimal text, and a chain that accepts every transaction; the library is simple.\<close>

definition hex_digit :: "nat \<Rightarrow> char" where
  "hex_digit n = char_of (if n < 10 then 48 + n else 55 + n)"

definition hex_text :: "bytes \<Rightarrow> string" where
  "hex_text bs = concat (map (\<lambda>b. [hex_digit (unat b div 16), hex_digit (unat b mod 16)]) bs)"

lemma hex_value_digit: "n < 16 \<Longrightarrow> hex_value (hex_digit n) = Some n"
  by (simp add: hex_value_def hex_digit_def Let_def)

lemma hex_text_read: "hex_DecodeString (hex_text bs) = Inr bs"
proof (induction bs)
  case (Cons b bs)
  have "unat b < 2 ^ LENGTH(8)" by (rule unsigned_less)
  then have "hex_value (hex_digit (unat b div 16)) = Some (unat b div 16)"
    by (intro hex_value_digit) (simp add: less_mult_imp_div_less)
  moreover have "hex_value (hex_digit (unat b mod 16)) = Some (unat b mod 16)" by (intro hex_value_digit) simp
  moreover have "(word_of_nat (16 * (unat b div 16) + unat b mod 16) :: uint8) = b" by simp
  ultimately show ?case using Cons.IH by (simp add: hex_text_def)
qed (simp add: hex_text_def)

definition sample_sdk :: cosmos_lib where
  "sample_sdk =
     \<lparr>StatusCode = (\<lambda>e. None), HexBytesString = hex_text, UnmarshalAcknowledgement = (\<lambda>b. Inr [b]),
      UnmarshalTxBody = (\<lambda>bz. Inr (map (\<lambda>b. [b]) bz)),
      UnpackAny = (\<lambda>b. Inr (if b = [0] then MsgUpdateClient b else MsgRecvPacket ''s'' b)),
      TxDecoder = (\<lambda>b. Inr ([], Some (\<lambda>d. 0))), ConvertAndEncode = (\<lambda>p b. Inr p), SetMsgs = (\<lambda>ms. None),
      SignCosmosTx = (\<lambda>c tx. Inr [of_nat (length (CtMsgs tx))]), HugeToUint64 = (\<lambda>r. 0), TxEncoder = Inr\<rparr>"

definition sample_comet :: cosmos_node where
  "sample_comet =
     \<lparr>PacketReceipt = (\<lambda>c s. Inr True), PacketCommitment = (\<lambda>c s. Inr ()), TxSearch = (\<lambda>q. Inr (0, [])),
      CometHeader = (\<lambda>h. Inr (Some 50)),
      CometTx = (\<lambda>b. Inr \<lparr>TxHashBytes = b, TxHeight = 1, TxCode = 0, TxEvents = [], RawTx = []\<rparr>),
      AccountInfo = (\<lambda>a. Inr (Some (1, 2))), Simulate = (\<lambda>b. Inr (Some 101)), BroadcastTxSync = (\<lambda>b. Inr (0, b)),
      BankBalance = (\<lambda>a d. Inr (Some 5))\<rparr>"

definition sample_cosmos_client :: CosmosBridgeClient where
  "sample_cosmos_client = NewCosmosBridgeClient ''hub'' [] ''cosmos'' (1 / 40) ''uatom'' 0"

lemmas sample_cosmos_defs = sample_sdk_def sample_comet_def sample_cosmos_client_def NewCosmosBridgeClient_def

theorem cosmos_fee_covers_witness:
  "\<exists>amount. getTxFee sample_cosmos_client 152 = Inr (''uatom'', amount) \<and> 1 / 40 * 152 \<le> (of_int amount :: rat) \<and> amount \<le> 5"
proof -
  obtain amount where a: "getTxFee sample_cosmos_client 152 = Inr (''uatom'', amount)"
    by (simp add: getTxFee_def sample_cosmos_defs)
  have price: "cosmos_gasPrice sample_cosmos_client = 1 / 40" by (simp add: sample_cosmos_defs)
  have u: "uint (152 :: uint64) = 152" by simp
  have c: "\<lceil>1 / 40 * of_int 152 :: rat\<rceil> = 4" by (rule ceiling_unique) simp_all
  have "1 / 40 * of_int 152 \<le> (of_int amount :: rat) \<and> amount \<le> 4 + 1"
    using cosmos_fee_covers [OF a, unfolded price u c] by simp
  then show ?thesis using a by simp
qed

theorem cosmos_gas_limit_witness: "uint (gas_limit sample_sdk 101) = 152"
  using cosmos_gas_limit [of 101 sample_sdk] by simp

lemma sample_submit:
  "\<exists>tx. CtMsgs tx = ms \<and>
     signAndSubmitMessages sample_sdk sample_comet sample_cosmos_client ms = ([tx], Inr [of_nat (length ms)])"
  by (simp add: signAndSubmitMessages_def getEstimatedGasLimit_def getTxFee_def sample_cosmos_defs Let_def)

theorem cosmos_updates_alone_witness:
  "map CtMsgs (fst (cosmos_signAndSubmit sample_sdk (\<lambda>i. sample_comet) sample_cosmos_client [0, 7, 0])) =
     [[MsgUpdateClient [0]], [MsgUpdateClient [0]], [MsgRecvPacket ''s'' [7]]]"
proof -
  let ?run = "cosmos_signAndSubmit sample_sdk (\<lambda>i. sample_comet) sample_cosmos_client [0, 7, 0]"
  have body: "UnmarshalTxBody sample_sdk [0, 7, 0] = Inr [[0], [7], [0]]"
    "unpack_messages sample_sdk [[0], [7], [0]] = Inr [MsgUpdateClient [0], MsgRecvPacket ''s'' [7], MsgUpdateClient [0]]"
    by (simp_all add: sample_sdk_def)
  have "\<exists>hash. snd ?run = Inr hash"
    using sample_submit [of "[MsgUpdateClient [0]]"] sample_submit [of "[MsgRecvPacket ''s'' [7]]"]
    unfolding cosmos_signAndSubmit_def body by (auto simp: is_update_def body simp del: unpack_messages.simps)
  then show ?thesis
    using cosmos_updates_alone [OF body(1) _ body(2), of "\<lambda>i. sample_comet" sample_cosmos_client "fst ?run" "snd ?run"]
    by (auto simp: is_update_def)
qed

theorem cosmos_hash_read_back_witness:
  "\<exists>cl1 sent tx. cosmos_DeliverTx sample_sdk (\<lambda>i. sample_comet) None 3 5 sample_cosmos_client [7] ''a'' = (cl1, sent, Inr tx) \<and>
     snd (cosmos_ShouldRetryTx sample_comet 9 9 sample_cosmos_client (Hash tx) 10 5) = Inr False"
proof -
  have "cosmos_signAndSubmit sample_sdk (\<lambda>i. sample_comet) sample_cosmos_client [7] =
      signAndSubmitMessages sample_sdk sample_comet sample_cosmos_client [MsgRecvPacket ''s'' [7]]"
    by (simp add: cosmos_signAndSubmit_def sample_sdk_def is_update_def)
  then obtain cl1 sent tx where run:
    "cosmos_DeliverTx sample_sdk (\<lambda>i. sample_comet) None 3 5 sample_cosmos_client [7] ''a'' = (cl1, sent, Inr tx)"
    using sample_submit [of "[MsgRecvPacket ''s'' [7]]"]
    by (auto simp: cosmos_DeliverTx_def Let_def sample_sdk_def split: sum.splits)
  have hex: "\<forall>b. hex_DecodeString (HexBytesString sample_sdk b) = Inr b" by (simp add: sample_sdk_def hex_text_read)
  have new: "onces (cosmos_txOnce sample_cosmos_client) (KeyString (Hash tx)) = None"
    by (simp add: sample_cosmos_client_def NewCosmosBridgeClient_def NewOnceWithKey_def)
  show ?thesis
    using run cosmos_hash_read_back [OF hex run new, of sample_comet 9 9 10 5] by (auto simp: sample_comet_def)
qed

end
