(* ===== verification/Relayer_Chains.thy ===== *)
theory Relayer_Chains
  imports Relayer_Pass Relayer_Evm Relayer_Cosmos
begin

text \<open>
  What the two bridge clients have in common, and what the pipeline gets from it.

  \<^item> \<open>paced_delivery\<close> is the contract of \<open>DeliverTx\<close>: nothing is handed to a node before the
    submission delay after the last delivery has passed. Both clients keep it.
  \<^item> \<open>retry_client\<close> is the contract of \<open>ShouldRetryTx\<close> the retry stages rely on: a transaction
    is to be retried exactly when it failed, or is absent and expired. Both clients keep it.
\<close>

section \<open>Deliveries in a row\<close>

text \<open>The calls of \<open>DeliverTx\<close> the lock puts in a row: the times of their submissions and their success.\<close>

fun run_deliveries :: "('a \<Rightarrow> 'c \<Rightarrow> 'c \<times> time list \<times> bool) \<Rightarrow> 'a list \<Rightarrow> 'c \<Rightarrow> ('a \<times> time list \<times> bool) list" where
  "run_deliveries deliver [] c = []"
| "run_deliveries deliver (a # as) c =
     (case deliver a c of (c', ts, ok) \<Rightarrow> (a, ts, ok) # run_deliveries deliver as c')"

locale paced_delivery =
  fixes deliver :: "'a \<Rightarrow> 'c \<Rightarrow> 'c \<times> time list \<times> bool"
    and last_time :: "'c \<Rightarrow> time" and delay :: "'c \<Rightarrow> duration" and finish :: "'a \<Rightarrow> time"
  assumes waits: "deliver a c = (c', ts, ok) \<Longrightarrow> t \<in> set ts \<Longrightarrow> last_time c + delay c \<le> t"
    and keeps_delay: "deliver a c = (c', ts, ok) \<Longrightarrow> delay c' = delay c"
    and sets_time: "deliver a c = (c', ts, ok) \<Longrightarrow> last_time c' = finish a \<or> \<not> ok \<and> last_time c' = last_time c"
begin

lemma later_deliveries:
  assumes "f \<le> last_time c" "\<forall>a \<in> set as. f \<le> finish a" "(b, ts, ok) \<in> set (run_deliveries deliver as c)" "t \<in> set ts"
  shows "f + delay c \<le> t"
  using assms
proof (induction as arbitrary: c)
  case (Cons a as)
  obtain c' ts' ok' where run: "deliver a c = (c', ts', ok')" by (cases "deliver a c") auto
  show ?case
  proof (cases "(b, ts, ok) = (a, ts', ok')")
    case True
    then show ?thesis using waits [OF run] Cons.prems(1,4) by fastforce
  next
    case False
    then have "(b, ts, ok) \<in> set (run_deliveries deliver as c')" using Cons.prems(3) run by auto
    moreover have "f \<le> last_time c'" using sets_time [OF run] Cons.prems(1,2) by auto
    ultimately show ?thesis using Cons.IH [of c'] Cons.prems(2,4) keeps_delay [OF run] by simp
  qed
qed simp

lemma deliveries_paced:
  assumes "sorted (map finish as)" "run_deliveries deliver as c = xs @ (a, ts, True) # ys"
    and "(b, ts', ok) \<in> set ys" "t \<in> set ts'"
  shows "finish a + delay c \<le> t"
  using assms
proof (induction as arbitrary: c xs)
  case (Cons a' as)
  obtain c' ts' ok' where run: "deliver a' c = (c', ts', ok')" by (cases "deliver a' c") auto
  show ?case
  proof (cases xs)
    case Nil
    then have first: "a = a'" "ok'" "ys = run_deliveries deliver as c'" using Cons.prems(2) run by simp_all
    then have "finish a \<le> last_time c'" using sets_time [OF run] by simp
    then show ?thesis
      using later_deliveries [of "finish a" c' as b _ ok t] Cons.prems(1,3,4) first keeps_delay [OF run] by simp
  next
    case (Cons x xs')
    then show ?thesis
      using Cons.IH [of c' xs'] Cons.prems run keeps_delay [OF run] by simp
  qed
qed simp

end

text \<open>A call with its moment and its arguments.\<close>

record evm_call =
  ec_lib :: eth_lib
  ec_node :: evm_node
  ec_cancelled :: "go_error option"
  ec_now :: time
  ec_finish :: time
  ec_bytes :: bytes
  ec_to :: string

definition evm_deliver :: "evm_call \<Rightarrow> EVMBridgeClient \<Rightarrow> EVMBridgeClient \<times> time list \<times> bool" where
  "evm_deliver a cl =
     (case evm_DeliverTx (ec_lib a) (ec_node a) (ec_cancelled a) (ec_now a) (ec_finish a) cl (ec_bytes a) (ec_to a) of
        (cl', sent, res) \<Rightarrow> (cl', map fst sent, \<not> isl res))"

record cosmos_call =
  cc_lib :: cosmos_lib
  cc_nodes :: "nat \<Rightarrow> cosmos_node"
  cc_cancelled :: "go_error option"
  cc_now :: time
  cc_finish :: time
  cc_bytes :: bytes
  cc_to :: string

definition cosmos_deliver :: "cosmos_call \<Rightarrow> CosmosBridgeClient \<Rightarrow> CosmosBridgeClient \<times> time list \<times> bool" where
  "cosmos_deliver a cl =
     (case cosmos_DeliverTx (cc_lib a) (cc_nodes a) (cc_cancelled a) (cc_now a) (cc_finish a) cl (cc_bytes a) (cc_to a) of
        (cl', (wake, sent), res) \<Rightarrow> (cl', map (\<lambda>tx. wake) sent, \<not> isl res))"

interpretation evm_paced: paced_delivery evm_deliver lastSubmissionTime txSubmissionDelay ec_finish
  by unfold_locales
    (auto simp: evm_deliver_def evm_DeliverTx_def Let_def split: prod.splits sum.splits option.splits)

interpretation cosmos_paced: paced_delivery cosmos_deliver cosmos_lastSubmissionTime cosmos_txSubmissionDelay cc_finish
  by unfold_locales
    (auto simp: cosmos_deliver_def cosmos_DeliverTx_def Let_def split: prod.splits sum.splits option.splits)

text \<open>
  C21. Deliveries of an EVM client keep their distance: after a successful one at \<open>f\<close>, none of the
  later ones hands a transaction to the node before \<open>f\<close> plus the submission delay, whatever the
  chain answers and whichever of them fail or are cancelled in between.
\<close>

theorem evm_deliveries_paced:
  assumes "sorted (map ec_finish calls)"
    and "run_deliveries evm_deliver calls cl = xs @ (a, ts, True) # ys" "(b, ts', ok) \<in> set ys" "t \<in> set ts'"
  shows "ec_finish a + txSubmissionDelay cl \<le> t"
  using assms by (rule evm_paced.deliveries_paced)

text \<open>C22. The same holds of a Cosmos client, for the first transaction of each delivery.\<close>

theorem cosmos_deliveries_paced:
  assumes "sorted (map cc_finish calls)"
    and "run_deliveries cosmos_deliver calls cl = xs @ (a, ts, True) # ys" "(b, ts', ok) \<in> set ys" "t \<in> set ts'"
  shows "cc_finish a + cosmos_txSubmissionDelay cl \<le> t"
  using assms by (rule cosmos_paced.deliveries_paced)

section \<open>Retrying\<close>

definition gone :: "(string \<Rightarrow> bool) \<Rightarrow> (string \<Rightarrow> bool) \<Rightarrow> time option \<Rightarrow> string \<Rightarrow> duration \<Rightarrow> time \<Rightarrow> bool" where
  "gone failed absent clock h expiry sent \<longleftrightarrow>
     failed h \<or> absent h \<and> (case clock of None \<Rightarrow> False | Some c \<Rightarrow> sent + expiry < c)"

locale retry_client =
  fixes client :: BridgeClient and failed absent :: "string \<Rightarrow> bool" and clock :: "time option"
  assumes retry: "ShouldRetryTx client h expiry sent = Inr True \<longleftrightarrow> gone failed absent clock h expiry sent"
begin

lemma retry_recv_iff:
  assumes "env_clients en chainID = Some client" "RecvTxHash t = Some h" "RecvTxTime t = Some s" "no_faults (env_db en)"
  shows "snd (RetryRecvPacket_Process chainID en w t) = Inl (Sentinel ErrRetryingRecvPacket) \<longleftrightarrow>
    gone failed absent clock h RetryRecvExpiry s"
  using assms retry [of h RetryRecvExpiry s]
  by (auto simp: RetryRecvPacket_Process_def GetClient_def with_db_def ClearRecvTx_def ClearAckTx_def ClearTimeoutTx_def exec_update_def split: sum.splits bool.splits prod.splits)

lemma retry_ack_iff:
  assumes "env_clients en chainID = Some client" "AckTxHash t = Some h" "AckTxTime t = Some s" "no_faults (env_db en)"
  shows "snd (RetryAckPacket_Process chainID en w t) = Inl (Sentinel ErrRetryingAckPacket) \<longleftrightarrow>
    gone failed absent clock h RetryAckExpiry s"
  using assms retry [of h RetryAckExpiry s]
  by (auto simp: RetryAckPacket_Process_def GetClient_def with_db_def ClearRecvTx_def ClearAckTx_def ClearTimeoutTx_def exec_update_def split: sum.splits bool.splits prod.splits)

lemma retry_timeout_iff:
  assumes "env_clients en chainID = Some client" "TimeoutTxHash t = Some h" "TimeoutTxTime t = Some s" "no_faults (env_db en)"
  shows "snd (RetryTimeoutPacket_Process chainID en w t) = Inl (Sentinel ErrRetryingTimeoutPacket) \<longleftrightarrow>
    gone failed absent clock h RetryTimeoutExpiry s"
  using assms retry [of h RetryTimeoutExpiry s]
  by (auto simp: RetryTimeoutPacket_Process_def GetClient_def with_db_def ClearRecvTx_def ClearAckTx_def ClearTimeoutTx_def exec_update_def split: sum.splits bool.splits prod.splits)

end

text \<open>What the two chains say of a transaction, through \<open>txOnce\<close> of the client.\<close>

definition evm_failed :: "eth_lib \<Rightarrow> evm_node \<Rightarrow> time \<Rightarrow> EVMBridgeClient \<Rightarrow> string \<Rightarrow> bool" where
  "evm_failed lib node now cl h \<longleftrightarrow>
     (case snd (evm_receipt lib node now now h cl) of Inl e \<Rightarrow> False | Inr rc \<Rightarrow> ReceiptStatus rc \<noteq> 1)"

definition evm_absent :: "eth_lib \<Rightarrow> evm_node \<Rightarrow> time \<Rightarrow> EVMBridgeClient \<Rightarrow> string \<Rightarrow> bool" where
  "evm_absent lib node now cl h \<longleftrightarrow>
     (case snd (evm_receipt lib node now now h cl) of Inl e \<Rightarrow> error_Contains e ''not found'' | Inr rc \<Rightarrow> False)"

definition evm_clock :: "evm_node \<Rightarrow> time option" where
  "evm_clock node = (case HeaderByNumber node None of Inl e \<Rightarrow> None | Inr header \<Rightarrow> Some (time_Unix (HeaderTime header)))"

definition cosmos_read :: "cosmos_node \<Rightarrow> time \<Rightarrow> CosmosBridgeClient \<Rightarrow> string \<Rightarrow> ResultTx res option" where
  "cosmos_read node now cl h =
     (case hex_DecodeString h of Inl e \<Rightarrow> None | Inr b \<Rightarrow> Some (snd (cosmos_result node now now h b cl)))"

definition cosmos_failed :: "cosmos_node \<Rightarrow> time \<Rightarrow> CosmosBridgeClient \<Rightarrow> string \<Rightarrow> bool" where
  "cosmos_failed node now cl h \<longleftrightarrow>
     (case cosmos_read node now cl h of Some (Inr resp) \<Rightarrow> TxCode resp \<noteq> 0 | _ \<Rightarrow> False)"

definition cosmos_absent :: "cosmos_node \<Rightarrow> time \<Rightarrow> CosmosBridgeClient \<Rightarrow> string \<Rightarrow> bool" where
  "cosmos_absent node now cl h \<longleftrightarrow>
     (case cosmos_read node now cl h of Some (Inl e) \<Rightarrow> error_Contains e ''not found'' | _ \<Rightarrow> False)"

definition cosmos_clock :: "cosmos_node \<Rightarrow> time option" where
  "cosmos_clock node = (case CometHeader node None of Inl e \<Rightarrow> None | Inr t \<Rightarrow> t)"

interpretation evm_retry: retry_client "evm_bridge lib node cancelled now ticks cl"
    "evm_failed lib node now cl" "evm_absent lib node now cl" "evm_clock node" for lib node cancelled now ticks cl
  by unfold_locales
    (auto simp: evm_bridge_def evm_ShouldRetryTx_def gone_def evm_failed_def evm_absent_def evm_clock_def
      split: prod.splits sum.splits)

interpretation cosmos_retry: retry_client "cosmos_bridge lib nodes cancelled now ticks cl"
    "cosmos_failed (nodes 0) now cl" "cosmos_absent (nodes 0) now cl" "cosmos_clock (nodes 0)"
    for lib nodes cancelled now ticks cl
  by unfold_locales
    (auto simp: cosmos_bridge_def cosmos_ShouldRetryTx_def gone_def cosmos_failed_def cosmos_absent_def cosmos_clock_def
      cosmos_read_def Let_def split: prod.splits sum.splits option.splits)

text \<open>
  C10. On the way from a Cosmos to an EVM chain, a submitted transaction is given up exactly when
  its chain reports it failed, or does not know it while the time of its latest block has passed
  the two minutes of the expiry: the receive transaction on the EVM chain, the acknowledgement and
  the timeout on the Cosmos chain.
\<close>

theorem retry_iff_gone:
  assumes "no_faults (env_db en)" "env_clients en dst = Some (evm_bridge lib node c now ticks cl)"
    and "env_clients en src = Some (cosmos_bridge sdk nodes c' now' ticks' cl')"
    and "RecvTxHash t = Some h" "RecvTxTime t = Some s" "AckTxHash u = Some h'" "AckTxTime u = Some s'"
    and "TimeoutTxHash v = Some h''" "TimeoutTxTime v = Some s''"
  shows "(snd (RetryRecvPacket_Process dst en w t) = Inl (Sentinel ErrRetryingRecvPacket) \<longleftrightarrow>
      gone (evm_failed lib node now cl) (evm_absent lib node now cl) (evm_clock node) h (2 * minute) s) \<and>
    (snd (RetryAckPacket_Process src en w u) = Inl (Sentinel ErrRetryingAckPacket) \<longleftrightarrow>
      gone (cosmos_failed (nodes 0) now' cl') (cosmos_absent (nodes 0) now' cl') (cosmos_clock (nodes 0)) h' (2 * minute) s') \<and>
    (snd (RetryTimeoutPacket_Process src en w v) = Inl (Sentinel ErrRetryingTimeoutPacket) \<longleftrightarrow>
      gone (cosmos_failed (nodes 0) now' cl') (cosmos_absent (nodes 0) now' cl') (cosmos_clock (nodes 0)) h'' (2 * minute) s'')"
  using evm_retry.retry_recv_iff [OF assms(2,4,5,1)] cosmos_retry.retry_ack_iff [OF assms(3,6,7,1)]
    cosmos_retry.retry_timeout_iff [OF assms(3,8,9,1)]
  by (simp add: RetryRecvExpiry_def RetryAckExpiry_def RetryTimeoutExpiry_def)

section \<open>The end of a timeout\<close>


section \<open>Examples\<close>

definition sample_evm_call :: "time \<Rightarrow> evm_call" where
  "sample_evm_call now = \<lparr>ec_lib = sample_lib, ec_node = sample_node, ec_cancelled = None, ec_now = now, ec_finish = now + 2,
     ec_bytes = [1], ec_to = ''router''\<rparr>"

theorem evm_deliveries_paced_witness:
  "run_deliveries evm_deliver [sample_evm_call 3, sample_evm_call 4] sample_evm_client =
     [(sample_evm_call 3, [3], True), (sample_evm_call 4, [7], True)] \<and>
   ec_finish (sample_evm_call 3) + txSubmissionDelay sample_evm_client \<le> 7"
proof
  show run: "run_deliveries evm_deliver [sample_evm_call 3, sample_evm_call 4] sample_evm_client =
     [(sample_evm_call 3, [3], True), (sample_evm_call 4, [7], True)]"
    by (simp add: evm_deliver_def sample_evm_call_def evm_DeliverTx_def evm_signAndSubmitData_def evm_newTx_def sample_evm_defs)
  show "ec_finish (sample_evm_call 3) + txSubmissionDelay sample_evm_client \<le> 7"
    using evm_deliveries_paced [of "[sample_evm_call 3, sample_evm_call 4]" sample_evm_client "[]" "sample_evm_call 3" "[3]"
        "[(sample_evm_call 4, [7], True)]" "sample_evm_call 4" "[7]" True 7] run
    by (simp add: sample_evm_call_def)
qed

definition sample_cosmos_call :: "time \<Rightarrow> cosmos_call" where
  "sample_cosmos_call now = \<lparr>cc_lib = sample_sdk, cc_nodes = (\<lambda>i. sample_comet), cc_cancelled = None, cc_now = now,
     cc_finish = now + 2, cc_bytes = [7], cc_to = []\<rparr>"

lemma sample_cosmos_deliver:
  assumes "cosmos_prefix cl = ''cosmos''" "cosmos_gasPrice cl = 1 / 40" "cosmos_feeDenom cl = ''uatom''" "cosmos_feeAmount cl = 0"
  shows "cosmos_deliver (sample_cosmos_call now) cl =
    (cl\<lparr>cosmos_lastSubmissionTime := now + 2\<rparr>, [max now (cosmos_lastSubmissionTime cl + cosmos_txSubmissionDelay cl)], True)"
  using assms
  by (simp add: cosmos_deliver_def sample_cosmos_call_def cosmos_DeliverTx_def cosmos_signAndSubmit_def sample_sdk_def
      is_update_def signAndSubmitMessages_def getEstimatedGasLimit_def getTxFee_def sample_comet_def Let_def)

lemma sample_cosmos_client_fields:
  "cosmos_prefix sample_cosmos_client = ''cosmos''" "cosmos_gasPrice sample_cosmos_client = 1 / 40"
  "cosmos_feeDenom sample_cosmos_client = ''uatom''" "cosmos_feeAmount sample_cosmos_client = 0"
  "cosmos_lastSubmissionTime sample_cosmos_client = zero_time" "cosmos_txSubmissionDelay sample_cosmos_client = 8 * second"
  by (simp_all add: sample_cosmos_client_def NewCosmosBridgeClient_def)

theorem cosmos_deliveries_paced_witness:
  "run_deliveries cosmos_deliver [sample_cosmos_call 3, sample_cosmos_call 4] sample_cosmos_client =
     [(sample_cosmos_call 3, [3], True), (sample_cosmos_call 4, [5 + 8 * second], True)] \<and>
   cc_finish (sample_cosmos_call 3) + cosmos_txSubmissionDelay sample_cosmos_client \<le> 5 + 8 * second"
proof
  show run: "run_deliveries cosmos_deliver [sample_cosmos_call 3, sample_cosmos_call 4] sample_cosmos_client =
     [(sample_cosmos_call 3, [3], True), (sample_cosmos_call 4, [5 + 8 * second], True)]"
    by (simp add: sample_cosmos_deliver sample_cosmos_client_fields) (simp add: zero_time_def second_def)
  show "cc_finish (sample_cosmos_call 3) + cosmos_txSubmissionDelay sample_cosmos_client \<le> 5 + 8 * second"
    using cosmos_deliveries_paced [of "[sample_cosmos_call 3, sample_cosmos_call 4]" sample_cosmos_client "[]"
        "sample_cosmos_call 3" "[3]" "[(sample_cosmos_call 4, [5 + 8 * second], True)]" "sample_cosmos_call 4"
        "[5 + 8 * second]" True "5 + 8 * second"] run
    by (simp add: sample_cosmos_call_def)
qed

text \<open>A failed receive transaction on the EVM chain, and a pending acknowledgement on the Cosmos chain.\<close>

definition failing_node :: evm_node where
  "failing_node = sample_node\<lparr>TransactionReceipt := (\<lambda>h. Inr (sample_receipt\<lparr>ReceiptStatus := 0\<rparr>))\<rparr>"

definition pending_comet :: cosmos_node where
  "pending_comet = sample_comet\<lparr>CometTx := (\<lambda>b. Inl (External ''tx not found''))\<rparr>"

definition chains_env :: env where
  "chains_env = sample_env\<lparr>env_clients :=
     [''b'' \<mapsto> evm_bridge sample_lib failing_node None 0 [] sample_evm_client,
      ''a'' \<mapsto> cosmos_bridge sample_sdk (\<lambda>i. pending_comet) None 0 [] sample_cosmos_client]\<rparr>"

theorem retry_iff_gone_witness:
  "snd (RetryRecvPacket_Process ''b'' chains_env sample_world (sample_transfer\<lparr>RecvTxHash := Some ''AB'', RecvTxTime := Some 7\<rparr>)) =
     Inl (Sentinel ErrRetryingRecvPacket) \<and>
   snd (RetryAckPacket_Process ''a'' chains_env sample_world (sample_transfer\<lparr>AckTxHash := Some ''AB'', AckTxTime := Some 7\<rparr>)) \<noteq>
     Inl (Sentinel ErrRetryingAckPacket)"
proof -
  let ?t = "sample_transfer\<lparr>RecvTxHash := Some ''AB'', RecvTxTime := Some 7\<rparr>"
  let ?u = "sample_transfer\<lparr>AckTxHash := Some ''AB'', AckTxTime := Some 7\<rparr>"
  let ?v = "sample_transfer\<lparr>TimeoutTxHash := Some ''AB'', TimeoutTxTime := Some 7\<rparr>"
  have 1: "evm_failed sample_lib failing_node 0 sample_evm_client ''AB''"
    by (simp add: evm_failed_def evm_receipt_first sample_evm_client_def NewOnceWithKey_def failing_node_def)
  have 2: "cosmos_read pending_comet 0 sample_cosmos_client ''AB'' = Some (Inl (External ''tx not found''))"
    by (simp add: cosmos_read_def hex_value_def cosmos_result_first sample_cosmos_client_def NewCosmosBridgeClient_def
        NewOnceWithKey_def pending_comet_def)
  have 3: "cosmos_clock pending_comet = Some 50" by (simp add: cosmos_clock_def pending_comet_def sample_comet_def)
  have "no_faults (env_db chains_env)" by (simp add: chains_env_def sample_env_def sample_dbtx_def)
  from retry_iff_gone [OF this, of "''b''" sample_lib failing_node None 0 "[]" sample_evm_client "''a''" sample_sdk
      "\<lambda>i. pending_comet" None 0 "[]" sample_cosmos_client ?t "''AB''" 7 ?u "''AB''" 7 ?v "''AB''" 7 sample_world]
  show ?thesis using 1 2 3 by (simp add: chains_env_def gone_def cosmos_failed_def minute_def second_def)
qed


end
