(* ===== verification/Relayer_Clients.thy ===== *)
theory Relayer_Clients
  imports Relayer_Chains
begin

text \<open>
  The construction of the bridge clients in \<open>relayer/ibcv2/client_manager.go\<close> and the signers
  they get (\<open>relayer/ibcv2/remote_evm_signer.go\<close>, \<open>remote_cosmos_signer.go\<close>,
  \<open>shared/signing\<close>).

  \<^item> \<open>key_lib\<close> holds the cryptography, \<open>SignerService\<close> the answers of the remote signer and
    \<open>dialer\<close> those of the connections; all are parameters.
  \<^item> A Cosmos client asks its signer for the address at each use; the record of the client holds
    the answer.
  \<^item> A manager is the map from chain ids to clients, which are told apart by their kind.
\<close>

section \<open>Signers\<close>

datatype PubKeyType = PubKeyType_Cosmos | PubKeyType_Ethereum

record SignerService =
  GetWallet :: "string \<Rightarrow> PubKeyType \<Rightarrow> bytes res"
  SignEvm :: "string \<Rightarrow> string \<Rightarrow> bytes \<Rightarrow> (bytes \<times> bytes \<times> bytes) res"
  SignCosmos :: "string \<Rightarrow> bytes \<Rightarrow> bytes res"

record key_lib =
  HexToECDSA :: "string \<Rightarrow> bytes res"
  UnmarshalAmino :: "bytes \<Rightarrow> go_error option"
  EthAddressOfKey :: "bytes \<Rightarrow> bytes"
  CosmosAddressOfKey :: "bytes \<Rightarrow> bytes"
  UnmarshalPubkey :: "bytes \<Rightarrow> go_error option"
  PubkeyToAddress :: "bytes \<Rightarrow> bytes"
  Secp256k1Address :: "bytes \<Rightarrow> bytes"
  MarshalBinary :: "bytes \<Rightarrow> bytes res"
  EthSign :: "int \<Rightarrow> bytes \<Rightarrow> bytes \<Rightarrow> bytes res"
  TxHashFor :: "int option \<Rightarrow> bytes \<Rightarrow> bytes"
  Ecrecover :: "bytes \<Rightarrow> bytes \<Rightarrow> go_error option"
  WithSignature :: "int option \<Rightarrow> bytes \<Rightarrow> bytes \<Rightarrow> bytes res"

text \<open>The implementations of \<open>signing.Signer\<close> the manager uses.\<close>

datatype signer =
    LocalEthereumSigner bytes
  | LocalCosmosSigner bytes
  | RemoteEVMSigner string string
  | RemoteCosmosSigner string string

text \<open>
  \<open>Address\<close>. A remote signer that does not answer gives the empty address; one that answers with
  a key that is not one does too, on an EVM chain.
\<close>

definition RemoteEVMSigner_Address :: "key_lib \<Rightarrow> SignerService \<Rightarrow> string \<Rightarrow> bytes" where
  "RemoteEVMSigner_Address lib sv walletID =
     (case GetWallet sv walletID PubKeyType_Ethereum of
        Inl e \<Rightarrow> []
      | Inr pubKeyBytes \<Rightarrow>
          (case UnmarshalPubkey lib pubKeyBytes of
             Some e \<Rightarrow> []
           | None \<Rightarrow> PubkeyToAddress lib pubKeyBytes))"

definition RemoteCosmosSigner_Address :: "key_lib \<Rightarrow> SignerService \<Rightarrow> string \<Rightarrow> bytes" where
  "RemoteCosmosSigner_Address lib sv walletID =
     (case GetWallet sv walletID PubKeyType_Cosmos of
        Inl e \<Rightarrow> []
      | Inr pubKeyBytes \<Rightarrow> Secp256k1Address lib pubKeyBytes)"

definition signer_Address :: "key_lib \<Rightarrow> SignerService \<Rightarrow> signer \<Rightarrow> bytes" where
  "signer_Address lib sv s =
     (case s of
        LocalEthereumSigner key \<Rightarrow> EthAddressOfKey lib key
      | LocalCosmosSigner key \<Rightarrow> CosmosAddressOfKey lib key
      | RemoteEVMSigner walletID chainID \<Rightarrow> RemoteEVMSigner_Address lib sv walletID
      | RemoteCosmosSigner walletID chainID \<Rightarrow> RemoteCosmosSigner_Address lib sv walletID)"

text \<open>
  The function \<open>RemoteSignerToBindSignerFn\<close> returns: the signature is put together from its
  three parts, checked, and set on the transaction. A chain id that is not a number is passed on
  as nil.
\<close>

definition RemoteSignerToBindSignerFn ::
  "key_lib \<Rightarrow> SignerService \<Rightarrow> string \<Rightarrow> string \<Rightarrow> bytes \<Rightarrow> bytes res" where
  "RemoteSignerToBindSignerFn lib sv chainID signerWalletID tx =
     (case MarshalBinary lib tx of
        Inl e \<Rightarrow> Inl (Errorf ''failed to marshal transaction: %w'' [e])
      | Inr txBytes \<Rightarrow>
     (case SignEvm sv signerWalletID chainID txBytes of
        Inl e \<Rightarrow> Inl (Errorf ''failed to sign transaction. Error: %w'' [e])
      | Inr (r, s, v) \<Rightarrow>
     (let chainIDInt = big_SetString10 chainID; sig = r @ (s @ v) in
      case Ecrecover lib (TxHashFor lib chainIDInt tx) sig of
        Some e \<Rightarrow> Inl (Errorf ''failed to get public key from evm signature. Error: %w'' [e])
      | None \<Rightarrow>
     (case WithSignature lib chainIDInt tx sig of
        Inl e \<Rightarrow> Inl (Errorf ''failed to set signature on evm tx. Error: %w'' [e])
      | Inr signedTx \<Rightarrow> Inr signedTx))))"

definition LocalEthereumSigner_Sign :: "key_lib \<Rightarrow> bytes \<Rightarrow> string \<Rightarrow> bytes \<Rightarrow> bytes res" where
  "LocalEthereumSigner_Sign lib key chainID tx =
     (case big_SetString10 chainID of
        None \<Rightarrow> Inl (Errorf ''invalid chain ID'' [])
      | Some intChainID \<Rightarrow> EthSign lib intChainID tx key)"

definition RemoteEVMSigner_Sign :: "key_lib \<Rightarrow> SignerService \<Rightarrow> string \<Rightarrow> string \<Rightarrow> bytes \<Rightarrow> bytes res" where
  "RemoteEVMSigner_Sign lib sv walletID chainID tx =
     (case RemoteSignerToBindSignerFn lib sv chainID walletID tx of
        Inl e \<Rightarrow> Inl (Errorf ''remote EVM signing failed: %w'' [e])
      | Inr signedTx \<Rightarrow> Inr signedTx)"

text \<open>\<open>Sign\<close> of a signer on an EVM transaction; those of a Cosmos chain refuse its type.\<close>

definition evm_Sign :: "key_lib \<Rightarrow> SignerService \<Rightarrow> signer \<Rightarrow> string \<Rightarrow> bytes \<Rightarrow> bytes res" where
  "evm_Sign lib sv s chainID tx =
     (case s of
        LocalEthereumSigner key \<Rightarrow> LocalEthereumSigner_Sign lib key chainID tx
      | RemoteEVMSigner walletID _ \<Rightarrow> RemoteEVMSigner_Sign lib sv walletID chainID tx
      | LocalCosmosSigner _ \<Rightarrow> Inl (Errorf ''unsupported transaction type'' [])
      | RemoteCosmosSigner _ _ \<Rightarrow> Inl (Errorf ''expected CosmosTransaction, got %T'' []))"

text \<open>
  Signing for a Cosmos chain. The builder of a transaction is the transaction; \<open>SetSignatures\<close> sets
  the key, the signature and the sequence.
\<close>

record CosmosTransaction =
  CxTx :: bytes
  CxAccountNumber :: uint64
  CxSequence :: uint64

record sdk_signing =
  WrapTxBuilder :: "bytes \<Rightarrow> bytes res"
  GetSignBytes :: "string \<Rightarrow> uint64 \<Rightarrow> uint64 \<Rightarrow> bytes \<Rightarrow> bytes res"
  SetSignatures :: "bytes \<Rightarrow> bytes \<Rightarrow> uint64 \<Rightarrow> bytes \<Rightarrow> bytes res"
  SignWithPrivKey :: "string \<Rightarrow> uint64 \<Rightarrow> uint64 \<Rightarrow> bytes \<Rightarrow> bytes \<Rightarrow> bytes res"
  PubKeyOf :: "bytes \<Rightarrow> bytes"

definition SignCosmosTransaction ::
  "sdk_signing \<Rightarrow> SignerService \<Rightarrow> bytes \<Rightarrow> uint64 \<Rightarrow> uint64 \<Rightarrow> string \<Rightarrow> string \<Rightarrow> bytes res" where
  "SignCosmosTransaction sdk sv txb accountNumber sequence chainID signerWalletID =
     (case GetSignBytes sdk chainID accountNumber sequence txb of
        Inl e \<Rightarrow> Inl (Errorf ''getting bytes to sign: %w'' [e])
      | Inr signDocBz \<Rightarrow>
     (case SignCosmos sv signerWalletID signDocBz of
        Inl e \<Rightarrow> Inl (Errorf ''failed to sign transaction. Error: %w'' [e])
      | Inr signature \<Rightarrow>
     (case GetWallet sv signerWalletID PubKeyType_Cosmos of
        Inl e \<Rightarrow> Inl (Errorf ''failed to get wallet from signer to retrieve public key. Error: %w'' [e])
      | Inr pubKeyBytes \<Rightarrow> SetSignatures sdk pubKeyBytes signature sequence txb)))"

definition RemoteCosmosSigner_Sign ::
  "sdk_signing \<Rightarrow> SignerService \<Rightarrow> string \<Rightarrow> string \<Rightarrow> CosmosTransaction \<Rightarrow> CosmosTransaction res" where
  "RemoteCosmosSigner_Sign sdk sv walletID chainID cosmosTx =
     (case WrapTxBuilder sdk (CxTx cosmosTx) of
        Inl e \<Rightarrow> Inl (Errorf ''wrapping tx as builder: %w'' [e])
      | Inr txBuilder \<Rightarrow>
     (case SignCosmosTransaction sdk sv txBuilder (CxAccountNumber cosmosTx) (CxSequence cosmosTx) chainID walletID of
        Inl e \<Rightarrow> Inl (Errorf ''remote signing failed: %w'' [e])
      | Inr signedTx \<Rightarrow> Inr (cosmosTx\<lparr>CxTx := signedTx\<rparr>)))"

definition LocalSignCosmosTx ::
  "sdk_signing \<Rightarrow> bytes \<Rightarrow> string \<Rightarrow> uint64 \<Rightarrow> uint64 \<Rightarrow> bytes \<Rightarrow> bytes res" where
  "LocalSignCosmosTx sdk privateKey chainID accountNumber sequence tx =
     (case WrapTxBuilder sdk tx of
        Inl e \<Rightarrow> Inl e
      | Inr txBuilder \<Rightarrow>
     (case SetSignatures sdk (PubKeyOf sdk privateKey) [] sequence txBuilder of
        Inl e \<Rightarrow> Inl e
      | Inr txBuilder1 \<Rightarrow>
     (case SignWithPrivKey sdk chainID accountNumber sequence txBuilder1 privateKey of
        Inl e \<Rightarrow> Inl e
      | Inr signature \<Rightarrow> SetSignatures sdk (PubKeyOf sdk privateKey) signature sequence txBuilder1)))"

definition LocalCosmosSigner_Sign ::
  "sdk_signing \<Rightarrow> bytes \<Rightarrow> string \<Rightarrow> CosmosTransaction \<Rightarrow> CosmosTransaction res" where
  "LocalCosmosSigner_Sign sdk privateKey chainID cosmosTx =
     (case LocalSignCosmosTx sdk privateKey chainID (CxAccountNumber cosmosTx) (CxSequence cosmosTx) (CxTx cosmosTx) of
        Inl e \<Rightarrow> Inl e
      | Inr signedTx \<Rightarrow> Inr (cosmosTx\<lparr>CxTx := signedTx\<rparr>))"

section \<open>Keys\<close>

text \<open>
  The key file of \<open>cmd/relayer/main.go\<close>; \<open>os.ReadFile\<close> and \<open>json.Unmarshal\<close> are parameters. A
  missing entry of a Go map reads as the empty string.
\<close>

definition LoadChainIDToPrivateKeyMap ::
  "(string \<Rightarrow> bytes res) \<Rightarrow> (bytes \<Rightarrow> (string \<rightharpoonup> (string \<rightharpoonup> string)) res) \<Rightarrow> string \<Rightarrow> (string \<rightharpoonup> string) res" where
  "LoadChainIDToPrivateKeyMap readFile unmarshal keysPath =
     (case readFile keysPath of
        Inl e \<Rightarrow> Inl e
      | Inr keysBytes \<Rightarrow>
     (case unmarshal keysBytes of
        Inl e \<Rightarrow> Inl e
      | Inr rawKeysMap \<Rightarrow>
          Inr (\<lambda>key. map_option (\<lambda>entry. case entry ''private_key'' of None \<Rightarrow> [] | Some k \<Rightarrow> k) (rawKeysMap key))))"

section \<open>Creating signers and connections\<close>

definition createEthSigner ::
  "key_lib \<Rightarrow> string \<Rightarrow> (string \<rightharpoonup> string) \<Rightarrow> bool \<Rightarrow> string \<Rightarrow> signer res" where
  "createEthSigner lib chainID keys remote walletID =
     (if remote then Inr (RemoteEVMSigner walletID chainID)
      else
        (case keys chainID of
           None \<Rightarrow> Inl (Errorf ''private key not found for chain %s'' [])
         | Some privateKeyStr \<Rightarrow>
        (case HexToECDSA lib (TrimPrefix privateKeyStr ''0x'') of
           Inl e \<Rightarrow> Inl (Errorf ''converting hex private key to ecdsa: %w'' [e])
         | Inr privateKey \<Rightarrow> Inr (LocalEthereumSigner privateKey))))"

text \<open>Slicing \<open>privateKeyStr[:2]\<close> panics on a shorter string.\<close>

definition createCosmosSigner ::
  "key_lib \<Rightarrow> string \<Rightarrow> (string \<rightharpoonup> string) \<Rightarrow> bool \<Rightarrow> string \<Rightarrow> signer res outcome" where
  "createCosmosSigner lib chainID keys remote walletID =
     (if remote then Ret (Inr (RemoteCosmosSigner walletID chainID))
      else
        (case keys chainID of
           None \<Rightarrow> Ret (Inl (Errorf ''private key not found for chain %s'' []))
         | Some privateKeyStr \<Rightarrow>
             if length privateKeyStr < 2 then Panic
             else
               (let hexKey = (if take 2 privateKeyStr = ''0x'' then drop 2 privateKeyStr else privateKeyStr) in
                case hex_DecodeString hexKey of
                  Inl e \<Rightarrow> Ret (Inl (Errorf ''hex decoding private key bytes to string: %w'' [e]))
                | Inr privateKeyBytes \<Rightarrow>
               (case UnmarshalAmino lib privateKeyBytes of
                  Some e \<Rightarrow> Ret (Inl (Errorf ''unmarshaling private key bytes to amino: %w'' [e]))
                | None \<Rightarrow> Ret (Inr (LocalCosmosSigner privateKeyBytes))))))"

text \<open>The connections: dialling an endpoint, and binding the two contracts of an EVM chain.\<close>

record dialer =
  DialEth :: "string \<Rightarrow> go_error option"
  NewRouter :: "string \<Rightarrow> go_error option"
  NewTransfer :: "string \<Rightarrow> go_error option"
  NewTmRPC :: "string \<Rightarrow> go_error option"
  NewGRPC :: "string \<Rightarrow> bool \<Rightarrow> go_error option"

text \<open>The endpoint, and the value of the \<open>Authorization\<close> header when there is one.\<close>

definition createEthClient ::
  "dialer \<Rightarrow> (string \<rightharpoonup> string) \<Rightarrow> configReader \<Rightarrow> string \<Rightarrow> (string \<times> string option) res" where
  "createEthClient io lookupEnv cfg chainID =
     (case GetRPCEndpoint cfg chainID of
        Inl e \<Rightarrow> Inl e
      | Inr rpc \<Rightarrow>
     (case GetBasicAuth lookupEnv cfg chainID of
        Inl e \<Rightarrow> Inl e
      | Inr basicAuth \<Rightarrow>
     (case DialEth io rpc of
        Some e \<Rightarrow> Inl e
      | None \<Rightarrow> Inr (rpc, map_option (\<lambda>a. ''Basic '' @ a) basicAuth))))"

definition createCosmosRPC ::
  "dialer \<Rightarrow> (string \<rightharpoonup> string) \<Rightarrow> configReader \<Rightarrow> string \<Rightarrow> (string \<times> string option) res" where
  "createCosmosRPC io lookupEnv cfg chainID =
     (case GetRPCEndpoint cfg chainID of
        Inl e \<Rightarrow> Inl (Errorf ''getting rpc endpoint for chain %s: %w'' [e])
      | Inr rpc \<Rightarrow>
     (case GetBasicAuth lookupEnv cfg chainID of
        Inl e \<Rightarrow> Inl (Errorf ''getting basic auth for chain %s: %w'' [e])
      | Inr basicAuth \<Rightarrow>
     (case NewTmRPC io rpc of
        Some e \<Rightarrow> Inl (Errorf ''creating tmrpc client for chain %s: %w'' [e])
      | None \<Rightarrow> Inr (rpc, map_option (\<lambda>a. ''Basic '' @ a) basicAuth))))"

definition createCosmosGRPC :: "dialer \<Rightarrow> configReader \<Rightarrow> string \<Rightarrow> (string \<times> bool) res" where
  "createCosmosGRPC io cfg chainID =
     (case GetGRPCEndpoint cfg chainID of
        Inl e \<Rightarrow> Inl (Errorf ''getting grpc endpoint for chain %s: %w'' [e])
      | Inr (addr, tlsEnabled) \<Rightarrow>
     (case NewGRPC io addr tlsEnabled of
        Some e \<Rightarrow> Inl (Errorf ''creating grpc client at address %s with tls %t: %w'' [e])
      | None \<Rightarrow> Inr (addr, tlsEnabled)))"

section \<open>The client manager\<close>

datatype bridge = EvmBridge signer EVMBridgeClient | CosmosBridge signer CosmosBridgeClient

text \<open>The health checks of the remote signer.\<close>

definition check_signer :: "SignerService \<Rightarrow> string \<Rightarrow> string \<Rightarrow> ChainConfig list \<Rightarrow> go_error option" where
  "check_signer sv signerCosmosWalletID signerEVMWalletID chainConfigs =
     (let hasCosmosChains = list_ex (\<lambda>chain. Type chain = ChainType_COSMOS) chainConfigs;
          hasEVMChains = list_ex (\<lambda>chain. Type chain = ChainType_EVM) chainConfigs
      in case (if hasCosmosChains \<and> signerCosmosWalletID \<noteq> []
               then (case GetWallet sv signerCosmosWalletID PubKeyType_Cosmos of Inl e \<Rightarrow> Some e | Inr _ \<Rightarrow> None) else None) of
           Some e \<Rightarrow> Some (Errorf ''remote signer health check failed for wallet %s: %w'' [e])
         | None \<Rightarrow>
             (case (if hasEVMChains \<and> signerEVMWalletID \<noteq> []
                    then (case GetWallet sv signerEVMWalletID PubKeyType_Ethereum of Inl e \<Rightarrow> Some e | Inr _ \<Rightarrow> None) else None) of
                Some e \<Rightarrow> Some (Errorf ''remote signer health check failed for wallet %s: %w'' [e])
              | None \<Rightarrow> None))"

text \<open>What the constructors get besides the configuration.\<close>

record manager_env =
  me_lib :: key_lib
  me_eth :: eth_lib
  me_io :: dialer
  me_signer :: SignerService
  me_lookupEnv :: "string \<rightharpoonup> string"
  me_keys :: "string \<rightharpoonup> string"
  me_remote :: bool
  me_cosmosWallet :: string
  me_evmWallet :: string

text \<open>The case of an EVM chain; a chain without its \<open>evm\<close> section is dereferenced.\<close>

definition build_evm :: "manager_env \<Rightarrow> configReader \<Rightarrow> ChainConfig \<Rightarrow> bridge res outcome" where
  "build_evm en cfg chain =
     (let chainID = ChainID chain in
      case createEthSigner (me_lib en) chainID (me_keys en) (me_remote en) (me_evmWallet en) of
        Inl e \<Rightarrow> Ret (Inl (Errorf ''creating eth signer for chain %s: %w'' [e]))
      | Inr signer \<Rightarrow>
     (case createEthClient (me_io en) (me_lookupEnv en) cfg chainID of
        Inl e \<Rightarrow> Ret (Inl (Errorf ''creating eth client for chain %s: %w'' [e]))
      | Inr client \<Rightarrow>
     (case EVM chain of
        None \<Rightarrow> Panic
      | Some evm \<Rightarrow>
     (case NewEVMBridgeClient (me_eth en) chainID (ICS26RouterAddress (Contracts evm))
             (NewRouter (me_io en) (ICS26RouterAddress (Contracts evm)))
             (NewTransfer (me_io en) (ICS20TransferAddress (Contracts evm)))
             (signer_Address (me_lib en) (me_signer en) signer) (GasFeeCapMultiplier evm) (GasTipCapMultiplier evm) of
        Inl e \<Rightarrow> Ret (Inl (Errorf ''creating evm bridge client for chain %s: %w'' [e]))
      | Inr cl \<Rightarrow> Ret (Inr (EvmBridge signer cl))))))"

text \<open>The checks on the fee of a Cosmos chain, in the order of the code.\<close>

definition check_fee :: "CosmosConfig \<Rightarrow> go_error option" where
  "check_fee c =
     (if (0 < GasPrice c \<or> 0 < IBCV2TxFeeAmount c) \<and> IBCV2TxFeeDenom c = []
      then Some (Errorf ''ibcv2 gas price or ibcv2 fee amount cannot be specified without setting ibcv2 fee denom'' [])
      else if IBCV2TxFeeDenom c \<noteq> [] \<and> (GasPrice c = 0 \<and> IBCV2TxFeeAmount c = 0)
      then Some (Errorf ''ibcv2 gas price and ibcv2 fee amount cannot be unset when a ibcv2 fee denom is set'' [])
      else if 0 < GasPrice c \<and> 0 < IBCV2TxFeeAmount c
      then Some (Errorf ''ibcv2 fee denom and ibcv2 gas price cannot both be set'' [])
      else None)"

definition build_cosmos :: "manager_env \<Rightarrow> configReader \<Rightarrow> ChainConfig \<Rightarrow> bridge res outcome" where
  "build_cosmos en cfg chain =
     (let chainID = ChainID chain in
      case Cosmos chain of
        None \<Rightarrow> Panic
      | Some c \<Rightarrow>
     (case check_fee c of
        Some e \<Rightarrow> Ret (Inl e)
      | None \<Rightarrow>
     (case createCosmosSigner (me_lib en) chainID (me_keys en) (me_remote en) (me_cosmosWallet en) of
        Panic \<Rightarrow> Panic
      | Ret (Inl e) \<Rightarrow> Ret (Inl (Errorf ''creating cosmos signer for chain %s: %w'' [e]))
      | Ret (Inr signer) \<Rightarrow>
     (case createCosmosRPC (me_io en) (me_lookupEnv en) cfg chainID of
        Inl e \<Rightarrow> Ret (Inl (Errorf ''creating cosmos rpc client for chain %s: %w'' [e]))
      | Inr rpc \<Rightarrow>
     (case createCosmosGRPC (me_io en) cfg chainID of
        Inl e \<Rightarrow> Ret (Inl (Errorf ''creating cosmos grpc connection for chain %s: %w'' [e]))
      | Inr conn \<Rightarrow>
          Ret (Inr (CosmosBridge signer
            (NewCosmosBridgeClient chainID (signer_Address (me_lib en) (me_signer en) signer) (AddressPrefix c) (GasPrice c)
               (IBCV2TxFeeDenom c) (IBCV2TxFeeAmount c)))))))))"

fun build_clients ::
  "manager_env \<Rightarrow> configReader \<Rightarrow> ChainConfig list \<Rightarrow> (string \<rightharpoonup> bridge) \<Rightarrow> (string \<rightharpoonup> bridge) res outcome" where
  "build_clients en cfg [] clients = Ret (Inr clients)"
| "build_clients en cfg (chain # chainConfigs) clients =
     (if Type chain = ChainType_EVM \<or> Type chain = ChainType_COSMOS then
        (case (if Type chain = ChainType_EVM then build_evm en cfg chain else build_cosmos en cfg chain) of
           Panic \<Rightarrow> Panic
         | Ret (Inl e) \<Rightarrow> Ret (Inl e)
         | Ret (Inr bridge) \<Rightarrow> build_clients en cfg chainConfigs (clients(ChainID chain \<mapsto> bridge)))
      else build_clients en cfg chainConfigs clients)"

definition NewClientManagerFromConfig ::
  "manager_env \<Rightarrow> configReader \<Rightarrow> ChainConfig list \<Rightarrow> (string \<rightharpoonup> bridge) res outcome" where
  "NewClientManagerFromConfig en cfg chainConfigs =
     (case (if me_remote en then check_signer (me_signer en) (me_cosmosWallet en) (me_evmWallet en) chainConfigs else None) of
        Some e \<Rightarrow> Ret (Inl e)
      | None \<Rightarrow> build_clients en cfg chainConfigs Map.empty)"

section \<open>Facts\<close>

lemma build_clients_dom:
  assumes "build_clients en cfg cs clients = Ret (Inr m)"
  shows "dom m = dom clients \<union> ChainID ` {c \<in> set cs. Type c = ChainType_EVM \<or> Type c = ChainType_COSMOS}"
  using assms
  by (induction cs arbitrary: clients) (auto split: outcome.splits sum.splits if_splits)

lemma build_clients_entries:
  assumes "build_clients en cfg cs clients = Ret (Inr m)" "m i = Some b"
  shows "clients i = Some b \<or> (\<exists>c \<in> set cs. ChainID c = i \<and>
    (Type c = ChainType_EVM \<and> build_evm en cfg c = Ret (Inr b) \<or> Type c = ChainType_COSMOS \<and> build_cosmos en cfg c = Ret (Inr b)))"
  using assms
proof (induction cs arbitrary: clients)
  case (Cons c cs)
  show ?case
  proof (cases "Type c = ChainType_EVM \<or> Type c = ChainType_COSMOS")
    case False
    then show ?thesis using Cons by auto
  next
    case True
    then obtain b' where b': "(if Type c = ChainType_EVM then build_evm en cfg c else build_cosmos en cfg c) = Ret (Inr b')"
        and rest: "build_clients en cfg cs (clients(ChainID c \<mapsto> b')) = Ret (Inr m)"
      using Cons.prems(1) by (auto split: outcome.splits sum.splits if_splits)
    show ?thesis using Cons.IH [OF rest Cons.prems(2)] b' True by (auto split: if_splits)
  qed
qed simp

lemma manager_built:
  "NewClientManagerFromConfig en cfg cs = Ret (Inr m) \<Longrightarrow> build_clients en cfg cs Map.empty = Ret (Inr m)"
  by (auto simp: NewClientManagerFromConfig_def split: option.splits if_splits)

lemma build_evm_client:
  "build_evm en cfg c = Ret (Inr b) \<Longrightarrow>
   \<exists>s cl. b = EvmBridge s cl \<and> evm_chainID cl = ChainID c \<and> length (evm_signerAddress cl) = 20"
  by (auto simp: build_evm_def NewEVMBridgeClient_def Let_def split: sum.splits option.splits if_splits)

lemma build_cosmos_client:
  "build_cosmos en cfg c = Ret (Inr b) \<Longrightarrow>
   \<exists>s cl cc. b = CosmosBridge s cl \<and> cosmos_chainID cl = ChainID c \<and> Cosmos c = Some cc \<and> check_fee cc = None \<and>
     cosmos_gasPrice cl = GasPrice cc \<and> cosmos_feeDenom cl = IBCV2TxFeeDenom cc \<and> cosmos_feeAmount cl = IBCV2TxFeeAmount cc"
  by (auto simp: build_cosmos_def NewCosmosBridgeClient_def Let_def split: sum.splits option.splits outcome.splits)

section \<open>Properties\<close>

text \<open>
  A manager that could be built has a client for exactly the EVM and Cosmos chains it was given;
  the client of a chain is of the kind of the chain and carries its id, and an EVM client signs for
  a proper address.
\<close>

lemma manager_complete:
  assumes "NewClientManagerFromConfig en cfg cs = Ret (Inr m)"
  shows "dom m = ChainID ` {c \<in> set cs. Type c = ChainType_EVM \<or> Type c = ChainType_COSMOS} \<and>
    (\<forall>i b. m i = Some b \<longrightarrow> (\<exists>c \<in> set cs. ChainID c = i \<and>
       (case b of
          EvmBridge s cl \<Rightarrow> Type c = ChainType_EVM \<and> evm_chainID cl = i \<and> length (evm_signerAddress cl) = 20
        | CosmosBridge s cl \<Rightarrow> Type c = ChainType_COSMOS \<and> cosmos_chainID cl = i)))"
  using build_clients_dom [OF manager_built [OF assms]] build_clients_entries [OF manager_built [OF assms]]
    build_evm_client build_cosmos_client by fastforce


text \<open>
  Without a remote signer, a private key of fewer than two characters ends the start of the relayer
  with a panic for a Cosmos chain; no other key does. An entry of the key file without a
  \<open>private_key\<close> is such a key.
\<close>

lemma short_key_panics:
  "createCosmosSigner lib chainID keys remote walletID = Panic \<longleftrightarrow>
     \<not> remote \<and> (\<exists>key. keys chainID = Some key \<and> length key < 2)"
  by (auto simp: createCosmosSigner_def Let_def split: option.splits sum.splits)

lemma missing_key_panics:
  assumes "LoadChainIDToPrivateKeyMap readFile unmarshal path = Inr keys" "readFile path = Inr b" "unmarshal b = Inr raw"
    and "raw chainID = Some entry" "entry ''private_key'' = None"
  shows "createCosmosSigner lib chainID keys False walletID = Panic"
  using assms by (auto simp: short_key_panics LoadChainIDToPrivateKeyMap_def)

section \<open>A sample manager\<close>

definition sample_evm_chain :: ChainConfig where
  "sample_evm_chain = (sample_chain ''1'' ChainType_EVM ''ca'' ''b'')\<lparr>EVM := Some
     \<lparr>EVMRPC = ''r'', EVMRPCBasicAuthVar = [], Contracts = \<lparr>ICS26RouterAddress = ''x'', ICS20TransferAddress = ''y''\<rparr>,
      GasFeeCapMultiplier = None, GasTipCapMultiplier = None\<rparr>\<rparr>"

definition sample_cosmos_chain :: ChainConfig where
  "sample_cosmos_chain = (sample_chain ''hub'' ChainType_COSMOS ''cb'' ''a'')\<lparr>Cosmos := Some
     \<lparr>GasPrice = 1 / 40, IBCV2TxFeeDenom = ''uatom'', IBCV2TxFeeAmount = 0, CosmosRPC = ''r'', CosmosRPCBasicAuthVar = [],
      GRPC = ''g'', GRPCTLSEnabled = True, AddressPrefix = ''cosmos''\<rparr>\<rparr>"

definition sample_manager_config :: configReader where
  "sample_manager_config =
     NewConfigReader (sample_config\<lparr>Chains := [(''1'', sample_evm_chain), (''hub'', sample_cosmos_chain)]\<rparr>)"

definition sample_manager_env :: manager_env where
  "sample_manager_env =
     \<lparr>me_lib = \<lparr>HexToECDSA = (\<lambda>s. Inr []), UnmarshalAmino = (\<lambda>b. None), EthAddressOfKey = (\<lambda>k. replicate 20 1),
        CosmosAddressOfKey = (\<lambda>k. k), UnmarshalPubkey = (\<lambda>b. None), PubkeyToAddress = (\<lambda>b. b), Secp256k1Address = (\<lambda>b. b),
        MarshalBinary = Inr, EthSign = (\<lambda>i b k. Inr b), TxHashFor = (\<lambda>i b. b), Ecrecover = (\<lambda>h s. None),
        WithSignature = (\<lambda>i b s. Inr b)\<rparr>,
      me_eth = sample_lib,
      me_io = \<lparr>DialEth = (\<lambda>r. None), NewRouter = (\<lambda>a. None), NewTransfer = (\<lambda>a. None), NewTmRPC = (\<lambda>r. None),
        NewGRPC = (\<lambda>a t. None)\<rparr>,
      me_signer = \<lparr>GetWallet = (\<lambda>w t. Inr []), SignEvm = (\<lambda>w c b. Inr ([], [], [])), SignCosmos = (\<lambda>w b. Inr [])\<rparr>,
      me_lookupEnv = Map.empty, me_keys = [''1'' \<mapsto> ''0xab'', ''hub'' \<mapsto> ''0xcd''], me_remote = False,
      me_cosmosWallet = [], me_evmWallet = []\<rparr>"

lemma sample_manager:
  "\<exists>m s s' cl cl'. NewClientManagerFromConfig sample_manager_env sample_manager_config [sample_evm_chain, sample_cosmos_chain] = Ret (Inr m) \<and>
     m ''1'' = Some (EvmBridge s cl) \<and> m ''hub'' = Some (CosmosBridge s' cl') \<and> cosmos_feeDenom cl' = ''uatom'' \<and>
     cosmos_gasPrice cl' = 1 / 40"
  by (simp add: NewClientManagerFromConfig_def build_evm_def build_cosmos_def sample_manager_env_def sample_manager_config_def
      sample_evm_chain_def sample_cosmos_chain_def sample_chain_def createEthSigner_def createCosmosSigner_def
      createEthClient_def createCosmosRPC_def createCosmosGRPC_def GetRPCEndpoint_def GetBasicAuth_def GetGRPCEndpoint_def
      NewConfigReader_def createIndexes_def check_fee_def NewEVMBridgeClient_def NewCosmosBridgeClient_def hex_value_def
      signer_Address_def Let_def)


end
