(* ===== verification/Relayer_Prices.thy ===== *)
theory Relayer_Prices
  imports Relayer_Db Relayer_Strings Relayer_Float
begin

text \<open>
  The prices of gas tokens: the cache \<open>shared/clients/coingecko/price_client.go\<close>, the client
  \<open>shared/clients/coingecko/client.go\<close> and the rate limited HTTP client
  \<open>shared/clients/utils/rate_limited_http_client.go\<close>.

  \<^item> The server, JSON, the limiter and the formatting of a \<open>float64\<close> are parameters.
  \<^item> A call of the cache is sequential here: it reads the cache at one moment and stores the answer
    at a later one. Two calls that overlap ask the server twice and each stores its answer.
\<close>

section \<open>The cache\<close>

record PriceResponse =
  price :: rat
  lastUpdated :: time

record CachedPriceClient =
  cache :: "string \<rightharpoonup> PriceResponse"
  cacheRefreshInterval :: duration

definition NewCachedPriceClient :: "duration \<Rightarrow> CachedPriceClient" where
  "NewCachedPriceClient interval = \<lparr>cache = Map.empty, cacheRefreshInterval = interval\<rparr>"

text \<open>\<open>strings.ReplaceAll(s, \"/\", \"//\")\<close>.\<close>

definition double_slashes :: "string \<Rightarrow> string" where
  "double_slashes s = concat (map (\<lambda>c. if c = CHR ''/'' then ''//'' else [c]) s)"

definition cacheKey :: "string \<Rightarrow> string \<Rightarrow> string" where
  "cacheKey coingeckoID currency = double_slashes coingeckoID @ ''/'' @ double_slashes currency"

text \<open>The answer of the internal client is the fifth argument; it is used only on a miss.\<close>

definition Cached_GetSimplePrice ::
  "string \<Rightarrow> string \<Rightarrow> time \<Rightarrow> time \<Rightarrow> rat res \<Rightarrow> CachedPriceClient \<Rightarrow> CachedPriceClient \<times> rat res" where
  "Cached_GetSimplePrice coingeckoID currency now later answer c =
     (let key = cacheKey coingeckoID currency;
          miss = (case cache c key of None \<Rightarrow> True | Some r \<Rightarrow> cacheRefreshInterval c < time_Sub now (lastUpdated r))
      in if miss then
           (case answer of
              Inl e \<Rightarrow> (c, Inl e)
            | Inr p \<Rightarrow> (c\<lparr>cache := (cache c)(key \<mapsto> \<lparr>price = p, lastUpdated = later\<rparr>)\<rparr>, Inr p))
         else (c, Inr (price (the (cache c key)))))"

text \<open>\<open>math.Pow10\<close> for exponents up to 308 multiplies two entries of its tables.\<close>

definition math_Pow10 :: "nat \<Rightarrow> rat" where
  "math_Pow10 n = float_round 53 (float_round 53 (10 ^ (32 * (n div 32))) * float_round 53 (10 ^ (n mod 32)))"

definition GetCoinUsdValue ::
  "(int \<Rightarrow> rat res) \<Rightarrow> (rat \<Rightarrow> string) \<Rightarrow> (string \<Rightarrow> numeric res) \<Rightarrow> string \<Rightarrow> uint8 \<Rightarrow> int \<Rightarrow> time \<Rightarrow> time \<Rightarrow> rat res \<Rightarrow>
   CachedPriceClient \<Rightarrow> CachedPriceClient \<times> numeric res" where
  "GetCoinUsdValue decFloat64 formatF scanScientific coingeckoID decimals amount now later answer c =
     (case Cached_GetSimplePrice coingeckoID ''usd'' now later answer c of
        (c1, Inl e) \<Rightarrow> (c1, Inl (Errorf ''getting coingecko price of %s in usd: %w'' [e]))
      | (c1, Inr coingeckoPrice) \<Rightarrow>
          (c1,
           case decFloat64 amount of
             Inl e \<Rightarrow> Inl (Errorf ''invalid amount (%s) to float64 conversion: %w'' [e])
           | Inr amountFloat \<Rightarrow>
               (case scanScientific (formatF (float_round 53 (float_round 53 (amountFloat / math_Pow10 (unat decimals)) * coingeckoPrice))) of
                  Inl e \<Rightarrow> Inl (Errorf ''scanning usd amount %s into pg numeric: %w'' [e])
                | Inr num \<Rightarrow> Inr num)))"

definition NoOp_GetSimplePrice :: "string \<Rightarrow> string \<Rightarrow> rat res" where
  "NoOp_GetSimplePrice coingeckoID currency = Inr 0"

section \<open>The server\<close>

record http_request =
  req_url :: string
  req_query :: "(string \<times> string) list"

record http_response =
  HttpStatus :: int
  RetryAfter :: string
  Body :: "bytes res"

record CoingeckoClient =
  baseURL :: string
  apiKey :: string

text \<open>
  \<open>GetSimplePrice\<close>: the request, then the price of the coin in the answer. The answer is decoded
  into its field \<open>usd\<close>, 0 when it is missing, whatever the currency.
\<close>

definition simple_price_request :: "CoingeckoClient \<Rightarrow> string \<Rightarrow> string \<Rightarrow> http_request" where
  "simple_price_request c coingeckoID currency =
     \<lparr>req_url = baseURL c @ ''/simple/price'',
      req_query = [(''ids'', coingeckoID), (''vs_currencies'', currency)] @
        (if apiKey c \<noteq> [] then [(''x_cg_pro_api_key'', apiKey c)] else [])\<rparr>"

definition Coingecko_GetSimplePrice ::
  "(http_request \<Rightarrow> go_error option) \<Rightarrow> (http_request \<Rightarrow> http_response res) \<Rightarrow> (bytes \<Rightarrow> (string \<rightharpoonup> rat) res) \<Rightarrow>
   CoingeckoClient \<Rightarrow> string \<Rightarrow> string \<Rightarrow> rat res" where
  "Coingecko_GetSimplePrice newRequest doRequest unmarshal c coingeckoID currency =
     (let req = simple_price_request c coingeckoID currency in
      case newRequest req of
        Some e \<Rightarrow> Inl e
      | None \<Rightarrow>
     (case doRequest req of
        Inl e \<Rightarrow> Inl e
      | Inr response \<Rightarrow>
          if HttpStatus response \<noteq> 200 then Inl (Errorf ''error requesting resource from server'' [])
          else
     (case Body response of
        Inl e \<Rightarrow> Inl e
      | Inr jsonBytes \<Rightarrow>
     (case unmarshal jsonBytes of
        Inl e \<Rightarrow> Inl e
      | Inr prices \<Rightarrow>
     (case prices coingeckoID of
        None \<Rightarrow> Inl (Errorf ''failed to return price for coingeckoId %s, response %s'' [])
      | Some usd \<Rightarrow> Inr usd)))))"

definition Coingecko_GetHistoricalPrice ::
  "(http_request \<Rightarrow> go_error option) \<Rightarrow> (http_request \<Rightarrow> http_response res) \<Rightarrow> (bytes \<Rightarrow> (string \<rightharpoonup> rat) res) \<Rightarrow>
   CoingeckoClient \<Rightarrow> string \<Rightarrow> string \<Rightarrow> string \<Rightarrow> rat res" where
  "Coingecko_GetHistoricalPrice newRequest doRequest unmarshal c coingeckoID currency date =
     (let req = \<lparr>req_url = baseURL c @ ''/coins/'' @ coingeckoID @ ''/history'',
            req_query = [(''date'', date)] @ (if apiKey c \<noteq> [] then [(''x_cg_pro_api_key'', apiKey c)] else [])\<rparr> in
      case newRequest req of
        Some e \<Rightarrow> Inl e
      | None \<Rightarrow>
     (case doRequest req of
        Inl e \<Rightarrow> Inl e
      | Inr response \<Rightarrow>
          if HttpStatus response \<noteq> 200 then Inl (Errorf ''error requesting resource from server'' [])
          else
     (case Body response of
        Inl e \<Rightarrow> Inl e
      | Inr jsonBytes \<Rightarrow>
     (case unmarshal jsonBytes of
        Inl e \<Rightarrow> Inl e
      | Inr currentPrice \<Rightarrow>
     (case currentPrice currency of
        None \<Rightarrow> Inl (Errorf ''failed to return price for coingeckoId %s, response %s'' [])
      | Some p \<Rightarrow> Inr p)))))"

text \<open>
  The rate limited client: a request that is answered with 429 and a number of seconds is sent once
  more after the wait, which the end of the context cuts short. The first component lists the
  requests sent.
\<close>

definition RateLimited_Do ::
  "go_error option \<Rightarrow> (nat \<Rightarrow> http_request \<Rightarrow> http_response res) \<Rightarrow> http_request \<Rightarrow> http_request list \<times> http_response res" where
  "RateLimited_Do wait doRequest req =
     (case wait of
        Some e \<Rightarrow> ([], Inl e)
      | None \<Rightarrow>
     (case doRequest 0 req of
        Inl e \<Rightarrow> ([req], Inl e)
      | Inr response \<Rightarrow>
          if HttpStatus response = 429 then
            (case strconv_Atoi (RetryAfter response) of
               Inl e \<Rightarrow> ([req], Inr response)
             | Inr retryAfter \<Rightarrow> ([req, req], doRequest 1 req))
          else ([req], Inr response)))"

text \<open>The interval and the burst of the limiter; Go's division cuts off towards zero.\<close>

definition go_div :: "int \<Rightarrow> int \<Rightarrow> int" where
  "go_div a b = sgn a * sgn b * (\<bar>a\<bar> div \<bar>b\<bar>)"

definition DefaultRateLimits :: "int \<Rightarrow> duration \<times> int" where
  "DefaultRateLimits requestsPerMinute =
     (let rpm = (if requestsPerMinute = 0 then 10 else requestsPerMinute) in (go_div minute rpm, go_div rpm 2))"

section \<open>Facts\<close>

lemma double_slashes_plain: "CHR ''/'' \<notin> set s \<Longrightarrow> double_slashes s = s"
  by (induction s) (auto simp: double_slashes_def)

lemma cacheKey_inject:
  assumes "CHR ''/'' \<notin> set i" "CHR ''/'' \<notin> set i'" "CHR ''/'' \<notin> set c" "CHR ''/'' \<notin> set c'"
  shows "cacheKey i c = cacheKey i' c' \<longleftrightarrow> i = i' \<and> c = c'"
proof -
  have "takeWhile (\<lambda>x. x \<noteq> CHR ''/'') (j @ CHR ''/'' # d) = j" if "CHR ''/'' \<notin> set j" for j d
    using that by (auto simp: takeWhile_tail takeWhile_eq_all_conv)
  then show ?thesis
    using assms by (metis append_Cons append_Nil cacheKey_def double_slashes_plain same_append_eq)
qed

text \<open>The escaping does not make the key unique: a slash next to the separator can belong to either side.\<close>

lemma cacheKey_collision: "cacheKey ''a/'' ''usd'' = cacheKey ''a'' ''/usd''"
  by (simp add: cacheKey_def double_slashes_def)

text \<open>A call of the cache, with what the internal client answers if it is asked.\<close>

record price_call =
  pc_id :: string
  pc_currency :: string
  pc_now :: time
  pc_later :: time
  pc_answer :: "rat res"

definition price_get :: "price_call \<Rightarrow> CachedPriceClient \<Rightarrow> CachedPriceClient \<times> rat res" where
  "price_get a c = Cached_GetSimplePrice (pc_id a) (pc_currency a) (pc_now a) (pc_later a) (pc_answer a) c"

definition price_state :: "duration \<Rightarrow> price_call list \<Rightarrow> CachedPriceClient" where
  "price_state interval as = foldl (\<lambda>c a. fst (price_get a c)) (NewCachedPriceClient interval) as"

lemma price_state_simps [simp]:
  "price_state interval [] = NewCachedPriceClient interval"
  "price_state interval (as @ [a]) = fst (price_get a (price_state interval as))"
  by (simp_all add: price_state_def)

lemma price_state_interval [simp]: "cacheRefreshInterval (price_state interval as) = interval"
  by (induction as rule: rev_induct)
    (auto simp: NewCachedPriceClient_def price_get_def Cached_GetSimplePrice_def Let_def split: sum.splits option.splits if_splits)

text \<open>Every entry is the answer to an earlier call with its key.\<close>

lemma cache_entries:
  "cache (price_state interval as) k = Some r \<Longrightarrow>
   \<exists>a \<in> set as. cacheKey (pc_id a) (pc_currency a) = k \<and> pc_answer a = Inr (price r) \<and> pc_later a = lastUpdated r"
proof (induction as arbitrary: r rule: rev_induct)
  case (snoc a as)
  then show ?case
    by (auto simp: price_get_def Cached_GetSimplePrice_def Let_def split: sum.splits option.splits if_splits)
qed (simp add: NewCachedPriceClient_def)


text \<open>The currency only goes into the request: for the same answer the price is the same.\<close>

lemma coingecko_ignores_currency:
  assumes "\<And>req. newRequest req = None" "\<And>req. doRequest req = Inr response"
  shows "Coingecko_GetSimplePrice newRequest doRequest unmarshal c i currency =
    Coingecko_GetSimplePrice newRequest doRequest unmarshal c i ''usd''"
  by (simp add: Coingecko_GetSimplePrice_def assms)

text \<open>One request a minute leaves the limiter no burst, and a limiter without one refuses every request.\<close>

lemma no_burst: "snd (DefaultRateLimits n) = 0 \<longleftrightarrow> \<bar>n\<bar> = 1"
  by (auto simp: DefaultRateLimits_def go_div_def Let_def sgn_if)

lemma RateLimited_at_most_two: "length (fst (RateLimited_Do wait doRequest req)) \<le> 2"
  by (auto simp: RateLimited_Do_def split: option.splits sum.splits)

section \<open>Examples\<close>

definition sample_price_call :: "time \<Rightarrow> rat \<Rightarrow> price_call" where
  "sample_price_call t p = \<lparr>pc_id = ''atom'', pc_currency = ''usd'', pc_now = t, pc_later = t, pc_answer = Inr p\<rparr>"


end
