(* ===== verification/Relayer_Monitor.thy ===== *)
theory Relayer_Monitor
  imports Relayer_Bridge Relayer_Prices
begin

text \<open>
  The monitor of the signers' gas balances, \<open>gasmonitor/gasmonitor.go\<close>, with the gauges
  \<open>SetGasBalance\<close> of \<open>shared/metrics/metrics.go\<close> sets.
\<close>

section \<open>Gauges\<close>

text \<open>The labels are chain id, chain name, environment (and symbol), with the bridge type.\<close>

datatype gauge =
    GasBalanceState string string string BridgeType nat
  | GasBalance string string string string BridgeType rat

definition gas_level :: "int \<Rightarrow> int \<Rightarrow> int \<Rightarrow> nat" where
  "gas_level gasBalance warningThreshold criticalThreshold =
     (if gasBalance < criticalThreshold then 2 else if gasBalance < warningThreshold then 1 else 0)"

definition SetGasBalance ::
  "string \<Rightarrow> string \<Rightarrow> string \<Rightarrow> string \<Rightarrow> int \<Rightarrow> int \<Rightarrow> int \<Rightarrow> uint8 \<Rightarrow> BridgeType \<Rightarrow> gauge list" where
  "SetGasBalance chainID chainName gasTokenSymbol chainEnvironment gasBalance warningThreshold criticalThreshold
     gasTokenDecimals bridgeType =
     (let gasTokenAmount = float_round 53 (float_round 53 (of_int gasBalance) / math_Pow10 (unat gasTokenDecimals))
      in [GasBalanceState chainID chainName chainEnvironment bridgeType (gas_level gasBalance warningThreshold criticalThreshold),
          GasBalance chainID chainName gasTokenSymbol chainEnvironment bridgeType gasTokenAmount])"

section \<open>The monitor\<close>

text \<open>
  The gauges set, whether the low balance is logged as an error, and the error. The balance and the
  thresholds are never nil together with a nil error, so that check does not fire.
\<close>

definition monitorIBCV2GasBalances ::
  "configReader \<Rightarrow> client_manager \<Rightarrow> ChainConfig \<Rightarrow> string \<Rightarrow> gauge list \<times> bool \<times> go_error option" where
  "monitorIBCV2GasBalances cfg manager chain chainID =
     (case GetSignerGasAlertThresholds cfg chainID BridgeType_IBCV2 of
        Inl e \<Rightarrow>
          if errors_Is e ErrNoSignerForBridge then ([], False, None)
          else ([], False, Some (Errorf ''getting ibcv2 signer gas alert thresholds on chain %s: %w'' [e]))
      | Inr (warningThreshold, criticalThreshold) \<Rightarrow>
     (case GetClient manager chainID of
        Inl e \<Rightarrow> ([], False, Some (Errorf ''getting ibcv2 client for chain %s: %w'' [e]))
      | Inr chainClient \<Rightarrow>
     (case SignerGasTokenBalance chainClient of
        Inl e \<Rightarrow> ([], False, Some (Errorf ''getting gas token balance for eurkea signer on chain %s: %w'' [e]))
      | Inr balance \<Rightarrow>
          (SetGasBalance chainID (ChainName chain) (GasTokenSymbol chain) (Environment chain) balance warningThreshold
             criticalThreshold (GasTokenDecimals chain) BridgeType_IBCV2,
           balance < criticalThreshold, None))))"

text \<open>The chains of \<open>Start\<close>, and one tick over them; errors are logged and the next chain follows.\<close>

definition monitored_chains :: "configReader \<Rightarrow> ChainConfig list res" where
  "monitored_chains cfg =
     (case GetAllChainConfigsOfType cfg ChainType_EVM of
        Inl e \<Rightarrow> Inl (Errorf ''error getting EVM chains: %w'' [e])
      | Inr evmChains \<Rightarrow>
     (case GetAllChainConfigsOfType cfg ChainType_COSMOS of
        Inl e \<Rightarrow> Inl (Errorf ''error getting cosmos chains: %w'' [e])
      | Inr cosmosChains \<Rightarrow>
     (case GetAllChainConfigsOfType cfg ChainType_SVM of
        Inl e \<Rightarrow> Inl (Errorf ''error getting svm chains: %w'' [e])
      | Inr svmChains \<Rightarrow> Inr (evmChains @ cosmosChains @ svmChains))))"

definition monitor_tick :: "configReader \<Rightarrow> client_manager \<Rightarrow> ChainConfig list \<Rightarrow> gauge list" where
  "monitor_tick cfg manager cs = concat (map (\<lambda>chain. fst (monitorIBCV2GasBalances cfg manager chain (ChainID chain))) cs)"

text \<open>
  The loop of \<open>Start\<close> on what its \<open>select\<close> receives: the end of the context, or a tick, at which
  the clients answer anew. The gauges are listed in order.
\<close>

datatype monitor_event = MonitorDone | MonitorTick client_manager

fun monitor_loop :: "configReader \<Rightarrow> ChainConfig list \<Rightarrow> monitor_event list \<Rightarrow> gauge list" where
  "monitor_loop cfg cs [] = []"
| "monitor_loop cfg cs (MonitorDone # evs) = []"
| "monitor_loop cfg cs (MonitorTick manager # evs) = monitor_tick cfg manager cs @ monitor_loop cfg cs evs"

definition GasMonitor_Start :: "configReader \<Rightarrow> monitor_event list \<Rightarrow> gauge list \<times> go_error option" where
  "GasMonitor_Start cfg evs =
     (case monitored_chains cfg of
        Inl e \<Rightarrow> ([], Some e)
      | Inr cs \<Rightarrow> (monitor_loop cfg cs evs, None))"

section \<open>Facts\<close>

definition knows_type :: "ChainConfig \<Rightarrow> bool" where
  "knows_type chain \<longleftrightarrow> (case Type chain of ChainType_Other _ \<Rightarrow> False | _ \<Rightarrow> True)"

lemma knows_type_iff:
  "knows_type chain \<longleftrightarrow> Type chain = ChainType_EVM \<or> Type chain = ChainType_COSMOS \<or> Type chain = ChainType_SVM"
  by (cases "Type chain") (simp_all add: knows_type_def)

lemma monitored_chains_all:
  "\<exists>cs. monitored_chains cfg = Inr cs \<and> set cs = {chain \<in> set (GetAllChains cfg). knows_type chain}"
  by (auto simp: monitored_chains_def GetAllChainConfigsOfType_def GetAllChains_def knows_type_iff)

lemma monitor_state:
  "GasBalanceState i name en bt st \<in> set (fst (monitorIBCV2GasBalances cfg manager chain (ChainID chain))) \<longleftrightarrow>
   (\<exists>warning critical client balance. i = ChainID chain \<and> name = ChainName chain \<and> en = Environment chain \<and> bt = BridgeType_IBCV2 \<and>
      GetSignerGasAlertThresholds cfg i BridgeType_IBCV2 = Inr (warning, critical) \<and> manager i = Some client \<and>
      SignerGasTokenBalance client = Inr balance \<and> st = gas_level balance warning critical)"
  by (auto simp: monitorIBCV2GasBalances_def SetGasBalance_def GetClient_def Let_def split: sum.splits option.splits if_splits)

text \<open>
  C35. A tick of the gas monitor reports a level exactly for the chains of a known type that have
  alert thresholds, a client and a readable balance, whatever happens for the others: 2 below the
  critical threshold, else 1 below the warning threshold, else 0.
\<close>

theorem gas_monitor_reports:
  "\<exists>cs. monitored_chains cfg = Inr cs \<and>
     (GasBalanceState i name en bt st \<in> set (monitor_tick cfg manager cs) \<longleftrightarrow>
      (\<exists>chain warning critical client balance. chain \<in> set (GetAllChains cfg) \<and> knows_type chain \<and>
         i = ChainID chain \<and> name = ChainName chain \<and> en = Environment chain \<and> bt = BridgeType_IBCV2 \<and>
         GetSignerGasAlertThresholds cfg i BridgeType_IBCV2 = Inr (warning, critical) \<and> manager i = Some client \<and>
         SignerGasTokenBalance client = Inr balance \<and>
         st = (if balance < critical then 2 else if balance < warning then 1 else 0)))"
proof -
  obtain cs where cs: "monitored_chains cfg = Inr cs" "set cs = {chain \<in> set (GetAllChains cfg). knows_type chain}"
    using monitored_chains_all by blast
  show ?thesis
    by (rule exI [of _ cs]) (auto simp: cs monitor_tick_def monitor_state gas_level_def)
qed

end
