(* ===== verification/Relayer_Metrics.thy ===== *)
theory Relayer_Metrics
  imports Relayer_Monitor Relayer_Api Relayer_Dispatcher
begin

text \<open>
  The metrics of \<open>shared/metrics\<close>: the families \<open>NewPromMetrics\<close> registers, the methods of the
  interface \<open>Metrics\<close>, the context values, the gRPC interceptors and the HTTP transport that counts
  requests.

  \<^item> The Prometheus client library is a parameter, the record \<open>prometheus\<close>. A chained call
    \<open>family.With(labels...).Add(1)\<close> is an \<open>observation\<close>; the library panics on labels that are not
    those of the family, so what matters is \<open>well_labelled\<close>.
  \<^item> \<open>documented\<close> is what the library's documentation promises.
  \<^item> A context is the map of its values. The body of a request or a response is what reading it
    yields: its bytes and, maybe, an error after them.
\<close>

section \<open>Families\<close>

definition requestStatusCodeLabel :: string where "requestStatusCodeLabel = ''status_code''"
definition methodLabel :: string where "methodLabel = ''method''"
definition chainIDLabel :: string where "chainIDLabel = ''chain_id''"
definition clientIDLabel :: string where "clientIDLabel = ''client_id''"
definition counterpartyChainIDLabel :: string where "counterpartyChainIDLabel = ''counterparty_chain_id''"
definition gasBalanceLevelLabel :: string where "gasBalanceLevelLabel = ''gas_balance_level''"
definition sourceChainIDLabel :: string where "sourceChainIDLabel = ''source_chain_id''"
definition destinationChainIDLabel :: string where "destinationChainIDLabel = ''destination_chain_id''"
definition statusLabel :: string where "statusLabel = ''status''"
definition codeLabel :: string where "codeLabel = ''code''"
definition successLabel :: string where "successLabel = ''success''"
definition providerLabel :: string where "providerLabel = ''provider''"
definition chainNameLabel :: string where "chainNameLabel = ''chain_name''"
definition sourceChainNameLabel :: string where "sourceChainNameLabel = ''source_chain_name''"
definition destinationChainNameLabel :: string where "destinationChainNameLabel = ''destination_chain_name''"
definition chainEnvironmentLabel :: string where "chainEnvironmentLabel = ''chain_environment''"
definition gasTokenSymbolLabel :: string where "gasTokenSymbolLabel = ''gas_token_symbol''"
definition sourceChannelLabel :: string where "sourceChannelLabel = ''source_channel''"
definition relayTypelLabel :: string where "relayTypelLabel = ''relay_type''"
definition bridgeTypeLabel :: string where "bridgeTypeLabel = ''bridge_type''"
definition sourceClientIDLabel :: string where "sourceClientIDLabel = ''source_client_id''"
definition destinationClientIDLabel :: string where "destinationClientIDLabel = ''destination_client_id''"
datatype vec = CounterVec | GaugeVec | HistogramVec "rat list"

record family =
  fam_kind :: vec
  fam_name :: string
  fam_labels :: "string list"

definition prom_family :: "vec \<Rightarrow> string \<Rightarrow> string list \<Rightarrow> family" where
  "prom_family k n ls = \<lparr>fam_kind = k, fam_name = ''relayerapi_'' @ n, fam_labels = ls\<rparr>"

record PromMetrics =
  totalRequests :: family
  totalRelayRequests :: family
  latencyPerRelayerAPIRequest :: family
  gasBalance :: family
  gasBalanceState :: family
  latencyPerNodeDependencyRequest :: family
  totalRelayerLoops :: family
  latencyPerRelayerLoop :: family
  latencyPerAttestationAPIRequest :: family
  totalAttestationAPIRequests :: family
  latencyPerAttestationConfirmation :: family
  totalTransactionSubmitted :: family
  totalTransactionRetryAttempts :: family
  totalTransactionsConfirmed :: family
  totalUnprofitableRelays :: family
  receiveTransactionGasCost :: family
  totalUntrackedTransactions :: family
  latencyPerRelay :: family
  transferMonitorChainHeightIncreaseCounter :: family
  totalNobleForwardingRetryAttempts :: family
  totalNobleForwardingRequestsAbandoned :: family
  totalNobleForwardingRequests :: family
  totalExcessiveRelayLatencyObservations :: family
  totalRelaysCompleted :: family
  totalExternalRequests :: family
  latencyPerExternalRequest :: family
  totalClientsNeedsUpdated :: family
  totalClientsUpdated :: family
  totalUnrelayedTransferWithAttestationObservations :: family

definition prom_metrics :: PromMetrics where
  "prom_metrics = \<lparr>
     totalRequests = prom_family CounterVec ''total_request_counter'' [methodLabel, requestStatusCodeLabel],
     totalRelayRequests = prom_family CounterVec ''total_relay_requests_per_bridge'' [bridgeTypeLabel, requestStatusCodeLabel],
     latencyPerRelayerAPIRequest = prom_family (HistogramVec [5, 10, 25, 50, 75, 100, 150, 200, 300, 500, 750, 1000, 1500, 3000, 5000, 10000, 20000])
       ''latency_per_relayer_api_request'' [methodLabel],
     gasBalance = prom_family GaugeVec ''gas_balance_gauge''
       [chainIDLabel, chainNameLabel, gasTokenSymbolLabel, chainEnvironmentLabel, bridgeTypeLabel],
     gasBalanceState = prom_family GaugeVec ''gas_balance_state_gauge''
       [chainIDLabel, chainNameLabel, chainEnvironmentLabel, bridgeTypeLabel],
     latencyPerNodeDependencyRequest = prom_family (HistogramVec [5, 10, 25, 50, 75, 100, 150, 200, 300, 500, 750, 1000, 1500, 3000, 5000, 10000, 20000])
       ''latency_per_node_dependency_request''
       [chainIDLabel, chainNameLabel, chainEnvironmentLabel, methodLabel],
     totalRelayerLoops = prom_family CounterVec ''total_relayer_loops_counter'' [],
     latencyPerRelayerLoop = prom_family (HistogramVec [5, 10, 25, 50, 75, 100, 150, 200, 300, 500, 750, 1000, 1500, 3000, 5000, 10000, 20000])
       ''latency_per_relayer_loop'' [],
     latencyPerAttestationAPIRequest = prom_family (HistogramVec [5, 10, 25, 50, 75, 100, 150, 200, 300, 500, 750, 1000, 1500, 3000, 5000, 10000, 20000])
       ''latency_per_attestation_api_request'' [],
     totalAttestationAPIRequests = prom_family CounterVec ''total_attestation_api_requests_counter'' [requestStatusCodeLabel],
     latencyPerAttestationConfirmation = prom_family (HistogramVec [30, 60, 300, 600, 900, 1200, 1500, 1800, 2400, 3000, 3600])
       ''latency_per_attestation_confirmation''
       [sourceChainIDLabel, destinationChainIDLabel, sourceChainNameLabel, destinationChainNameLabel, chainEnvironmentLabel],
     totalTransactionSubmitted = prom_family CounterVec ''total_transactions_submitted_counter''
       [successLabel, sourceChainIDLabel, destinationChainIDLabel, sourceChainNameLabel, destinationChainNameLabel, chainEnvironmentLabel],
     totalTransactionRetryAttempts = prom_family CounterVec ''total_transaction_retry_attempts_counter''
       [sourceChainIDLabel, destinationChainIDLabel, sourceChainNameLabel, destinationChainNameLabel, chainEnvironmentLabel, relayTypelLabel],
     totalTransactionsConfirmed = prom_family CounterVec ''total_transactions_confirmed_counter''
       [successLabel, sourceChainIDLabel, destinationChainIDLabel, sourceChainNameLabel, destinationChainNameLabel, chainEnvironmentLabel],
     totalUnprofitableRelays = prom_family CounterVec ''total_unprofitable_relays_counter''
       [sourceChainNameLabel, destinationChainNameLabel, chainEnvironmentLabel],
     receiveTransactionGasCost = prom_family GaugeVec ''receive_transaction_gas_cost_gauge''
       [sourceChainIDLabel, destinationChainIDLabel, sourceChainNameLabel, destinationChainNameLabel, chainEnvironmentLabel],
     totalUntrackedTransactions = prom_family CounterVec ''total_untracked_transfer_counter'' [chainIDLabel, chainNameLabel, chainEnvironmentLabel],
     latencyPerRelay = prom_family (HistogramVec [1000, 2000, 3000, 4000, 5000, 10000, 15000, 20000, 25000, 30000, 45000, 60000, 90000, 120000, 150000, 180000, 210000, 240000, 270000, 300000, 600000, 900000, 1200000, 1500000, 1800000, 1920000, 2100000, 2250000, 2400000, 2700000, 3000000, 3300000, 3600000])
       ''latency_per_relay''
       [sourceChainIDLabel, destinationChainIDLabel, sourceChainNameLabel, destinationChainNameLabel, chainEnvironmentLabel, relayTypelLabel],
     transferMonitorChainHeightIncreaseCounter = prom_family CounterVec ''transfer_monitor_chain_height_increase_counter'' [chainIDLabel, chainNameLabel, chainEnvironmentLabel],
     totalNobleForwardingRetryAttempts = prom_family CounterVec ''total_noble_forwarding_retry_attempts_counter'' [sourceChannelLabel, chainEnvironmentLabel],
     totalNobleForwardingRequestsAbandoned = prom_family CounterVec ''total_noble_forwarding_requests_abandoned'' [sourceChannelLabel, chainEnvironmentLabel],
     totalNobleForwardingRequests = prom_family CounterVec ''total_noble_forwarding_requests'' [sourceChannelLabel, chainEnvironmentLabel],
     totalExcessiveRelayLatencyObservations = prom_family CounterVec ''total_excessive_relay_latency_observations''
       [sourceChainNameLabel, destinationChainNameLabel, chainEnvironmentLabel, relayTypelLabel],
     totalRelaysCompleted = prom_family CounterVec ''total_relays_completed''
       [sourceChainIDLabel, sourceClientIDLabel, destinationChainIDLabel, destinationClientIDLabel, relayTypelLabel],
     totalExternalRequests = prom_family CounterVec ''total_external_requests''
       [sourceChainIDLabel, sourceClientIDLabel, destinationChainIDLabel, destinationClientIDLabel, methodLabel, statusLabel, codeLabel, providerLabel, bridgeTypeLabel],
     latencyPerExternalRequest = prom_family (HistogramVec [50, 100, 200, 300, 500, 750, 1000, 1500, 3000, 5000, 10000, 15000, 20000, 25000, 30000, 35000, 40000, 45000, 50000, 55000, 60000, 65000, 70000, 75000, 80000, 85000, 90000, 95000, 100000])
       ''latency_per_external_request''
       [sourceChainIDLabel, sourceClientIDLabel, destinationChainIDLabel, destinationClientIDLabel, methodLabel, providerLabel, bridgeTypeLabel],
     totalClientsNeedsUpdated = prom_family CounterVec ''total_clients_needs_updated'' [chainIDLabel, clientIDLabel, counterpartyChainIDLabel],
     totalClientsUpdated = prom_family CounterVec ''total_clients_updated'' [chainIDLabel, clientIDLabel, counterpartyChainIDLabel],
     totalUnrelayedTransferWithAttestationObservations = prom_family CounterVec ''total_unrelayed_transfer_with_attestation_observations''
       [sourceChainNameLabel, destinationChainNameLabel, chainEnvironmentLabel]\<rparr>"

text \<open>The families in the order they are registered.\<close>

definition prom_families :: "PromMetrics \<Rightarrow> family list" where
  "prom_families m = [totalRequests m, totalRelayRequests m, latencyPerRelayerAPIRequest m, gasBalance m, gasBalanceState m,
     latencyPerNodeDependencyRequest m, totalRelayerLoops m, latencyPerRelayerLoop m,
     latencyPerAttestationAPIRequest m, totalAttestationAPIRequests m, latencyPerAttestationConfirmation m,
     totalTransactionSubmitted m, totalTransactionRetryAttempts m, totalTransactionsConfirmed m,
     totalUnprofitableRelays m, receiveTransactionGasCost m, totalUntrackedTransactions m, latencyPerRelay m,
     transferMonitorChainHeightIncreaseCounter m, totalNobleForwardingRetryAttempts m,
     totalNobleForwardingRequestsAbandoned m, totalNobleForwardingRequests m,
     totalExcessiveRelayLatencyObservations m, totalRelaysCompleted m, totalExternalRequests m,
     latencyPerExternalRequest m, totalClientsNeedsUpdated m, totalClientsUpdated m,
     totalUnrelayedTransferWithAttestationObservations m]"

section \<open>The library\<close>

datatype change = Add rat | SetTo rat | Observe rat

datatype observation = Obs family "(string \<times> string) list" change

record 's prometheus =
  registered :: "'s \<Rightarrow> string set"
  MustRegister :: "family \<Rightarrow> 's \<Rightarrow> 's outcome"
  Perform :: "observation \<Rightarrow> 's \<Rightarrow> 's outcome"

definition fam_valid :: "family \<Rightarrow> bool" where
  "fam_valid f \<longleftrightarrow> distinct (fam_labels f) \<and>
     (case fam_kind f of HistogramVec bs \<Rightarrow> sorted_wrt (<) bs | _ \<Rightarrow> True)"

fun well_labelled :: "observation \<Rightarrow> bool" where
  "well_labelled (Obs f ls ch) \<longleftrightarrow>
     distinct (map fst ls) \<and> set (map fst ls) = set (fam_labels f) \<and>
     (case ch of
        Add v \<Rightarrow> fam_kind f = CounterVec \<and> 0 \<le> v
      | SetTo v \<Rightarrow> fam_kind f = GaugeVec
      | Observe v \<Rightarrow> \<exists>bs. fam_kind f = HistogramVec bs)"

definition documented :: "'s prometheus \<Rightarrow> bool" where
  "documented p \<longleftrightarrow>
     (\<forall>f s. fam_valid f \<longrightarrow> fam_name f \<notin> registered p s \<longrightarrow>
        (\<exists>s'. MustRegister p f s = Ret s' \<and> registered p s' = insert (fam_name f) (registered p s))) \<and>
     (\<forall>ob s. well_labelled ob \<longrightarrow> (\<exists>s'. Perform p ob s = Ret s'))"

fun register_all :: "'s prometheus \<Rightarrow> family list \<Rightarrow> 's \<Rightarrow> 's outcome" where
  "register_all p [] s = Ret s"
| "register_all p (f # fs) s = (case MustRegister p f s of Panic \<Rightarrow> Panic | Ret s1 \<Rightarrow> register_all p fs s1)"

definition NewPromMetrics :: "'s prometheus \<Rightarrow> 's \<Rightarrow> ('s \<times> PromMetrics) outcome" where
  "NewPromMetrics p s =
     (case register_all p (prom_families prom_metrics) s of Panic \<Rightarrow> Panic | Ret s1 \<Rightarrow> Ret (s1, prom_metrics))"

section \<open>Context values\<close>

datatype metrics_impl = Prom PromMetrics | NoOpMetrics

datatype ctx_key = metricsContextKey | sourceChainIDContextKey | destinationChainIDContextKey | sourceClientIDContextKey |
  destinationCleintIDContextKey | bridgeTypeContextKey | relayTypeContextKey

text \<open>A context value, by its Go type; \<open>BridgeType\<close> and \<open>RelayType\<close> of this package are strings.\<close>

datatype ctx_value = VMetrics metrics_impl | VString string | VBridgeType string | VRelayType string

type_synonym ctx = "ctx_key \<rightharpoonup> ctx_value"

definition ContextWithMetrics :: "ctx \<Rightarrow> metrics_impl \<Rightarrow> ctx" where
  "ContextWithMetrics c m = c(metricsContextKey \<mapsto> VMetrics m)"

definition ContextWithSourceChainID :: "ctx \<Rightarrow> string \<Rightarrow> ctx" where
  "ContextWithSourceChainID c v = c(sourceChainIDContextKey \<mapsto> VString v)"

definition ContextWithSourceClientID :: "ctx \<Rightarrow> string \<Rightarrow> ctx" where
  "ContextWithSourceClientID c v = c(sourceClientIDContextKey \<mapsto> VString v)"

definition ContextWithDestChainID :: "ctx \<Rightarrow> string \<Rightarrow> ctx" where
  "ContextWithDestChainID c v = c(destinationChainIDContextKey \<mapsto> VString v)"

definition ContextWithDestClientID :: "ctx \<Rightarrow> string \<Rightarrow> ctx" where
  "ContextWithDestClientID c v = c(destinationCleintIDContextKey \<mapsto> VString v)"

definition ContextWithBridgeType :: "ctx \<Rightarrow> string \<Rightarrow> ctx" where
  "ContextWithBridgeType c v = c(bridgeTypeContextKey \<mapsto> VBridgeType v)"

definition ContextWithRelayType :: "ctx \<Rightarrow> string \<Rightarrow> ctx" where
  "ContextWithRelayType c v = c(relayTypeContextKey \<mapsto> VRelayType v)"

text \<open>The type assertion panics on a value of another type; only \<open>ContextWithMetrics\<close> uses the key.\<close>

definition FromContext :: "ctx \<Rightarrow> metrics_impl outcome" where
  "FromContext c =
     (case c metricsContextKey of
        None \<Rightarrow> Ret NoOpMetrics
      | Some (VMetrics m) \<Rightarrow> Ret m
      | Some _ \<Rightarrow> Panic)"

definition SourceChainIDFromContext :: "ctx \<Rightarrow> string" where
  "SourceChainIDFromContext c = (case c sourceChainIDContextKey of Some (VString v) \<Rightarrow> v | _ \<Rightarrow> [])"

definition SourceClientIDFromContext :: "ctx \<Rightarrow> string" where
  "SourceClientIDFromContext c = (case c sourceClientIDContextKey of Some (VString v) \<Rightarrow> v | _ \<Rightarrow> [])"

definition DestinationChainIDFromContext :: "ctx \<Rightarrow> string" where
  "DestinationChainIDFromContext c = (case c destinationChainIDContextKey of Some (VString v) \<Rightarrow> v | _ \<Rightarrow> [])"

definition DestinationClientIDFromContext :: "ctx \<Rightarrow> string" where
  "DestinationClientIDFromContext c = (case c destinationCleintIDContextKey of Some (VString v) \<Rightarrow> v | _ \<Rightarrow> [])"

definition RelayTypeFromContext :: "ctx \<Rightarrow> string" where
  "RelayTypeFromContext c = (case c relayTypeContextKey of Some (VRelayType v) \<Rightarrow> v | _ \<Rightarrow> [])"

definition BridgeTypeFromContext :: "ctx \<Rightarrow> string" where
  "BridgeTypeFromContext c = (case c bridgeTypeContextKey of Some (VBridgeType v) \<Rightarrow> v | _ \<Rightarrow> [])"

lemmas context_defs =
  ContextWithMetrics_def ContextWithSourceChainID_def ContextWithSourceClientID_def ContextWithDestChainID_def
  ContextWithDestClientID_def ContextWithBridgeType_def ContextWithRelayType_def FromContext_def
  SourceChainIDFromContext_def SourceClientIDFromContext_def DestinationChainIDFromContext_def
  DestinationClientIDFromContext_def RelayTypeFromContext_def BridgeTypeFromContext_def

text \<open>The context \<open>newPipelineForTransfer\<close> makes for the calls of a pipeline.\<close>

definition pipeline_context :: "ctx \<Rightarrow> route \<Rightarrow> ctx" where
  "pipeline_context c rt =
     ContextWithBridgeType (ContextWithDestClientID (ContextWithDestChainID
       (ContextWithSourceClientID (ContextWithSourceChainID c (sourceChainID rt)) (sourceClientID rt))
       (destinationChainID rt)) (destinationClientID rt)) ''ibcv2''"

lemma pipeline_context_read:
  "SourceChainIDFromContext (pipeline_context c rt) = sourceChainID rt"
  "SourceClientIDFromContext (pipeline_context c rt) = sourceClientID rt"
  "DestinationChainIDFromContext (pipeline_context c rt) = destinationChainID rt"
  "DestinationClientIDFromContext (pipeline_context c rt) = destinationClientID rt"
  "BridgeTypeFromContext (pipeline_context c rt) = ''ibcv2''"
  "FromContext (pipeline_context c rt) = FromContext c"
  by (simp_all add: pipeline_context_def context_defs)

section \<open>The methods\<close>

text \<open>\<open>Duration.Milliseconds\<close> cuts off towards zero; \<open>Duration.Seconds\<close> adds the two parts in \<open>float64\<close>.\<close>

definition trunc_div :: "int \<Rightarrow> int \<Rightarrow> int" where
  "trunc_div a b = sgn a * (\<bar>a\<bar> div b)"

definition duration_Milliseconds :: "duration \<Rightarrow> rat" where
  "duration_Milliseconds d = float_round 53 (of_int (trunc_div d millisecond))"

definition duration_Seconds :: "duration \<Rightarrow> rat" where
  "duration_Seconds d =
     (let s = trunc_div d second
      in float_round 53 (float_round 53 (of_int s) + float_round 53 (of_int (d - s * second) / 1000000000)))"

definition sprint_bool :: "bool \<Rightarrow> string" where
  "sprint_bool b = (if b then ''true'' else ''false'')"

definition Prom_AddRequest :: "PromMetrics \<Rightarrow> string \<Rightarrow> uint32 \<Rightarrow> observation" where
  "Prom_AddRequest m method statusCode =
     Obs (totalRequests m) [(methodLabel, method), (requestStatusCodeLabel, strconv_Itoa (uint statusCode))] (Add 1)"

definition Prom_AddRelayRequest :: "PromMetrics \<Rightarrow> string \<Rightarrow> uint32 \<Rightarrow> observation" where
  "Prom_AddRelayRequest m bridgeType statusCode =
     Obs (totalRelayRequests m) [(bridgeTypeLabel, bridgeType), (requestStatusCodeLabel, strconv_Itoa (uint statusCode))] (Add 1)"

definition Prom_AddRelayerAPIRequestLatency :: "PromMetrics \<Rightarrow> string \<Rightarrow> duration \<Rightarrow> observation" where
  "Prom_AddRelayerAPIRequestLatency m method d =
     Obs (latencyPerRelayerAPIRequest m) [(methodLabel, method)] (Observe (duration_Milliseconds d))"

text \<open>\<open>SetGasBalance\<close> sets the two gauges; their values are those of the theory on the monitor.\<close>

fun bridge_text :: "BridgeType \<Rightarrow> string" where
  "bridge_text BridgeType_IBCV2 = ''ibcv2''"
| "bridge_text (BridgeType_Other s) = s"

fun Prom_gauge :: "PromMetrics \<Rightarrow> gauge \<Rightarrow> observation" where
  "Prom_gauge m (GasBalanceState chainID chainName chainEnvironment bridgeType st) =
     Obs (gasBalanceState m) [(chainIDLabel, chainID), (chainNameLabel, chainName), (chainEnvironmentLabel, chainEnvironment),
       (bridgeTypeLabel, bridge_text bridgeType)] (SetTo (of_nat st))"
| "Prom_gauge m (GasBalance chainID chainName gasTokenSymbol chainEnvironment bridgeType v) =
     Obs (gasBalance m) [(chainIDLabel, chainID), (chainNameLabel, chainName), (gasTokenSymbolLabel, gasTokenSymbol),
       (chainEnvironmentLabel, chainEnvironment), (bridgeTypeLabel, bridge_text bridgeType)] (SetTo v)"

definition Prom_addExternalRequest :: "PromMetrics \<Rightarrow> ctx \<Rightarrow> string \<Rightarrow> string \<Rightarrow> string \<Rightarrow> string \<Rightarrow> string \<Rightarrow> observation" where
  "Prom_addExternalRequest m c method st code provider bridgeType =
     Obs (totalExternalRequests m)
       [(methodLabel, method), (statusLabel, st), (codeLabel, code), (providerLabel, provider), (bridgeTypeLabel, bridgeType),
        (sourceChainIDLabel, SourceChainIDFromContext c), (destinationChainIDLabel, DestinationChainIDFromContext c),
        (sourceClientIDLabel, SourceClientIDFromContext c), (destinationClientIDLabel, DestinationClientIDFromContext c)] (Add 1)"

definition Prom_AddSuccessfulExternalRequest :: "PromMetrics \<Rightarrow> ctx \<Rightarrow> string \<Rightarrow> string \<Rightarrow> string \<Rightarrow> observation" where
  "Prom_AddSuccessfulExternalRequest m c method code provider =
     Prom_addExternalRequest m c method ''success'' code provider (BridgeTypeFromContext c)"

definition Prom_AddFailedExternalRequest :: "PromMetrics \<Rightarrow> ctx \<Rightarrow> string \<Rightarrow> string \<Rightarrow> string \<Rightarrow> observation" where
  "Prom_AddFailedExternalRequest m c method code provider =
     Prom_addExternalRequest m c method ''failure'' code provider (BridgeTypeFromContext c)"

definition Prom_ExternalRequestLatency :: "PromMetrics \<Rightarrow> ctx \<Rightarrow> string \<Rightarrow> string \<Rightarrow> duration \<Rightarrow> observation" where
  "Prom_ExternalRequestLatency m c method provider latency =
     Obs (latencyPerExternalRequest m)
       [(methodLabel, method), (providerLabel, provider), (bridgeTypeLabel, BridgeTypeFromContext c),
        (sourceChainIDLabel, SourceChainIDFromContext c), (destinationChainIDLabel, DestinationChainIDFromContext c),
        (sourceClientIDLabel, SourceClientIDFromContext c), (destinationClientIDLabel, DestinationClientIDFromContext c)]
       (Observe (duration_Milliseconds latency))"

definition Prom_NodeDependencyLatency :: "PromMetrics \<Rightarrow> string \<Rightarrow> string \<Rightarrow> string \<Rightarrow> string \<Rightarrow> duration \<Rightarrow> observation" where
  "Prom_NodeDependencyLatency m chain chainName chainEnvironment method d =
     Obs (latencyPerNodeDependencyRequest m)
       [(chainIDLabel, chain), (chainNameLabel, chainName), (chainEnvironmentLabel, chainEnvironment), (methodLabel, method)]
       (Observe (duration_Milliseconds d))"

definition Prom_AddRelayerLoop :: "PromMetrics \<Rightarrow> observation" where
  "Prom_AddRelayerLoop m =
     Obs (totalRelayerLoops m) [] (Add 1)"

definition Prom_RelayerLoopLatency :: "PromMetrics \<Rightarrow> duration \<Rightarrow> observation" where
  "Prom_RelayerLoopLatency m d =
     Obs (latencyPerRelayerLoop m) [] (Observe (duration_Milliseconds d))"

definition Prom_AttestationAPILatency :: "PromMetrics \<Rightarrow> duration \<Rightarrow> observation" where
  "Prom_AttestationAPILatency m d =
     Obs (latencyPerAttestationAPIRequest m) [] (Observe (duration_Milliseconds d))"

definition Prom_AddAttestationAPIRequest :: "PromMetrics \<Rightarrow> uint32 \<Rightarrow> observation" where
  "Prom_AddAttestationAPIRequest m statusCode =
     Obs (totalAttestationAPIRequests m) [(requestStatusCodeLabel, strconv_Itoa (uint statusCode))] (Add 1)"

definition Prom_AttestationConfirmationLatency :: "PromMetrics \<Rightarrow> string \<Rightarrow> string \<Rightarrow> string \<Rightarrow> string \<Rightarrow> string \<Rightarrow> duration \<Rightarrow> observation" where
  "Prom_AttestationConfirmationLatency m srcChainID dstChainID sourceChainName destinationChainName chainEnvironment d =
     Obs (latencyPerAttestationConfirmation m)
       [(sourceChainIDLabel, srcChainID), (destinationChainIDLabel, dstChainID), (sourceChainNameLabel, sourceChainName), (destinationChainNameLabel, destinationChainName), (chainEnvironmentLabel, chainEnvironment)]
       (Observe (duration_Seconds d))"

definition Prom_AddTransactionSubmitted :: "PromMetrics \<Rightarrow> bool \<Rightarrow> string \<Rightarrow> string \<Rightarrow> string \<Rightarrow> string \<Rightarrow> string \<Rightarrow> observation" where
  "Prom_AddTransactionSubmitted m success srcChainID dstChainID sourceChainName destinationChainName chainEnvironment =
     Obs (totalTransactionSubmitted m)
       [(successLabel, sprint_bool success), (sourceChainIDLabel, srcChainID), (destinationChainIDLabel, dstChainID), (sourceChainNameLabel, sourceChainName), (destinationChainNameLabel, destinationChainName), (chainEnvironmentLabel, chainEnvironment)]
       (Add 1)"

definition Prom_AddTransactionRetryAttempt :: "PromMetrics \<Rightarrow> string \<Rightarrow> string \<Rightarrow> string \<Rightarrow> string \<Rightarrow> string \<Rightarrow> string \<Rightarrow> observation" where
  "Prom_AddTransactionRetryAttempt m srcChainID dstChainID sourceChainName destinationChainName chainEnvironment relayType =
     Obs (totalTransactionRetryAttempts m)
       [(sourceChainIDLabel, srcChainID), (destinationChainIDLabel, dstChainID), (sourceChainNameLabel, sourceChainName), (destinationChainNameLabel, destinationChainName), (chainEnvironmentLabel, chainEnvironment), (relayTypelLabel, relayType)]
       (Add 1)"

definition Prom_AddTransactionConfirmed :: "PromMetrics \<Rightarrow> bool \<Rightarrow> string \<Rightarrow> string \<Rightarrow> string \<Rightarrow> string \<Rightarrow> string \<Rightarrow> observation" where
  "Prom_AddTransactionConfirmed m success srcChainID dstChainID sourceChainName destinationChainName chainEnvironment =
     Obs (totalTransactionsConfirmed m)
       [(successLabel, sprint_bool success), (sourceChainIDLabel, srcChainID), (destinationChainIDLabel, dstChainID), (sourceChainNameLabel, sourceChainName), (destinationChainNameLabel, destinationChainName), (chainEnvironmentLabel, chainEnvironment)]
       (Add 1)"

definition Prom_AddUnprofitableRelay :: "PromMetrics \<Rightarrow> string \<Rightarrow> string \<Rightarrow> string \<Rightarrow> observation" where
  "Prom_AddUnprofitableRelay m sourceChainName destinationChainName chainEnvironment =
     Obs (totalUnprofitableRelays m)
       [(sourceChainNameLabel, sourceChainName), (destinationChainNameLabel, destinationChainName), (chainEnvironmentLabel, chainEnvironment)]
       (Add 1)"

definition Prom_SetReceiveTransactionGasCost :: "PromMetrics \<Rightarrow> string \<Rightarrow> string \<Rightarrow> string \<Rightarrow> string \<Rightarrow> string \<Rightarrow> uint64 \<Rightarrow> observation" where
  "Prom_SetReceiveTransactionGasCost m srcChainID dstChainID sourceChainName destinationChainName chainEnvironment gasCost =
     Obs (receiveTransactionGasCost m)
       [(sourceChainIDLabel, srcChainID), (destinationChainIDLabel, dstChainID), (sourceChainNameLabel, sourceChainName), (destinationChainNameLabel, destinationChainName), (chainEnvironmentLabel, chainEnvironment)]
       (SetTo (float_round 53 (of_int (uint gasCost))))"

definition Prom_AddUntrackedTransfer :: "PromMetrics \<Rightarrow> string \<Rightarrow> string \<Rightarrow> string \<Rightarrow> observation" where
  "Prom_AddUntrackedTransfer m chain chainName chainEnvironment =
     Obs (totalUntrackedTransactions m)
       [(chainIDLabel, chain), (chainNameLabel, chainName), (chainEnvironmentLabel, chainEnvironment)]
       (Add 1)"

definition Prom_RelayLatency :: "PromMetrics \<Rightarrow> string \<Rightarrow> string \<Rightarrow> string \<Rightarrow> string \<Rightarrow> string \<Rightarrow> string \<Rightarrow> duration \<Rightarrow> observation" where
  "Prom_RelayLatency m srcChainID dstChainID sourceChainName destinationChainName chainEnvironment relayType d =
     Obs (latencyPerRelay m)
       [(sourceChainIDLabel, srcChainID), (destinationChainIDLabel, dstChainID), (sourceChainNameLabel, sourceChainName), (destinationChainNameLabel, destinationChainName), (chainEnvironmentLabel, chainEnvironment), (relayTypelLabel, relayType)]
       (Observe (duration_Milliseconds d))"

definition Prom_AddNobleForwardingRetryAttempt :: "PromMetrics \<Rightarrow> string \<Rightarrow> string \<Rightarrow> observation" where
  "Prom_AddNobleForwardingRetryAttempt m sourceChannel chainEnvironment =
     Obs (totalNobleForwardingRetryAttempts m)
       [(sourceChannelLabel, sourceChannel), (chainEnvironmentLabel, chainEnvironment)]
       (Add 1)"

definition Prom_AddNobleForwardingRequestAbandoned :: "PromMetrics \<Rightarrow> string \<Rightarrow> string \<Rightarrow> observation" where
  "Prom_AddNobleForwardingRequestAbandoned m sourceChannel chainEnvironment =
     Obs (totalNobleForwardingRequestsAbandoned m)
       [(sourceChannelLabel, sourceChannel), (chainEnvironmentLabel, chainEnvironment)]
       (Add 1)"

definition Prom_AddNobleForwardingRequest :: "PromMetrics \<Rightarrow> string \<Rightarrow> string \<Rightarrow> observation" where
  "Prom_AddNobleForwardingRequest m sourceChannel chainEnvironment =
     Obs (totalNobleForwardingRequests m)
       [(sourceChannelLabel, sourceChannel), (chainEnvironmentLabel, chainEnvironment)]
       (Add 1)"

definition Prom_AddExcessiveRelayLatencyObservation :: "PromMetrics \<Rightarrow> string \<Rightarrow> string \<Rightarrow> string \<Rightarrow> string \<Rightarrow> observation" where
  "Prom_AddExcessiveRelayLatencyObservation m sourceChainName destinationChainName chainEnvironment relayType =
     Obs (totalExcessiveRelayLatencyObservations m)
       [(sourceChainNameLabel, sourceChainName), (destinationChainNameLabel, destinationChainName), (chainEnvironmentLabel, chainEnvironment), (relayTypelLabel, relayType)]
       (Add 1)"

definition Prom_AddTransferMonitorChainHeightIncrease :: "PromMetrics \<Rightarrow> string \<Rightarrow> string \<Rightarrow> string \<Rightarrow> observation" where
  "Prom_AddTransferMonitorChainHeightIncrease m chain chainName chainEnvironment =
     Obs (transferMonitorChainHeightIncreaseCounter m)
       [(chainIDLabel, chain), (chainNameLabel, chainName), (chainEnvironmentLabel, chainEnvironment)]
       (Add 1)"

definition Prom_AddRelayCompleted :: "PromMetrics \<Rightarrow> string \<Rightarrow> string \<Rightarrow> string \<Rightarrow> string \<Rightarrow> string \<Rightarrow> observation" where
  "Prom_AddRelayCompleted m srcChainID srcClientID dstChainID dstClientID relayType =
     Obs (totalRelaysCompleted m)
       [(sourceChainIDLabel, srcChainID), (sourceClientIDLabel, srcClientID), (destinationChainIDLabel, dstChainID), (destinationClientIDLabel, dstClientID), (relayTypelLabel, relayType)]
       (Add 1)"

definition Prom_AddClientNeedsUpated :: "PromMetrics \<Rightarrow> string \<Rightarrow> string \<Rightarrow> string \<Rightarrow> observation" where
  "Prom_AddClientNeedsUpated m chain cid counterpartyChainID =
     Obs (totalClientsNeedsUpdated m)
       [(chainIDLabel, chain), (clientIDLabel, cid), (counterpartyChainIDLabel, counterpartyChainID)]
       (Add 1)"

definition Prom_AddClientUpdated :: "PromMetrics \<Rightarrow> string \<Rightarrow> string \<Rightarrow> string \<Rightarrow> observation" where
  "Prom_AddClientUpdated m chain cid counterpartyChainID =
     Obs (totalClientsUpdated m)
       [(chainIDLabel, chain), (clientIDLabel, cid), (counterpartyChainIDLabel, counterpartyChainID)]
       (Add 1)"

definition Prom_AddUnrelayedTransferWithAttestationObservation :: "PromMetrics \<Rightarrow> string \<Rightarrow> string \<Rightarrow> string \<Rightarrow> observation" where
  "Prom_AddUnrelayedTransferWithAttestationObservation m sourceChainName destinationChainName chainEnvironment =
     Obs (totalUnrelayedTransferWithAttestationObservations m)
       [(sourceChainNameLabel, sourceChainName), (destinationChainNameLabel, destinationChainName), (chainEnvironmentLabel, chainEnvironment)]
       (Add 1)"

section \<open>The interface\<close>

text \<open>A call of a method of \<open>Metrics\<close>, and what \<open>PromMetrics\<close> does for it. \<open>NoOpMetrics\<close> does nothing.\<close>

datatype metrics_call =
    Call_SetGasBalance string string string string int int int uint8 BridgeType
  | Call_Request string uint32
  | Call_RelayRequest string uint32
  | Call_RelayerAPIRequestLatency string duration
  | Call_SuccessfulExternalRequest ctx string string string
  | Call_FailedExternalRequest ctx string string string
  | Call_ExternalRequestLatency ctx string string duration
  | Call_NodeDependencyLatency string string string string duration
  | Call_RelayerLoop 
  | Call_RelayerLoopLatency duration
  | Call_AttestationAPILatency duration
  | Call_AttestationAPIRequest uint32
  | Call_AttestationConfirmationLatency string string string string string duration
  | Call_TransactionSubmitted bool string string string string string
  | Call_TransactionRetryAttempt string string string string string string
  | Call_TransactionConfirmed bool string string string string string
  | Call_UnprofitableRelay string string string
  | Call_SetReceiveTransactionGasCost string string string string string uint64
  | Call_UntrackedTransfer string string string
  | Call_RelayLatency string string string string string string duration
  | Call_ExcessiveRelayLatencyObservation string string string string
  | Call_TransferMonitorChainHeightIncrease string string string
  | Call_RelayCompleted string string string string string
  | Call_ClientNeedsUpated string string string
  | Call_ClientUpdated string string string
  | Call_UnrelayedTransferWithAttestationObservation string string string

fun prom_call :: "PromMetrics \<Rightarrow> metrics_call \<Rightarrow> observation list" where
  "prom_call m (Call_SetGasBalance a b c d e f g h i) = map (Prom_gauge m) (SetGasBalance a b c d e f g h i)"
| "prom_call m (Call_Request a b) = [Prom_AddRequest m a b]"
| "prom_call m (Call_RelayRequest a b) = [Prom_AddRelayRequest m a b]"
| "prom_call m (Call_RelayerAPIRequestLatency a b) = [Prom_AddRelayerAPIRequestLatency m a b]"
| "prom_call m (Call_SuccessfulExternalRequest a b c d) = [Prom_AddSuccessfulExternalRequest m a b c d]"
| "prom_call m (Call_FailedExternalRequest a b c d) = [Prom_AddFailedExternalRequest m a b c d]"
| "prom_call m (Call_ExternalRequestLatency a b c d) = [Prom_ExternalRequestLatency m a b c d]"
| "prom_call m (Call_NodeDependencyLatency a b c d e) = [Prom_NodeDependencyLatency m a b c d e]"
| "prom_call m Call_RelayerLoop = [Prom_AddRelayerLoop m]"
| "prom_call m (Call_RelayerLoopLatency a) = [Prom_RelayerLoopLatency m a]"
| "prom_call m (Call_AttestationAPILatency a) = [Prom_AttestationAPILatency m a]"
| "prom_call m (Call_AttestationAPIRequest a) = [Prom_AddAttestationAPIRequest m a]"
| "prom_call m (Call_AttestationConfirmationLatency a b c d e f) = [Prom_AttestationConfirmationLatency m a b c d e f]"
| "prom_call m (Call_TransactionSubmitted a b c d e f) = [Prom_AddTransactionSubmitted m a b c d e f]"
| "prom_call m (Call_TransactionRetryAttempt a b c d e f) = [Prom_AddTransactionRetryAttempt m a b c d e f]"
| "prom_call m (Call_TransactionConfirmed a b c d e f) = [Prom_AddTransactionConfirmed m a b c d e f]"
| "prom_call m (Call_UnprofitableRelay a b c) = [Prom_AddUnprofitableRelay m a b c]"
| "prom_call m (Call_SetReceiveTransactionGasCost a b c d e f) = [Prom_SetReceiveTransactionGasCost m a b c d e f]"
| "prom_call m (Call_UntrackedTransfer a b c) = [Prom_AddUntrackedTransfer m a b c]"
| "prom_call m (Call_RelayLatency a b c d e f g) = [Prom_RelayLatency m a b c d e f g]"
| "prom_call m (Call_ExcessiveRelayLatencyObservation a b c d) = [Prom_AddExcessiveRelayLatencyObservation m a b c d]"
| "prom_call m (Call_TransferMonitorChainHeightIncrease a b c) = [Prom_AddTransferMonitorChainHeightIncrease m a b c]"
| "prom_call m (Call_RelayCompleted a b c d e) = [Prom_AddRelayCompleted m a b c d e]"
| "prom_call m (Call_ClientNeedsUpated a b c) = [Prom_AddClientNeedsUpated m a b c]"
| "prom_call m (Call_ClientUpdated a b c) = [Prom_AddClientUpdated m a b c]"
| "prom_call m (Call_UnrelayedTransferWithAttestationObservation a b c) = [Prom_AddUnrelayedTransferWithAttestationObservation m a b c]"

fun perform_all :: "'s prometheus \<Rightarrow> observation list \<Rightarrow> 's \<Rightarrow> 's outcome" where
  "perform_all p [] s = Ret s"
| "perform_all p (ob # obs) s = (case Perform p ob s of Panic \<Rightarrow> Panic | Ret s1 \<Rightarrow> perform_all p obs s1)"

fun do_call :: "'s prometheus \<Rightarrow> metrics_impl \<Rightarrow> metrics_call \<Rightarrow> 's \<Rightarrow> 's outcome" where
  "do_call p NoOpMetrics c s = Ret s"
| "do_call p (Prom m) c s = perform_all p (prom_call m c) s"

fun do_calls :: "'s prometheus \<Rightarrow> metrics_impl \<Rightarrow> metrics_call list \<Rightarrow> 's \<Rightarrow> 's outcome" where
  "do_calls p impl [] s = Ret s"
| "do_calls p impl (c # cs) s =
     (case do_call p impl c s of Panic \<Rightarrow> Panic | Ret s1 \<Rightarrow> do_calls p impl cs s1)"

text \<open>The metrics the transfers and the API record, as calls.\<close>

fun relay_type_text :: "RelayType \<Rightarrow> string" where
  "relay_type_text IBCV2SendToRecvRelayType = ''ibcv2_send_to_recv''"
| "relay_type_text IBCV2SendToTimeoutRelayType = ''ibcv2_send_to_timeout''"
| "relay_type_text IBCV2RecvToAckRelayType = ''ibcv2_recv_to_ack''"

fun call_of :: "metric \<Rightarrow> metrics_call" where
  "call_of (AddRelayCompleted a b c d rt) = Call_RelayCompleted a b c d (relay_type_text rt)"
| "call_of (RelayLatency a b c d e rt l) = Call_RelayLatency a b c d e (relay_type_text rt) l"
| "call_of (AddTransactionRetryAttempt a b c d e rt) = Call_TransactionRetryAttempt a b c d e (relay_type_text rt)"
| "call_of (AddExcessiveRelayLatencyObservation a b c rt) = Call_ExcessiveRelayLatencyObservation a b c (relay_type_text rt)"
| "call_of (AddRelayRequest code) = Call_RelayRequest ''ibcv2'' code"

section \<open>No call panics\<close>

lemmas label_defs =
  requestStatusCodeLabel_def methodLabel_def chainIDLabel_def clientIDLabel_def counterpartyChainIDLabel_def
  gasBalanceLevelLabel_def sourceChainIDLabel_def destinationChainIDLabel_def statusLabel_def codeLabel_def
  successLabel_def providerLabel_def chainNameLabel_def sourceChainNameLabel_def destinationChainNameLabel_def
  chainEnvironmentLabel_def gasTokenSymbolLabel_def sourceChannelLabel_def relayTypelLabel_def
  bridgeTypeLabel_def sourceClientIDLabel_def destinationClientIDLabel_def

lemmas method_defs =
  Prom_AddRequest_def Prom_AddRelayRequest_def Prom_AddRelayerAPIRequestLatency_def Prom_addExternalRequest_def
  Prom_AddSuccessfulExternalRequest_def Prom_AddFailedExternalRequest_def Prom_ExternalRequestLatency_def
  Prom_NodeDependencyLatency_def Prom_AddRelayerLoop_def Prom_RelayerLoopLatency_def
  Prom_AttestationAPILatency_def Prom_AddAttestationAPIRequest_def Prom_AttestationConfirmationLatency_def
  Prom_AddTransactionSubmitted_def Prom_AddTransactionRetryAttempt_def Prom_AddTransactionConfirmed_def
  Prom_AddUnprofitableRelay_def Prom_SetReceiveTransactionGasCost_def Prom_AddUntrackedTransfer_def
  Prom_RelayLatency_def Prom_AddNobleForwardingRetryAttempt_def Prom_AddNobleForwardingRequestAbandoned_def
  Prom_AddNobleForwardingRequest_def Prom_AddExcessiveRelayLatencyObservation_def
  Prom_AddTransferMonitorChainHeightIncrease_def Prom_AddRelayCompleted_def Prom_AddClientNeedsUpated_def
  Prom_AddClientUpdated_def Prom_AddUnrelayedTransferWithAttestationObservation_def

lemma gauge_well_labelled: "well_labelled (Prom_gauge prom_metrics g)"
  by (cases g) (simp_all add: prom_metrics_def prom_family_def label_defs insert_commute)

lemma call_well_labelled: "ob \<in> set (prom_call prom_metrics c) \<Longrightarrow> well_labelled ob"
  by (cases c) (auto simp: gauge_well_labelled,
      auto simp: method_defs prom_metrics_def prom_family_def label_defs)

lemma perform_total: "documented p \<Longrightarrow> well_labelled ob \<Longrightarrow> \<exists>s'. Perform p ob s = Ret s'"
  by (simp add: documented_def)

lemma register_total:
  "documented p \<Longrightarrow> fam_valid f \<Longrightarrow> fam_name f \<notin> registered p s \<Longrightarrow>
   \<exists>s'. MustRegister p f s = Ret s' \<and> registered p s' = insert (fam_name f) (registered p s)"
  by (simp add: documented_def)

lemma perform_all_total:
  assumes "documented p"
  shows "list_all well_labelled obs \<Longrightarrow> \<exists>s'. perform_all p obs s = Ret s'"
proof (induction obs arbitrary: s)
  case (Cons ob obs)
  then obtain s1 where "Perform p ob s = Ret s1" using perform_total [OF assms] by fastforce
  then show ?case using Cons by simp
qed simp

definition counts :: "metrics_impl \<Rightarrow> bool" where
  "counts impl \<longleftrightarrow> impl = NoOpMetrics \<or> impl = Prom prom_metrics"

lemma do_call_total:
  assumes "documented p" "counts impl"
  shows "\<exists>s'. do_call p impl c s = Ret s'"
proof (cases impl)
  case (Prom m)
  then have "list_all well_labelled (prom_call m c)"
    using assms(2) call_well_labelled by (simp add: counts_def list_all_iff)
  from perform_all_total [OF assms(1) this] show ?thesis by (simp add: Prom)
qed simp

lemma do_calls_total:
  assumes "documented p" "counts impl"
  shows "\<exists>s'. do_calls p impl cs s = Ret s'"
proof (induction cs arbitrary: s)
  case (Cons c cs)
  obtain s1 where "do_call p impl c s = Ret s1" using do_call_total [OF assms] by blast
  then show ?case using Cons [of s1] by simp
qed simp

lemma register_all_total:
  assumes "documented p"
  shows "distinct (map fam_name fs) \<Longrightarrow> list_all (\<lambda>f. fam_valid f \<and> fam_name f \<notin> registered p s) fs \<Longrightarrow>
   \<exists>s'. register_all p fs s = Ret s'"
proof (induction fs arbitrary: s)
  case (Cons f fs)
  then obtain s1 where s1: "MustRegister p f s = Ret s1" "registered p s1 = insert (fam_name f) (registered p s)"
    using register_total [OF assms, of f s] by auto
  have "list_all (\<lambda>f. fam_valid f \<and> fam_name f \<notin> registered p s1) fs"
    using Cons.prems s1(2) by (auto simp: list_all_iff image_iff)
  then show ?case using Cons.IH [of s1] Cons.prems(1) s1(1) by simp
qed simp

lemma families_valid: "list_all fam_valid (prom_families prom_metrics)"
  by code_simp

lemma families_distinct: "distinct (map fam_name (prom_families prom_metrics))"
  by code_simp


text \<open>A library that keeps the names and the observations in lists, and panics as documented.\<close>

definition list_prometheus :: "(string list \<times> observation list) prometheus" where
  "list_prometheus =
     \<lparr>registered = (\<lambda>(ns, obs). set ns),
      MustRegister = (\<lambda>f (ns, obs). if fam_valid f \<and> fam_name f \<notin> set ns then Ret (fam_name f # ns, obs) else Panic),
      Perform = (\<lambda>ob (ns, obs). if well_labelled ob then Ret (ns, obs @ [ob]) else Panic)\<rparr>"

lemma list_prometheus_documented: "documented list_prometheus"
  by (auto simp: documented_def list_prometheus_def)


text \<open>
  The counter of completed relays: with such a library, after the metrics of a run its value at the
  labels of a route is the number of relays the run completed on that route.
\<close>

fun added :: "family \<Rightarrow> (string \<times> string) list \<Rightarrow> observation list \<Rightarrow> rat" where
  "added f ls [] = 0"
| "added f ls (Obs g ls' ch # obs) = (case ch of Add v \<Rightarrow> if g = f \<and> ls' = ls then v else 0 | _ \<Rightarrow> 0) + added f ls obs"

lemma added_append: "added f ls (xs @ ys) = added f ls xs + added f ls ys"
  by (induction f ls xs rule: added.induct) simp_all

lemma relay_type_text_inject [simp]: "relay_type_text a = relay_type_text b \<longleftrightarrow> a = b"
  by (cases a; cases b) simp_all

lemma relay_families:
  "totalTransactionRetryAttempts prom_metrics \<noteq> totalRelaysCompleted prom_metrics"
  "totalExcessiveRelayLatencyObservations prom_metrics \<noteq> totalRelaysCompleted prom_metrics"
  "totalRelayRequests prom_metrics \<noteq> totalRelaysCompleted prom_metrics"
  by (simp_all add: prom_metrics_def prom_family_def)

lemma relays_counted:
  "added (totalRelaysCompleted prom_metrics)
     [(sourceChainIDLabel, a), (sourceClientIDLabel, b), (destinationChainIDLabel, c), (destinationClientIDLabel, d),
      (relayTypelLabel, relay_type_text rt)]
     (concat (map (\<lambda>x. prom_call prom_metrics (call_of x)) ms)) =
   of_nat (count_list ms (AddRelayCompleted a b c d rt))"
proof (induction ms)
  case (Cons x ms)
  then show ?case by (cases x) (simp_all add: method_defs relay_families)
qed simp

section \<open>The interceptors\<close>

text \<open>
  \<open>status_Code\<close> and \<open>code_String\<close> are those of gRPC. The deferred function runs after the handler; a
  panic of the handler goes on.
\<close>

definition UnaryServerInterceptor ::
  "'s prometheus \<Rightarrow> (go_error option \<Rightarrow> uint32) \<Rightarrow> ctx \<Rightarrow> time \<Rightarrow> time \<Rightarrow> string \<Rightarrow>
   (ctx \<Rightarrow> 'q \<Rightarrow> 's \<Rightarrow> ('s \<times> 'r \<times> go_error option) outcome) \<Rightarrow> ctx \<Rightarrow> 'q \<Rightarrow> 's \<Rightarrow> ('s \<times> 'r \<times> go_error option) outcome" where
  "UnaryServerInterceptor p status_Code outerCtx start later fullMethod handler c req s =
     (case FromContext outerCtx of
        Panic \<Rightarrow> Panic
      | Ret m \<Rightarrow>
     (case handler (ContextWithMetrics c m) req s of
        Panic \<Rightarrow> Panic
      | Ret (s1, resp, err) \<Rightarrow>
     (case do_calls p m [Call_Request fullMethod (status_Code err), Call_RelayerAPIRequestLatency fullMethod (time_Sub later start)] s1 of
        Panic \<Rightarrow> Panic
      | Ret s2 \<Rightarrow> Ret (s2, resp, err))))"

definition UnaryClientInterceptor ::
  "'s prometheus \<Rightarrow> (go_error option \<Rightarrow> string) \<Rightarrow> ctx \<Rightarrow> time \<Rightarrow> time \<Rightarrow> string \<Rightarrow> string \<Rightarrow>
   ('s \<Rightarrow> 's \<times> go_error option) \<Rightarrow> 's \<Rightarrow> ('s \<times> go_error option) outcome" where
  "UnaryClientInterceptor p code_String c start later method target invoker s =
     (case invoker s of (s1, err) \<Rightarrow>
      case FromContext c of
        Panic \<Rightarrow> Panic
      | Ret m \<Rightarrow>
     (case do_calls p m
             [Call_ExternalRequestLatency c method target (time_Sub later start),
              if err \<noteq> None then Call_FailedExternalRequest c method (code_String err) target
              else Call_SuccessfulExternalRequest c method (code_String err) target] s1 of
        Panic \<Rightarrow> Panic
      | Ret s2 \<Rightarrow> Ret (s2, err)))"

text \<open>The interceptors hand on what the handler and the server answered.\<close>

lemma server_interceptor_transparent:
  assumes "documented p" "FromContext outerCtx = Ret m" "counts m" "handler (ContextWithMetrics c m) req s = Ret (s1, resp, err)"
  shows "\<exists>s2. UnaryServerInterceptor p status_Code outerCtx start later fullMethod handler c req s = Ret (s2, resp, err)"
proof -
  obtain s2 where "do_calls p m [Call_Request fullMethod (status_Code err), Call_RelayerAPIRequestLatency fullMethod (time_Sub later start)] s1 = Ret s2"
    using do_calls_total [OF assms(1,3)] by blast
  then show ?thesis using assms(2,4) by (simp add: UnaryServerInterceptor_def)
qed

lemma client_interceptor_transparent:
  assumes "documented p" "FromContext c = Ret m" "counts m" "invoker s = (s1, err)"
  shows "\<exists>s2. UnaryClientInterceptor p code_String c start later method target invoker s = Ret (s2, err)"
proof -
  obtain s2 where "do_calls p m
             [Call_ExternalRequestLatency c method target (time_Sub later start),
              if err \<noteq> None then Call_FailedExternalRequest c method (code_String err) target
              else Call_SuccessfulExternalRequest c method (code_String err) target] s1 = Ret s2"
    using do_calls_total [OF assms(1,3)] by blast
  then show ?thesis using assms(2,4) by (simp add: UnaryClientInterceptor_def)
qed

end
