(* ===== verification/Relayer_Transport.thy ===== *)
theory Relayer_Transport
  imports Relayer_Metrics
begin

text \<open>
  HTTP transports: the one that records metrics (\<open>shared/metrics/http_transport.go\<close>,
  \<open>http_transport_config.go\<close>) and the ones that add credentials (\<open>shared/utils/http.go\<close>,
  \<open>shared/http/client.go\<close>).

  \<^item> A transport is a function from requests to responses. The response may be nil without an error.
  \<^item> The body of a message is what reading it yields: its bytes and then, maybe, an error instead of
    the end.
  \<^item> Decoding of JSON and the texts of status codes are parameters, the record \<open>http_lib\<close>.
\<close>

section \<open>Messages\<close>

record body =
  body_data :: bytes
  body_err :: "go_error option"

record http_request =
  rq_ctx :: ctx
  rq_host :: string
  rq_path :: string
  rq_header :: "(string \<times> string) list"
  rq_body :: "body option"

record http_response =
  rs_code :: int
  rs_body :: "body option"

type_synonym transport = "http_request \<Rightarrow> http_response option res"

record http_lib =
  json_request :: "bytes \<Rightarrow> (string \<times> string) option"
  json_method :: "bytes \<Rightarrow> string option"
  json_error_code :: "bytes \<Rightarrow> int option option"
  StatusText :: "int \<Rightarrow> string"

section \<open>Reading a body\<close>

text \<open>
  \<open>requestBodyBytes\<close> and \<open>responseBodyBytes\<close>: all bytes are read and the body is replaced by a buffer
  of what was read. An error of the reader is returned here and is not in the buffer.
\<close>

definition reread :: "body \<Rightarrow> body" where
  "reread b = b\<lparr>body_err := None\<rparr>"

definition read_all :: "body \<Rightarrow> bytes res" where
  "read_all b = (case body_err b of None \<Rightarrow> Inr (body_data b) | Some e \<Rightarrow> Inl e)"

definition requestBodyBytes :: "body \<Rightarrow> http_request \<Rightarrow> http_request \<times> bytes res" where
  "requestBodyBytes b rq = (rq\<lparr>rq_body := Some (reread b)\<rparr>, read_all b)"

definition responseBodyBytes :: "body \<Rightarrow> http_response \<Rightarrow> http_response \<times> bytes res" where
  "responseBodyBytes b rs = (rs\<lparr>rs_body := Some (reread b)\<rparr>, read_all b)"

definition getJSONRPCMethodFromRequest :: "http_lib \<Rightarrow> http_request \<Rightarrow> http_request \<times> string" where
  "getJSONRPCMethodFromRequest lib rq =
     (case rq_body rq of
        None \<Rightarrow> (rq, [])
      | Some b \<Rightarrow>
     (case requestBodyBytes b rq of
        (rq1, Inl e) \<Rightarrow> (rq1, ''error: failed to read request body'')
      | (rq1, Inr bs) \<Rightarrow>
     (case json_method lib bs of
        None \<Rightarrow> (rq1, ''error: failed to unmarshal request body'')
      | Some m \<Rightarrow> (rq1, m))))"

definition getJSONRPCCodeFromResponse :: "http_lib \<Rightarrow> http_response \<Rightarrow> http_response \<times> string" where
  "getJSONRPCCodeFromResponse lib rs =
     (case rs_body rs of
        None \<Rightarrow> (rs, [])
      | Some b \<Rightarrow>
     (case responseBodyBytes b rs of
        (rs1, Inl e) \<Rightarrow> (rs1, ''error: failed to read response body'')
      | (rs1, Inr bs) \<Rightarrow>
     (case json_error_code lib bs of
        None \<Rightarrow> (rs1, ''error: failed to unmarshal response body'')
      | Some None \<Rightarrow> (rs1, StatusText lib (rs_code rs1))
      | Some (Some c) \<Rightarrow> (rs1, strconv_Itoa c))))"

definition isJSONRPCRequest :: "http_lib \<Rightarrow> http_request \<Rightarrow> http_request \<times> bool" where
  "isJSONRPCRequest lib rq =
     (case rq_body rq of
        None \<Rightarrow> (rq, False)
      | Some b \<Rightarrow>
     (case requestBodyBytes b rq of
        (rq1, Inl e) \<Rightarrow> (rq1, False)
      | (rq1, Inr bs) \<Rightarrow>
     (case json_request lib bs of
        None \<Rightarrow> (rq1, False)
      | Some (version, m) \<Rightarrow> (rq1, version = ''2.0'' \<and> m \<noteq> []))))"

definition isExternalError :: "go_error \<Rightarrow> bool" where
  "isExternalError e \<longleftrightarrow> \<not> errors_Is e ContextCanceled"

section \<open>The metrics transport\<close>

type_synonym extractor = "http_request \<Rightarrow> string"

definition DefaultHTTPMethodExtractor :: extractor where
  "DefaultHTTPMethodExtractor rq = rq_path rq"

text \<open>The path up to its last slash.\<close>

definition AllButLastPathHTTPMethodExtractor :: extractor where
  "AllButLastPathHTTPMethodExtractor rq =
     (if CHR ''/'' \<notin> set (rq_path rq) then rq_path rq
      else rev (tl (dropWhile (\<lambda>c. c \<noteq> CHR ''/'') (rev (rq_path rq)))))"

text \<open>The extractor of a configuration is a function value and may be nil.\<close>

record TransportConfig =
  HTTPMethodExtractor :: "extractor option"

record MetricsTransportMiddleware =
  mt_internal :: transport
  mt_config :: TransportConfig

definition DefaultTransportConfig :: TransportConfig where
  "DefaultTransportConfig = \<lparr>HTTPMethodExtractor = Some DefaultHTTPMethodExtractor\<rparr>"

definition NewTransportMiddleware :: "transport \<Rightarrow> TransportConfig option \<Rightarrow> MetricsTransportMiddleware" where
  "NewTransportMiddleware internal conf =
     \<lparr>mt_internal = internal, mt_config = (case conf of None \<Rightarrow> DefaultTransportConfig | Some c \<Rightarrow> c)\<rparr>"

text \<open>The calls on the metrics of a context.\<close>

definition ctx_calls :: "'s prometheus \<Rightarrow> ctx \<Rightarrow> metrics_call list \<Rightarrow> 's \<Rightarrow> 's outcome" where
  "ctx_calls p c cs s = (case FromContext c of Panic \<Rightarrow> Panic | Ret m \<Rightarrow> do_calls p m cs s)"

text \<open>The record of a failed request, then the deferred record of its latency.\<close>

definition failed_calls :: "ctx \<Rightarrow> string \<Rightarrow> string \<Rightarrow> duration \<Rightarrow> go_error \<Rightarrow> metrics_call list" where
  "failed_calls c method provider latency e =
     [if isExternalError e then Call_FailedExternalRequest c method ''-1'' provider
      else Call_SuccessfulExternalRequest c method ''-1'' provider,
      Call_ExternalRequestLatency c method provider latency]"

definition answered_calls :: "ctx \<Rightarrow> string \<Rightarrow> string \<Rightarrow> duration \<Rightarrow> string \<Rightarrow> metrics_call list" where
  "answered_calls c method provider latency code =
     [Call_SuccessfulExternalRequest c method code provider, Call_ExternalRequestLatency c method provider latency]"

definition with_calls :: "'s outcome \<Rightarrow> 'r \<Rightarrow> ('s \<times> 'r) outcome" where
  "with_calls out r = (case out of Panic \<Rightarrow> Panic | Ret s \<Rightarrow> Ret (s, r))"

definition JSONRPCRoundTrip ::
  "'s prometheus \<Rightarrow> http_lib \<Rightarrow> MetricsTransportMiddleware \<Rightarrow> duration \<Rightarrow> http_request \<Rightarrow> 's \<Rightarrow>
   ('s \<times> http_response option res) outcome" where
  "JSONRPCRoundTrip p lib t latency rq s =
     (let c = rq_ctx rq; provider = rq_host rq; (rq1, method) = getJSONRPCMethodFromRequest lib rq
      in case mt_internal t rq1 of
           Inl e \<Rightarrow> with_calls (ctx_calls p c (failed_calls c method provider latency e) s) (Inl e)
         | Inr None \<Rightarrow> with_calls (ctx_calls p c (answered_calls c method provider latency []) s) (Inr None)
         | Inr (Some rs) \<Rightarrow>
             (let (rs1, code) = getJSONRPCCodeFromResponse lib rs
              in with_calls (ctx_calls p c (answered_calls c method provider latency code) s) (Inr (Some rs1))))"

definition HTTPRoundTrip ::
  "'s prometheus \<Rightarrow> MetricsTransportMiddleware \<Rightarrow> duration \<Rightarrow> http_request \<Rightarrow> 's \<Rightarrow>
   ('s \<times> http_response option res) outcome" where
  "HTTPRoundTrip p t latency rq s =
     (case HTTPMethodExtractor (mt_config t) of
        None \<Rightarrow> Panic
      | Some extract \<Rightarrow>
     (let c = rq_ctx rq; method = extract rq; provider = rq_host rq
      in case mt_internal t rq of
           Inl e \<Rightarrow> with_calls (ctx_calls p c (failed_calls c method provider latency e) s) (Inl e)
         | Inr None \<Rightarrow> with_calls (ctx_calls p c (answered_calls c method provider latency []) s) (Inr None)
         | Inr (Some rs) \<Rightarrow>
             with_calls (ctx_calls p c (answered_calls c method provider latency (strconv_Itoa (rs_code rs))) s)
               (Inr (Some rs))))"

definition Metrics_RoundTrip ::
  "'s prometheus \<Rightarrow> http_lib \<Rightarrow> MetricsTransportMiddleware \<Rightarrow> duration \<Rightarrow> http_request \<Rightarrow> 's \<Rightarrow>
   ('s \<times> http_response option res) outcome" where
  "Metrics_RoundTrip p lib t latency rq s =
     (let (rq1, rpc) = isJSONRPCRequest lib rq
      in if rpc then JSONRPCRoundTrip p lib t latency rq1 s else HTTPRoundTrip p t latency rq1 s)"

section \<open>Credentials\<close>

text \<open>\<open>defaultTransport\<close> is \<open>http.DefaultTransport\<close>.\<close>

definition BasicAuth_RoundTrip :: "transport \<Rightarrow> string option \<Rightarrow> transport option \<Rightarrow> transport" where
  "BasicAuth_RoundTrip defaultTransport basicAuth t rq =
     (let rq1 = (case basicAuth of
                   None \<Rightarrow> rq
                 | Some a \<Rightarrow> rq\<lparr>rq_header := rq_header rq @ [(''Authorization'', ''Basic '' @ a)]\<rparr>)
      in case t of Some t' \<Rightarrow> t' rq1 | None \<Rightarrow> defaultTransport rq1)"

text \<open>
  \<open>Request.SetBasicAuth\<close> replaces the header by the base64 text of the name and the password.
\<close>

definition base64_char :: "nat \<Rightarrow> char" where
  "base64_char n =
     (if n < 26 then char_of (65 + n) else if n < 52 then char_of (71 + n) else if n < 62 then char_of (n - 4)
      else if n = 62 then CHR ''+'' else CHR ''/'')"

fun base64 :: "nat list \<Rightarrow> string" where
  "base64 [] = []"
| "base64 [a] = [base64_char (a div 4), base64_char (a mod 4 * 16), CHR ''='', CHR ''='']"
| "base64 [a, b] = [base64_char (a div 4), base64_char (a mod 4 * 16 + b div 16), base64_char (b mod 16 * 4), CHR ''='']"
| "base64 (a # b # c # xs) =
     [base64_char (a div 4), base64_char (a mod 4 * 16 + b div 16), base64_char (b mod 16 * 4 + c div 64), base64_char (c mod 64)] @
     base64 xs"

definition SetBasicAuth :: "string \<Rightarrow> string \<Rightarrow> http_request \<Rightarrow> http_request" where
  "SetBasicAuth username password rq =
     rq\<lparr>rq_header := filter (\<lambda>(k, v). k \<noteq> ''Authorization'') (rq_header rq) @
          [(''Authorization'', ''Basic '' @ base64 (map of_char (username @ '':'' @ password)))]\<rparr>"

definition Authenticated_RoundTrip :: "transport \<Rightarrow> string \<Rightarrow> string \<Rightarrow> transport" where
  "Authenticated_RoundTrip underlying username password rq = underlying (SetBasicAuth username password rq)"

definition DefaultAuthenticatedTransport :: "transport \<Rightarrow> string \<Rightarrow> string \<Rightarrow> transport" where
  "DefaultAuthenticatedTransport defaultTransport username password =
     Authenticated_RoundTrip defaultTransport username password"

section \<open>Facts\<close>

definition readable :: "body option \<Rightarrow> bool" where
  "readable ob \<longleftrightarrow> (\<forall>b. ob = Some b \<longrightarrow> body_err b = None)"

lemma reread_readable [simp]: "body_err b = None \<Longrightarrow> reread b = b"
  by (simp add: reread_def)

lemma request_kept:
  "fst (isJSONRPCRequest lib rq) = rq\<lparr>rq_body := map_option reread (rq_body rq)\<rparr>"
  "fst (getJSONRPCMethodFromRequest lib rq) = rq\<lparr>rq_body := map_option reread (rq_body rq)\<rparr>"
  by (auto simp: isJSONRPCRequest_def getJSONRPCMethodFromRequest_def requestBodyBytes_def
      split: option.splits sum.splits prod.splits)

lemma response_kept: "fst (getJSONRPCCodeFromResponse lib rs) = rs\<lparr>rs_body := map_option reread (rs_body rs)\<rparr>"
  by (auto simp: getJSONRPCCodeFromResponse_def responseBodyBytes_def split: option.splits sum.splits prod.splits)

lemma readable_kept: "readable ob \<Longrightarrow> map_option reread ob = ob"
  by (cases ob) (simp_all add: readable_def)

text \<open>
  What one request leaves in the metrics: one count, a failure exactly if the transport failed for
  another reason than a cancelled context, and one latency, both under the same method and the host.
\<close>

definition request_recorded ::
  "'s prometheus \<Rightarrow> metrics_impl \<Rightarrow> http_request \<Rightarrow> duration \<Rightarrow> http_response option res \<Rightarrow> 's \<Rightarrow> 's \<Rightarrow> bool" where
  "request_recorded p m rq latency r s s' \<longleftrightarrow>
     (\<exists>method code.
        do_calls p m
          [if (\<exists>e. r = Inl e \<and> \<not> errors_Is e ContextCanceled)
           then Call_FailedExternalRequest (rq_ctx rq) method code (rq_host rq)
           else Call_SuccessfulExternalRequest (rq_ctx rq) method code (rq_host rq),
           Call_ExternalRequestLatency (rq_ctx rq) method (rq_host rq) latency] s = Ret s')"

lemma calls_recorded:
  assumes "documented p" "FromContext (rq_ctx rq) = Ret m" "counts m"
  shows "\<exists>s'. with_calls (ctx_calls p (rq_ctx rq) (failed_calls (rq_ctx rq) mname (rq_host rq) latency e) s) (Inl e) =
             Ret (s', Inl e) \<and> request_recorded p m rq latency (Inl e) s s'"
    and "\<exists>s'. with_calls (ctx_calls p (rq_ctx rq) (answered_calls (rq_ctx rq) mname (rq_host rq) latency code) s) (Inr x) =
             Ret (s', Inr x) \<and> request_recorded p m rq latency (Inr y) s s'"
proof -
  obtain s1 where 1: "do_calls p m (failed_calls (rq_ctx rq) mname (rq_host rq) latency e) s = Ret s1"
    using do_calls_total [OF assms(1,3)] by blast
  then have "request_recorded p m rq latency (Inl e) s s1"
    unfolding request_recorded_def
    by (intro exI [of _ mname] exI [of _ "''-1''"]) (simp add: failed_calls_def isExternalError_def split: if_splits)
  then show "\<exists>s'. with_calls (ctx_calls p (rq_ctx rq) (failed_calls (rq_ctx rq) mname (rq_host rq) latency e) s) (Inl e) =
             Ret (s', Inl e) \<and> request_recorded p m rq latency (Inl e) s s'"
    using 1 assms(2) by (simp add: with_calls_def ctx_calls_def)
  obtain s2 where 2: "do_calls p m (answered_calls (rq_ctx rq) mname (rq_host rq) latency code) s = Ret s2"
    using do_calls_total [OF assms(1,3)] by blast
  then have "request_recorded p m rq latency (Inr y) s s2"
    unfolding request_recorded_def by (intro exI [of _ mname] exI [of _ code]) (simp add: answered_calls_def)
  then show "\<exists>s'. with_calls (ctx_calls p (rq_ctx rq) (answered_calls (rq_ctx rq) mname (rq_host rq) latency code) s) (Inr x) =
             Ret (s', Inr x) \<and> request_recorded p m rq latency (Inr y) s s'"
    using 2 assms(2) by (simp add: with_calls_def ctx_calls_def)
qed

lemma http_transparent:
  assumes "documented p" "FromContext (rq_ctx rq) = Ret m" "counts m" "HTTPMethodExtractor (mt_config t) \<noteq> None"
  shows "\<exists>s'. HTTPRoundTrip p t latency rq s = Ret (s', mt_internal t rq) \<and> request_recorded p m rq latency (mt_internal t rq) s s'"
  using assms(4) calls_recorded [OF assms(1-3)]
  by (auto simp: HTTPRoundTrip_def Let_def split: sum.splits option.splits)

lemma jsonrpc_transparent:
  assumes "documented p" "FromContext (rq_ctx rq) = Ret m" "counts m" "readable (rq_body rq)"
  shows "\<exists>s'. JSONRPCRoundTrip p lib t latency rq s =
    Ret (s', map_sum id (map_option (\<lambda>rs. rs\<lparr>rs_body := map_option reread (rs_body rs)\<rparr>)) (mt_internal t rq)) \<and>
    request_recorded p m rq latency (mt_internal t rq) s s'"
proof -
  obtain mname where g: "getJSONRPCMethodFromRequest lib rq = (rq, mname)"
    using request_kept(2) [of lib rq] assms(4) by (cases "getJSONRPCMethodFromRequest lib rq") (simp add: readable_kept)
  have r: "\<exists>code. getJSONRPCCodeFromResponse lib rs = (rs\<lparr>rs_body := map_option reread (rs_body rs)\<rparr>, code)" for rs
    using response_kept [of lib rs] by (metis prod.collapse)
  show ?thesis
  proof (cases "mt_internal t rq")
    case (Inr o1)
    then show ?thesis using r [of "the o1"]
      by (cases o1) (auto simp: JSONRPCRoundTrip_def Let_def g intro!: calls_recorded assms)
  qed (auto simp: JSONRPCRoundTrip_def Let_def g intro!: calls_recorded assms)
qed

text \<open>
  A response to a JSON-RPC request whose body breaks off is handed to the caller as a complete one.
\<close>

lemma broken_response_hidden:
  assumes "documented p" "FromContext (rq_ctx rq) = Ret m" "counts m" "readable (rq_body rq)"
    and "snd (isJSONRPCRequest lib rq)"
    and "mt_internal t rq = Inr (Some rs)" "rs_body rs = Some b" "body_err b = Some e"
  shows "\<exists>s'. Metrics_RoundTrip p lib t latency rq s = Ret (s', Inr (Some (rs\<lparr>rs_body := Some (b\<lparr>body_err := None\<rparr>)\<rparr>)))"
proof -
  have "isJSONRPCRequest lib rq = (rq, True)"
    using request_kept(1) [of lib rq] assms(4,5) by (simp add: readable_kept prod_eq_iff)
  then show ?thesis
    using jsonrpc_transparent [OF assms(1-4), of lib t latency s] assms(6,7)
    by (auto simp: Metrics_RoundTrip_def reread_def)
qed

section \<open>Properties\<close>


text \<open>The transport on a JSON-RPC request that is answered, and on one that fails.\<close>

definition sample_rpc :: http_request where
  "sample_rpc = \<lparr>rq_ctx = ContextWithMetrics Map.empty (Prom prom_metrics), rq_host = ''node'', rq_path = ''/'', rq_header = [],
     rq_body = Some \<lparr>body_data = [123, 125], body_err = None\<rparr>\<rparr>"

definition sample_json :: http_lib where
  "sample_json = \<lparr>json_request = (\<lambda>bs. if bs = [123, 125] then Some (''2.0'', ''status'') else None),
     json_method = (\<lambda>bs. if bs = [123, 125] then Some ''status'' else None), json_error_code = (\<lambda>bs. None), StatusText = (\<lambda>n. ''OK'')\<rparr>"

definition sample_answer :: transport where
  "sample_answer rq = (if rq_body rq = None then Inl (Sentinel DeadlineExceeded)
     else Inr (Some \<lparr>rs_code = 200, rs_body = Some \<lparr>body_data = [1], body_err = None\<rparr>\<rparr>))"


end
