(* ===== verification/Relayer_Commands.thy ===== *)
theory Relayer_Commands
  imports Relayer_Clients Relayer_Prices Relayer_Transport
begin

text \<open>
  The programs: the start of the relayer (\<open>cmd/relayer/main.go\<close>), the commands \<open>cmd/relay\<close> and
  \<open>cmd/transfer\<close>, the health check of the API server (\<open>relayerapi/server/grpcserver.go\<close>,
  \<open>relayerapi/services/health/service.go\<close>), and the opening and migration of the database
  (\<open>shared/database/database.go\<close>, \<open>db/migrate.go\<close>).

  \<^item> \<open>Logger.Fatal\<close> ends the process; it is the value \<open>Fatal\<close>.
  \<^item> A program that talks to the relayer's API threads the state \<open>'w\<close> of the server through its calls.
  \<^item> File system, gRPC, pgx, the migration library and the address formats are parameters.
\<close>

section \<open>Health\<close>

datatype ServingStatus = UNKNOWN | SERVING | NOT_SERVING | SERVICE_UNKNOWN

text \<open>\<open>serverCheck\<close> is the health server of gRPC on the name of a service, \<open>ping\<close> the pool.\<close>

definition HealthService_Check :: "(string \<Rightarrow> ServingStatus res) \<Rightarrow> go_error option \<Rightarrow> string \<Rightarrow> ServingStatus res" where
  "HealthService_Check serverCheck ping request =
     (case serverCheck request of
        Inl e \<Rightarrow> Inl e
      | Inr st \<Rightarrow>
          if st \<noteq> SERVING then Inr st
          else (case ping of Some e \<Rightarrow> Inl e | None \<Rightarrow> Inr SERVING))"

text \<open>The handler of \<open>/health\<close>: the status code and the body.\<close>

definition health_handler :: "(string \<Rightarrow> ServingStatus res) \<Rightarrow> go_error option \<Rightarrow> int \<times> string" where
  "health_handler serverCheck ping =
     (case HealthService_Check serverCheck ping [] of
        Inl e \<Rightarrow> (500, [])
      | Inr st \<Rightarrow> if st = SERVING then (200, ''OK'') else (503, ''Service Unavailable''))"

lemma healthy_iff: "fst (health_handler serverCheck ping) = 200 \<longleftrightarrow> serverCheck [] = Inr SERVING \<and> ping = None"
  by (auto simp: health_handler_def HealthService_Check_def split: sum.splits option.splits)

section \<open>The database\<close>

text \<open>
  A pool configuration is what \<open>pgxpool.ParseConfig\<close> makes of the connection string, with the hook
  that replaces the password before a connection is made.
\<close>

record conn_config =
  conn_Host :: string
  conn_Port :: "16 word"
  conn_User :: string
  conn_Password :: string

record aws_lib =
  LoadDefaultConfig :: "string res"
  BuildAuthToken :: "string \<Rightarrow> string \<Rightarrow> string \<Rightarrow> string \<Rightarrow> string res"

definition BeforeConnect :: "aws_lib \<Rightarrow> conn_config \<Rightarrow> conn_config res" where
  "BeforeConnect aws c =
     (case LoadDefaultConfig aws of
        Inl e \<Rightarrow> Inl (Errorf ''failed to load AWS config: %w'' [e])
      | Inr credentials \<Rightarrow>
     (case BuildAuthToken aws (conn_Host c @ '':'' @ strconv_Itoa (uint (conn_Port c))) ''us-east-2'' (conn_User c) credentials of
        Inl e \<Rightarrow> Inl (Errorf ''failed to build auth token: %w'' [e])
      | Inr authToken \<Rightarrow> Inr (c\<lparr>conn_Password := authToken\<rparr>)))"

text \<open>\<open>parse\<close> and \<open>newPool\<close> are pgx; the pool gets the configuration and the hook of its connections.\<close>

definition NewDatabase ::
  "aws_lib \<Rightarrow> (string \<Rightarrow> conn_config res) \<Rightarrow> (conn_config \<Rightarrow> (conn_config \<Rightarrow> conn_config res) option \<Rightarrow> 'pool res) \<Rightarrow>
   string \<Rightarrow> bool \<Rightarrow> 'pool res" where
  "NewDatabase aws parse newPool connString useIAMAuth =
     (case parse connString of
        Inl e \<Rightarrow> Inl e
      | Inr pgxConfig \<Rightarrow> newPool pgxConfig (if useIAMAuth then Some (BeforeConnect aws) else None))"

text \<open>
  A migration on a connection: every step of the library may fail. \<open>mg_driver\<close>, which creates the table of
  versions, and \<open>mg_up\<close> change the database and answer with their error; \<open>mg_close\<close> with those of the source and the database.
\<close>

record ('fs, 'd) migrator =
  mg_conn :: "'d \<Rightarrow> go_error option"
  mg_driver :: "'d \<Rightarrow> 'd \<times> go_error option"
  mg_source :: "'fs \<Rightarrow> go_error option"
  mg_instance :: "'fs \<Rightarrow> go_error option"
  mg_up :: "'fs \<Rightarrow> 'd \<Rightarrow> 'd \<times> go_error option"
  mg_close :: "'fs \<Rightarrow> go_error option \<times> go_error option"
  mg_no_change :: "go_error \<Rightarrow> bool"

definition close_error :: "go_error option \<times> go_error option \<Rightarrow> go_error option" where
  "close_error r =
     (case r of
        (Some srcErr, dbErr) \<Rightarrow> Some (Errorf ''failed to close migration source: %w'' [srcErr])
      | (None, Some dbErr) \<Rightarrow> Some (Errorf ''failed to close migration database: %w'' [dbErr])
      | (None, None) \<Rightarrow> None)"

definition runMigration :: "('fs, 'd) migrator \<Rightarrow> 'fs \<Rightarrow> 'd \<Rightarrow> 'd \<times> go_error option" where
  "runMigration g fs d =
     (case mg_conn g d of Some e \<Rightarrow> (d, Some e)
      | None \<Rightarrow>
     (case mg_driver g d of
        (d0, Some e) \<Rightarrow> (d0, Some (Errorf ''failed to create db migrate driver: %w'' [e]))
      | (d0, None) \<Rightarrow>
     (case mg_source g fs of Some e \<Rightarrow> (d0, Some (Errorf ''failed to create migration source: %w'' [e]))
      | None \<Rightarrow>
     (case mg_instance g fs of Some e \<Rightarrow> (d0, Some (Errorf ''failed to create migration instance: %w'' [e]))
      | None \<Rightarrow>
     (case mg_up g fs d0 of
        (d1, Some e) \<Rightarrow>
          if \<not> mg_no_change g e then (d1, Some (Errorf ''failed to run migration: %w'' [e]))
          else (d1, close_error (mg_close g fs))
      | (d1, None) \<Rightarrow> (d1, close_error (mg_close g fs)))))))"

fun run_migrations :: "('fs, 'd) migrator \<Rightarrow> 'fs list \<Rightarrow> 'd \<Rightarrow> 'd \<times> go_error option" where
  "run_migrations g [] d = (d, None)"
| "run_migrations g (fs # migrations) d =
     (case runMigration g fs d of
        (d1, Some e) \<Rightarrow> (d1, Some e)
      | (d1, None) \<Rightarrow> run_migrations g migrations d1)"

definition Migrate :: "go_error option \<Rightarrow> ('fs, 'd) migrator \<Rightarrow> 'fs list \<Rightarrow> 'd \<Rightarrow> 'd \<times> go_error option" where
  "Migrate openErr g migrations d =
     (case openErr of
        Some e \<Rightarrow> (d, Some (Errorf ''failed to create sql db: %w'' [e]))
      | None \<Rightarrow> run_migrations g migrations d)"

text \<open>A run without an error applied every migration in order.\<close>

lemma run_migrations_all:
  assumes "run_migrations g migrations d = (d', None)"
  shows "d' = fold (\<lambda>fs d. fst (mg_up g fs (fst (mg_driver g d)))) migrations d"
  using assms
  by (induction migrations arbitrary: d)
    (auto simp: runMigration_def split: prod.splits option.splits if_splits)

section \<open>The command that asks for a relay\<close>

datatype 'a exit = Fatal go_error | Exit 'a

definition relay_main ::
  "go_error option \<Rightarrow> (api_request \<Rightarrow> 'w \<Rightarrow> 'w \<times> go_error option) \<Rightarrow> string \<Rightarrow> string \<Rightarrow> 'w \<Rightarrow> 'w \<times> unit exit" where
  "relay_main dialErr relay sourceChain txHash w =
     (if sourceChain = [] \<or> txHash = [] then (w, Fatal (Errorf ''source-chain-id and tx-hash are required'' []))
      else
        (case dialErr of
           Some e \<Rightarrow> (w, Fatal (Errorf ''creating grpc connection to relayer'' [e]))
         | None \<Rightarrow>
        (case relay \<lparr>TxHash = txHash, ChainId = sourceChain\<rparr> w of
           (w1, Some e) \<Rightarrow> (w1, Fatal (Errorf ''submitting relay request'' [e]))
         | (w1, None) \<Rightarrow> (w1, Exit ()))))"

section \<open>The command that sends a transfer\<close>

text \<open>The flags of \<open>cmd/transfer\<close>, and what the command uses of libraries and of the source chain.\<close>

record transfer_flags =
  fl_destChainID :: string
  fl_sourceClientID :: string
  fl_denom :: string
  fl_memo :: string
  fl_receiver :: string
  fl_amount :: uint64
  fl_privateKey :: string
  fl_sourceChainID :: string

record transfer_io =
  ti_config :: "Config res"
  ti_bech32 :: "string \<Rightarrow> go_error option"
  ti_isHexAddress :: "string \<Rightarrow> bool"
  ti_dial :: "go_error option"
  ti_env :: manager_env
  ti_node :: evm_node
  ti_erc20 :: "string \<Rightarrow> go_error option"
  ti_allowance :: "string \<Rightarrow> int res"
  ti_approve :: "string \<Rightarrow> int \<Rightarrow> hash res"
  ti_send :: "SendTransferMsg \<Rightarrow> hash res"
  ti_wait :: "hash \<Rightarrow> go_error option option"
  ti_now :: time

text \<open>
  The checks of \<open>ibcv2Transfer\<close> up to the connection, in their order. The configuration of a chain
  without an \<open>ibcv2\<close> section is a nil pointer, which is dereferenced.
\<close>

definition check_chains :: "configReader \<Rightarrow> transfer_flags \<Rightarrow> ChainConfig res" where
  "check_chains cfg fl =
     (case GetChainConfig cfg (fl_sourceChainID fl) of
        Inl e \<Rightarrow> Inl (Errorf ''loading source chain config: %w'' [e])
      | Inr sourceChain \<Rightarrow>
     (if BridgeType_IBCV2 \<notin> set (SupportedBridges sourceChain) then Inl (Errorf ''source chain does not support ibcv2'' [])
      else if EVM sourceChain = None then Inl (Errorf ''only evm type source chains are supported'' [])
      else
     (case GetChainConfig cfg (fl_destChainID fl) of
        Inl e \<Rightarrow> Inl (Errorf ''loading dest chain config: %w'' [e])
      | Inr destChain \<Rightarrow>
     (if BridgeType_IBCV2 \<notin> set (SupportedBridges destChain) then Inl (Errorf ''dest chain does not support ibcv2'' [])
      else if Cosmos destChain = None then Inl (Errorf ''only cosmos type dest chains are supported'' [])
      else Inr sourceChain))))"

definition check_values :: "transfer_io \<Rightarrow> transfer_flags \<Rightarrow> go_error option" where
  "check_values io fl =
     (case ti_bech32 io (fl_receiver fl) of
        Some e \<Rightarrow> Some (Errorf ''receiver %s is not a valid bech32 address: %w'' [e])
      | None \<Rightarrow>
          if \<not> ti_isHexAddress io (fl_denom fl) then Some (Errorf ''denom %s is not a valid hex address'' [])
          else if fl_amount fl \<le> 0 then Some (Errorf ''amount must be positive %d'' [])
          else None)"

definition check_client :: "configReader \<Rightarrow> transfer_flags \<Rightarrow> go_error option outcome" where
  "check_client cfg fl =
     (case GetIBCV2Config cfg (fl_sourceChainID fl) of
        Inl e \<Rightarrow> Ret (Some (Errorf ''loading source chain ibcv2 config: %w'' [e]))
      | Inr None \<Rightarrow> Panic
      | Inr (Some ibc) \<Rightarrow>
     (case CounterpartyChains ibc (fl_sourceClientID fl) of
        None \<Rightarrow> Ret (Some (Errorf ''could not determine counterparty chain id for source client %s'' []))
      | Some counterparty \<Rightarrow>
          Ret (if counterparty \<noteq> fl_destChainID fl
               then Some (Errorf ''source client (%s) counterparty chain id (%s) does not match the dest chain id (%s)'' [])
               else None)))"

text \<open>
  How a run ends: with a result, with a panic, or not at all, when it waits for a receipt that never
  comes.
\<close>

datatype transfer_end = Ended "go_error option" | Panicked | Waits

definition transfer_env :: "transfer_io \<Rightarrow> transfer_flags \<Rightarrow> manager_env" where
  "transfer_env io fl =
     (ti_env io)\<lparr>me_keys := [fl_sourceChainID fl \<mapsto> fl_privateKey fl], me_remote := False, me_cosmosWallet := [], me_evmWallet := []\<rparr>"

text \<open>The transfer, its packet and the request to relay it, once there is a client.\<close>

definition send_and_relay ::
  "transfer_io \<Rightarrow> (api_request \<Rightarrow> 'w \<Rightarrow> 'w \<times> go_error option) \<Rightarrow> transfer_flags \<Rightarrow> 'w \<Rightarrow> 'w \<times> transfer_end" where
  "send_and_relay io relay fl w =
     (let lib = me_eth (ti_env io); denom = fl_denom fl in
      case evm_SendTransfer lib (ti_erc20 io denom) (ti_allowance io denom) (ti_approve io denom) (ti_send io) (ti_wait io) (ti_now io)
             (fl_sourceClientID fl) denom (fl_receiver fl) (uint (fl_amount fl)) (fl_memo fl) of
        None \<Rightarrow> (w, Waits)
      | Some (Inl e) \<Rightarrow> (w, Ended (Some (Errorf ''sending ibcv2 transfer from %s to %s: %w'' [e])))
      | Some (Inr sendTxHash) \<Rightarrow>
     (case evm_SendPacketsFromTx lib (ti_node io) (fl_sourceChainID fl) sendTxHash of
        Inl e \<Rightarrow> (w, Ended (Some (Errorf ''getting send packets from tx %s on source chain %s: %w'' [e])))
      | Inr packets \<Rightarrow>
          if length packets \<noteq> 1
          then (w, Ended (Some (Errorf ''unexpected number of send packets in tx %s on chain %s: expected %d but got %d'' [])))
          else
            (case relay \<lparr>TxHash = sendTxHash, ChainId = fl_sourceChainID fl\<rparr> w of
               (w1, Some e) \<Rightarrow> (w1, Ended (Some (Errorf ''relaying packet: %w'' [e])))
             | (w1, None) \<Rightarrow> (w1, Ended None))))"

text \<open>\<open>SendTransfer\<close> of a Cosmos client panics (\<open>cosmos_SendTransfer\<close>).\<close>

definition ibcv2Transfer ::
  "transfer_io \<Rightarrow> (api_request \<Rightarrow> 'w \<Rightarrow> 'w \<times> go_error option) \<Rightarrow> transfer_flags \<Rightarrow> 'w \<Rightarrow> 'w \<times> transfer_end" where
  "ibcv2Transfer io relay fl w =
     (case ti_config io of
        Inl e \<Rightarrow> (w, Ended (Some (Errorf ''loading config: %w'' [e])))
      | Inr c \<Rightarrow>
     (let cfg = NewConfigReader c in
      case check_chains cfg fl of
        Inl e \<Rightarrow> (w, Ended (Some e))
      | Inr sourceChain \<Rightarrow>
     (case check_values io fl of
        Some e \<Rightarrow> (w, Ended (Some e))
      | None \<Rightarrow>
     (case check_client cfg fl of
        Panic \<Rightarrow> (w, Panicked)
      | Ret (Some e) \<Rightarrow> (w, Ended (Some e))
      | Ret None \<Rightarrow>
     (case ti_dial io of
        Some e \<Rightarrow> (w, Ended (Some (Errorf ''creating grpc connection to relayer at %s: %w'' [e])))
      | None \<Rightarrow>
     (case NewClientManagerFromConfig (transfer_env io fl) cfg [sourceChain] of
        Panic \<Rightarrow> (w, Panicked)
      | Ret (Inl e) \<Rightarrow> (w, Ended (Some (Errorf ''creating ibcv2 client manager: %w'' [e])))
      | Ret (Inr manager) \<Rightarrow>
     (case manager (fl_sourceChainID fl) of
        None \<Rightarrow> (w, Ended (Some (Errorf ''getting ibcv2 client for source chain id %s: %w''
                   [Errorf ''no configured ibcv2 bridge client for chain ID %s'' []])))
      | Some (EvmBridge s cl) \<Rightarrow> send_and_relay io relay fl w
      | Some (CosmosBridge s cl) \<Rightarrow> (w, Panicked))))))))"

text \<open>\<open>main\<close> of the command: the bridge is the first argument. An error is logged and the process ends normally.\<close>

definition transfer_main ::
  "transfer_io \<Rightarrow> (api_request \<Rightarrow> 'w \<Rightarrow> 'w \<times> go_error option) \<Rightarrow> transfer_flags \<Rightarrow> string list \<Rightarrow> 'w \<Rightarrow> 'w \<times> transfer_end exit" where
  "transfer_main io relay fl args w =
     (case args of
        [] \<Rightarrow> (w, Fatal (Errorf ''too few arguments, expected transfer bridge_type'' []))
      | bridge # _ \<Rightarrow>
          if bridge = ''ibcv2'' then (case ibcv2Transfer io relay fl w of (w1, r) \<Rightarrow> (w1, Exit r))
          else (w, Exit (Ended (Some (Errorf ''unexpected bridge type'' [])))))"

section \<open>The start of the relayer\<close>

record ('s, 'pool) start_io =
  si_prom :: "'s prometheus"
  si_registry :: 's
  si_config :: "Config res"
  si_lookupEnv :: "string \<rightharpoonup> string"
  si_database :: "string \<Rightarrow> bool \<Rightarrow> 'pool res"
  si_signerDial :: "string \<Rightarrow> go_error option"
  si_keys :: "string \<Rightarrow> (string \<rightharpoonup> string) res"
  si_env :: manager_env
  si_proofDial :: "string \<Rightarrow> bool \<Rightarrow> go_error option"

record 'pool relayer_parts =
  rp_config :: configReader
  rp_metrics :: PromMetrics
  rp_pool :: 'pool
  rp_manager :: "string \<rightharpoonup> bridge"
  rp_prices :: "(CoingeckoClient \<times> CachedPriceClient) option"
  rp_pollInterval :: duration
  rp_relaying :: bool

text \<open>Where the keys come from: the remote signer, the key file, or nowhere.\<close>

definition choose_signing :: "('s, 'pool) start_io \<Rightarrow> SigningConfig \<Rightarrow> ((string \<rightharpoonup> string) \<times> bool) exit" where
  "choose_signing io signing =
     (if SigningGRPCAddress signing \<noteq> [] then
        (case si_signerDial io (SigningGRPCAddress signing) of
           Some e \<Rightarrow> Fatal (Errorf ''failed to connect to remote signer'' [e])
         | None \<Rightarrow> Exit (Map.empty, True))
      else if KeysPath signing \<noteq> [] then
        (case si_keys io (KeysPath signing) of
           Inl e \<Rightarrow> Fatal (Errorf ''Failed to load chain id -> private key map for ibcv2'' [e])
         | Inr keys \<Rightarrow> Exit (keys, False))
      else Fatal (Errorf ''No signing configuration: set either signing.grpc_address or signing.keys_path'' []))"

definition choose_prices :: "CoingeckoConfig \<Rightarrow> (CoingeckoClient \<times> CachedPriceClient) option" where
  "choose_prices c =
     (if APIKey c \<noteq> [] then Some (\<lparr>baseURL = BaseURL c, apiKey = APIKey c\<rparr>, NewCachedPriceClient (CacheRefreshInterval c))
      else None)"

text \<open>The connection to the proof service.\<close>

definition connect_proof :: "('s, 'pool) start_io \<Rightarrow> IBCV2ProofAPIConfig \<Rightarrow> go_error option" where
  "connect_proof io c =
     map_option (\<lambda>e. Errorf ''error creating grpc connection to proof relayer'' [e]) (si_proofDial io (ProofGRPCAddress c) (ProofGRPCTLSEnabled c))"

text \<open>
  \<open>main\<close> up to the point where every part runs. The metrics server, the API server and the gas monitor
  are started before the connection to the proof service is made, whose error ends the process too.
\<close>

definition relayer_main :: "('s, 'pool) start_io \<Rightarrow> bool \<Rightarrow> 'pool relayer_parts exit outcome" where
  "relayer_main io relaying =
     (case NewPromMetrics (si_prom io) (si_registry io) of
        Panic \<Rightarrow> Panic
      | Ret (s1, m) \<Rightarrow>
     (case si_config io of
        Inl e \<Rightarrow> Ret (Fatal (Errorf ''Unable to load config'' [e]))
      | Inr c \<Rightarrow>
     (let cfg = NewConfigReader c in
      case si_database io (GetPostgresConnString (si_lookupEnv io) cfg) (IAMAuthEnabled (Postgres c)) of
        Inl e \<Rightarrow> Ret (Fatal (Errorf ''Unable to connect to database: %v'' [e]))
      | Inr pool \<Rightarrow>
     (case choose_signing io (Signing c) of
        Fatal e \<Rightarrow> Ret (Fatal e)
      | Exit (keys, remote) \<Rightarrow>
     (case NewClientManagerFromConfig
             ((si_env io)\<lparr>me_keys := keys, me_remote := remote, me_cosmosWallet := CosmosWalletKey (Signing c),
                          me_evmWallet := EVMWalletKey (Signing c)\<rparr>) cfg (GetIBCV2Chains cfg) of
        Panic \<Rightarrow> Panic
      | Ret (Inl e) \<Rightarrow> Ret (Fatal (Errorf ''error creating ibcv2 client manager from config'' [e]))
      | Ret (Inr manager) \<Rightarrow>
     (case connect_proof io (IBCV2ProofAPI c) of
        Some e \<Rightarrow> Ret (Fatal e)
      | None \<Rightarrow>
          Ret (Exit \<lparr>rp_config = cfg, rp_metrics = m, rp_pool = pool, rp_manager = manager,
                     rp_prices = choose_prices (Coingecko c), rp_pollInterval = 5 * second, rp_relaying = relaying\<rparr>)))))))"

section \<open>Facts\<close>

lemma local_key_evm: "build_evm en cfg c = Ret (Inr b) \<Longrightarrow> \<not> me_remote en \<Longrightarrow> me_keys en (ChainID c) \<noteq> None"
  by (auto simp: build_evm_def createEthSigner_def Let_def split: option.splits)

lemma local_key_cosmos: "build_cosmos en cfg c = Ret (Inr b) \<Longrightarrow> \<not> me_remote en \<Longrightarrow> me_keys en (ChainID c) \<noteq> None"
  by (auto simp: build_cosmos_def createCosmosSigner_def Let_def split: option.splits outcome.splits sum.splits)

lemma local_keys:
  assumes "NewClientManagerFromConfig en cfg cs = Ret (Inr m)" "\<not> me_remote en"
  shows "dom m \<subseteq> dom (me_keys en)"
  using build_clients_entries [OF manager_built [OF assms(1)]] local_key_evm [OF _ assms(2)] local_key_cosmos [OF _ assms(2)]
  by fastforce

lemma relayer_main_parts:
  assumes "relayer_main io relaying = Ret (Exit parts)"
  obtains c keys remote where "si_config io = Inr c" "rp_config parts = NewConfigReader c"
    "choose_signing io (Signing c) = Exit (keys, remote)"
    "NewClientManagerFromConfig
       ((si_env io)\<lparr>me_keys := keys, me_remote := remote, me_cosmosWallet := CosmosWalletKey (Signing c),
                    me_evmWallet := EVMWalletKey (Signing c)\<rparr>) (NewConfigReader c) (GetIBCV2Chains (NewConfigReader c)) =
       Ret (Inr (rp_manager parts))"
    "rp_prices parts = choose_prices (Coingecko c)"
  using assms by (auto simp: relayer_main_def Let_def split: outcome.splits sum.splits exit.splits option.splits)

text \<open>What the checks of the transfer command establish.\<close>

definition transfer_valid :: "transfer_io \<Rightarrow> configReader \<Rightarrow> transfer_flags \<Rightarrow> bool" where
  "transfer_valid io cfg fl \<longleftrightarrow>
     GetClientCounterpartyChainID cfg (fl_sourceChainID fl) (fl_sourceClientID fl) = Inr (fl_destChainID fl) \<and>
     (\<exists>ch e. GetChainConfig cfg (fl_sourceChainID fl) = Inr ch \<and> BridgeType_IBCV2 \<in> set (SupportedBridges ch) \<and> EVM ch = Some e) \<and>
     (\<exists>ch c. GetChainConfig cfg (fl_destChainID fl) = Inr ch \<and> BridgeType_IBCV2 \<in> set (SupportedBridges ch) \<and> Cosmos ch = Some c) \<and>
     ti_bech32 io (fl_receiver fl) = None \<and> ti_isHexAddress io (fl_denom fl) \<and> fl_amount fl \<noteq> 0"

lemma checks_valid:
  assumes "check_chains cfg fl = Inr ch" "check_values io fl = None" "check_client cfg fl = Ret None"
  shows "transfer_valid io cfg fl"
  using assms
  by (auto simp: transfer_valid_def check_chains_def check_values_def check_client_def GetClientCounterpartyChainID_def
      GetIBCV2Config_def split: sum.splits option.splits if_splits)

text \<open>A run that does not stop at a check has sent a transfer that passed all of them.\<close>

lemma ibcv2Transfer_done:
  assumes "ibcv2Transfer io relay fl w = (w', Ended None)"
  obtains c where "ti_config io = Inr c" "transfer_valid io (NewConfigReader c) fl" "send_and_relay io relay fl w = (w', Ended None)"
  using assms
  by (auto simp: ibcv2Transfer_def Let_def intro: checks_valid
      split: sum.splits option.splits outcome.splits bridge.splits)

text \<open>The transaction of the transfer.\<close>

definition sent_tx :: "transfer_io \<Rightarrow> transfer_flags \<Rightarrow> string \<Rightarrow> bool" where
  "sent_tx io fl h \<longleftrightarrow>
     evm_SendTransfer (me_eth (ti_env io)) (ti_erc20 io (fl_denom fl)) (ti_allowance io (fl_denom fl)) (ti_approve io (fl_denom fl))
       (ti_send io) (ti_wait io) (ti_now io) (fl_sourceClientID fl) (fl_denom fl) (fl_receiver fl) (uint (fl_amount fl)) (fl_memo fl) =
     Some (Inr h)"

lemma send_and_relay_done:
  assumes "send_and_relay io relay fl w = (w', Ended None)"
  obtains h p where "sent_tx io fl h"
    "evm_SendPacketsFromTx (me_eth (ti_env io)) (ti_node io) (fl_sourceChainID fl) h = Inr [p]"
    "relay \<lparr>TxHash = h, ChainId = fl_sourceChainID fl\<rparr> w = (w', None)"
  using assms
  by (auto simp: send_and_relay_def sent_tx_def Let_def length_Suc_conv split: sum.splits option.splits if_splits prod.splits)

text \<open>The API of the relayer as its clients call it; \<open>asError\<close> is the error gRPC makes of a refusal.\<close>

definition api_client ::
  "(api_error \<Rightarrow> go_error) \<Rightarrow> configReader \<Rightarrow> client_manager \<Rightarrow> dbtx \<Rightarrow> api_request \<Rightarrow> world \<Rightarrow> world \<times> go_error option" where
  "api_client asError cfg clients x rq w =
     (case Relay cfg clients x rq w of (w', Inl e) \<Rightarrow> (w', Some (asError e)) | (w', Inr u) \<Rightarrow> (w', None))"

text \<open>A chain with bridge support but without an \<open>ibcv2\<close> section brings the command down.\<close>

lemma transfer_nil_config:
  assumes "ti_config io = Inr c" "check_chains (NewConfigReader c) fl = Inr ch" "check_values io fl = None"
    and "GetIBCV2Config (NewConfigReader c) (fl_sourceChainID fl) = Inr None"
  shows "ibcv2Transfer io relay fl w = (w, Panicked)"
  using assms by (simp add: ibcv2Transfer_def check_client_def Let_def)

section \<open>Properties\<close>

text \<open>
  C34. A relayer that starts can work: it has a bridge client for exactly the EVM and Cosmos chains that
  have an \<open>ibcv2\<close> section; without a remote signer a key file is configured, can be read and has a
  key for each of these chains; and prices are looked up exactly if there is an API key for them.
\<close>

theorem relayer_starts_ready:
  assumes "relayer_main io relaying = Ret (Exit parts)" "si_config io = Inr c"
  shows "dom (rp_manager parts) =
      ChainID ` {ch \<in> snd ` set (Chains c). IBCV2 ch \<noteq> None \<and> (Type ch = ChainType_EVM \<or> Type ch = ChainType_COSMOS)} \<and>
    (SigningGRPCAddress (Signing c) = [] \<longrightarrow>
       KeysPath (Signing c) \<noteq> [] \<and> (\<exists>keys. si_keys io (KeysPath (Signing c)) = Inr keys \<and> dom (rp_manager parts) \<subseteq> dom keys)) \<and>
    (rp_prices parts \<noteq> None \<longleftrightarrow> APIKey (Coingecko c) \<noteq> [])"
proof -
  obtain keys remote where r: "choose_signing io (Signing c) = Exit (keys, remote)"
    "NewClientManagerFromConfig
       ((si_env io)\<lparr>me_keys := keys, me_remote := remote, me_cosmosWallet := CosmosWalletKey (Signing c),
                    me_evmWallet := EVMWalletKey (Signing c)\<rparr>) (NewConfigReader c) (GetIBCV2Chains (NewConfigReader c)) =
       Ret (Inr (rp_manager parts))" "rp_prices parts = choose_prices (Coingecko c)"
    using relayer_main_parts [OF assms(1)] assms(2) by (metis sum.inject(2))
  have "dom (rp_manager parts) = ChainID ` {ch \<in> set (GetIBCV2Chains (NewConfigReader c)). Type ch = ChainType_EVM \<or> Type ch = ChainType_COSMOS}"
    using manager_complete [OF r(2)] by simp
  moreover have "set (GetIBCV2Chains (NewConfigReader c)) = {ch \<in> snd ` set (Chains c). IBCV2 ch \<noteq> None}"
    by (auto simp: GetIBCV2Chains_def NewConfigReader_def)
  moreover have "dom (rp_manager parts) \<subseteq> dom keys" if "\<not> remote" using local_keys [OF r(2)] that by simp
  ultimately show ?thesis using r(1,3)
    by (auto simp: choose_signing_def choose_prices_def split: if_splits option.splits sum.splits)
qed


section \<open>Sample runs\<close>

definition sample_source :: ChainConfig where
  "sample_source = (sample_chain ''1'' ChainType_EVM ''ca'' ''hub'')\<lparr>EVM := EVM sample_evm_chain\<rparr>"

definition sample_two_chains :: Config where
  "sample_two_chains = sample_config\<lparr>Chains := [(''1'', sample_source), (''hub'', sample_cosmos_chain)],
     Signing := (Signing sample_config)\<lparr>KeysPath := ''keys''\<rparr>\<rparr>"

definition sample_start :: "(string list \<times> observation list, unit) start_io" where
  "sample_start = \<lparr>si_prom = list_prometheus, si_registry = ([], []), si_config = Inr sample_two_chains, si_lookupEnv = Map.empty,
     si_database = (\<lambda>d iam. Inr ()), si_signerDial = (\<lambda>a. None), si_keys = (\<lambda>f. Inr [''1'' \<mapsto> ''0xab'', ''hub'' \<mapsto> ''0xcd'']),
     si_env = sample_manager_env, si_proofDial = (\<lambda>a t. None)\<rparr>"

definition sample_io :: transfer_io where
  "sample_io = \<lparr>ti_config = Inr sample_two_chains, ti_bech32 = (\<lambda>a. None), ti_isHexAddress = (\<lambda>a. True), ti_dial = None,
     ti_env = sample_manager_env, ti_node = sample_node, ti_erc20 = (\<lambda>d. None), ti_allowance = (\<lambda>d. Inr 10),
     ti_approve = (\<lambda>d a. Inr []), ti_send = (\<lambda>m. Inr []), ti_wait = (\<lambda>h. Some None), ti_now = 0\<rparr>"

definition sample_flags :: transfer_flags where
  "sample_flags = \<lparr>fl_destChainID = ''hub'', fl_sourceClientID = ''ca'', fl_denom = ''0x1'', fl_memo = [], fl_receiver = ''cosmos1'',
     fl_amount = 5, fl_privateKey = ''0xab'', fl_sourceChainID = ''1''\<rparr>"

definition sample_reader :: BridgeClient where
  "sample_reader = (sample_client ChainType_EVM ''ac'')\<lparr>SendPacketsFromTx := evm_SendPacketsFromTx sample_lib sample_node\<rparr>"

lemmas sample_start_defs = sample_two_chains_def sample_source_def sample_evm_chain_def sample_cosmos_chain_def
  sample_manager_env_def sample_config_def sample_chain_def sample_ibc_def

lemmas manager_defs = NewClientManagerFromConfig_def build_evm_def build_cosmos_def createEthSigner_def createCosmosSigner_def
  createEthClient_def createCosmosRPC_def createCosmosGRPC_def GetRPCEndpoint_def GetBasicAuth_def GetGRPCEndpoint_def
  NewConfigReader_def createIndexes_def check_fee_def NewEVMBridgeClient_def NewCosmosBridgeClient_def hex_value_def
  signer_Address_def Let_def

lemma sample_source_manager:
  "\<exists>m s cl. NewClientManagerFromConfig (transfer_env sample_io sample_flags) (NewConfigReader sample_two_chains) [sample_source] =
     Ret (Inr m) \<and> m ''1'' = Some (EvmBridge s cl)"
  by (simp add: manager_defs sample_start_defs transfer_env_def sample_io_def sample_flags_def)

lemma sample_checks:
  "check_chains (NewConfigReader sample_two_chains) sample_flags = Inr sample_source"
  "check_values sample_io sample_flags = None"
  "check_client (NewConfigReader sample_two_chains) sample_flags = Ret None"
  by (simp_all add: check_chains_def check_values_def check_client_def GetIBCV2Config_def GetChainConfig_def NewConfigReader_def
      createIndexes_def sample_flags_def sample_io_def sample_start_defs)

lemma sample_packets:
  "evm_SendPacketsFromTx sample_lib sample_node i h =
     Inr [\<lparr>Sequence = 7, SourceClient = ''ca'', DestinationClient = ''cb'', TimeoutTimestamp = time_Unix 100,
           PacketTimestamp = time_Unix 50\<rparr>]"
  by (simp add: evm_SendPacketsFromTx_def sample_evm_defs)

lemma sample_sent:
  "evm_SendTransfer sample_lib (ti_erc20 sample_io d) (ti_allowance sample_io d) (ti_approve sample_io d) (ti_send sample_io)
     (ti_wait sample_io) (ti_now sample_io) i d r (uint (fl_amount sample_flags)) m = Some (Inr ''0x'')"
  by (simp add: evm_SendTransfer_def sample_io_def sample_flags_def sample_lib_def)

lemma sample_started:
  "\<exists>s1. NewPromMetrics list_prometheus ([], []) = Ret (s1, prom_metrics)"
  "\<exists>m. NewClientManagerFromConfig
      (sample_manager_env\<lparr>me_keys := [''1'' \<mapsto> ''0xab'', ''hub'' \<mapsto> ''0xcd''], me_remote := False, me_cosmosWallet := [], me_evmWallet := []\<rparr>)
      (NewConfigReader sample_two_chains) (GetIBCV2Chains (NewConfigReader sample_two_chains)) = Ret (Inr m)"
proof -
  show "\<exists>s1. NewPromMetrics list_prometheus ([], []) = Ret (s1, prom_metrics)"
    using register_all_total [OF list_prometheus_documented families_distinct, of "([], [])"] families_valid
    by (auto simp: NewPromMetrics_def list_prometheus_def list_all_iff)
qed (simp add: manager_defs GetIBCV2Chains_def sample_start_defs)

lemma sample_two_chains_simps:
  "Signing sample_two_chains = \<lparr>KeysPath = ''keys'', SigningGRPCAddress = [], CosmosWalletKey = [], EVMWalletKey = [], SVMWalletKey = []\<rparr>"
  "APIKey (Coingecko sample_two_chains) = []"
  "Chains sample_two_chains = [(''1'', sample_source), (''hub'', sample_cosmos_chain)]"
  by (simp_all add: sample_two_chains_def sample_config_def)

lemma sample_chain_simps:
  "ChainID sample_source = ''1''" "Type sample_source = ChainType_EVM" "IBCV2 sample_source = Some (sample_ibc ''ca'' ''hub'')"
  "ChainID sample_cosmos_chain = ''hub''" "Type sample_cosmos_chain = ChainType_COSMOS" "IBCV2 sample_cosmos_chain = Some (sample_ibc ''cb'' ''a'')"
  by (simp_all add: sample_start_defs)

theorem relayer_starts_ready_witness:
  "\<exists>parts. relayer_main sample_start True = Ret (Exit parts) \<and> dom (rp_manager parts) = {''1'', ''hub''} \<and> rp_prices parts = None"
proof -
  obtain s1 m where s: "NewPromMetrics list_prometheus ([], []) = Ret (s1, prom_metrics)"
    and m: "NewClientManagerFromConfig
      (sample_manager_env\<lparr>me_keys := [''1'' \<mapsto> ''0xab'', ''hub'' \<mapsto> ''0xcd''], me_remote := False, me_cosmosWallet := [], me_evmWallet := []\<rparr>)
      (NewConfigReader sample_two_chains) (GetIBCV2Chains (NewConfigReader sample_two_chains)) = Ret (Inr m)"
    using sample_started by metis
  obtain parts where p: "relayer_main sample_start True = Ret (Exit parts)"
    using s m by (simp add: relayer_main_def sample_start_def choose_signing_def connect_proof_def Let_def sample_two_chains_simps)
  have c: "si_config sample_start = Inr sample_two_chains" by (simp add: sample_start_def)
  have "{ch \<in> snd ` set (Chains sample_two_chains). IBCV2 ch \<noteq> None \<and> (Type ch = ChainType_EVM \<or> Type ch = ChainType_COSMOS)} =
      {sample_source, sample_cosmos_chain}"
    by (auto simp: sample_two_chains_simps sample_chain_simps)
  then have "dom (rp_manager parts) = {''1'', ''hub''}" "rp_prices parts = None"
    using relayer_starts_ready [OF p c] by (simp_all add: sample_chain_simps sample_two_chains_simps del: not_None_eq split_paired_All split_paired_Ex)
  then show ?thesis using p by blast
qed


end
