(* ===== verification/Relayer_Queue.thy ===== *)
theory Relayer_Queue
  imports Relayer_Prelude
begin

text \<open>
  The message queue over a Redis stream, \<open>shared/messagequeue/messagequeue.go\<close>, and the queue of
  transactions on it, \<open>shared/messagequeue/transactionqueue/queue.go\<close>.

  \<^item> Redis is a parameter: the record \<open>redis\<close> holds its commands on a state of their own. The
    group and the consumer of a queue are part of the commands.
  \<^item> A message has an id and named values; a value is a string or something else.
\<close>

datatype redis_value = RString string | ROther

record XMessage =
  XID :: string
  XValues :: "string \<rightharpoonup> redis_value"

datatype redis_error = RedisNil | RedisErr string

text \<open>\<open>XReadGroup\<close> answers with the messages of each stream read.\<close>

record 's redis =
  XGroupCreateMkStream :: "string \<Rightarrow> string \<Rightarrow> 's \<Rightarrow> 's \<times> redis_error option"
  XAdd :: "string \<Rightarrow> (string \<rightharpoonup> redis_value) \<Rightarrow> 's \<Rightarrow> 's \<times> (redis_error + string)"
  XReadGroup :: "string \<Rightarrow> string \<Rightarrow> string \<Rightarrow> int \<Rightarrow> 's \<Rightarrow> 's \<times> (redis_error + XMessage list list)"
  XAutoClaim :: "string \<Rightarrow> string \<Rightarrow> string \<Rightarrow> duration \<Rightarrow> int \<Rightarrow> 's \<Rightarrow> 's \<times> (redis_error + XMessage list)"
  XAck :: "string \<Rightarrow> string \<Rightarrow> string list \<Rightarrow> 's \<Rightarrow> 's \<times> redis_error option"

record MessageQueue =
  mq_stream :: string
  mq_group :: string
  mq_consumer :: string

section \<open>The message queue\<close>

definition NewMsgQueue ::
  "'s redis \<Rightarrow> string \<Rightarrow> string \<Rightarrow> string \<Rightarrow> 's \<Rightarrow> 's \<times> (redis_error + MessageQueue)" where
  "NewMsgQueue rd stream groupName consumer s =
     (case XGroupCreateMkStream rd stream groupName s of
        (s1, err) \<Rightarrow>
          if err \<noteq> None \<and> err \<noteq> Some (RedisErr ''BUSYGROUP Consumer Group name already exists'') then (s1, Inl (the err))
          else (s1, Inr \<lparr>mq_stream = stream, mq_group = groupName, mq_consumer = consumer\<rparr>))"

definition Queue_Push ::
  "'s redis \<Rightarrow> MessageQueue \<Rightarrow> (string \<rightharpoonup> redis_value) \<Rightarrow> 's \<Rightarrow> 's \<times> (redis_error + string)" where
  "Queue_Push rd mq values s = XAdd rd (mq_stream mq) values s"

definition Queue_Claim ::
  "'s redis \<Rightarrow> MessageQueue \<Rightarrow> int \<Rightarrow> duration \<Rightarrow> 's \<Rightarrow> 's \<times> (redis_error + XMessage list)" where
  "Queue_Claim rd mq n timeout s = XAutoClaim rd (mq_stream mq) (mq_group mq) (mq_consumer mq) timeout n s"

text \<open>
  Reading \<open>readResult[0]\<close> panics when no stream is in the answer. When nothing new arrives, Redis
  answers nil and the messages claimed before are not returned.
\<close>

definition Queue_Pop ::
  "'s redis \<Rightarrow> MessageQueue \<Rightarrow> int \<Rightarrow> duration \<Rightarrow> 's \<Rightarrow> 's \<times> (redis_error + XMessage list) outcome" where
  "Queue_Pop rd mq n timeout s =
     (case Queue_Claim rd mq n timeout s of
        (s1, Inl e) \<Rightarrow> (s1, Ret (Inl e))
      | (s1, Inr messages) \<Rightarrow>
          if n \<le> int (length messages) then (s1, Ret (Inr messages))
          else
            (case XReadGroup rd (mq_group mq) (mq_consumer mq) (mq_stream mq) (n - int (length messages)) s1 of
               (s2, Inl RedisNil) \<Rightarrow> (s2, Ret (Inr []))
             | (s2, Inl e) \<Rightarrow> (s2, Ret (Inl e))
             | (s2, Inr []) \<Rightarrow> (s2, Panic)
             | (s2, Inr (new # _)) \<Rightarrow> (s2, Ret (Inr (messages @ new)))))"

definition Queue_Ack :: "'s redis \<Rightarrow> MessageQueue \<Rightarrow> string list \<Rightarrow> 's \<Rightarrow> 's \<times> redis_error option" where
  "Queue_Ack rd mq ids s = XAck rd (mq_stream mq) (mq_group mq) ids s"

section \<open>The transaction queue\<close>

record Transaction =
  TqChainID :: string
  TqTxHash :: string
  TqID :: string

definition NewConsumerTransactionQueue :: "'s redis \<Rightarrow> string \<Rightarrow> 's \<Rightarrow> 's \<times> (redis_error + MessageQueue)" where
  "NewConsumerTransactionQueue rd consumerID s = NewMsgQueue rd ''transactions'' ''transactions-group'' consumerID s"

definition NewProducerTransactionQueue :: "'s redis \<Rightarrow> 's \<Rightarrow> 's \<times> (redis_error + MessageQueue)" where
  "NewProducerTransactionQueue rd s = NewMsgQueue rd ''transactions'' ''transactions-group'' ''producer'' s"

text \<open>The type assertions of the loop panic when a value is missing or not a string.\<close>

fun to_transactions :: "XMessage list \<Rightarrow> Transaction list outcome" where
  "to_transactions [] = Ret []"
| "to_transactions (m # ms) =
     (case (XValues m ''chain_id'', XValues m ''tx_hash'') of
        (Some (RString chainID), Some (RString txHash)) \<Rightarrow>
          (case to_transactions ms of
             Panic \<Rightarrow> Panic
           | Ret ts \<Rightarrow> Ret (\<lparr>TqChainID = chainID, TqTxHash = txHash, TqID = XID m\<rparr> # ts))
      | _ \<Rightarrow> Panic)"

definition TransactionQueue_Pop ::
  "'s redis \<Rightarrow> MessageQueue \<Rightarrow> int \<Rightarrow> duration \<Rightarrow> 's \<Rightarrow> 's \<times> (redis_error + Transaction list) outcome" where
  "TransactionQueue_Pop rd mq n timeout s =
     (case Queue_Pop rd mq n timeout s of
        (s1, Panic) \<Rightarrow> (s1, Panic)
      | (s1, Ret (Inl e)) \<Rightarrow> (s1, Ret (Inl e))
      | (s1, Ret (Inr messages)) \<Rightarrow>
          (s1, if messages = [] then Ret (Inr [])
               else (case to_transactions messages of Panic \<Rightarrow> Panic | Ret ts \<Rightarrow> Ret (Inr ts))))"

definition TransactionQueue_Ack :: "'s redis \<Rightarrow> MessageQueue \<Rightarrow> Transaction \<Rightarrow> 's \<Rightarrow> 's \<times> redis_error option" where
  "TransactionQueue_Ack rd mq t s = Queue_Ack rd mq [TqID t] s"

definition transaction_values :: "string \<Rightarrow> string \<Rightarrow> string \<rightharpoonup> redis_value" where
  "transaction_values txHash chainID = [''tx_hash'' \<mapsto> RString txHash, ''chain_id'' \<mapsto> RString chainID]"

definition TransactionQueue_Push :: "'s redis \<Rightarrow> MessageQueue \<Rightarrow> string \<Rightarrow> string \<Rightarrow> 's \<Rightarrow> 's \<times> redis_error option" where
  "TransactionQueue_Push rd mq txHash chainID s =
     (case Queue_Push rd mq (transaction_values txHash chainID) s of
        (s1, Inl e) \<Rightarrow> (s1, Some e)
      | (s1, Inr _) \<Rightarrow> (s1, None))"

section \<open>Facts\<close>

text \<open>What the producer pushes the consumer reads back, id by id.\<close>

lemma pushed_read_back:
  "to_transactions (map (\<lambda>(i, txHash, chainID). \<lparr>XID = i, XValues = transaction_values txHash chainID\<rparr>) xs) =
     Ret (map (\<lambda>(i, txHash, chainID). \<lparr>TqChainID = chainID, TqTxHash = txHash, TqID = i\<rparr>) xs)"
  by (induction xs) (auto simp: transaction_values_def)

text \<open>Claimed messages are dropped when no new message arrives in time.\<close>

lemma pop_drops_claimed:
  assumes "XAutoClaim rd (mq_stream mq) (mq_group mq) (mq_consumer mq) timeout n s = (s1, Inr claimed)"
    and "int (length claimed) < n"
    and "XReadGroup rd (mq_group mq) (mq_consumer mq) (mq_stream mq) (n - int (length claimed)) s1 = (s2, Inl RedisNil)"
  shows "TransactionQueue_Pop rd mq n timeout s = (s2, Ret (Inr []))"
  using assms by (simp add: TransactionQueue_Pop_def Queue_Pop_def Queue_Claim_def)


definition sample_redis :: "unit redis" where
  "sample_redis =
     \<lparr>XGroupCreateMkStream = (\<lambda>st g s. (s, None)), XAdd = (\<lambda>st v s. (s, Inr ''1'')),
      XReadGroup = (\<lambda>g c st n s. (s, Inl RedisNil)),
      XAutoClaim = (\<lambda>st g c d n s. (s, Inr [\<lparr>XID = ''1'', XValues = transaction_values ''0xab'' ''hub''\<rparr>])),
      XAck = (\<lambda>st g ids s. (s, None))\<rparr>"


end
