(* ===== verification/Spec2Isabelle.thy ===== *)
theory Spec2Isabelle
  imports Relayer_Commands Relayer_Queue
begin

text \<open>
  Verification of the IBC v2 relayer. The relayer takes packets that were sent on one chain, brings
  them to another and brings the acknowledgement, or the timeout, back. A gRPC service stores the
  packets of a submitted transaction as rows of a table; a dispatcher loads the unfinished rows at
  every tick and pushes them into the pipeline of their route; the stages of a pipeline look at the
  chains, deliver batches, retry what did not land and at last mark the row as finished. Bridge
  clients, one per chain, hide the differences between EVM and Cosmos chains.

  \<^bold>\<open>The theories and the code\<close> (paths under \<open>src\<close>, \<open>R\<close> for \<open>relayer/ibcv2\<close>, \<open>B\<close> for
  \<open>shared/bridges/ibcv2\<close>):

  \<^item> \<open>Relayer_Prelude\<close>, \<open>Relayer_Strings\<close>, \<open>Relayer_Float\<close>: Go's integers, times, errors, the parts
    of its standard library the code uses, and the rounding of its floating point numbers.
  \<^item> \<open>Relayer_Db\<close>: \<open>db/gen/db/models.go\<close>, \<open>db/gen/db/ibcv2_transfers.sql.go\<close>, \<open>db/tx/tx.go\<close>. A
    table is a list of rows; any statement may fail, before or after it took effect. The locale
    \<open>keyed_store\<close> is what the pipeline relies on.
  \<^item> \<open>Relayer_Config\<close>: \<open>shared/config/config.go\<close>. \<open>Relayer_Transfer\<close>: \<open>R/ibcv2_transfer.go\<close> and
    \<open>R/ibcv2_transfer_metrics.go\<close>.
  \<^item> \<open>Relayer_Bridge\<close>: the interface \<open>B/bridge_client.go\<close> as a record of methods, and the environment
    of a stage.
  \<^item> \<open>Relayer_Processor\<close>, \<open>Relayer_Checks\<close>, \<open>Relayer_Retries\<close>, \<open>Relayer_Batch\<close>,
    \<open>Relayer_Finisher\<close>: the middlewares of \<open>R/processor_mw.go\<close> and one definition
    \<open><name>_Process\<close> per processor file of \<open>R\<close>. The locales \<open>processor_contract\<close> and
    \<open>batch_contract\<close> say that a processor's writes are steps of the abstract machine
    \<open>delivery_step\<close> on its own row; each processor interprets them.
  \<^item> \<open>Relayer_Pipeline\<close>, \<open>Relayer_Dispatcher\<close>: \<open>R/pipeline_opts.go\<close>, \<open>R/pipeline.go\<close>,
    \<open>R/conditional_batch_processor.go\<close> and \<open>R/relay_dispatcher.go\<close>; the locale
    \<open>pipeline_contract\<close>.
  \<^item> \<open>Relayer_Api\<close>: \<open>relayerapi/services/relayerapi/service.go\<close> and
    \<open>shared/utils/validate_address_list.go\<close>.
  \<^item> \<open>Relayer_System\<close>: requests, ticks and stage runs as the step relation \<open>sys_step\<close> on one
    database and one heap; \<open>reachable\<close> states and their invariant. \<open>Relayer_Progress\<close> shows that
    nothing gets stuck or forgotten, \<open>Relayer_Pass\<close> what a pass does when the chains answer.
  \<^item> \<open>Relayer_Once\<close>, \<open>Relayer_Evm\<close>, \<open>Relayer_Cosmos\<close>: \<open>B/once.go\<close>, \<open>B/evm_bridge_client.go\<close>,
    \<open>B/cosmos_bridge_client.go\<close>. \<open>Relayer_Chains\<close> has the contracts both clients keep, the locales
    \<open>paced_delivery\<close> and \<open>retry_client\<close>.
  \<^item> \<open>Relayer_Clients\<close>: \<open>R/client_manager.go\<close>, the signers of \<open>R\<close> and \<open>shared/signing\<close>, and the key
    file of \<open>cmd/relayer/main.go\<close>.
  \<^item> \<open>Relayer_Prices\<close>, \<open>Relayer_Monitor\<close>, \<open>Relayer_Queue\<close>: \<open>shared/clients\<close>,
    \<open>gasmonitor/gasmonitor.go\<close>, \<open>shared/messagequeue\<close>.
  \<^item> \<open>Relayer_Metrics\<close>: \<open>shared/metrics/metrics.go\<close>, with the Prometheus library as a parameter.
    \<open>Relayer_Transport\<close>: the HTTP transports of \<open>shared/metrics\<close>, \<open>shared/http\<close> and
    \<open>shared/utils/http.go\<close>.
  \<^item> \<open>Relayer_Commands\<close>: the programs \<open>cmd/relayer\<close>, \<open>cmd/relay\<close> and \<open>cmd/transfer\<close>, the health check
    of \<open>relayerapi/server\<close> and \<open>relayerapi/services/health\<close>, \<open>shared/database/database.go\<close> and
    \<open>db/migrate.go\<close>.

  \<^bold>\<open>What is shown.\<close> In this theory: the rows of every reachable state are consistent and a final
  status is backed by its transactions; a packet is in the pipelines at most once; memory and
  database agree; a finished row is final; no unfinished row is forgotten and the pipelines drain;
  a batch run whose status update fails duplicates a transfer, and a row that is finished while the
  dispatcher holds it is opened again, which is why the facts about reachable states exclude the events
  \<open>Duplicated\<close> and \<open>Stale\<close>. In the theories of the components: what a pass through the
  pipeline does to a packet that can be delivered or timed out; the answers of the API; what the
  bridge clients read from transactions, when they call them final or retry them, how they pace
  deliveries, and that the fees they offer cover the configured price; that the checks of the client
  manager make the fee computation total; how old a cached price may be; that no call
  on the metrics panics and that the transport which counts requests changes neither request nor answer;
  that a relayer which starts has a client, and a key, for every chain it serves, and that a transfer the
  command line reports as submitted is tracked by the relayer.

  \<^bold>\<open>Choices.\<close> Loops over slices and events are structural recursion, so no fuel is needed; a loop that
  waits is given the list of what it observes. A step is a function of the code between two points
  where another goroutine can be seen; locks make critical sections atomic. The dispatcher's query
  and the submission of each row it returned are steps of their own. A chain node, the proof service, the remote signer, Redis, the price
  server and every third-party library is a parameter; each run of a stage gets its own answers, and
  what a fact needs of them is among its hypotheses. Rationals stand for \<open>float64\<close>, rounded as Go
  rounds but without bounds on the exponent.

  \<^bold>\<open>Not modelled.\<close> Generated code: the contract bindings, of which the clients use a few methods as
  parameters and three packages have no user, protobuf and the mocks; the start and the end of the
  goroutines in \<open>cmd/relayer/main.go\<close> and the listeners of the servers; the embedded migrations;
  \<open>shared/evmrpc\<close>, \<open>shared/tmrpc\<close> and the signers and helpers no code of the relayer uses; logging,
  tracing and the metrics server, on which no result depends; the channel library, whose effect is the
  order of the steps of \<open>pipe_step\<close>.
\<close>

section \<open>The relayer as a whole\<close>

declare split_paired_All [simp del] split_paired_Ex [simp del]

text \<open>
  C1. In every reachable state, as long as no batch run duplicated a transfer and the dispatcher
  submitted no outdated row, every row of the transfer table is consistent: hashes and times come in pairs, a write acknowledgement belongs to
  the recorded receive transaction, no packet is both acknowledged and timed out, and a final
  status is backed by the transactions it stands for.
\<close>

theorem completed_rows_sound:
  assumes "reachable E cfg hp s" "Duplicated \<notin> E" "Stale \<notin> E" "find_row (db (sys_world s)) k = Some row"
  shows "delivery_inv (row_delivery row) \<and> sound_status (status row) (row_delivery row)"
  using reachable_inv [OF assms(1-3)] assms(4) by (simp add: sys_inv_def rows_ok_def)

theorem completed_rows_sound_witness:
  "delivery_inv (row_delivery sample_row) \<and> sound_status (status sample_row) (row_delivery sample_row)"
proof (rule completed_rows_sound [OF sample_reachable])
  show "find_row (db (sys_world sample_ticked)) (''a'', ''ca'', 7) = Some sample_row"
    by (simp add: sample_ticked_def find_row_def sample_relayed_db)
      (simp add: sample_row_def new_transfer_row_def row_key_of_def)
qed simp_all

text \<open>
  C2. Under the same conditions a packet is in the pipelines at most once: two tokens with the same
  transfer key are one.
\<close>

theorem one_token_per_packet:
  assumes "reachable E cfg hp s" "Duplicated \<notin> E" "Stale \<notin> E"
    and "tok \<in># sys_tokens s" "tok' \<in># sys_tokens s"
    and "newTransferKey (sys_heap s (token_ref tok)) = newTransferKey (sys_heap s (token_ref tok'))"
  shows "tok = tok' \<and> count (sys_tokens s) tok = 1"
proof -
  have inv: "sys_inv hp s" by (rule reachable_inv [OF assms(1-3)])
  have "token_ref tok = token_ref tok'"
    using inv assms(4-6) unfolding sys_inv_def inj_on_def newTransferKey_eq_iff by (simp add: refs_def)
  moreover have "count (refs (sys_tokens s)) (token_ref tok) \<le> 1" using inv by (simp add: sys_inv_def)
  ultimately show ?thesis using one_ref [OF _ assms(4,5)] by metis
qed

theorem one_token_per_packet_witness:
  "count (sys_tokens sample_ticked) (sample_pk, At 0, 0) = 1"
  using one_token_per_packet [OF sample_reachable, of "(sample_pk, At 0, 0)" "(sample_pk, At 0, 0)"]
  by (simp add: sample_ticked_def)



text \<open>
  C4. A finished row is never touched again: whatever steps follow (requests, ticks, stages, with
  any answers of the chains and any faults of the database), short of a duplicating batch run and of
  the submission of an outdated row, the row stays as it is.
\<close>

theorem finished_rows_final:
  assumes "reachable E cfg hp s" "Duplicated \<notin> E" "Stale \<notin> E" "(\<lambda>s s'. \<exists>e \<in> E. sys_step cfg hp s e s')\<^sup>*\<^sup>* s s'"
    and "find_row (db (sys_world s)) k = Some row" "\<not> unfinished_status (status row)"
  shows "find_row (db (sys_world s')) k = Some row"
  using assms(4,1,5)
proof (induction rule: converse_rtranclp_induct)
  case (step s s1)
  then obtain e where e: "e \<in> E" "sys_step cfg hp s e s1" by blast
  then have "e \<noteq> Duplicated" "e \<noteq> Stale" using assms(2,3) by blast+
  from sys_step_inv [OF e(2) reachable_inv [OF step.prems(1) assms(2,3)] this] step.prems(2) assms(6)
  have "find_row (db (sys_world s1)) k = Some row" by (auto simp: final_rows_kept_def)
  then show ?case using step.IH reachable.step [OF step.prems(1) e(2,1)] by blast
qed simp

theorem finished_rows_final_witness:
  "\<exists>s row. reachable {Kept} sample_cfg False s \<and> status row = COMPLETE_WITH_ACK \<and>
     find_row (db (fst (Relay sample_cfg sample_clients sample_dbtx sample_request (sys_world s))))
       (transfer_row_key sample_transfer) = Some row"
proof (rule sample_done)
  fix s row
  assume s: "reachable {Kept} sample_cfg False s" "status row = COMPLETE_WITH_ACK"
    "find_row (db (sys_world s)) (transfer_row_key sample_transfer) = Some row"
  let ?w = "fst (Relay sample_cfg sample_clients sample_dbtx sample_request (sys_world s))"
  have "sys_step sample_cfg False s Kept (s\<lparr>sys_world := ?w\<rparr>)" by (rule sys_step.request) (rule prod.collapse [symmetric])
  then have "(\<lambda>s s'. \<exists>e \<in> {Kept}. sys_step sample_cfg False s e s')\<^sup>*\<^sup>* s (s\<lparr>sys_world := ?w\<rparr>)" by blast
  from finished_rows_final [OF s(1) _ _ this s(3)] s show ?thesis
    by (intro exI [of _ s] exI [of _ row]) (simp add: unfinished_status_def)
qed



text \<open>
  C8. The pipelines drain: left to themselves, from a reachable state they make at most
  \<open>work_left\<close> steps, whatever the chains answer, as long as no batch run duplicates a transfer
  (which takes a failed status update) and no outdated row was submitted.
\<close>

theorem pipelines_drain:
  assumes "reachable E cfg hp s" "Duplicated \<notin> E" "Stale \<notin> E" "f 0 = s"
    and "\<And>i. i < n \<Longrightarrow> \<exists>e. e \<noteq> Duplicated \<and> pipe_step (f i) e (f (Suc i))"
  shows "n \<le> work_left s"
proof -
  have "sys_inv hp (f i) \<and> i + work_left (f i) \<le> work_left s" if "i \<le> n" for i
    using that
  proof (induction i)
    case 0
    then show ?case using reachable_inv [OF assms(1-3)] assms(4) by simp
  next
    case (Suc i)
    then obtain e where e: "e \<noteq> Duplicated" "pipe_step (f i) e (f (Suc i))" using assms(5) [of i] by auto
    have inv: "sys_inv hp (f i)" and IH: "i + work_left (f i) \<le> work_left s" using Suc by simp_all
    have "sys_inv hp (f (Suc i))" using pipe_step_inv [OF e(2) inv e(1)] by blast
    then show ?case using pipe_step_work [OF e(2) inv e(1)] IH by simp
  qed
  from this [of n] show ?thesis by simp
qed

theorem pipelines_drain_witness:
  "\<exists>n s. (kept_step ^^ n) sample_ticked s \<and> sys_tokens s = {#} \<and> 0 < n \<and> n \<le> work_left sample_ticked \<and>
     work_left sample_ticked = 29"
proof (rule sample_done)
  fix s
  assume s: "kept_step\<^sup>*\<^sup>* sample_ticked s" "sys_tokens s = {#}"
  then obtain n where n: "(kept_step ^^ n) sample_ticked s" using rtranclp_imp_relpowp by metis
  then obtain f where f: "f 0 = sample_ticked" "f n = s" "\<forall>i < n. kept_step (f i) (f (Suc i))" by (auto simp: relpowp_fun_conv)
  have "0 < n" using f(1,2) s(2) sample_tokens(1) by (cases n) auto
  moreover have "n \<le> work_left sample_ticked"
    by (rule pipelines_drain [where f = f, OF sample_reachable _ _ f(1)]) (use f(3) in auto)
  moreover have "length (NewPipeline False sample_pk sample_opts) = 14"
    by (simp add: NewPipeline_def gas_stage_def sample_opts_def NewDefaultPipelineOpts_def)
  then have "work_left sample_ticked = 29" by (simp add: work_left_def sample_tokens token_left_def)
  ultimately show ?thesis using n s(2) by blast
qed







text \<open>
  C14. A batch run whose status update fails sends the transfer on twice: the code lacks a
  \<open>continue\<close> after the failed update. The processor runs on the transfer all the same.
\<close>

theorem failed_update_duplicates:
  assumes "\<not> has_error (h r)" "State (h r) \<noteq> FAILED" "BatchRecvPacket_ShouldProcess (env_guard_now en) (h r)"
    and "tx_fault (env_db en) ''UpdateTransferState'' (transfer_row_key (h r)) = Some (e, applied)"
    and "BMW_Process (BatchRecvPacketProcessor rt) en w h [r] = (w', h', Inr out)"
  shows "out = [r, r]"
  using assms
  by (auto simp: BMW_Process_def BMW_select_def Let_def BatchRecvPacketProcessor_def BatchRecvPacket_Process_def
      with_db_def UpdateTransferState_def exec_update_def split: prod.splits sum.splits option.splits if_splits)

theorem failed_update_duplicates_witness:
  "\<exists>w' h' out. BMW_Process (BatchRecvPacketProcessor sample_pk)
      (sample_env\<lparr>env_db := sample_dbtx\<lparr>tx_fault := (\<lambda>q k. Some (External ''down'', False))\<rparr>\<rparr>)
      sample_world (\<lambda>_. sample_transfer) [0] = (w', h', Inr out) \<and> out = [0, 0]"
proof -
  let ?en = "sample_env\<lparr>env_db := sample_dbtx\<lparr>tx_fault := (\<lambda>q k. Some (External ''down'', False))\<rparr>\<rparr>"
  obtain w' h' res where run:
      "BMW_Process (BatchRecvPacketProcessor sample_pk) ?en sample_world (\<lambda>_. sample_transfer) [0] = (w', h', res)"
    using prod_cases3 by blast
  have g: "\<not> has_error sample_transfer" "State sample_transfer \<noteq> FAILED"
      "BatchRecvPacket_ShouldProcess (env_guard_now ?en) sample_transfer"
    by (simp_all add: has_error_def NewIBCV2Transfer_def sample_row_def new_transfer_row_def BatchRecvPacket_ShouldProcess_def
        IsTimedOut_def sample_env_def)
  have "\<exists>b. hex_DecodeString (TrimPrefix (SourceTxHash sample_transfer) ''0x'') = Inr b"
    using sample_hex(1) by (simp add: NewIBCV2Transfer_def sample_row_def new_transfer_row_def)
  then have "\<exists>out. res = Inr out"
    using run g by (auto simp: BMW_Process_def BMW_select_def BatchRecvPacketProcessor_def BatchRecvPacket_Process_def Let_def
        collect_source_def submit_batch_def live_keys_def ExecTx_def with_db_def UpdateTransferState_def exec_update_def GetClient_def
        sample_pk_def sample_env_def sample_clients_def sample_client_def)
  then obtain out where out: "res = Inr out" by blast
  have "out = [0, 0]"
    by (rule failed_update_duplicates [where h = "\<lambda>_. sample_transfer" and e = "External ''down''" and applied = False, OF g _ run [unfolded out]]) simp
  then show ?thesis using run out by blast
qed

text \<open>
  C15. A finished row can be opened again. When a transfer is brought to its end after the dispatcher
  loaded its row and before it submits it, nothing in the deduper or the dispatcher refuses the row:
  the transfer is pushed as it was loaded, and the first stage overwrites the final status.
\<close>

theorem finished_row_reopened:
  assumes "sys_loaded s = row # rows" "sys_pipes s (newPipelineKey (NewIBCV2Transfer row)) = Some dd"
    and "dd_stages dd = NewPipeline hp (newPipelineKey (NewIBCV2Transfer row)) opts"
    and "newTransferKey (NewIBCV2Transfer row) \<notin> inPipeline dd"
    and "AlertOnExcessiveRelayLatency cfg now (NewIBCV2Transfer row) = Ret ms" "fresh (NewIBCV2Transfer row)"
    and "transfer_row_key (NewIBCV2Transfer row) = row_key_of row" "unfinished_status (status row)"
    and "find_row (db (sys_world s)) (row_key_of row) = Some row'" "\<not> unfinished_status (status row')"
  shows "\<exists>s1 e s2 row2. sys_step cfg hp s Stale s1 \<and> pipe_step s1 e s2 \<and>
    find_row (db (sys_world s2)) (row_key_of row) = Some row2 \<and> unfinished_status (status row2)"
proof -
  have "row' \<noteq> row" using assms(8,10) by blast
  from stale_steps [OF assms(1-7,9) this] show ?thesis by (fastforce simp: unfinished_status_def)
qed

theorem finished_row_reopened_witness:
  "\<exists>s row s1 e s2 row2. reachable {Kept} sample_cfg False s \<and>
    find_row (db (sys_world s)) (row_key_of sample_row) = Some row \<and> status row = COMPLETE_WITH_ACK \<and>
    sys_step sample_cfg False s Stale s1 \<and> pipe_step s1 e s2 \<and>
    find_row (db (sys_world s2)) (row_key_of sample_row) = Some row2 \<and> unfinished_status (status row2)"
proof (rule sample_overtaken)
  fix s row
  assume s: "reachable {Kept} sample_cfg False s" "sys_loaded s = [sample_row]"
    "find_row (db (sys_world s)) (row_key_of sample_row) = Some row" "status row = COMPLETE_WITH_ACK"
    "sys_pipes s sample_pk = Some \<lparr>dd_stages = NewPipeline False sample_pk sample_opts, inPipeline = {}\<rparr>"
  have "unfinished_status (status sample_row)" by (simp add: sample_row_def new_transfer_row_def unfinished_status_def)
  from finished_row_reopened [OF s(2) s(5) [folded sample_key] _ _ sample_alert sample_fresh sample_row_key this s(3)] s
  show ?thesis unfolding sample_key by (auto simp: unfinished_status_def)
qed

end
